(* ===== verification/Prelude.thy ===== *)
theory Prelude
  imports Main
begin

text \<open>
  The Python primitives the scripts under \<open>src/\<close> rely on, as executable HOL
  functions shared by every component: the exception type, \<open>str.isspace\<close> and
  \<open>str.strip\<close>, \<open>str.replace\<close> of one character, \<open>str.split\<close> on one character,
  \<open>int()\<close> and \<open>str()\<close> on integers, list indexing with negative indices, and the
  \<open>posixpath\<close> functions \<open>basename\<close>, \<open>splitext\<close> and \<open>join\<close>.
  Python strings are modelled as \<open>string\<close>: each \<open>char\<close> is one code point of the
  Latin-1 range (U+0000 to U+00FF), which is where \<open>str.isspace\<close> and the decimal
  digits are defined below.  The collection \<open>py_simps\<close> gathers the evaluation
  facts of these primitives that the component theories pass to the simplifier.
\<close>

named_theorems py_simps "evaluation facts of the Python primitives"

section \<open>Exceptions\<close>

text \<open>The exceptions the modelled code raises, catches or lets escape;
  \<open>GPXParseError\<close> is what \<open>gpxpy.parse\<close> raises on a malformed file,
  \<open>UnrecognizedImageError\<close> what \<open>python-docx\<close> raises on a picture it cannot
  read, and \<open>SystemExit n\<close> is \<open>sys.exit(n)\<close>.\<close>

datatype py_error =
    ValueError
  | IndexError
  | StopIteration
  | OSError
  | CsvError
  | TypeError
  | UnboundLocalError
  | AttributeError
  | NameError
  | GPXParseError
  | UnrecognizedImageError
  | SystemExit int

type_synonym 'a py_result = "py_error + 'a"

section \<open>Characters and whitespace\<close>

text \<open>
  \<open>str.isspace\<close> on Latin-1: the ASCII whitespace \<open>\t \n \v \f \r\<close>, the
  separators U+001C to U+001F, the space, NEL (U+0085) and NBSP (U+00A0).
\<close>

definition py_isspace :: "char \<Rightarrow> bool" where
  "py_isspace c \<longleftrightarrow>
     (let n = (of_char c :: nat) in (9 \<le> n \<and> n \<le> 13) \<or> (28 \<le> n \<and> n \<le> 32) \<or> n = 133 \<or> n = 160)"

definition py_isdigit :: "char \<Rightarrow> bool" where
  "py_isdigit c \<longleftrightarrow> (let n = (of_char c :: nat) in 48 \<le> n \<and> n \<le> 57)"

definition digit_val :: "char \<Rightarrow> nat" where
  "digit_val c = of_char c - 48"

definition digit_char :: "nat \<Rightarrow> char" where
  "digit_char d = char_of (48 + d)"

section \<open>\<open>str.strip\<close>, \<open>str.replace\<close>, \<open>str.split\<close>\<close>

text \<open>\<open>str.strip()\<close> with no argument: \<open>lstrip\<close> then \<open>rstrip\<close> of whitespace.\<close>

definition py_lstrip :: "string \<Rightarrow> string" where
  "py_lstrip s = dropWhile py_isspace s"

definition py_rstrip :: "string \<Rightarrow> string" where
  "py_rstrip s = rev (dropWhile py_isspace (rev s))"

definition py_strip :: "string \<Rightarrow> string" where
  "py_strip s = py_rstrip (py_lstrip s)"

text \<open>\<open>s.replace(c, r)\<close> for a one-character pattern \<open>c\<close>: every occurrence of \<open>c\<close>
  is replaced by \<open>r\<close>, left to right.\<close>

definition py_replace_char :: "char \<Rightarrow> string \<Rightarrow> string \<Rightarrow> string" where
  "py_replace_char c r s = concat (map (\<lambda>x. if x = c then r else [x]) s)"

text \<open>\<open>s.split(c)\<close> with a one-character separator: the pieces between separators,
  empty pieces kept, so a string with \<open>k\<close> separators has \<open>k + 1\<close> pieces.\<close>

fun py_split_char :: "char \<Rightarrow> string \<Rightarrow> string list" where
  "py_split_char c [] = [[]]"
| "py_split_char c (x # xs) =
     (if x = c then [] # py_split_char c xs
      else (case py_split_char c xs of [] \<Rightarrow> [[x]] | w # ws \<Rightarrow> (x # w) # ws))"

section \<open>\<open>int()\<close> and \<open>str()\<close> on integers\<close>

text \<open>
  \<open>int(s)\<close> with base 10: surrounding whitespace is ignored, one optional sign,
  then decimal digits in groups separated by single underscores (\<open>1_000\<close>);
  leading zeros are allowed.  Anything else raises \<open>ValueError\<close>, here \<open>None\<close>.
\<close>

fun digit_groups_ok :: "string \<Rightarrow> bool" where
  "digit_groups_ok [] = False"
| "digit_groups_ok [c] = py_isdigit c"
| "digit_groups_ok (c # d # s) =
     (py_isdigit c \<and>
      (if d = CHR ''_'' then (case s of [] \<Rightarrow> False | e # _ \<Rightarrow> py_isdigit e) \<and> digit_groups_ok s
       else digit_groups_ok (d # s)))"

definition digits_value :: "string \<Rightarrow> nat" where
  "digits_value s = foldl (\<lambda>n c. 10 * n + digit_val c) 0 (filter py_isdigit s)"

definition parse_unsigned :: "string \<Rightarrow> nat option" where
  "parse_unsigned s = (if digit_groups_ok s then Some (digits_value s) else None)"

definition py_int :: "string \<Rightarrow> int option" where
  "py_int s =
     (let t = py_strip s in
      case t of
        [] \<Rightarrow> None
      | c # r \<Rightarrow>
          if c = CHR ''-'' then map_option (\<lambda>n. - int n) (parse_unsigned r)
          else if c = CHR ''+'' then map_option int (parse_unsigned r)
          else map_option int (parse_unsigned t))"

text \<open>\<open>str(n)\<close>: decimal digits, most significant first, with a minus sign.\<close>

fun nat_str :: "nat \<Rightarrow> string" where
  "nat_str n = (if n < 10 then [digit_char n] else nat_str (n div 10) @ [digit_char (n mod 10)])"

declare nat_str.simps [simp del]

definition py_str_int :: "int \<Rightarrow> string" where
  "py_str_int i = (if i < 0 then CHR ''-'' # nat_str (nat (- i)) else nat_str (nat i))"

section \<open>Lists: subscripts\<close>

text \<open>Subscript \<open>xs[i]\<close> of a Python list (and of PyPDF2's page list): an index
  below zero is taken relative to the length; one outside the list raises.\<close>

definition py_index :: "'a list \<Rightarrow> int \<Rightarrow> 'a py_result" where
  "py_index xs i =
     (let k = (if 0 \<le> i then i else i + int (length xs))
      in if k < 0 \<or> int (length xs) \<le> k then Inl IndexError else Inr (xs ! nat k))"

section \<open>Paths (\<open>posixpath\<close>)\<close>

text \<open>\<open>s.rfind(c)\<close>: the last index of \<open>c\<close> in \<open>s\<close>, or \<open>-1\<close>.\<close>

definition py_rfind :: "char \<Rightarrow> string \<Rightarrow> int" where
  "py_rfind c s =
     (let r = takeWhile (\<lambda>x. x \<noteq> c) (rev s)
      in if length r = length s then -1 else int (length s - length r - 1))"

definition basename :: "string \<Rightarrow> string" where
  "basename p = rev (takeWhile (\<lambda>c. c \<noteq> CHR ''/'') (rev p))"

text \<open>
  \<open>genericpath._splitext\<close> with separator \<open>/\<close>: the extension starts at the last
  dot after the last separator, unless every character of the file name before that
  dot is a dot itself (\<open>.bashrc\<close> has no extension).
\<close>

definition splitext :: "string \<Rightarrow> string \<times> string" where
  "splitext p =
     (let s = py_rfind CHR ''/'' p; d = py_rfind CHR ''.'' p in
      if s < d \<and> list_ex (\<lambda>x. x \<noteq> CHR ''.'') (take (nat (d - (s + 1))) (drop (nat (s + 1)) p))
      then (take (nat d) p, drop (nat d) p)
      else (p, []))"

definition path_join :: "string \<Rightarrow> string \<Rightarrow> string" where
  "path_join a b =
     (if take 1 b = ''/'' then b
      else if a = [] \<or> last a = CHR ''/'' then a @ b
      else a @ CHR ''/'' # b)"

section \<open>Sequencing fallible steps\<close>

text \<open>Statement sequencing when a statement may raise: the first exception escapes.\<close>

definition py_bind :: "'a py_result \<Rightarrow> ('a \<Rightarrow> 'b py_result) \<Rightarrow> 'b py_result" where
  "py_bind r f = (case r of Inl e \<Rightarrow> Inl e | Inr a \<Rightarrow> f a)"

text \<open>A loop building a list, each iteration of which may raise.\<close>

fun py_mapM :: "('a \<Rightarrow> 'b py_result) \<Rightarrow> 'a list \<Rightarrow> 'b list py_result" where
  "py_mapM f [] = Inr []"
| "py_mapM f (x # xs) = py_bind (f x) (\<lambda>y. py_bind (py_mapM f xs) (\<lambda>ys. Inr (y # ys)))"

section \<open>More string methods\<close>

text \<open>\<open>str.lower\<close> on Latin-1: \<open>A\<close>--\<open>Z\<close> and U+00C0--U+00DE except the
  multiplication sign U+00D7 move up by 32; every other character is kept.\<close>

definition py_lower_char :: "char \<Rightarrow> char" where
  "py_lower_char c =
     (let n = (of_char c :: nat) in
      if (65 \<le> n \<and> n \<le> 90) \<or> (192 \<le> n \<and> n \<le> 222 \<and> n \<noteq> 215) then char_of (n + 32) else c)"

definition py_lower :: "string \<Rightarrow> string" where
  "py_lower s = map py_lower_char s"

text \<open>\<open>needle in hay\<close> on strings: a contiguous occurrence, the empty string
  occurring everywhere.\<close>

definition py_contains :: "string \<Rightarrow> string \<Rightarrow> bool" where
  "py_contains needle hay =
     list_ex (\<lambda>i. take (length needle) (drop i hay) = needle) [0..<Suc (length hay)]"

definition py_endswith :: "string \<Rightarrow> string \<Rightarrow> bool" where
  "py_endswith s suffix \<longleftrightarrow> drop (length s - length suffix) s = suffix"

text \<open>\<open>sep.join(parts)\<close>.\<close>

fun py_join :: "string \<Rightarrow> string list \<Rightarrow> string" where
  "py_join sep [] = []"
| "py_join sep [x] = x"
| "py_join sep (x # y # zs) = x @ sep @ py_join sep (y # zs)"

section \<open>Shared lemmas\<close>

subsection \<open>Whitespace and strip\<close>

lemma py_lstrip_no_lead [py_simps]: "py_lstrip s = c # r \<Longrightarrow> \<not> py_isspace c"
  unfolding py_lstrip_def by (metis dropWhile_eq_Cons_conv)

lemma py_rstrip_append_space:
  "py_isspace c \<Longrightarrow> py_rstrip (s @ [c]) = py_rstrip s"
  by (simp add: py_rstrip_def)

definition stripped :: "string \<Rightarrow> bool" where
  "stripped s \<longleftrightarrow> (case s of [] \<Rightarrow> True | c # _ \<Rightarrow> \<not> py_isspace c \<and> \<not> py_isspace (last s))"

lemma stripped_iff:
  "stripped s \<longleftrightarrow> (s = [] \<or> (\<not> py_isspace (hd s) \<and> \<not> py_isspace (last s)))"
  by (cases s) (auto simp: stripped_def)

lemma dropWhile_id_if_hd: "\<not> P (hd xs) \<Longrightarrow> dropWhile P xs = xs"
  by (cases xs) auto

lemma suffix_dropWhile_last:
  "dropWhile P xs \<noteq> [] \<Longrightarrow> last (dropWhile P xs) = last xs"
proof (induction xs)
  case (Cons x xs)
  then show ?case by (cases "P x") (auto simp: dropWhile_eq_Nil_conv)
qed simp

lemma py_strip_stripped [py_simps]: "stripped (py_strip s)"
proof -
  define a where "a = dropWhile py_isspace s"
  define b where "b = dropWhile py_isspace (rev a)"
  have strip: "py_strip s = rev b"
    by (simp add: py_strip_def py_rstrip_def py_lstrip_def a_def b_def)
  show ?thesis
  proof (cases b)
    case Nil
    then show ?thesis by (simp add: strip stripped_def)
  next
    case (Cons y ys)
    have ny: "\<not> py_isspace y"
      using Cons b_def by (metis dropWhile_eq_Cons_conv)
    have "last b = last (rev a)"
      using Cons b_def suffix_dropWhile_last by (metis list.distinct(1))
    moreover have "a \<noteq> []" using Cons b_def by auto
    ultimately have "last b = hd a" by (simp add: last_rev)
    moreover have "a \<noteq> [] \<Longrightarrow> \<not> py_isspace (hd a)"
      unfolding a_def by (metis hd_dropWhile)
    ultimately have "\<not> py_isspace (last b)" using \<open>a \<noteq> []\<close> by simp
    have hb: "hd b = y" using Cons by simp
    have "\<not> py_isspace (hd (rev b)) \<and> \<not> py_isspace (last (rev b))"
      using ny hb \<open>\<not> py_isspace (last b)\<close> by (simp add: hd_rev last_rev)
    moreover have "rev b \<noteq> []" using Cons by simp
    ultimately show ?thesis by (simp add: strip stripped_iff)
  qed
qed

lemma py_strip_id [py_simps]: "stripped s \<Longrightarrow> py_strip s = s"
proof (cases s)
  case (Cons c r)
  assume st: "stripped s"
  then have "\<not> py_isspace c" and l: "\<not> py_isspace (last s)"
    using Cons by (auto simp: stripped_def)
  then have "py_lstrip s = s" using Cons by (simp add: py_lstrip_def)
  moreover have "\<not> py_isspace (hd (rev s))"
    using l by (simp add: hd_rev)
  then have "dropWhile py_isspace (rev s) = rev s"
    by (rule dropWhile_id_if_hd)
  ultimately show ?thesis by (simp add: py_strip_def py_rstrip_def)
qed (simp add: py_strip_def py_rstrip_def py_lstrip_def)

lemma py_strip_idem [simp]: "py_strip (py_strip s) = py_strip s"
  by (rule py_strip_id [OF py_strip_stripped])

lemma set_py_strip: "set (py_strip s) \<subseteq> set s"
  by (auto simp: py_strip_def py_rstrip_def py_lstrip_def dest!: set_dropWhileD)

subsection \<open>\<open>int(str(n)) == n\<close>\<close>

lemma digit_char_isdigit: "d < 10 \<Longrightarrow> py_isdigit (digit_char d)"
  by (simp add: py_isdigit_def digit_char_def)

lemma digit_val_digit_char: "d < 10 \<Longrightarrow> digit_val (digit_char d) = d"
  by (simp add: digit_val_def digit_char_def)

lemma nat_str_digits: "c \<in> set (nat_str n) \<Longrightarrow> py_isdigit c"
proof (induction n rule: nat_str.induct)
  case (1 n)
  then show ?case
    by (subst (asm) nat_str.simps) (auto simp: digit_char_isdigit split: if_splits)
qed

lemma nat_str_ne: "nat_str n \<noteq> []"
  by (subst nat_str.simps) simp

lemma digit_groups_ok_digits:
  "s \<noteq> [] \<Longrightarrow> (\<And>c. c \<in> set s \<Longrightarrow> py_isdigit c) \<Longrightarrow> digit_groups_ok s"
proof (induction s rule: digit_groups_ok.induct)
  case (3 c d s)
  have "d \<noteq> CHR ''_''" using "3.prems"(2) [of d] by (auto simp: py_isdigit_def)
  then show ?case using 3 by simp
qed simp_all

lemma digits_value_nat_str: "digits_value (nat_str n) = n"
proof (induction n rule: nat_str.induct)
  case (1 n)
  have all: "filter py_isdigit (nat_str m) = nat_str m" for m
    using nat_str_digits by (simp add: filter_id_conv)
  show ?case
  proof (cases "n < 10")
    case True
    then show ?thesis
      by (subst nat_str.simps) (simp add: digits_value_def digit_char_isdigit digit_val_digit_char)
  next
    case False
    with "1.IH" have "foldl (\<lambda>n c. 10 * n + digit_val c) 0 (nat_str (n div 10)) = n div 10"
      by (simp add: digits_value_def all)
    with False show ?thesis
      by (subst nat_str.simps) (simp add: digits_value_def all digit_val_digit_char digit_char_isdigit)
  qed
qed

lemma parse_unsigned_nat_str [py_simps]: "parse_unsigned (nat_str n) = Some n"
  by (simp add: parse_unsigned_def digit_groups_ok_digits nat_str_ne nat_str_digits
      digits_value_nat_str)

lemma nat_str_stripped: "stripped (nat_str n)"
proof -
  have "\<not> py_isspace c" if "c \<in> set (nat_str n)" for c
    using nat_str_digits [OF that] by (auto simp: py_isdigit_def py_isspace_def Let_def)
  then show ?thesis
    using nat_str_ne [of n] by (auto simp: stripped_iff)
qed

lemma nat_str_hd: "nat_str n = c # r \<Longrightarrow> c \<noteq> CHR ''-'' \<and> c \<noteq> CHR ''+''"
  using nat_str_digits [of c n] by (auto simp: py_isdigit_def)

lemma py_int_py_str_int [py_simps]: "py_int (py_str_int i) = Some i"
proof (cases "i < 0")
  case True
  have "stripped (CHR ''-'' # nat_str (nat (- i)))"
    using nat_str_stripped [of "nat (- i)"] nat_str_ne [of "nat (- i)"]
    by (auto simp: stripped_iff py_isspace_def)
  then show ?thesis
    using True by (simp add: py_int_def py_str_int_def py_strip_id parse_unsigned_nat_str)
next
  case False
  obtain c r where cr: "nat_str (nat i) = c # r"
    using nat_str_ne by (cases "nat_str (nat i)") auto
  then show ?thesis
    using False nat_str_hd [OF cr] nat_str_stripped [of "nat i"] parse_unsigned_nat_str [of "nat i"]
    by (simp add: py_int_def py_str_int_def py_strip_id)
qed

subsection \<open>Lists\<close>

lemma those_map_Some:
  "(\<And>x. x \<in> set xs \<Longrightarrow> f x = Some (g x)) \<Longrightarrow> those (map f xs) = Some (map g xs)"
  by (induction xs) auto

lemma map_succ_upto: "map (\<lambda>i. i + 1) [a..b] = [a + 1..b + 1 :: int]"
proof (induction a b rule: upto.induct)
  case (1 a b)
  then show ?case
    by (cases "a \<le> b") (simp_all add: upto_rec1 [of a b] upto_rec1 [of "a + 1" "b + 1"])
qed

text \<open>The page a subscript \<open>xs[i]\<close> selects, for an index in range.\<close>

definition page_at :: "'a list \<Rightarrow> int \<Rightarrow> 'a" where
  "page_at xs i = xs ! nat (if 0 \<le> i then i else i + int (length xs))"

lemma py_index_in_range:
  "- int (length xs) \<le> i \<Longrightarrow> i < int (length xs) \<Longrightarrow> py_index xs i = Inr (page_at xs i)"
  by (simp add: py_index_def page_at_def)

lemma map_page_at_upto:
  assumes "0 \<le> a"
  shows "map (page_at xs) [a .. int (length xs) - 1] = drop (nat a) xs"
proof (rule nth_equalityI)
  show "length (map (page_at xs) [a .. int (length xs) - 1]) = length (drop (nat a) xs)"
    using assms by simp
next
  fix j
  assume "j < length (map (page_at xs) [a .. int (length xs) - 1])"
  then have j: "a + int j \<le> int (length xs) - 1" using assms by simp
  then have "nat (a + int j) = nat a + j" using assms by simp
  then show "map (page_at xs) [a .. int (length xs) - 1] ! j = drop (nat a) xs ! j"
    using assms j by (simp add: nth_upto page_at_def)
qed

subsection \<open>Splitting and stripping printed integers\<close>

lemma py_split_char_append:
  "c \<notin> set x \<Longrightarrow> py_split_char c (x @ c # y) = x # py_split_char c y"
  by (induction x) auto

lemma py_split_char_none: "c \<notin> set x \<Longrightarrow> py_split_char c x = [x]"
  by (induction x) auto

lemma py_str_int_chars: "c \<in> set (py_str_int i) \<Longrightarrow> py_isdigit c \<or> c = CHR ''-''"
  by (auto simp: py_str_int_def dest: nat_str_digits split: if_splits)

lemma py_str_int_ne: "py_str_int i \<noteq> []"
  by (simp add: py_str_int_def nat_str_ne)

lemma stripped_no_space: "(\<And>c. c \<in> set s \<Longrightarrow> \<not> py_isspace c) \<Longrightarrow> stripped s"
  by (cases s) (auto simp: stripped_iff)

lemma py_strip_snoc_space:
  "stripped s \<Longrightarrow> s \<noteq> [] \<Longrightarrow> py_isspace c \<Longrightarrow> py_strip (s @ [c]) = s"
proof -
  assume st: "stripped s" and ne: "s \<noteq> []" and sp: "py_isspace c"
  then have "\<not> py_isspace (hd s)" by (simp add: stripped_iff)
  then have "py_lstrip (s @ [c]) = s @ [c]"
    using ne by (cases s) (simp_all add: py_lstrip_def)
  then have "py_strip (s @ [c]) = py_rstrip s"
    using sp by (simp add: py_strip_def py_rstrip_append_space)
  also have "\<dots> = py_strip s"
    using st ne \<open>\<not> py_isspace (hd s)\<close> by (cases s) (simp_all add: py_strip_def py_lstrip_def)
  finally show ?thesis using py_strip_id [OF st] by simp
qed

subsection \<open>Paths\<close>

lemma takeWhile_rev_notin:
  "c \<notin> set ys \<Longrightarrow> takeWhile (\<lambda>x. x \<noteq> c) (rev ys @ zs) = rev ys @ takeWhile (\<lambda>x. x \<noteq> c) zs"
  by (rule takeWhile_append2) auto

lemma py_rfind_append_notin:
  "c \<notin> set ys \<Longrightarrow> py_rfind c (s @ ys) = py_rfind c s"
proof -
  assume c: "c \<notin> set ys"
  have tw: "takeWhile (\<lambda>x. x \<noteq> c) (rev ys @ rev s) = rev ys @ takeWhile (\<lambda>x. x \<noteq> c) (rev s)"
    using c by (rule takeWhile_rev_notin)
  have le: "length (takeWhile (\<lambda>x. x \<noteq> c) (rev s)) \<le> length s"
    using length_takeWhile_le [of _ "rev s"] by simp
  show ?thesis
    using le by (simp add: py_rfind_def tw Let_def)
qed

lemma py_rfind_match:
  "c \<notin> set ys \<Longrightarrow> py_rfind c (s @ c # ys) = int (length s)"
  by (simp add: py_rfind_def Let_def takeWhile_rev_notin)

lemma py_rfind_less: "py_rfind c s < int (length s)"
proof -
  have "length (takeWhile (\<lambda>x. x \<noteq> c) (rev s)) \<le> length s"
    using length_takeWhile_le [of _ "rev s"] by simp
  then show ?thesis by (auto simp: py_rfind_def Let_def)
qed

lemma py_rfind_ge: "-1 \<le> py_rfind c s"
  by (simp add: py_rfind_def Let_def)

lemma splitext_append_ext:
  assumes "CHR ''/'' \<notin> set ys" and "CHR ''.'' \<notin> set ys"
  shows "splitext (s @ CHR ''.'' # ys) =
    (if list_ex (\<lambda>x. x \<noteq> CHR ''.'') (drop (nat (py_rfind CHR ''/'' s + 1)) s)
     then (s, CHR ''.'' # ys) else (s @ CHR ''.'' # ys, []))"
proof -
  let ?r = "py_rfind CHR ''/'' s"
  have r: "py_rfind CHR ''/'' (s @ CHR ''.'' # ys) = ?r"
    using assms(1) py_rfind_append_notin [of "CHR ''/''" "CHR ''.'' # ys" s] by simp
  have d: "py_rfind CHR ''.'' (s @ CHR ''.'' # ys) = int (length s)"
    using assms(2) by (rule py_rfind_match)
  have lt: "?r < int (length s)" and ge: "-1 \<le> ?r"
    by (rule py_rfind_less, rule py_rfind_ge)
  have seg: "take (nat (int (length s) - (?r + 1))) (drop (nat (?r + 1)) (s @ CHR ''.'' # ys)) =
             drop (nat (?r + 1)) s"
    using lt ge by simp
  show ?thesis
    unfolding splitext_def Let_def r d seg using lt by simp
qed

lemma splitext_parts: "fst (splitext p) @ snd (splitext p) = p"
  by (simp add: splitext_def Let_def)

text \<open>Replacing an extension by another keeps the stem.\<close>

lemma splitext_swap_ext:
  assumes "splitext (s @ CHR ''.'' # ys) = (s, CHR ''.'' # ys)"
    and "CHR ''/'' \<notin> set ys" "CHR ''.'' \<notin> set ys" "CHR ''/'' \<notin> set zs" "CHR ''.'' \<notin> set zs"
  shows "splitext (s @ CHR ''.'' # zs) = (s, CHR ''.'' # zs)"
  using assms by (simp add: splitext_append_ext split: if_splits)

subsection \<open>Sequencing fallible steps\<close>

lemma py_bind_Inr [simp]: "py_bind (Inr a) f = f a"
  by (simp add: py_bind_def)

lemma py_bind_Inl [simp]: "py_bind (Inl e) f = Inl e"
  by (simp add: py_bind_def)

lemma py_bind_eq_Inl:
  "py_bind r f = Inl e \<longleftrightarrow> r = Inl e \<or> (\<exists>a. r = Inr a \<and> f a = Inl e)"
  by (cases r) auto

lemma py_mapM_not_Inl:
  "(\<And>x. x \<in> set xs \<Longrightarrow> f x \<noteq> Inl e) \<Longrightarrow> py_mapM f xs \<noteq> Inl e"
  by (induction xs) (auto simp: py_bind_eq_Inl)

text \<open>A loop whose body raises only \<open>E\<close> raises \<open>E\<close> exactly when the body
  raises on some element.\<close>

lemma py_mapM_Inl_iff:
  assumes "\<And>x e. x \<in> set xs \<Longrightarrow> f x = Inl e \<Longrightarrow> e = E"
  shows "py_mapM f xs = Inl e \<longleftrightarrow> e = E \<and> (\<exists>x\<in>set xs. f x = Inl E)"
  using assms
proof (induction xs arbitrary: e)
  case (Cons x xs)
  have ih: "py_mapM f xs = Inl e' \<longleftrightarrow> e' = E \<and> (\<exists>x\<in>set xs. f x = Inl E)" for e'
    using Cons.prems by (intro Cons.IH) auto
  show ?case
  proof (cases "f x")
    case (Inl e1)
    then have "e1 = E" using Cons.prems [of x e1] by simp
    then show ?thesis using Inl by auto
  next
    case (Inr y)
    then show ?thesis using ih [of e] ih [of E] by (cases "py_mapM f xs") auto
  qed
qed simp

lemma py_mapM_Inr:
  "py_mapM f xs = Inr ys \<longleftrightarrow> list_all2 (\<lambda>x y. f x = Inr y) xs ys"
proof (induction xs arbitrary: ys)
  case Nil
  then show ?case by auto
next
  case (Cons x xs)
  show ?case
    by (auto simp: py_bind_def Cons.IH [symmetric] list_all2_Cons1 split: sum.splits)
qed


end
