(* ===== verification/Sanitizer.thy ===== *)
theory Sanitizer
  imports Prelude
begin

text \<open>
  The label sanitizer of \<open>src/SplitBoringLog2.1.py\<close>, \<open>clean_special_text\<close>
  (lines 119--124): every character of \<open>\ / : * ? " < > | ,\<close> is replaced by an
  underscore, one character at a time in that order, and the result is stripped of
  surrounding whitespace.  The loop of replacements is shown equal to one pass of a
  per-character map; from that follow the reserved-character freedom of the result,
  its idempotence, and its fixed points.
\<close>

definition invalid_chars :: string where
  "invalid_chars =
     [CHR 0x5C, CHR ''/'', CHR '':'', CHR ''*'', CHR ''?'', CHR 0x22, CHR ''<'', CHR ''>'',
      CHR ''|'', CHR '','']"

definition clean_special_text :: "string \<Rightarrow> string" where
  "clean_special_text text = py_strip (fold (\<lambda>c t. py_replace_char c ''_'' t) invalid_chars text)"

text \<open>The one-pass reference: each reserved character becomes \<open>_\<close>.\<close>

definition sanitize_char :: "char \<Rightarrow> char" where
  "sanitize_char x = (if x \<in> set invalid_chars then CHR ''_'' else x)"

section \<open>The replacement loop is one map\<close>

lemma py_replace_char_single [py_simps]:
  "py_replace_char c [r] s = map (\<lambda>x. if x = c then r else x) s"
  by (induction s) (simp_all add: py_replace_char_def)

lemma fold_replace_underscore:
  "fold (\<lambda>c t. py_replace_char c ''_'' t) cs s = map (\<lambda>x. if x \<in> set cs then CHR ''_'' else x) s"
proof (induction cs arbitrary: s)
  case Nil
  then show ?case by simp
next
  case (Cons c cs)
  then show ?case by (auto simp: py_replace_char_single)
qed

lemma clean_special_text_map:
  "clean_special_text t = py_strip (map sanitize_char t)"
  by (simp add: clean_special_text_def fold_replace_underscore sanitize_char_def [abs_def])

lemma underscore_not_invalid [simp]: "CHR ''_'' \<notin> set invalid_chars"
  by (simp add: invalid_chars_def)

lemma sanitize_char_valid: "sanitize_char x \<notin> set invalid_chars"
  by (simp add: sanitize_char_def)

lemma sanitize_char_id: "x \<notin> set invalid_chars \<Longrightarrow> sanitize_char x = x"
  by (simp add: sanitize_char_def)

lemma map_sanitize_id:
  "set t \<inter> set invalid_chars = {} \<Longrightarrow> map sanitize_char t = t"
  by (induction t) (auto simp: sanitize_char_id)

lemmas sanitizer_simps = clean_special_text_map sanitize_char_valid map_sanitize_id

section \<open>Properties of the result\<close>

lemma clean_special_text_valid:
  "set (clean_special_text t) \<inter> set invalid_chars = {}"
proof -
  have "set (map sanitize_char t) \<inter> set invalid_chars = {}"
    using sanitize_char_valid by auto
  then show ?thesis
    using set_py_strip [of "map sanitize_char t"] by (auto simp: clean_special_text_map)
qed

lemma clean_special_text_stripped: "stripped (clean_special_text t)"
  by (simp add: clean_special_text_map py_strip_stripped)

lemma clean_special_text_no_slash: "CHR ''/'' \<notin> set (clean_special_text t)"
  using clean_special_text_valid [of t] by (auto simp: invalid_chars_def)

lemma clean_special_text_clean [simp]:
  "clean_special_text (clean_special_text t) = clean_special_text t"
proof -
  have "map sanitize_char (clean_special_text t) = clean_special_text t"
    by (rule map_sanitize_id [OF clean_special_text_valid])
  then show ?thesis
    by (simp add: clean_special_text_map [of "clean_special_text t"]
        py_strip_id [OF clean_special_text_stripped])
qed

text \<open>
  C11. The sanitizer is idempotent: cleaning an already cleaned label changes nothing,
  for every input, including the empty string and strings made only of reserved
  characters or whitespace.
\<close>

theorem clean_special_text_idem:
  "clean_special_text (clean_special_text t) = clean_special_text t"
  by (rule clean_special_text_clean)

text \<open>
  C5. The labels the sanitizer leaves unchanged are exactly those with no reserved
  character and no surrounding whitespace; runs of underscores are not collapsed
  (\<open>a//b\<close> becomes \<open>a__b\<close>).
\<close>

theorem clean_special_text_fixed_point:
  "clean_special_text t = t \<longleftrightarrow> set t \<inter> set invalid_chars = {} \<and> stripped t"
proof
  assume "clean_special_text t = t"
  then show "set t \<inter> set invalid_chars = {} \<and> stripped t"
    using clean_special_text_valid [of t] clean_special_text_stripped [of t] by simp
next
  assume "set t \<inter> set invalid_chars = {} \<and> stripped t"
  then show "clean_special_text t = t"
    by (simp add: clean_special_text_map map_sanitize_id py_strip_id)
qed

theorem clean_special_text_fixed_point_witness:
  "clean_special_text ''B-1'' = ''B-1'' \<and> clean_special_text '' a//b, '' = ''a__b_''
   \<and> (set ''B-1'' \<inter> set invalid_chars = {} \<and> stripped ''B-1'')"
proof -
  have ex: "clean_special_text '' a//b, '' = ''a__b_''"
    by (simp add: clean_special_text_map sanitize_char_def invalid_chars_def py_strip_def
        py_rstrip_def py_lstrip_def py_isspace_def)
  have ok: "set ''B-1'' \<inter> set invalid_chars = {} \<and> stripped ''B-1''"
    by (simp add: invalid_chars_def stripped_def py_isspace_def)
  then show ?thesis
    using ex clean_special_text_fixed_point [of "''B-1''"] by simp
qed

end
