(* ===== verification/Csv.thy ===== *)
theory Csv
  imports Prelude
begin

text \<open>
  The review ledger of \<open>src/SplitBoringLog2.1.py\<close> is a CSV file written by
  \<open>csv.writer\<close> in \<open>generate_csv\<close> and read back by \<open>csv.reader\<close> in
  \<open>split_pdf_from_csv\<close>, both with the default \<open>excel\<close> dialect and a file opened
  with \<open>newline=''\<close>.  This theory models the two library routines the tool relies
  on: the writer's \<open>writerow\<close> (delimiter \<open>,\<close>, quote character \<open>"\<close>, doubled
  quotes, \<open>QUOTE_MINIMAL\<close>, line terminator \<open>\r\n\<close>) and the reader's character
  state machine (CPython's \<open>_csv.c\<close>, \<open>parse_process_char\<close>, non-strict, no escape
  character).  The reader is lazy: it yields the rows it has completed and raises
  \<open>csv.Error\<close> only when it reaches a bad one, so it is modelled as the rows it yields
  followed by an optional error.  The main result is the round trip: reading what the
  writer wrote gives back exactly the rows written.
\<close>

abbreviation CR :: char where "CR \<equiv> CHR 0x0D"
abbreviation LF :: char where "LF \<equiv> CHR 0x0A"
abbreviation QUOTE :: char where "QUOTE \<equiv> CHR 0x22"
abbreviation COMMA :: char where "COMMA \<equiv> CHR '',''"

section \<open>Writer\<close>

definition csv_special :: "char \<Rightarrow> bool" where
  "csv_special c \<longleftrightarrow> c = COMMA \<or> c = QUOTE \<or> c = CR \<or> c = LF"

definition csv_escape :: "char \<Rightarrow> string" where
  "csv_escape c = (if c = QUOTE then [QUOTE, QUOTE] else [c])"

definition csv_quote :: "string \<Rightarrow> string" where
  "csv_quote f = QUOTE # concat (map csv_escape f) @ [QUOTE]"

text \<open>A field is quoted when it holds a special character, and also when it is
  the only field of its row and empty (so that the row is not a blank line).\<close>

definition csv_field :: "nat \<Rightarrow> string \<Rightarrow> string" where
  "csv_field n f = (if list_ex csv_special f \<or> (n = 1 \<and> f = []) then csv_quote f else f)"

text \<open>The written fields joined by the delimiter.\<close>

fun csv_join :: "string list \<Rightarrow> string" where
  "csv_join [] = []"
| "csv_join [f] = f"
| "csv_join (f # g # fs) = f @ COMMA # csv_join (g # fs)"

definition csv_writerow :: "string list \<Rightarrow> string" where
  "csv_writerow fs = csv_join (map (csv_field (length fs)) fs) @ [CR, LF]"

definition csv_write :: "string list list \<Rightarrow> string" where
  "csv_write rows = concat (map csv_writerow rows)"

section \<open>Reader\<close>

datatype csv_state =
    StartRecord
  | StartField
  | InField
  | InQuotedField
  | QuoteInQuotedField
  | EatCrnl

text \<open>\<open>Eol\<close> is the end-of-line event the reader feeds after the characters of
  each line it takes from the file.\<close>

datatype csv_input = Ch char | Eol

record csv_parser =
  pstate :: csv_state
  pfields :: "string list"
  pfield :: string

definition csv_init :: csv_parser where
  "csv_init = \<lparr>pstate = StartRecord, pfields = [], pfield = []\<rparr>"

text \<open>A parser in a given state with no pending field.\<close>

abbreviation csv_at :: "csv_state \<Rightarrow> string list \<Rightarrow> csv_parser" where
  "csv_at st acc \<equiv> \<lparr>pstate = st, pfields = acc, pfield = []\<rparr>"

definition csv_save :: "csv_parser \<Rightarrow> csv_parser" where
  "csv_save p = p\<lparr>pfields := pfields p @ [pfield p], pfield := []\<rparr>"

definition csv_add :: "char \<Rightarrow> csv_parser \<Rightarrow> csv_parser" where
  "csv_add c p = p\<lparr>pfield := pfield p @ [c]\<rparr>"

text \<open>The \<open>START_FIELD\<close> case, which \<open>START_RECORD\<close> falls through to.\<close>

fun csv_start_field :: "csv_input \<Rightarrow> csv_parser \<Rightarrow> csv_parser" where
  "csv_start_field Eol p = (csv_save p)\<lparr>pstate := StartRecord\<rparr>"
| "csv_start_field (Ch c) p =
     (if c = LF \<or> c = CR then (csv_save p)\<lparr>pstate := EatCrnl\<rparr>
      else if c = QUOTE then p\<lparr>pstate := InQuotedField\<rparr>
      else if c = COMMA then (csv_save p)\<lparr>pstate := StartField\<rparr>
      else (csv_add c p)\<lparr>pstate := InField\<rparr>)"

fun csv_process :: "csv_input \<Rightarrow> csv_parser \<Rightarrow> csv_parser py_result" where
  "csv_process i p =
     (case pstate p of
        StartRecord \<Rightarrow>
          (case i of
             Eol \<Rightarrow> Inr p
           | Ch c \<Rightarrow> if c = LF \<or> c = CR then Inr (p\<lparr>pstate := EatCrnl\<rparr>)
                     else Inr (csv_start_field i p))
      | StartField \<Rightarrow> Inr (csv_start_field i p)
      | InField \<Rightarrow>
          (case i of
             Eol \<Rightarrow> Inr ((csv_save p)\<lparr>pstate := StartRecord\<rparr>)
           | Ch c \<Rightarrow>
               if c = LF \<or> c = CR then Inr ((csv_save p)\<lparr>pstate := EatCrnl\<rparr>)
               else if c = COMMA then Inr ((csv_save p)\<lparr>pstate := StartField\<rparr>)
               else Inr (csv_add c p))
      | InQuotedField \<Rightarrow>
          (case i of
             Eol \<Rightarrow> Inr p
           | Ch c \<Rightarrow> if c = QUOTE then Inr (p\<lparr>pstate := QuoteInQuotedField\<rparr>)
                     else Inr (csv_add c p))
      | QuoteInQuotedField \<Rightarrow>
          (case i of
             Eol \<Rightarrow> Inr ((csv_save p)\<lparr>pstate := StartRecord\<rparr>)
           | Ch c \<Rightarrow>
               if c = QUOTE then Inr ((csv_add c p)\<lparr>pstate := InQuotedField\<rparr>)
               else if c = COMMA then Inr ((csv_save p)\<lparr>pstate := StartField\<rparr>)
               else if c = LF \<or> c = CR then Inr ((csv_save p)\<lparr>pstate := EatCrnl\<rparr>)
               else Inr ((csv_add c p)\<lparr>pstate := InField\<rparr>))
      | EatCrnl \<Rightarrow>
          (case i of
             Eol \<Rightarrow> Inr (p\<lparr>pstate := StartRecord\<rparr>)
           | Ch c \<Rightarrow> if c = LF \<or> c = CR then Inr p else Inl CsvError))"

declare csv_process.simps [simp del]

text \<open>
  The events of a file: its characters, with \<open>Eol\<close> after each line.  A file
  opened with \<open>newline=''\<close> ends a line at \<open>\n\<close>, at \<open>\r\n\<close>, or at a \<open>\r\<close> not
  followed by \<open>\n\<close>, keeping the terminator; a last line without terminator is
  still followed by \<open>Eol\<close>.
\<close>

fun csv_events :: "string \<Rightarrow> csv_input list" where
  "csv_events [] = []"
| "csv_events (c # cs) =
     (if c = LF then Ch c # Eol # csv_events cs
      else if c = CR \<and> take 1 cs \<noteq> [LF] then Ch c # Eol # csv_events cs
      else Ch c # csv_events cs)"

definition csv_input_of :: "string \<Rightarrow> csv_input list" where
  "csv_input_of s = csv_events s @ (if s = [] \<or> last s = CR \<or> last s = LF then [] else [Eol])"

text \<open>
  \<open>Reader.__next__\<close> over the whole input: the rows completed so far (a record is
  complete when an \<open>Eol\<close> leaves the machine in \<open>StartRecord\<close>), and then either
  the live parser or the error that stopped it.
\<close>

fun csv_trans :: "csv_input list \<Rightarrow> csv_parser \<Rightarrow> string list list \<times> csv_parser py_result" where
  "csv_trans [] p = ([], Inr p)"
| "csv_trans (i # is) p =
     (case csv_process i p of
        Inl e \<Rightarrow> ([], Inl e)
      | Inr p' \<Rightarrow>
          if i = Eol \<and> pstate p' = StartRecord
          then (let r = csv_trans is csv_init in (pfields p' # fst r, snd r))
          else csv_trans is p')"

text \<open>At the end of the input a record still inside a quoted field, or with a
  non-empty field pending, is returned as it is (the reader is not strict).\<close>

definition csv_eof :: "csv_parser \<Rightarrow> string list list" where
  "csv_eof p =
     (if pstate p = InQuotedField then [pfields p @ [pfield p]]
      else if pfield p = [] then []
      else [pfields p @ [pfield p]])"

definition csv_reader :: "string \<Rightarrow> string list list \<times> py_error option" where
  "csv_reader s =
     (let r = csv_trans (csv_input_of s) csv_init in
      case snd r of
        Inl e \<Rightarrow> (fst r, Some e)
      | Inr p \<Rightarrow> (fst r @ csv_eof p, None))"

section \<open>Round trip\<close>

text \<open>The machine run over appended inputs, and the events of appended strings.\<close>

lemma csv_trans_append:
  "csv_trans (xs @ ys) p =
     (case csv_trans xs p of
        (r, Inl e) \<Rightarrow> (r, Inl e)
      | (r, Inr q) \<Rightarrow> (r @ fst (csv_trans ys q), snd (csv_trans ys q)))"
proof (induction xs arbitrary: p)
  case Nil
  then show ?case by (simp split: prod.split)
next
  case (Cons i xs)
  then show ?case by (auto simp: Let_def split: sum.splits prod.splits)
qed

lemma csv_events_append:
  "a = [] \<or> last a \<noteq> CR \<Longrightarrow> csv_events (a @ b) = csv_events a @ csv_events b"
proof (induction a)
  case (Cons c a)
  then show ?case by (cases a) auto
qed simp

lemma csv_events_plain:
  "\<not> list_ex csv_special f \<Longrightarrow> csv_events (f @ b) = map Ch f @ csv_events b"
  by (induction f) (auto simp: csv_special_def)

lemma csv_trans_in_field:
  "\<not> list_ex csv_special f \<Longrightarrow>
   csv_trans (map Ch f @ es) \<lparr>pstate = InField, pfields = acc, pfield = cur\<rparr> =
   csv_trans es \<lparr>pstate = InField, pfields = acc, pfield = cur @ f\<rparr>"
  by (induction f arbitrary: cur) (auto simp: csv_special_def csv_process.simps csv_add_def)

lemma csv_trans_quoted_body:
  "csv_trans (csv_events (concat (map csv_escape f) @ QUOTE # rest))
     \<lparr>pstate = InQuotedField, pfields = acc, pfield = cur\<rparr> =
   csv_trans (csv_events (QUOTE # rest)) \<lparr>pstate = InQuotedField, pfields = acc, pfield = cur @ f\<rparr>"
proof (induction f arbitrary: cur)
  case Nil
  then show ?case by simp
next
  case (Cons c f)
  show ?case
    using Cons.IH [of "cur @ [c]"]
    by (auto simp: csv_escape_def csv_process.simps csv_add_def)
qed

text \<open>One field of a written row, then the delimiter or the line terminator.\<close>

lemma csv_field_cases:
  obtains (plain) "csv_field n f = f" "\<not> list_ex csv_special f"
  | (quoted) "csv_field n f = csv_quote f"
  by (cases "list_ex csv_special f \<or> (n = 1 \<and> f = [])") (auto simp: csv_field_def)

lemma csv_trans_field_then:
  assumes d: "d = COMMA \<or> d = CR"
  obtains st where
    "csv_trans (csv_events (csv_field n f @ d # rest)) (csv_at StartField acc) =
     csv_trans (csv_events (d # rest)) \<lparr>pstate = st, pfields = acc, pfield = f\<rparr>"
    "st = InField \<or> st = QuoteInQuotedField \<or> (st = StartField \<and> f = [])"
proof (cases n f rule: csv_field_cases)
  case plain
  show ?thesis
  proof (cases f)
    case Nil
    then show ?thesis using plain that [of StartField] by simp
  next
    case (Cons c f')
    then have "\<not> list_ex csv_special f'" and c: "\<not> csv_special c" using plain by auto
    then have "csv_trans (csv_events (csv_field n f @ d # rest)) (csv_at StartField acc) =
               csv_trans (csv_events (d # rest)) \<lparr>pstate = InField, pfields = acc, pfield = f\<rparr>"
      using plain Cons
      by (simp add: csv_events_plain csv_trans_in_field csv_process.simps csv_add_def
          csv_special_def)
    then show ?thesis using that [of InField] by simp
  qed
next
  case quoted
  have "csv_trans (csv_events (csv_field n f @ d # rest)) (csv_at StartField acc) =
        csv_trans (csv_events (QUOTE # d # rest)) \<lparr>pstate = InQuotedField, pfields = acc, pfield = f\<rparr>"
    using quoted csv_trans_quoted_body [of f "d # rest" acc "[]"]
    by (simp add: csv_quote_def csv_process.simps)
  also have "\<dots> = csv_trans (csv_events (d # rest)) \<lparr>pstate = QuoteInQuotedField, pfields = acc, pfield = f\<rparr>"
    using d by (auto simp: csv_process.simps)
  finally show ?thesis using that [of QuoteInQuotedField] by simp
qed

lemma csv_trans_field_comma:
  "csv_trans (csv_events (csv_field n f @ COMMA # rest)) (csv_at StartField acc) =
   csv_trans (csv_events rest) (csv_at StartField (acc @ [f]))"
proof -
  obtain st where eq: "csv_trans (csv_events (csv_field n f @ COMMA # rest)) (csv_at StartField acc) =
     csv_trans (csv_events (COMMA # rest)) \<lparr>pstate = st, pfields = acc, pfield = f\<rparr>"
    and st: "st = InField \<or> st = QuoteInQuotedField \<or> (st = StartField \<and> f = [])"
    by (rule csv_trans_field_then [of COMMA n f rest acc]) simp_all
  from st show ?thesis
    by (auto simp: eq csv_process.simps csv_save_def)
qed

lemma csv_trans_field_crlf:
  "csv_trans (csv_events (csv_field n f @ CR # LF # rest)) (csv_at StartField acc) =
   (let r = csv_trans (csv_events rest) csv_init in ((acc @ [f]) # fst r, snd r))"
proof -
  obtain st where eq: "csv_trans (csv_events (csv_field n f @ CR # LF # rest)) (csv_at StartField acc) =
     csv_trans (csv_events (CR # LF # rest)) \<lparr>pstate = st, pfields = acc, pfield = f\<rparr>"
    and st: "st = InField \<or> st = QuoteInQuotedField \<or> (st = StartField \<and> f = [])"
    by (rule csv_trans_field_then [of CR n f "LF # rest" acc]) simp_all
  from st show ?thesis
    by (auto simp: eq csv_process.simps csv_save_def)
qed

lemma csv_trans_join:
  "fs \<noteq> [] \<Longrightarrow>
   csv_trans (csv_events (csv_join (map (csv_field n) fs) @ CR # LF # rest)) (csv_at StartField acc) =
   (let r = csv_trans (csv_events rest) csv_init in ((acc @ fs) # fst r, snd r))"
proof (induction fs arbitrary: acc rule: csv_join.induct)
  case (2 f)
  then show ?case by (simp add: csv_trans_field_crlf)
next
  case (3 f g fs)
  then show ?case by (simp add: csv_trans_field_comma)
qed simp

text \<open>A whole row, from the start of a record.\<close>

lemma csv_start_field_state [simp]: "csv_start_field i (p\<lparr>pstate := st\<rparr>) = csv_start_field i p"
  by (cases i) (simp_all add: csv_save_def csv_add_def)

lemma csv_trans_start_record:
  "c \<noteq> CR \<Longrightarrow> c \<noteq> LF \<Longrightarrow>
   csv_trans (Ch c # es) (csv_at StartRecord acc) = csv_trans (Ch c # es) (csv_at StartField acc)"
proof -
  assume "c \<noteq> CR" "c \<noteq> LF"
  moreover have "csv_start_field (Ch c) (csv_at StartRecord acc) = csv_start_field (Ch c) (csv_at StartField acc)"
    by (simp add: csv_save_def csv_add_def)
  ultimately have "csv_process (Ch c) (csv_at StartRecord acc) = csv_process (Ch c) (csv_at StartField acc)"
    by (simp add: csv_process.simps)
  then show ?thesis by simp
qed

lemma csv_join_first:
  assumes ne: "fs \<noteq> []"
    and eq: "csv_join (map (csv_field (length fs)) fs) @ CR # LF # rest = c # s"
  shows "c \<noteq> CR \<and> c \<noteq> LF"
proof -
  obtain f gs where fs: "fs = f # gs" using ne by (cases fs) auto
  show ?thesis
  proof (cases "csv_field (length fs) f")
    case Nil
    then have "gs \<noteq> []" using fs by (auto simp: csv_field_def csv_quote_def split: if_splits)
    then show ?thesis using eq fs Nil by (cases gs) auto
  next
    case (Cons d ds)
    have "d \<noteq> CR \<and> d \<noteq> LF"
      using Cons by (auto simp: csv_field_def csv_quote_def csv_special_def split: if_splits)
    moreover have "c = d"
      using eq fs Cons by (cases gs) auto
    ultimately show ?thesis by simp
  qed
qed

lemma csv_trans_writerow:
  "csv_trans (csv_events (csv_writerow fs @ rest)) csv_init =
   (let r = csv_trans (csv_events rest) csv_init in (fs # fst r, snd r))"
proof (cases "fs = []")
  case True
  then show ?thesis
    by (simp add: csv_writerow_def csv_init_def csv_process.simps)
next
  case False
  obtain c s where cs: "csv_join (map (csv_field (length fs)) fs) @ CR # LF # rest = c # s"
    by (cases "csv_join (map (csv_field (length fs)) fs)") auto
  have c: "c \<noteq> CR" "c \<noteq> LF" using csv_join_first [OF False cs] by simp_all
  have ev: "csv_events (c # s) = Ch c # csv_events s" using c by simp
  have "csv_trans (csv_events (csv_writerow fs @ rest)) csv_init =
        csv_trans (csv_events (c # s)) (csv_at StartRecord [])"
    using cs by (simp add: csv_writerow_def csv_init_def)
  also have "\<dots> = csv_trans (csv_events (c # s)) (csv_at StartField [])"
    using csv_trans_start_record [OF c] ev by simp
  also have "\<dots> = (let r = csv_trans (csv_events rest) csv_init in (fs # fst r, snd r))"
    using csv_trans_join [OF False, of "length fs" rest "[]"] cs by simp
  finally show ?thesis .
qed

lemma csv_trans_write:
  "csv_trans (csv_events (csv_write rows)) csv_init = (rows, Inr csv_init)"
proof (induction rows)
  case Nil
  then show ?case by (simp add: csv_write_def)
next
  case (Cons fs rows)
  then show ?case
    using csv_trans_writerow [of fs "csv_write rows"] by (simp add: csv_write_def)
qed

lemma csv_write_last: "rows \<noteq> [] \<Longrightarrow> last (csv_write rows) = LF"
  by (induction rows) (auto simp: csv_write_def csv_writerow_def)

lemma csv_eof_init [simp]: "csv_eof csv_init = []"
  by (simp add: csv_eof_def csv_init_def)

theorem csv_reader_write: "csv_reader (csv_write rows) = (rows, None)"
proof -
  have "csv_input_of (csv_write rows) = csv_events (csv_write rows)"
    by (cases "rows = []") (simp_all add: csv_input_of_def csv_write_last, simp add: csv_write_def)
  then show ?thesis
    by (simp add: csv_reader_def csv_trans_write)
qed

end
