(* ===== verification/LabelExtraction.thy ===== *)
theory LabelExtraction
  imports Sanitizer Csv
begin

text \<open>
  The first step of \<open>src/SplitBoringLog2.1.py\<close>: reading the label of every page
  and writing the review ledger.  The PDF libraries are an interface over an abstract
  page type \<open>'p\<close>: \<open>text_in\<close> is PyMuPDF's \<open>page.get_text('text', clip=rect)\<close> and
  \<open>ocr_in\<close> is the rasterise-at-2x-then-Tesseract pipeline of \<open>ocr_part_of_pdf\<close>;
  each returns \<open>None\<close> when it raises.  A document is \<open>Some\<close> list of pages, or
  \<open>None\<close> when the file cannot be opened.  The operations follow the source:
  \<open>extract_text_from_location\<close> and \<open>ocr_part_of_pdf\<close> swallow every error into the
  empty string, \<open>determine_type\<close> probes the start page once, and
  \<open>generate_csv\<close> writes the header and one row per page from the start page on,
  the label sanitized before it is written.
\<close>

record region =
  x1 :: int
  y1 :: int
  x2 :: int
  y2 :: int

record 'p pdf_backend =
  text_in :: "'p \<Rightarrow> region \<Rightarrow> string option"
  ocr_in :: "'p \<Rightarrow> region \<Rightarrow> string option"

text \<open>
  PyMuPDF's \<open>Document.load_page(n)\<close>: a number at or past the page count raises;
  a negative number is raised by the page count until it is not negative, so it
  wraps modulo the count.  (On a document without pages that loop would not end;
  it is modelled as an error, the only outcome the callers can observe being the
  empty label.)
\<close>

definition fitz_load_page :: "'p list \<Rightarrow> int \<Rightarrow> 'p py_result" where
  "fitz_load_page ps n =
     (if int (length ps) \<le> n then Inl ValueError
      else if 0 \<le> n then Inr (ps ! nat n)
      else if ps = [] then Inl ValueError
      else Inr (ps ! nat (n mod int (length ps))))"

definition extract_text_from_location ::
  "'p pdf_backend \<Rightarrow> 'p list option \<Rightarrow> int \<Rightarrow> region \<Rightarrow> string" where
  "extract_text_from_location lib doc page_number r =
     (case doc of
        None \<Rightarrow> []
      | Some ps \<Rightarrow>
          (case fitz_load_page ps page_number of
             Inl _ \<Rightarrow> []
           | Inr page \<Rightarrow> (case text_in lib page r of None \<Rightarrow> [] | Some text \<Rightarrow> text)))"

definition ocr_part_of_pdf ::
  "'p pdf_backend \<Rightarrow> 'p list option \<Rightarrow> int \<Rightarrow> region \<Rightarrow> string" where
  "ocr_part_of_pdf lib doc page_number r =
     (case doc of
        None \<Rightarrow> []
      | Some ps \<Rightarrow>
          (case fitz_load_page ps page_number of
             Inl _ \<Rightarrow> []
           | Inr page \<Rightarrow> (case ocr_in lib page r of None \<Rightarrow> [] | Some text \<Rightarrow> text)))"

text \<open>\<open>True\<close> means OCR: the direct text of the probed page was empty.\<close>

definition determine_type :: "'p pdf_backend \<Rightarrow> 'p list option \<Rightarrow> int \<Rightarrow> region \<Rightarrow> bool" where
  "determine_type lib doc page_number r =
     (let test_text = extract_text_from_location lib doc page_number r in
      if test_text \<noteq> [] then False else True)"

definition ledger_header :: "string list" where
  "ledger_header = [''Page Number'', ''Extracted Text'']"

text \<open>The zero-based page indices of \<open>range(start_page - 1, total_pages)\<close>.\<close>

definition ledger_range :: "int \<Rightarrow> nat \<Rightarrow> int list" where
  "ledger_range start_page total_pages = [start_page - 1 .. int total_pages - 1]"

text \<open>
  \<open>generate_csv\<close>: the ledger file's text, and the exception that escaped, if any.
  The file is opened and its header written before \<open>PdfReader\<close> reads the page
  count; an unreadable document leaves a ledger holding only the header.
\<close>

definition generate_csv ::
  "'p pdf_backend \<Rightarrow> 'p list option \<Rightarrow> int \<Rightarrow> region \<Rightarrow> bool \<Rightarrow> py_error option \<times> string" where
  "generate_csv lib doc start_page r ocr_or_not =
     (case doc of
        None \<Rightarrow> (Some OSError, csv_writerow ledger_header)
      | Some ps \<Rightarrow>
          (None, csv_write (ledger_header #
             (if ocr_or_not then
                map (\<lambda>i. [py_str_int (i + 1), clean_special_text (ocr_part_of_pdf lib doc i r)])
                  (ledger_range start_page (length ps))
              else
                map (\<lambda>i. [py_str_int (i + 1), clean_special_text (extract_text_from_location lib doc i r)])
                  (ledger_range start_page (length ps))))))"

definition generate_csv_and_run ::
  "'p pdf_backend \<Rightarrow> 'p list option \<Rightarrow> int \<Rightarrow> region \<Rightarrow> py_error option \<times> string" where
  "generate_csv_and_run lib doc start_page r =
     (let ocr_or_not = determine_type lib doc (start_page - 1) r in
      generate_csv lib doc start_page r ocr_or_not)"

text \<open>The label a run writes for page \<open>i\<close>, once the mode is chosen.\<close>

definition page_label :: "'p pdf_backend \<Rightarrow> 'p list option \<Rightarrow> region \<Rightarrow> bool \<Rightarrow> int \<Rightarrow> string" where
  "page_label lib doc r ocr_or_not i =
     clean_special_text
       (if ocr_or_not then ocr_part_of_pdf lib doc i r else extract_text_from_location lib doc i r)"

definition ledger_rows ::
  "'p pdf_backend \<Rightarrow> 'p list option \<Rightarrow> region \<Rightarrow> bool \<Rightarrow> int list \<Rightarrow> string list list" where
  "ledger_rows lib doc r ocr_or_not is = map (\<lambda>i. [py_str_int (i + 1), page_label lib doc r ocr_or_not i]) is"

section \<open>The ledger a run writes\<close>

text \<open>The two loops of \<open>generate_csv\<close> differ only in the extractor they call.\<close>

lemma generate_csv_Some:
  "generate_csv lib (Some ps) start_page r ocr_or_not =
     (None, csv_write (ledger_header # ledger_rows lib (Some ps) r ocr_or_not
        (ledger_range start_page (length ps))))"
  by (cases ocr_or_not) (simp_all add: generate_csv_def ledger_rows_def page_label_def)

lemma generate_csv_and_run_Some:
  "generate_csv_and_run lib (Some ps) start_page r =
     (None, csv_write (ledger_header #
        ledger_rows lib (Some ps) r (extract_text_from_location lib (Some ps) (start_page - 1) r = [])
          (ledger_range start_page (length ps))))"
  by (simp add: generate_csv_and_run_def determine_type_def generate_csv_Some)

lemma ledger_page_numbers:
  "map (\<lambda>row. py_int (hd row)) (ledger_rows lib doc r ocr_or_not (ledger_range start_page n)) =
   map Some [start_page .. int n]"
proof -
  have "map (\<lambda>row. py_int (hd row)) (ledger_rows lib doc r ocr_or_not (ledger_range start_page n)) =
        map Some (map (\<lambda>i. i + 1) (ledger_range start_page n))"
    by (simp add: ledger_rows_def py_int_py_str_int)
  then show ?thesis by (simp add: ledger_range_def map_succ_upto)
qed

section \<open>Properties of the first step\<close>

text \<open>
  C4. The ledger round trip: reading back, with \<open>csv.reader\<close>, the ledger that
  \<open>generate_csv\<close> wrote gives the header and exactly the rows written, one per page
  from the start page on, whatever characters the labels hold; and the page-number
  column reads back, with \<open>int()\<close>, as the consecutive numbers from the start page to
  the page count.
\<close>

theorem ledger_round_trip:
  "csv_reader (snd (generate_csv lib (Some ps) start_page r ocr_or_not)) =
     (ledger_header # ledger_rows lib (Some ps) r ocr_or_not (ledger_range start_page (length ps)), None)
   \<and> map (\<lambda>row. py_int (hd row)) (ledger_rows lib (Some ps) r ocr_or_not (ledger_range start_page (length ps))) =
     map Some [start_page .. int (length ps)]"
  by (simp add: generate_csv_Some csv_reader_write ledger_page_numbers)

text \<open>
  C6. The mode is chosen once, from the start page: when the direct text of the start
  page's region is not empty, every page's label is read from the text layer, also on
  pages where that text is empty (their label is then empty, and OCR is not tried).
\<close>

theorem direct_text_mode_every_page:
  assumes "extract_text_from_location lib (Some ps) (start_page - 1) r \<noteq> []"
  shows "generate_csv_and_run lib (Some ps) start_page r =
     (None, csv_write (ledger_header #
        map (\<lambda>i. [py_str_int (i + 1), clean_special_text (extract_text_from_location lib (Some ps) i r)])
          (ledger_range start_page (length ps))))"
  using assms by (simp add: generate_csv_and_run_Some ledger_rows_def page_label_def)

theorem direct_text_mode_every_page_witness:
  "extract_text_from_location \<lparr>text_in = \<lambda>pg r. Some pg, ocr_in = \<lambda>pg r. Some ''OCR''\<rparr>
      (Some [''B-1'', '''']) (1 - 1) \<lparr>x1 = 360, y1 = 70, x2 = 432, y2 = 90\<rparr> \<noteq> []
   \<and> generate_csv_and_run \<lparr>text_in = \<lambda>pg r. Some pg, ocr_in = \<lambda>pg r. Some ''OCR''\<rparr>
      (Some [''B-1'', '''']) 1 \<lparr>x1 = 360, y1 = 70, x2 = 432, y2 = 90\<rparr> =
     (None, csv_write [ledger_header, [''1'', ''B-1''], [''2'', '''']])"
proof -
  let ?lib = "\<lparr>text_in = \<lambda>pg r. Some pg, ocr_in = \<lambda>pg r. Some ''OCR''\<rparr>
      :: (string, unit) pdf_backend_scheme"
  let ?r = "\<lparr>x1 = 360, y1 = 70, x2 = 432, y2 = 90\<rparr>"
  have h: "extract_text_from_location ?lib (Some [''B-1'', '''']) (1 - 1) ?r \<noteq> []"
    by code_simp
  have rows: "map (\<lambda>i. [py_str_int (i + 1), clean_special_text (extract_text_from_location ?lib
        (Some [''B-1'', '''']) i ?r)]) (ledger_range 1 (length [''B-1'', ''''])) =
      [[''1'', ''B-1''], [''2'', '''']]"
    by code_simp
  show ?thesis
    using h direct_text_mode_every_page [OF h] rows by simp
qed

end
