(* ===== verification/Splitter.thy ===== *)
theory Splitter
  imports Sanitizer Csv
begin

text \<open>
  The second step of \<open>src/SplitBoringLog2.1.py\<close>, \<open>split_pdf_from_csv\<close>
  (lines 78--117): it reads the ledger row by row, sanitizes each label, and keeps a
  current label and a current run of pages; a row whose label differs from the
  current one first writes the current run to \<open><base>_<label>.pdf\<close> in the output
  folder.  The state of the loop is a record; the files written are a log of
  (path, pages) pairs in the order the code writes them, so that a later write to
  the same path is seen to replace an earlier one.  Every exception inside the
  \<open>try\<close> ends the whole operation, but the files already written stay on disk;
  the outcome records that exception.

  The abstract specification is \<open>group_runs\<close>: the maximal runs of equal
  consecutive labels.  The loop is shown to write exactly these runs, and the runs
  to partition the pages in order.
\<close>

section \<open>Abstract specification: runs of equal labels\<close>

function group_runs :: "(string \<times> 'a) list \<Rightarrow> (string \<times> 'a list) list" where
  "group_runs [] = []"
| "group_runs ((k, x) # xs) =
     (k, x # map snd (takeWhile (\<lambda>e. fst e = k) xs)) # group_runs (dropWhile (\<lambda>e. fst e = k) xs)"
  by pat_completeness auto
termination
  by (relation "measure length") (auto simp: le_imp_less_Suc length_dropWhile_le)

section \<open>The pure grouper the loop implements\<close>

text \<open>
  The loop of \<open>split_pdf_from_csv\<close> without its input and output: the current
  label \<open>k\<close> (initially empty), the current run, and the sections emitted.
\<close>

fun group_acc :: "string \<Rightarrow> 'a list \<Rightarrow> (string \<times> 'a) list \<Rightarrow> (string \<times> 'a list) list" where
  "group_acc k run [] = (if run \<noteq> [] then [(k, run)] else [])"
| "group_acc k run ((k', x) # xs) =
     (if k' \<noteq> k then (if run \<noteq> [] then [(k, run)] else []) @ group_acc k' [x] xs
      else group_acc k (run @ [x]) xs)"

section \<open>The splitting loop\<close>

record 'p split_state =
  cur_text :: string
  cur_pages :: "'p list"
  written :: "(string \<times> 'p list) list"

definition split_init :: "'p split_state" where
  "split_init = \<lparr>cur_text = [], cur_pages = [], written = []\<rparr>"

text \<open>Writing the current run to the file named after the current label.\<close>

definition write_section :: "(string \<Rightarrow> string) \<Rightarrow> 'p split_state \<Rightarrow> 'p split_state" where
  "write_section out st = st\<lparr>written := written st @ [(out (cur_text st), cur_pages st)]\<rparr>"

text \<open>
  One iteration of \<open>for row in csv_reader\<close>: unpack two fields (else
  \<open>ValueError\<close>), \<open>int(page_number) - 1\<close> (else \<open>ValueError\<close>), sanitize, then
  either close the run and start a new one or extend the run; \<open>pdf_reader.pages[i]\<close>
  may raise \<open>IndexError\<close> after the run was closed.
\<close>

definition split_row ::
  "'p list \<Rightarrow> (string \<Rightarrow> string) \<Rightarrow> string list \<Rightarrow> 'p split_state \<Rightarrow> 'p split_state \<times> py_error option" where
  "split_row pages out row st =
     (case row of
        [page_str, text] \<Rightarrow>
          (case py_int page_str of
             None \<Rightarrow> (st, Some ValueError)
           | Some n \<Rightarrow>
               (let page_number = n - 1; clean_text = clean_special_text text in
                if clean_text \<noteq> cur_text st then
                  (let st1 = (if cur_pages st \<noteq> [] then write_section out st else st) in
                   case py_index pages page_number of
                     Inl e \<Rightarrow> (st1, Some e)
                   | Inr page \<Rightarrow> (st1\<lparr>cur_text := clean_text, cur_pages := [page]\<rparr>, None))
                else
                  (case py_index pages page_number of
                     Inl e \<Rightarrow> (st, Some e)
                   | Inr page \<Rightarrow> (st\<lparr>cur_pages := cur_pages st @ [page]\<rparr>, None))))
      | _ \<Rightarrow> (st, Some ValueError))"

fun split_loop ::
  "'p list \<Rightarrow> (string \<Rightarrow> string) \<Rightarrow> string list list \<Rightarrow> 'p split_state \<Rightarrow> 'p split_state \<times> py_error option" where
  "split_loop pages out [] st = (st, None)"
| "split_loop pages out (row # rows) st =
     (case split_row pages out row st of
        (st', Some e) \<Rightarrow> (st', Some e)
      | (st', None) \<Rightarrow> split_loop pages out rows st')"

definition flush_section :: "(string \<Rightarrow> string) \<Rightarrow> 'p split_state \<Rightarrow> 'p split_state" where
  "flush_section out st = (if cur_pages st \<noteq> [] then write_section out st else st)"

text \<open>The output file of a label:
  \<open>os.path.join(output_folder, f'{splitext(basename(pdf_path))[0]}_{label}.pdf')\<close>.\<close>

definition out_path :: "string \<Rightarrow> string \<Rightarrow> string \<Rightarrow> string" where
  "out_path output_folder pdf_path label =
     path_join output_folder (fst (splitext (basename pdf_path)) @ ''_'' @ label @ ''.pdf'')"

record 'p split_outcome =
  made_dirs :: "string list"
  out_files :: "(string \<times> 'p list) list"
  raised :: "py_error option"

text \<open>
  \<open>split_pdf_from_csv\<close>: \<open>doc\<close> is what \<open>PdfReader(pdf_path)\<close> reads (\<open>None\<close>:
  it raises), \<open>csv\<close> the ledger file's text (\<open>None\<close>: it cannot be opened), and
  \<open>folder_exists\<close> whether the output folder is already there.  The reader's own
  error, if any, surfaces after the rows before it were processed.
\<close>

definition split_pdf_from_csv ::
  "'p list option \<Rightarrow> string \<Rightarrow> string option \<Rightarrow> string \<Rightarrow> bool \<Rightarrow> 'p split_outcome" where
  "split_pdf_from_csv doc pdf_path csv output_folder folder_exists =
     (case doc of
        None \<Rightarrow> \<lparr>made_dirs = [], out_files = [], raised = Some OSError\<rparr>
      | Some pages \<Rightarrow>
          (let dirs = (if folder_exists then [] else [output_folder]);
               out = out_path output_folder pdf_path in
           case csv of
             None \<Rightarrow> \<lparr>made_dirs = dirs, out_files = [], raised = Some OSError\<rparr>
           | Some text \<Rightarrow>
               (let (rows, reader_error) = csv_reader text in
                case rows of
                  [] \<Rightarrow> \<lparr>made_dirs = dirs, out_files = [],
                          raised = Some (case reader_error of None \<Rightarrow> StopIteration | Some e \<Rightarrow> e)\<rparr>
                | _ # body \<Rightarrow>
                    (let (st, err) = split_loop pages out body split_init in
                     case err of
                       Some e \<Rightarrow> \<lparr>made_dirs = dirs, out_files = written st, raised = Some e\<rparr>
                     | None \<Rightarrow>
                         (case reader_error of
                            Some e \<Rightarrow> \<lparr>made_dirs = dirs, out_files = written st, raised = Some e\<rparr>
                          | None \<Rightarrow> \<lparr>made_dirs = dirs, out_files = written (flush_section out st),
                                      raised = None\<rparr>)))))"

text \<open>The files in the output folder after the writes, a later write replacing an
  earlier one of the same name.\<close>

definition apply_writes :: "(string \<rightharpoonup> 'p list) \<Rightarrow> (string \<times> 'p list) list \<Rightarrow> (string \<rightharpoonup> 'p list)" where
  "apply_writes fs ws = fold (\<lambda>(path, pages) m. m(path \<mapsto> pages)) ws fs"

text \<open>A ledger row the loop accepts: its label and the page it names.\<close>

definition row_entry :: "'p list \<Rightarrow> string list \<Rightarrow> (string \<times> 'p) option" where
  "row_entry pages row =
     (case row of
        [page_str, text] \<Rightarrow>
          (case py_int page_str of
             None \<Rightarrow> None
           | Some n \<Rightarrow>
               (case py_index pages (n - 1) of
                  Inl _ \<Rightarrow> None
                | Inr page \<Rightarrow> Some (clean_special_text text, page)))
      | _ \<Rightarrow> None)"

section \<open>Properties of the runs\<close>

lemma takeWhile_key:
  "map (\<lambda>e. (k, snd e)) (takeWhile (\<lambda>e. fst e = k) xs) = takeWhile (\<lambda>e. fst e = k) xs"
  by (induction xs) auto

text \<open>Flattening the runs, each page paired with its run's label, gives the input back:
  the runs partition the input in order, and every element of a run has its label.\<close>

lemma group_runs_flatten:
  "concat (map (\<lambda>(k, xs). map (Pair k) xs) (group_runs kvs)) = kvs"
proof (induction kvs rule: group_runs.induct)
  case (2 k x xs)
  have "map (Pair k) (map snd (takeWhile (\<lambda>e. fst e = k) xs)) = takeWhile (\<lambda>e. fst e = k) xs"
    using takeWhile_key [of k xs] by (simp add: comp_def)
  then show ?case using 2 by simp
qed simp

lemma group_runs_values: "concat (map snd (group_runs kvs)) = map snd kvs"
proof -
  have "map snd (concat (map (\<lambda>(k, xs). map (Pair k) xs) (group_runs kvs))) = map snd kvs"
    by (simp add: group_runs_flatten)
  moreover have "map snd (concat (map (\<lambda>(k, xs). map (Pair k) xs) gs)) = concat (map snd gs)"
    for gs :: "(string \<times> 'a list) list"
    by (induction gs) (auto simp: comp_def)
  ultimately show ?thesis by simp
qed

lemma group_runs_nonempty: "(k, xs) \<in> set (group_runs kvs) \<Longrightarrow> xs \<noteq> []"
  by (induction kvs rule: group_runs.induct) auto

lemma group_runs_Nil_iff [simp]: "group_runs kvs = [] \<longleftrightarrow> kvs = []"
  by (cases kvs rule: group_runs.cases) auto

lemma group_runs_hd_key:
  "kvs \<noteq> [] \<Longrightarrow> fst (hd (group_runs kvs)) = fst (hd kvs)"
  by (cases kvs rule: group_runs.cases) auto

text \<open>Runs are maximal: two neighbouring runs never share a label.\<close>

lemma group_runs_maximal: "successively (\<noteq>) (map fst (group_runs kvs))"
proof (induction kvs rule: group_runs.induct)
  case (2 k x xs)
  let ?d = "dropWhile (\<lambda>e. fst e = k) xs"
  show ?case
  proof (cases "?d = []")
    case True
    show ?thesis by (simp add: True)
  next
    case False
    then have "fst (hd ?d) \<noteq> k" by (metis (mono_tags, lifting) hd_dropWhile)
    then have "k \<noteq> hd (map fst (group_runs ?d))"
      using False group_runs_hd_key [of ?d] by (simp add: hd_map)
    then show ?thesis
      using 2 False by (cases "map fst (group_runs ?d)") simp_all
  qed
qed simp

section \<open>The loop refines the runs\<close>

lemma group_acc_run:
  "run \<noteq> [] \<Longrightarrow>
   group_acc k run kvs =
     (k, run @ map snd (takeWhile (\<lambda>e. fst e = k) kvs)) # group_runs (dropWhile (\<lambda>e. fst e = k) kvs)"
proof (induction kvs arbitrary: k run)
  case Nil
  then show ?case by simp
next
  case (Cons e kvs)
  obtain k' x where e: "e = (k', x)" by (cases e)
  show ?case
  proof (cases "k' = k")
    case True
    then show ?thesis using Cons.IH [of "run @ [x]" k] Cons.prems e by simp
  next
    case False
    then show ?thesis using Cons.IH [of "[x]" k'] Cons.prems e by simp
  qed
qed

lemma group_acc_empty: "group_acc k [] kvs = group_runs kvs"
proof (cases kvs)
  case (Cons e kvs')
  obtain k' x where e: "e = (k', x)" by (cases e)
  then show ?thesis using Cons group_acc_run [of "[x]" k' kvs'] by (cases "k' = k") simp_all
qed simp

lemma split_row_entry:
  "row_entry pages row = Some (k', x) \<Longrightarrow>
   split_row pages out row st =
     (if k' \<noteq> cur_text st
      then ((if cur_pages st \<noteq> [] then write_section out st else st)\<lparr>cur_text := k', cur_pages := [x]\<rparr>, None)
      else (st\<lparr>cur_pages := cur_pages st @ [x]\<rparr>, None))"
  by (auto simp: row_entry_def split_row_def Let_def
      split: list.splits option.splits sum.splits)

lemma split_loop_refines:
  "those (map (row_entry pages) rows) = Some kvs \<Longrightarrow>
   snd (split_loop pages out rows st) = None \<and>
   written (flush_section out (fst (split_loop pages out rows st))) =
     written st @ map (\<lambda>(k, ps). (out k, ps)) (group_acc (cur_text st) (cur_pages st) kvs)"
proof (induction rows arbitrary: st kvs)
  case Nil
  then show ?case by (auto simp: flush_section_def write_section_def)
next
  case (Cons row rows)
  from Cons.prems obtain k' x kvs' where
    entry: "row_entry pages row = Some (k', x)" and rest: "those (map (row_entry pages) rows) = Some kvs'"
    and kvs: "kvs = (k', x) # kvs'"
    by (auto split: option.splits)
  show ?case
  proof (cases "k' \<noteq> cur_text st")
    case True
    then show ?thesis
      using Cons.IH [OF rest] entry kvs
      by (auto simp: split_row_entry write_section_def)
  next
    case False
    then show ?thesis
      using Cons.IH [OF rest] entry kvs
      by (simp add: split_row_entry)
  qed
qed


text \<open>Running the loop on rows that are all accepted never raises, and together
  with the final flush it writes one file per run, in order.\<close>

lemma split_loop_init:
  "those (map (row_entry pages) rows) = Some kvs \<Longrightarrow>
   snd (split_loop pages out rows split_init) = None \<and>
   written (flush_section out (fst (split_loop pages out rows split_init))) =
     map (\<lambda>(k, ps). (out k, ps)) (group_runs kvs)"
  using split_loop_refines [of pages rows kvs out split_init]
  by (simp add: split_init_def group_acc_empty)

lemma split_pdf_from_csv_accepted:
  assumes "csv_reader text = (header # rows, None)"
    and "those (map (row_entry pages) rows) = Some kvs"
  shows "split_pdf_from_csv (Some pages) pdf_path (Some text) output_folder folder_exists =
     \<lparr>made_dirs = (if folder_exists then [] else [output_folder]),
      out_files = map (\<lambda>(k, ps). (out_path output_folder pdf_path k, ps)) (group_runs kvs),
      raised = None\<rparr>"
proof -
  obtain st where st: "split_loop pages (out_path output_folder pdf_path) rows split_init = (st, None)"
    using split_loop_init [OF assms(2), of "out_path output_folder pdf_path"]
    by (cases "split_loop pages (out_path output_folder pdf_path) rows split_init") auto
  then show ?thesis
    using assms split_loop_init [OF assms(2), of "out_path output_folder pdf_path"]
    by (simp add: split_pdf_from_csv_def)
qed

section \<open>Files on disk\<close>

text \<open>After a sequence of writes, a path holds what the last write to it wrote.\<close>

lemma apply_writes_lookup:
  "apply_writes fs ws path =
     (case filter (\<lambda>w. fst w = path) ws of [] \<Rightarrow> fs path | ws' \<Rightarrow> Some (snd (last ws')))"
proof (induction ws arbitrary: fs)
  case Nil
  then show ?case by (simp add: apply_writes_def)
next
  case (Cons w ws)
  obtain p c where w: "w = (p, c)" by (cases w)
  have step: "apply_writes fs ((p, c) # ws) = apply_writes (fs(p \<mapsto> c)) ws"
    by (simp add: apply_writes_def)
  show ?case
    unfolding w step Cons.IH by (auto split: list.splits)
qed

lemma basename_no_slash: "CHR ''/'' \<notin> set (basename p)"
  by (auto simp: basename_def dest: set_takeWhileD)

lemma splitext_fst_subset: "set (fst (splitext p)) \<subseteq> set p"
  by (auto simp: splitext_def Let_def dest: in_set_takeD)

lemma out_name_no_lead_slash:
  "take 1 (fst (splitext (basename pdf_path)) @ ''_'' @ label @ ''.pdf'') \<noteq> ''/''"
proof (cases "fst (splitext (basename pdf_path))")
  case (Cons c cs)
  then have "c \<in> set (basename pdf_path)"
    using splitext_fst_subset [of "basename pdf_path"] by auto
  then have "c \<noteq> CHR ''/''" using basename_no_slash by auto
  then show ?thesis using Cons by simp
qed simp

lemma path_join_inj:
  "take 1 b \<noteq> ''/'' \<Longrightarrow> take 1 b' \<noteq> ''/'' \<Longrightarrow> path_join a b = path_join a b' \<Longrightarrow> b = b'"
  by (auto simp: path_join_def split: if_splits)

lemma out_path_inj:
  "out_path output_folder pdf_path k = out_path output_folder pdf_path k' \<longleftrightarrow> k = k'"
proof
  assume "out_path output_folder pdf_path k = out_path output_folder pdf_path k'"
  then have "fst (splitext (basename pdf_path)) @ ''_'' @ k @ ''.pdf'' =
             fst (splitext (basename pdf_path)) @ ''_'' @ k' @ ''.pdf''"
    unfolding out_path_def by (rule path_join_inj [OF out_name_no_lead_slash out_name_no_lead_slash])
  then show "k = k'" by simp
qed simp

lemma filter_out_path:
  "filter (\<lambda>w. fst w = out_path output_folder pdf_path k)
     (map (\<lambda>(k, ps). (out_path output_folder pdf_path k, ps)) gs) =
   map (\<lambda>(k, ps). (out_path output_folder pdf_path k, ps)) (filter (\<lambda>s. fst s = k) gs)"
  by (induction gs) (auto simp: out_path_inj)

section \<open>An aborted loop\<close>

lemma split_loop_append:
  "split_loop pages out (xs @ ys) st =
     (case split_loop pages out xs st of (st', None) \<Rightarrow> split_loop pages out ys st' | r \<Rightarrow> r)"
  by (induction xs arbitrary: st) (auto split: prod.splits option.splits)

lemma split_loop_cur_pages:
  "those (map (row_entry pages) rows) = Some kvs \<Longrightarrow> cur_pages st \<noteq> [] \<or> kvs \<noteq> [] \<Longrightarrow>
   cur_pages (fst (split_loop pages out rows st)) \<noteq> []"
proof (induction rows arbitrary: st kvs)
  case (Cons row rows)
  from Cons.prems(1) obtain k' x kvs' where
    entry: "row_entry pages row = Some (k', x)" and rest: "those (map (row_entry pages) rows) = Some kvs'"
    by (auto split: option.splits)
  show ?case
    using Cons.IH [OF rest] entry by (auto simp: split_row_entry write_section_def)
qed simp

text \<open>The files written before the loop stops: every run but the current one.\<close>

lemma split_loop_written:
  assumes "those (map (row_entry pages) rows) = Some kvs"
  shows "written (fst (split_loop pages out rows split_init)) =
         map (\<lambda>(k, ps). (out k, ps)) (butlast (group_runs kvs))"
proof (cases "kvs = []")
  case True
  moreover have "rows = []" using assms True by (cases rows) (auto split: option.splits)
  ultimately show ?thesis by (simp add: split_init_def)
next
  case False
  let ?st = "fst (split_loop pages out rows split_init)"
  have ne: "cur_pages ?st \<noteq> []"
    using split_loop_cur_pages [OF assms] False by blast
  have "written ?st @ [(out (cur_text ?st), cur_pages ?st)] = map (\<lambda>(k, ps). (out k, ps)) (group_runs kvs)"
    using split_loop_init [OF assms, of out] ne by (simp add: flush_section_def write_section_def)
  then have "written ?st = butlast (map (\<lambda>(k, ps). (out k, ps)) (group_runs kvs))"
    by (metis butlast_snoc)
  then show ?thesis by (simp add: map_butlast)
qed

section \<open>Only sanitized names are written\<close>

text \<open>The invariant of the loop: the current label is a fixed point of the sanitizer,
  and every file written so far is the output file of such a label.\<close>

lemma clean_special_text_Nil [simp]: "clean_special_text [] = []"
  by (simp add: clean_special_text_map py_strip_def py_lstrip_def py_rstrip_def)

lemma split_row_safe:
  assumes "clean_special_text (cur_text st) = cur_text st"
    and "set (map fst (written st)) \<subseteq> out ` {k. clean_special_text k = k}"
  shows "clean_special_text (cur_text (fst (split_row pages out row st))) =
           cur_text (fst (split_row pages out row st))
         \<and> set (map fst (written (fst (split_row pages out row st)))) \<subseteq> out ` {k. clean_special_text k = k}"
  using assms
  by (auto simp: split_row_def Let_def write_section_def split: list.splits option.splits sum.splits)

lemma split_loop_safe:
  assumes "clean_special_text (cur_text st) = cur_text st"
    and "set (map fst (written st)) \<subseteq> out ` {k. clean_special_text k = k}"
  shows "clean_special_text (cur_text (fst (split_loop pages out rows st))) =
           cur_text (fst (split_loop pages out rows st))
         \<and> set (map fst (written (fst (split_loop pages out rows st)))) \<subseteq> out ` {k. clean_special_text k = k}"
  using assms
proof (induction rows arbitrary: st)
  case (Cons row rows)
  note step = split_row_safe [OF Cons.prems, of pages row]
  show ?case
  proof (cases "split_row pages out row st")
    case (Pair st' e)
    then show ?thesis
      using step Cons.IH [of st'] by (cases e) auto
  qed
qed simp

lemma split_loop_init_safe:
  assumes "split_loop pages out rows split_init = (st, e)"
  shows "set (map fst (written st)) \<subseteq> out ` {k. clean_special_text k = k}
       \<and> set (map fst (written (flush_section out st))) \<subseteq> out ` {k. clean_special_text k = k}"
  using split_loop_safe [of split_init out pages rows] assms
  by (auto simp: split_init_def flush_section_def write_section_def)

section \<open>Properties of \<open>split_pdf_from_csv\<close>\<close>

text \<open>
  C2. Grouping is run-length: on a ledger whose rows are all accepted, the split
  writes one file per maximal run of consecutive equal sanitized labels, in ledger
  order, each holding the run's pages in order, and raises nothing.
\<close>

theorem split_refines_runs:
  assumes "csv_reader text = (header # rows, None)"
    and "those (map (row_entry pages) rows) = Some kvs"
  shows "out_files (split_pdf_from_csv (Some pages) pdf_path (Some text) output_folder folder_exists) =
           map (\<lambda>(k, ps). (out_path output_folder pdf_path k, ps)) (group_runs kvs)
         \<and> raised (split_pdf_from_csv (Some pages) pdf_path (Some text) output_folder folder_exists) = None"
  using split_pdf_from_csv_accepted [OF assms] by simp

theorem split_refines_runs_witness:
  "csv_reader (csv_write [[''Page Number'', ''Extracted Text''],
       [''1'', ''A''], [''2'', ''A''], [''3'', ''B''], [''4'', ''A'']]) =
     ([''Page Number'', ''Extracted Text''] #
       [[''1'', ''A''], [''2'', ''A''], [''3'', ''B''], [''4'', ''A'']], None)
   \<and> those (map (row_entry [''p1'', ''p2'', ''p3'', ''p4''])
       [[''1'', ''A''], [''2'', ''A''], [''3'', ''B''], [''4'', ''A'']]) =
     Some [(''A'', ''p1''), (''A'', ''p2''), (''B'', ''p3''), (''A'', ''p4'')]
   \<and> out_files (split_pdf_from_csv (Some [''p1'', ''p2'', ''p3'', ''p4'']) ''/d/doc.pdf''
       (Some (csv_write [[''Page Number'', ''Extracted Text''],
          [''1'', ''A''], [''2'', ''A''], [''3'', ''B''], [''4'', ''A'']])) ''/d/doc_output'' False) =
     [(''/d/doc_output/doc_A.pdf'', [''p1'', ''p2'']), (''/d/doc_output/doc_B.pdf'', [''p3'']),
      (''/d/doc_output/doc_A.pdf'', [''p4''])]"
proof -
  have r: "csv_reader (csv_write [[''Page Number'', ''Extracted Text''],
       [''1'', ''A''], [''2'', ''A''], [''3'', ''B''], [''4'', ''A'']]) =
     ([''Page Number'', ''Extracted Text''] #
       [[''1'', ''A''], [''2'', ''A''], [''3'', ''B''], [''4'', ''A'']], None)"
    by (rule csv_reader_write)
  have t: "those (map (row_entry [''p1'', ''p2'', ''p3'', ''p4''])
       [[''1'', ''A''], [''2'', ''A''], [''3'', ''B''], [''4'', ''A'']]) =
     Some [(''A'', ''p1''), (''A'', ''p2''), (''B'', ''p3''), (''A'', ''p4'')]"
    by code_simp
  have o: "out_path ''/d/doc_output'' ''/d/doc.pdf'' ''A'' = ''/d/doc_output/doc_A.pdf''"
    "out_path ''/d/doc_output'' ''/d/doc.pdf'' ''B'' = ''/d/doc_output/doc_B.pdf''"
    by code_simp+
  show ?thesis
    using split_refines_runs [OF r t, of "''/d/doc.pdf''" "''/d/doc_output''" False] r t o
    by simp
qed

text \<open>
  C7. A label that comes back after a different one starts a second section with the
  same file name, and the second write replaces the first: after the split, the file
  of a label holds the pages of the last run with that label only (labels
  \<open>A, A, B, A\<close> leave \<open>doc_A.pdf\<close> with the fourth page alone).
\<close>

theorem split_repeated_label_last_wins:
  assumes "csv_reader text = (header # rows, None)"
    and "those (map (row_entry pages) rows) = Some kvs"
  shows "apply_writes fs (out_files (split_pdf_from_csv (Some pages) pdf_path (Some text) output_folder
            folder_exists)) (out_path output_folder pdf_path k) =
         (case filter (\<lambda>s. fst s = k) (group_runs kvs) of
            [] \<Rightarrow> fs (out_path output_folder pdf_path k)
          | ss \<Rightarrow> Some (snd (last ss)))"
proof -
  let ?out = "\<lambda>(k, ps). (out_path output_folder pdf_path k, ps)"
  have "apply_writes fs (out_files (split_pdf_from_csv (Some pages) pdf_path (Some text) output_folder
            folder_exists)) (out_path output_folder pdf_path k) =
        (case map ?out (filter (\<lambda>s. fst s = k) (group_runs kvs)) of
           [] \<Rightarrow> fs (out_path output_folder pdf_path k)
         | ws' \<Rightarrow> Some (snd (last ws')))"
    using split_pdf_from_csv_accepted [OF assms]
    by (simp add: apply_writes_lookup filter_out_path)
  also have "\<dots> = (case filter (\<lambda>s. fst s = k) (group_runs kvs) of
            [] \<Rightarrow> fs (out_path output_folder pdf_path k)
          | ss \<Rightarrow> Some (snd (last ss)))"
    by (cases "filter (\<lambda>s. fst s = k) (group_runs kvs) = []")
      (simp_all add: list.case_eq_if last_map split: prod.split)
  finally show ?thesis .
qed

theorem split_repeated_label_last_wins_witness:
  "csv_reader (csv_write [[''Page Number'', ''Extracted Text''],
       [''1'', ''A''], [''2'', ''A''], [''3'', ''B''], [''4'', ''A'']]) =
     ([''Page Number'', ''Extracted Text''] #
       [[''1'', ''A''], [''2'', ''A''], [''3'', ''B''], [''4'', ''A'']], None)
   \<and> those (map (row_entry [''p1'', ''p2'', ''p3'', ''p4''])
       [[''1'', ''A''], [''2'', ''A''], [''3'', ''B''], [''4'', ''A'']]) =
     Some [(''A'', ''p1''), (''A'', ''p2''), (''B'', ''p3''), (''A'', ''p4'')]
   \<and> apply_writes Map.empty (out_files (split_pdf_from_csv (Some [''p1'', ''p2'', ''p3'', ''p4''])
       ''/d/doc.pdf'' (Some (csv_write [[''Page Number'', ''Extracted Text''],
          [''1'', ''A''], [''2'', ''A''], [''3'', ''B''], [''4'', ''A'']])) ''/d/doc_output'' False))
       (out_path ''/d/doc_output'' ''/d/doc.pdf'' ''A'') = Some [''p4'']"
proof -
  have r: "csv_reader (csv_write [[''Page Number'', ''Extracted Text''],
       [''1'', ''A''], [''2'', ''A''], [''3'', ''B''], [''4'', ''A'']]) =
     ([''Page Number'', ''Extracted Text''] #
       [[''1'', ''A''], [''2'', ''A''], [''3'', ''B''], [''4'', ''A'']], None)"
    by (rule csv_reader_write)
  have t: "those (map (row_entry [''p1'', ''p2'', ''p3'', ''p4''])
       [[''1'', ''A''], [''2'', ''A''], [''3'', ''B''], [''4'', ''A'']]) =
     Some [(''A'', ''p1''), (''A'', ''p2''), (''B'', ''p3''), (''A'', ''p4'')]"
    by code_simp
  show ?thesis
    using split_repeated_label_last_wins [OF r t, of Map.empty "''/d/doc.pdf''" "''/d/doc_output''"
        False "''A''"] r t
    by simp
qed

text \<open>
  C9. A malformed ledger row (not exactly two fields, such as the empty row a
  trailing blank line yields) makes the split raise \<open>ValueError\<close>, but the
  sections closed before that row stay written: every run of the accepted rows
  before it except the current one.  The operation is not all-or-nothing.
\<close>

theorem split_malformed_row_keeps_earlier_files:
  assumes "csv_reader text = (header # rows @ bad # later, None)"
    and "those (map (row_entry pages) rows) = Some kvs"
    and "length bad \<noteq> 2"
  shows "split_pdf_from_csv (Some pages) pdf_path (Some text) output_folder folder_exists =
     \<lparr>made_dirs = (if folder_exists then [] else [output_folder]),
      out_files = map (\<lambda>(k, ps). (out_path output_folder pdf_path k, ps)) (butlast (group_runs kvs)),
      raised = Some ValueError\<rparr>"
proof -
  let ?out = "out_path output_folder pdf_path"
  obtain st where st: "split_loop pages ?out rows split_init = (st, None)"
    using split_loop_init [OF assms(2), of ?out]
    by (cases "split_loop pages ?out rows split_init") auto
  have bad: "split_row pages ?out bad st = (st, Some ValueError)"
    using assms(3) by (auto simp: split_row_def split: list.splits)
  have "split_loop pages ?out (rows @ bad # later) split_init = (st, Some ValueError)"
    by (simp add: split_loop_append st bad)
  moreover have "written st = map (\<lambda>(k, ps). (?out k, ps)) (butlast (group_runs kvs))"
    using split_loop_written [OF assms(2), of ?out] st by simp
  ultimately show ?thesis
    using assms(1) by (simp add: split_pdf_from_csv_def)
qed

theorem split_malformed_row_keeps_earlier_files_witness:
  "csv_reader (csv_write [[''Page Number'', ''Extracted Text''], [''1'', ''A''], [''2'', ''B''], []]) =
     ([''Page Number'', ''Extracted Text''] # [[''1'', ''A''], [''2'', ''B'']] @ [] # [], None)
   \<and> those (map (row_entry [''p1'', ''p2'']) [[''1'', ''A''], [''2'', ''B'']]) =
     Some [(''A'', ''p1''), (''B'', ''p2'')]
   \<and> length ([] :: string list) \<noteq> 2
   \<and> split_pdf_from_csv (Some [''p1'', ''p2'']) ''/d/doc.pdf''
       (Some (csv_write [[''Page Number'', ''Extracted Text''], [''1'', ''A''], [''2'', ''B''], []]))
       ''/d/doc_output'' True =
     \<lparr>made_dirs = [], out_files = [(''/d/doc_output/doc_A.pdf'', [''p1''])], raised = Some ValueError\<rparr>"
proof -
  have r: "csv_reader (csv_write [[''Page Number'', ''Extracted Text''], [''1'', ''A''], [''2'', ''B''], []]) =
     ([''Page Number'', ''Extracted Text''] # [[''1'', ''A''], [''2'', ''B'']] @ [] # [], None)"
    using csv_reader_write by simp
  have t: "those (map (row_entry [''p1'', ''p2'']) [[''1'', ''A''], [''2'', ''B'']]) =
     Some [(''A'', ''p1''), (''B'', ''p2'')]"
    by code_simp
  have o: "out_path ''/d/doc_output'' ''/d/doc.pdf'' ''A'' = ''/d/doc_output/doc_A.pdf''"
    by code_simp
  show ?thesis
    using split_malformed_row_keeps_earlier_files [OF r t, of "''/d/doc.pdf''" "''/d/doc_output''" True] r t o
    by simp
qed

text \<open>
  C3. Whatever the ledger holds, every file the split writes is
  \<open><output_folder>/<stem>_<label>.pdf\<close> for a label that has no character of
  \<open>\\ / : * ? " < > | ,\<close> and no surrounding white space: a label cannot
  escape the output folder or name a directory.
\<close>

theorem split_writes_sanitized_names:
  "set (map fst (out_files (split_pdf_from_csv doc pdf_path csv output_folder folder_exists)))
     \<subseteq> out_path output_folder pdf_path `
         {k. set k \<inter> set invalid_chars = {} \<and> stripped k}"
proof -
  have "out_path output_folder pdf_path ` {k. clean_special_text k = k} \<subseteq>
        out_path output_folder pdf_path ` {k. set k \<inter> set invalid_chars = {} \<and> stripped k}"
  proof (rule image_mono, rule subsetI)
    fix k assume "k \<in> {k. clean_special_text k = k}"
    then have "k = clean_special_text k" by simp
    then show "k \<in> {k. set k \<inter> set invalid_chars = {} \<and> stripped k}"
      using clean_special_text_valid [of k] clean_special_text_stripped [of k] by simp
  qed
  moreover have "set (map fst (out_files (split_pdf_from_csv doc pdf_path csv output_folder folder_exists)))
     \<subseteq> out_path output_folder pdf_path ` {k. clean_special_text k = k}"
    by (auto simp: split_pdf_from_csv_def Let_def split: option.splits list.splits prod.splits
        dest!: split_loop_init_safe; force)
  ultimately show ?thesis by (rule order_trans [rotated])
qed

end
