(* ===== verification/Workflow.thy ===== *)
theory Workflow
  imports LabelExtraction Splitter
begin

text \<open>
  The outer layer of \<open>src/SplitBoringLog2.1.py\<close>: the settings file that gives
  the form its default rectangle (\<open>load_settings\<close>, lines 158--169), and the two
  buttons of the Tk window, \<open>run_1st_step\<close> (lines 143--151, with
  \<open>generate_csv_and_run\<close>, lines 126--129) and \<open>run_2nd_step\<close> (lines 153--156).
  The file system is a record of the PDF files (by path), the text files, the folders
  and the enabled state of the "Split File" button; each step takes the world and
  returns the new one, with the exception that escaped the callback, if any.  The
  file dialogs are inputs: the path the user picked, empty when the dialog was
  cancelled.
\<close>

section \<open>Settings\<close>

definition default_region :: "int \<times> int \<times> int \<times> int" where
  "default_region = (360, 70, 432, 90)"

text \<open>\<open>file.readline()\<close> in text mode: the first line, with \<open>\r\n\<close> and \<open>\r\<close>
  read as \<open>\n\<close>, the terminator kept.\<close>

definition readline :: "string \<Rightarrow> string" where
  "readline s =
     (let l = takeWhile (\<lambda>c. c \<noteq> LF \<and> c \<noteq> CR) s in
      if length l < length s then l @ [LF] else l)"

text \<open>\<open>x1, y1, x2, y2 = map(int, line.split(','))\<close>: \<open>ValueError\<close> (here
  \<open>None\<close>) unless there are exactly four pieces and each is an integer.\<close>

definition parse_settings_line :: "string \<Rightarrow> (int \<times> int \<times> int \<times> int) option" where
  "parse_settings_line line =
     (case py_split_char COMMA line of
        [a, b, c, d] \<Rightarrow>
          (case (py_int a, py_int b, py_int c, py_int d) of
             (Some v1, Some v2, Some v3, Some v4) \<Rightarrow> Some (v1, v2, v3, v4)
           | _ \<Rightarrow> None)
      | _ \<Rightarrow> None)"

text \<open>\<open>load_settings\<close>: the content of \<open>settings.txt\<close>, \<open>None\<close> when it does not exist.\<close>

definition load_settings :: "string option \<Rightarrow> int \<times> int \<times> int \<times> int" where
  "load_settings settings_file =
     (case settings_file of
        None \<Rightarrow> default_region
      | Some content \<Rightarrow>
          (case parse_settings_line (py_strip (readline content)) of
             Some v \<Rightarrow> v
           | None \<Rightarrow> default_region))"

section \<open>The two steps\<close>

record 'p world =
  pdf_files :: "string \<rightharpoonup> 'p list"
  text_files :: "string \<rightharpoonup> string"
  folders :: "string list"
  split_enabled :: bool

text \<open>The five entry fields of the form, as typed.\<close>

record form =
  entry_start_page :: string
  entry_x1 :: string
  entry_y1 :: string
  entry_x2 :: string
  entry_y2 :: string

text \<open>The form as the window opens (lines 172 and 188--216): start page 1 and
  the rectangle of \<open>load_settings\<close>, printed by \<open>str()\<close>.\<close>

definition initial_form :: "string option \<Rightarrow> form" where
  "initial_form settings_file =
     (case load_settings settings_file of (x1_default, y1_default, x2_default, y2_default) \<Rightarrow>
        \<lparr>entry_start_page = ''1'', entry_x1 = py_str_int x1_default, entry_y1 = py_str_int y1_default,
         entry_x2 = py_str_int x2_default, entry_y2 = py_str_int y2_default\<rparr>)"

text \<open>\<open>generate_csv_and_run\<close> on the world: the split button is disabled, the ledger
  \<open><stem>.csv\<close> is written next to the PDF, and the button is enabled again only
  when \<open>generate_csv\<close> returned.\<close>

definition run_generate ::
  "'p pdf_backend \<Rightarrow> 'p world \<Rightarrow> string \<Rightarrow> int \<Rightarrow> region \<Rightarrow> 'p world \<times> py_error option" where
  "run_generate lib w pdf_path start_page r =
     (let csv_path = fst (splitext pdf_path) @ ''.csv'';
          (err, text) = generate_csv_and_run lib (pdf_files w pdf_path) start_page r in
      (w\<lparr>text_files := (text_files w)(csv_path \<mapsto> text), split_enabled := (err = None)\<rparr>, err))"

definition run_1st_step ::
  "'p pdf_backend \<Rightarrow> 'p world \<Rightarrow> string \<Rightarrow> form \<Rightarrow> 'p world \<times> py_error option" where
  "run_1st_step lib w pdf_path f =
     (if pdf_path = [] then (w, None)
      else
        (case (py_int (entry_start_page f), py_int (entry_x1 f), py_int (entry_y1 f),
               py_int (entry_x2 f), py_int (entry_y2 f)) of
           (Some start_page, Some a, Some b, Some c, Some d) \<Rightarrow>
             run_generate lib w pdf_path start_page \<lparr>x1 = a, y1 = b, x2 = c, y2 = d\<rparr>
         | _ \<Rightarrow> (w, Some ValueError)))"

text \<open>\<open>run_2nd_step\<close>: the output folder and the source PDF are derived from the
  ledger's path; the files written land in the world, later ones replacing earlier
  ones of the same name.\<close>

definition run_2nd_step :: "'p world \<Rightarrow> string \<Rightarrow> 'p world \<times> py_error option" where
  "run_2nd_step w csv_path =
     (let output_folder = fst (splitext csv_path) @ ''_output'';
          pdf_path = fst (splitext csv_path) @ ''.pdf'';
          res = split_pdf_from_csv (pdf_files w pdf_path) pdf_path (text_files w csv_path)
                  output_folder (output_folder \<in> set (folders w)) in
      (w\<lparr>pdf_files := apply_writes (pdf_files w) (out_files res),
          folders := folders w @ made_dirs res\<rparr>, raised res))"

section \<open>Reading the settings\<close>

definition settings_line :: "int \<Rightarrow> int \<Rightarrow> int \<Rightarrow> int \<Rightarrow> string" where
  "settings_line a b c d =
     py_str_int a @ COMMA # py_str_int b @ COMMA # py_str_int c @ COMMA # py_str_int d"

lemma settings_line_chars:
  "x \<in> set (settings_line a b c d) \<Longrightarrow> py_isdigit x \<or> x = CHR ''-'' \<or> x = COMMA"
  by (auto simp: settings_line_def dest: py_str_int_chars)

lemma settings_line_no_space: "x \<in> set (settings_line a b c d) \<Longrightarrow> \<not> py_isspace x"
  by (drule settings_line_chars) (auto simp: py_isdigit_def py_isspace_def Let_def)

lemma settings_line_stripped: "stripped (settings_line a b c d)"
  by (rule stripped_no_space) (rule settings_line_no_space)

lemma readline_settings_line:
  assumes "take 1 rest = [] \<or> take 1 rest = [LF] \<or> take 1 rest = [CR]"
  shows "py_strip (readline (settings_line a b c d @ rest)) = settings_line a b c d"
proof -
  let ?l = "settings_line a b c d"
  have nl: "\<forall>x\<in>set ?l. x \<noteq> LF \<and> x \<noteq> CR"
    by (auto dest!: settings_line_chars simp: py_isdigit_def)
  have tw: "takeWhile (\<lambda>c. c \<noteq> LF \<and> c \<noteq> CR) (?l @ rest) = ?l"
    using nl assms by (cases rest) (auto simp: takeWhile_append2)
  have ne: "?l \<noteq> []" by (simp add: settings_line_def)
  show ?thesis
  proof (cases "rest = []")
    case True
    then show ?thesis
      by (simp add: readline_def Let_def takeWhile_eq_all_conv [THEN iffD2, OF nl]
          py_strip_id [OF settings_line_stripped])
  next
    case False
    then show ?thesis
      using tw py_strip_snoc_space [OF settings_line_stripped ne, of LF]
      by (simp add: readline_def py_isspace_def)
  qed
qed

lemma parse_settings_line_ok:
  "parse_settings_line (settings_line a b c d) = Some (a, b, c, d)"
proof -
  have "COMMA \<notin> set (py_str_int i)" for i
    using py_str_int_chars [of COMMA i] by (auto simp: py_isdigit_def)
  then show ?thesis
    by (simp add: parse_settings_line_def settings_line_def py_split_char_append py_split_char_none
        py_int_py_str_int)
qed

text \<open>The form the window opens with is always accepted by the first step: the
  numbers \<open>str()\<close> printed are read back by \<open>int()\<close>.\<close>

lemma run_1st_step_initial_form:
  assumes "pdf_path \<noteq> []" and "load_settings settings_file = (a, b, c, d)"
  shows "run_1st_step lib w pdf_path (initial_form settings_file) =
           run_generate lib w pdf_path 1 \<lparr>x1 = a, y1 = b, x2 = c, y2 = d\<rparr>"
proof -
  have "py_int ''1'' = Some 1" by code_simp
  then show ?thesis
    using assms by (simp add: run_1st_step_def initial_form_def py_int_py_str_int)
qed

text \<open>
  C8. A settings file whose first line is four integers separated by commas, as
  \<open>str()\<close> prints them, gives exactly those four numbers to the form, whatever
  follows on later lines; the numbers are not checked against each other, so a
  rectangle with \<open>x2 < x1\<close> is accepted as it is.
\<close>

theorem load_settings_reads_first_line:
  assumes "take 1 rest = [] \<or> take 1 rest = [LF] \<or> take 1 rest = [CR]"
  shows "load_settings (Some (settings_line a b c d @ rest)) = (a, b, c, d)"
  using assms by (simp add: load_settings_def readline_settings_line parse_settings_line_ok)

theorem load_settings_reads_first_line_witness:
  "(take 1 ''\<newline>0,0,1,1'' = [] \<or> take 1 ''\<newline>0,0,1,1'' = [LF] \<or> take 1 ''\<newline>0,0,1,1'' = [CR])
   \<and> load_settings (Some (settings_line 432 70 360 90 @ ''\<newline>0,0,1,1'')) = (432, 70, 360, 90)
   \<and> load_settings (Some ''432,70,360,90\<newline>0,0,1,1'') = (432, 70, 360, 90)
   \<and> load_settings (Some ''432;70;360;90'') = default_region"
proof -
  have h: "take 1 ''\<newline>0,0,1,1'' = [] \<or> take 1 ''\<newline>0,0,1,1'' = [LF] \<or> take 1 ''\<newline>0,0,1,1'' = [CR]"
    by simp
  have l: "settings_line 432 70 360 90 @ ''\<newline>0,0,1,1'' = ''432,70,360,90\<newline>0,0,1,1''"
    by code_simp
  have d: "load_settings (Some ''432;70;360;90'') = default_region"
    by code_simp
  show ?thesis
    using h load_settings_reads_first_line [OF h, of 432 70 360 90] l d by simp
qed

end
