(* ===== verification/DocxTables.thy ===== *)
theory DocxTables
  imports Prelude
begin

text \<open>
  \<open>src/FromDocxTableToExcelFile.py\<close>: a Word document whose pages each hold a
  title paragraph and three tables is turned into three Excel sheets.  The body of
  the document is a list of elements (\<open>list_docx_components\<close>); \<open>main\<close> walks it
  with a state of the current title, a table counter that cycles through 1, 2, 3,
  the last table 2 seen, and the three lists of sheet rows.  Table 1 gives one
  location row, each data row of table 2 a description row, and each numbered note
  of table 3 a remark row, placed at the depth of the first table-2 row whose notes
  column contains the note's number.  The regular expressions of the helpers are
  translated into scanners over the string, with Python's greedy and lazy matching
  written out; \<open>\d\<close>, \<open>\s\<close> and \<open>.\<close> on Latin-1 are \<open>py_isdigit\<close>,
  \<open>py_isspace\<close> and any character but a line feed.  Every subscript that can
  raise is a \<open>py_index\<close>; \<open>main\<close> has no \<open>try\<close>, so the first exception ends
  the run and no sheet is saved.
\<close>

section \<open>Regular expressions of the helpers\<close>

definition ascii_upper :: "char \<Rightarrow> bool" where
  "ascii_upper c \<longleftrightarrow> (let n = (of_char c :: nat) in 65 \<le> n \<and> n \<le> 90)"

text \<open>\<open>re.match(r'(\d+(\.\d+)?[A-Z]+\s\d+/\d+)\s(.+)', part)\<close>: the Munsell code
  (group 1) and the colour name (group 3).  Each greedy repetition is followed by a
  character it cannot match, so no backtracking changes the outcome.\<close>

definition munsell_match :: "string \<Rightarrow> (string \<times> string) option" where
  "munsell_match s =
     (let d1 = takeWhile py_isdigit s; r1 = drop (length d1) s;
          df = takeWhile py_isdigit (drop 1 r1);
          frac = (if take 1 r1 = ''.'' \<and> df \<noteq> [] then CHR ''.'' # df else []);
          r2 = drop (length frac) r1;
          u = takeWhile ascii_upper r2; r3 = drop (length u) r2;
          d2 = takeWhile py_isdigit (drop 1 r3); r5 = drop (length d2) (drop 1 r3);
          d3 = takeWhile py_isdigit (drop 1 r5); r7 = drop (length d3) (drop 1 r5);
          name = takeWhile (\<lambda>c. c \<noteq> CHR 0x0A) (drop 1 r7)
      in if d1 \<noteq> [] \<and> u \<noteq> [] \<and> r3 \<noteq> [] \<and> py_isspace (hd r3) \<and> d2 \<noteq> []
            \<and> take 1 r5 = ''/'' \<and> d3 \<noteq> [] \<and> r7 \<noteq> [] \<and> py_isspace (hd r7) \<and> name \<noteq> []
         then Some (d1 @ frac @ u @ hd r3 # d2 @ CHR ''/'' # d3, name)
         else None)"

text \<open>A match of \<open>\s+and\s+|\s+to\s+\<close> at the start of the string: its length.\<close>

definition conj_sep :: "string \<Rightarrow> nat option" where
  "conj_sep s =
     (let w1 = takeWhile py_isspace s; r = drop (length w1) s;
          wa = takeWhile py_isspace (drop 3 r); wt = takeWhile py_isspace (drop 2 r) in
      if w1 = [] then None
      else if take 3 r = ''and'' \<and> wa \<noteq> [] then Some (length w1 + 3 + length wa)
      else if take 2 r = ''to'' \<and> wt \<noteq> [] then Some (length w1 + 2 + length wt)
      else None)"

text \<open>\<open>re.split\<close> on that pattern: \<open>cur\<close> is the piece read since the last match;
  the search resumes after each match and moves on by one character where none
  starts.\<close>

function split_conj :: "string \<Rightarrow> string \<Rightarrow> string list" where
  "split_conj cur [] = [cur]"
| "split_conj cur (c # s) =
     (case conj_sep (c # s) of
        None \<Rightarrow> split_conj (cur @ [c]) s
      | Some k \<Rightarrow> cur # split_conj [] (drop k (c # s)))"
  by pat_completeness auto
termination
  by (relation "measure (\<lambda>(cur, s). length s)") (auto simp: conj_sep_def Let_def split: if_splits)

definition reformat_color_description :: "string \<Rightarrow> string" where
  "reformat_color_description description =
     py_join '' and ''
       (List.map_filter
          (\<lambda>part. map_option (\<lambda>(code, name). name @ '' ['' @ code @ '']'') (munsell_match part))
          (split_conj [] description))"

text \<open>\<open>\[(.*?)\]\<close> at the start of the string: the lazy group stops at the first
  \<open>]\<close>, and cannot cross a line feed.\<close>

definition legend_at :: "string \<Rightarrow> string option" where
  "legend_at s =
     (let m = takeWhile (\<lambda>c. c \<noteq> CHR '']'' \<and> c \<noteq> CHR 0x0A) (drop 1 s); rest = drop (Suc (length m)) s in
      if take 1 s = ''['' \<and> take 1 rest = '']'' then Some m else None)"

text \<open>\<open>re.search(r'\[(.*?)\]', description)\<close>, group 1, or the empty string.\<close>

fun extract_legend_code :: "string \<Rightarrow> string" where
  "extract_legend_code [] = []"
| "extract_legend_code (c # s) = (case legend_at (c # s) of Some m \<Rightarrow> m | None \<Rightarrow> extract_legend_code s)"

text \<open>\<open>re.sub(r'\[.*?\]', '', description)\<close>: every match, left to right, removed.\<close>

fun remove_legend :: "string \<Rightarrow> string" where
  "remove_legend [] = []"
| "remove_legend (c # s) =
     (case legend_at (c # s) of
        Some m \<Rightarrow> remove_legend (drop (Suc (length m)) s)
      | None \<Rightarrow> c # remove_legend s)"

definition remove_legend_code :: "string \<Rightarrow> string" where
  "remove_legend_code description = py_strip (remove_legend description)"

text \<open>A match of \<open>\(\d+\)\s*|\*\s*\<close> at the start of the string: its length.\<close>

definition note_marker :: "string \<Rightarrow> nat option" where
  "note_marker s =
     (let d = takeWhile py_isdigit (drop 1 s); r2 = drop (Suc (length d)) s in
      if take 1 s = ''('' \<and> d \<noteq> [] \<and> take 1 r2 = '')''
      then Some (length d + 2 + length (takeWhile py_isspace (drop 1 r2)))
      else if take 1 s = ''*'' then Some (1 + length (takeWhile py_isspace (drop 1 s)))
      else None)"

text \<open>\<open>re.split\<close> on that pattern with its capturing group: the separators are
  kept, between the pieces.\<close>

function split_notes :: "string \<Rightarrow> string \<Rightarrow> string list" where
  "split_notes cur [] = [cur]"
| "split_notes cur (c # s) =
     (case note_marker (c # s) of
        None \<Rightarrow> split_notes (cur @ [c]) s
      | Some k \<Rightarrow> cur # take k (c # s) # split_notes [] (drop k (c # s)))"
  by pat_completeness auto
termination
  by (relation "measure (\<lambda>(cur, s). length s)") (auto simp: note_marker_def Let_def split: if_splits)

text \<open>\<open>for i in range(1, len(split_notes), 2)\<close>: each separator, stripped, with
  itself followed by the stripped piece after it.\<close>

fun note_pairs :: "string list \<Rightarrow> (string \<times> string) list" where
  "note_pairs (sep # txt # rest) = (py_strip sep, py_strip sep @ py_strip txt) # note_pairs rest"
| "note_pairs _ = []"

definition split_notes_into_rows :: "string \<Rightarrow> (string \<times> string) list" where
  "split_notes_into_rows notes = note_pairs (drop 1 (split_notes [] notes))"

text \<open>The marker of a note: \<open>(n)\<close> for a numbered note, \<open>*\<close> for a bullet.\<close>

definition note_label :: "nat option \<Rightarrow> string" where
  "note_label k = (case k of Some n \<Rightarrow> CHR ''('' # nat_str n @ '')'' | None \<Rightarrow> ''*'')"

section \<open>Table 3: remarks\<close>

text \<open>\<open>note_number[1:2]\<close> when the marker has three characters, like \<open>(1)\<close>.\<close>

definition note_key :: "string \<Rightarrow> string" where
  "note_key note_number = (if length note_number = 3 then take 1 (drop 1 note_number) else note_number)"

text \<open>\<open>for temp_row in temp_table2[2:]: if note_number in temp_row[8]: ... break\<close>:
  the depth columns of the first row whose notes column contains the key; reading
  column 8 of a shorter row raises.\<close>

fun find_depth :: "string \<Rightarrow> string list list \<Rightarrow> (string \<times> string) option py_result" where
  "find_depth key [] = Inr None"
| "find_depth key (temp_row # rows) =
     py_bind (py_index temp_row 8)
       (\<lambda>notes. if py_contains key notes then Inr (Some (temp_row ! 0, temp_row ! 1))
                else find_depth key rows)"

text \<open>One note of table 3: its remark row.  \<open>temp_table2[2:]\<close> raises
  \<open>TypeError\<close> when no table 2 was seen (\<open>temp_table2 = None\<close>).\<close>

definition process_note ::
  "string list list option \<Rightarrow> string \<Rightarrow> string \<times> string \<Rightarrow> string list py_result" where
  "process_note temp_table2 current_title note =
     (case temp_table2 of
        None \<Rightarrow> Inl TypeError
      | Some t2 \<Rightarrow>
          py_bind (find_depth (note_key (fst note)) (drop 2 t2))
            (\<lambda>found. Inr (case found of
                            Some (depth_top, depth_base) \<Rightarrow> [current_title, depth_top, depth_base, snd note]
                          | None \<Rightarrow> [current_title, [], [], snd note])))"

definition process_row_3 ::
  "string list list option \<Rightarrow> string \<Rightarrow> string list \<Rightarrow> string list list py_result" where
  "process_row_3 temp_table2 current_title row =
     py_bind (py_index row 0)
       (\<lambda>notes. py_mapM (process_note temp_table2 current_title) (split_notes_into_rows notes))"

text \<open>\<open>process_table_3\<close>: the remarks list with the rows of every note of every data
  row of the table appended.\<close>

definition process_table_3 ::
  "string list list \<Rightarrow> string list list option \<Rightarrow> string \<Rightarrow> string list list \<Rightarrow> string list list py_result" where
  "process_table_3 table temp_table2 current_title depth_related_remarks =
     py_bind (py_mapM (process_row_3 temp_table2 current_title) (drop 1 table))
       (\<lambda>rows. Inr (depth_related_remarks @ concat rows))"

text \<open>\<open>for row in table[1:]: process_table_3(table, ...)\<close> in \<open>main\<close>: the loop
  variable is not used, the whole table is processed once per data row.\<close>

fun table_3_loop ::
  "string list list \<Rightarrow> string list list \<Rightarrow> string list list option \<Rightarrow> string \<Rightarrow> string list list
   \<Rightarrow> string list list py_result" where
  "table_3_loop [] table temp_table2 current_title remarks = Inr remarks"
| "table_3_loop (row # rows) table temp_table2 current_title remarks =
     py_bind (process_table_3 table temp_table2 current_title remarks)
       (\<lambda>remarks'. table_3_loop rows table temp_table2 current_title remarks')"

section \<open>Tables 1 and 2\<close>

text \<open>The cells of table 1 that make a location row, in the order of the list
  literal: project no., project, client, date, location, logged by, contractor,
  surface elevation, equipment, completion depth, groundwater depths and elevations,
  seasonal high groundwater depth and elevation.\<close>

definition table1_cells :: "(int \<times> int) list" where
  "table1_cells = [(0, 1), (1, 1), (2, 1), (0, 3), (1, 3), (2, 3), (3, 1), (3, 3), (4, 1), (4, 3),
                   (5, 2), (6, 2), (5, 4), (6, 4), (7, 1), (7, 3)]"

definition table_cell :: "string list list \<Rightarrow> int \<times> int \<Rightarrow> string py_result" where
  "table_cell table ij = py_bind (py_index table (fst ij)) (\<lambda>row. py_index row (snd ij))"

definition location_row :: "string \<Rightarrow> string list list \<Rightarrow> string list py_result" where
  "location_row current_title table =
     py_bind (py_mapM (table_cell table) table1_cells) (\<lambda>cells. Inr (current_title # cells))"

text \<open>The description of a row of table 2: colour, consistency, second colour,
  soil name without its legend code, structure, and the moisture with the code.\<close>

definition field_description :: "string list \<Rightarrow> string" where
  "field_description row =
     (let munsell_color = reformat_color_description (row ! 2);
          legend_code = extract_legend_code (row ! 5);
          parts = [munsell_color]
            @ (if row ! 3 \<noteq> ''-'' then [row ! 3] else [])
            @ (if row ! 4 \<noteq> ''-'' then [reformat_color_description (row ! 4)] else [])
            @ [remove_legend_code (row ! 5)]
            @ (if row ! 6 \<noteq> ''-'' then ['', '' @ py_lower (row ! 6) @ '' structure''] else [])
            @ (if row ! 7 \<noteq> ''-'' then [''('' @ py_lower (row ! 7) @ '')'' @ '' '' @ ''['' @ legend_code @ '']'']
               else [])
      in py_strip (py_join '' '' parts))"

text \<open>Every subscript of a row of table 2 is at most 7; a shorter row raises
  \<open>IndexError\<close> at its first missing cell.\<close>

definition description_row :: "string \<Rightarrow> string list \<Rightarrow> string list py_result" where
  "description_row current_title row =
     (if length row < 8 then Inl IndexError
      else Inr [current_title, row ! 0, row ! 1, field_description row, extract_legend_code (row ! 5)])"

section \<open>The document\<close>

datatype component = Paragraph string | Table "string list list"

text \<open>An element of the document body, as the XPath queries of
  \<open>list_docx_components\<close> see it: its tag, the \<open>.text\<close> of its \<open>w:t\<close>
  descendants, and, for each \<open>w:tr\<close> descendant, the \<open>.text\<close> of the \<open>w:t\<close>
  descendants of each of its \<open>w:tc\<close> descendants.  lxml gives \<open>None\<close> as the
  \<open>.text\<close> of an empty \<open><w:t/>\<close>.\<close>

record docx_element =
  tag :: string
  t_texts :: "string option list"
  tr_cells :: "string option list list list"

text \<open>\<open>''.join(...)\<close> of the texts: \<open>TypeError\<close> when one of them is \<open>None\<close>.\<close>

definition join_texts :: "string option list \<Rightarrow> string py_result" where
  "join_texts texts = (if None \<in> set texts then Inl TypeError else Inr (concat (map the texts)))"

definition component_of :: "docx_element \<Rightarrow> component option py_result" where
  "component_of element =
     (if py_endswith (tag element) ''p'' then
        py_bind (join_texts (t_texts element)) (\<lambda>para_text. Inr (Some (Paragraph (py_strip para_text))))
      else if py_endswith (tag element) ''tbl'' then
        py_bind (py_mapM (py_mapM join_texts) (tr_cells element)) (\<lambda>table. Inr (Some (Table table)))
      else Inr None)"

definition list_docx_components :: "docx_element list \<Rightarrow> component list py_result" where
  "list_docx_components body = py_bind (py_mapM component_of body) (\<lambda>cs. Inr (List.map_filter id cs))"

section \<open>The main loop\<close>

record docx_state =
  current_title :: "string option"
  location_details :: "string list list"
  field_geological_descriptions :: "string list list"
  depth_related_remarks :: "string list list"
  table_counter :: nat
  temp_table2 :: "string list list option"

definition docx_init :: docx_state where
  "docx_init = \<lparr>current_title = None, location_details = [], field_geological_descriptions = [],
                depth_related_remarks = [], table_counter = 0, temp_table2 = None\<rparr>"

text \<open>One iteration of \<open>for component in components\<close>.  A table is used only
  under a title (\<open>current_title\<close> is truthy); the counter is incremented first and
  selects the table's kind; after table 3 it is reset.\<close>

definition docx_step :: "docx_state \<Rightarrow> component \<Rightarrow> docx_state py_result" where
  "docx_step st component =
     (case component of
        Paragraph text \<Rightarrow> Inr (if 1 < length text then st\<lparr>current_title := Some text\<rparr> else st)
      | Table table \<Rightarrow>
          (case current_title st of
             None \<Rightarrow> Inr st
           | Some title \<Rightarrow>
               if title = [] then Inr st
               else
                 (let n = Suc (table_counter st); st1 = st\<lparr>table_counter := n\<rparr> in
                  if n = 1 then
                    py_bind (location_row title table)
                      (\<lambda>row. Inr (st1\<lparr>location_details := location_details st1 @ [row]\<rparr>))
                  else if n = 2 then
                    py_bind (py_mapM (description_row title) (drop 2 table))
                      (\<lambda>rows. Inr (st1\<lparr>temp_table2 := Some table,
                        field_geological_descriptions := field_geological_descriptions st1 @ rows\<rparr>))
                  else if n = 3 then
                    py_bind (table_3_loop (drop 1 table) table (temp_table2 st1) title
                               (depth_related_remarks st1))
                      (\<lambda>remarks. Inr (st1\<lparr>depth_related_remarks := remarks, table_counter := 0\<rparr>))
                  else Inr st1)))"

fun docx_loop :: "docx_state \<Rightarrow> component list \<Rightarrow> docx_state py_result" where
  "docx_loop st [] = Inr st"
| "docx_loop st (c # cs) = py_bind (docx_step st c) (\<lambda>st'. docx_loop st' cs)"

text \<open>The states the loop reaches from its initial state.\<close>

inductive docx_reach :: "docx_state \<Rightarrow> bool" where
  reach_init: "docx_reach docx_init"
| reach_step: "docx_reach st \<Longrightarrow> docx_step st c = Inr st' \<Longrightarrow> docx_reach st'"

section \<open>The sheets\<close>

record sheet =
  sheet_title :: string
  sheet_rows :: "string list list"

definition location_headers :: "string list" where
  "location_headers =
     [''Location ID'', ''Project No.'', ''Project'', ''Client'', ''Date'', ''Location'', ''Logged By'',
      ''Excavation Contractor'', ''Surface Elevation'', ''Excavation Equipment'', ''Completion Depth'',
      ''Groundwater Depth First Encountered'', ''Groundwater Depth End of Excavation'',
      ''Groundwater Elevation First Encountered'', ''Groundwater Elevation End of Excavation'',
      ''Seasonal High Groundwater Depth'', ''SHGW Elevation'']"

definition write_location_details_to_excel :: "string list list \<Rightarrow> sheet" where
  "write_location_details_to_excel data =
     \<lparr>sheet_title = ''Location Details'', sheet_rows = location_headers # data\<rparr>"

definition write_field_geological_descriptions_to_excel :: "string list list \<Rightarrow> sheet" where
  "write_field_geological_descriptions_to_excel data =
     \<lparr>sheet_title = ''Field Geological Descriptions'',
      sheet_rows = [''Location ID'', ''Depth Top'', ''Depth Base'', ''Description'', ''Legend Code''] # data\<rparr>"

definition write_depth_related_remarks_to_excel :: "string list list \<Rightarrow> sheet" where
  "write_depth_related_remarks_to_excel data =
     \<lparr>sheet_title = ''Depth Related Remarks'',
      sheet_rows = [''Location ID'', ''Depth Top'', ''Depth Base'', ''Remarks''] # data\<rparr>"

text \<open>\<open>main\<close>: the three workbooks saved, by file name, or the exception that
  ended the run before any was saved.\<close>

definition docx_main :: "docx_element list \<Rightarrow> (string \<times> sheet) list py_result" where
  "docx_main body =
     py_bind (list_docx_components body) (\<lambda>components. py_bind (docx_loop docx_init components)
       (\<lambda>st. Inr [(''Location_Detail.xlsx'', write_location_details_to_excel (location_details st)),
                  (''Field_Geological_Descriptions.xlsx'',
                     write_field_geological_descriptions_to_excel (field_geological_descriptions st)),
                  (''Depth_Related_Remarks.xlsx'', write_depth_related_remarks_to_excel (depth_related_remarks st))]))"

section \<open>Invariants of the state\<close>

text \<open>Between two components the counter is 0, 1 or 2, and when it is 2 a table 2
  has been stored.\<close>

definition counter_ok :: "docx_state \<Rightarrow> bool" where
  "counter_ok st \<longleftrightarrow> table_counter st \<le> 2 \<and> (table_counter st = 2 \<longrightarrow> temp_table2 st \<noteq> None)"

text \<open>Every row of the three sheets has its header's width: the location rows
  one cell per header, the descriptions five cells and the remarks four.\<close>

definition rows_ok :: "docx_state \<Rightarrow> bool" where
  "rows_ok st \<longleftrightarrow>
     list_all (\<lambda>r. length r = length location_headers) (location_details st)
     \<and> list_all (\<lambda>r. length r = 5) (field_geological_descriptions st)
     \<and> list_all (\<lambda>r. length r = 4) (depth_related_remarks st)"

definition sheet_rectangular :: "sheet \<Rightarrow> bool" where
  "sheet_rectangular s \<longleftrightarrow> list_all (\<lambda>r. length r = length (hd (sheet_rows s))) (sheet_rows s)"

text \<open>An element whose texts \<open>list_docx_components\<close> joins holds an empty
  \<open>w:t\<close>.\<close>

definition has_empty_w_t :: "docx_element \<Rightarrow> bool" where
  "has_empty_w_t element \<longleftrightarrow>
     (if py_endswith (tag element) ''p'' then None \<in> set (t_texts element)
      else py_endswith (tag element) ''tbl'' \<and> None \<in> set (concat (concat (tr_cells element))))"

section \<open>Fixtures\<close>

text \<open>A document body with a title paragraph and a table 1 of eight rows.\<close>

definition docx_fixture_body :: "docx_element list" where
  "docx_fixture_body =
     [\<lparr>tag = ''w:p'', t_texts = [Some ''TP-1''], tr_cells = []\<rparr>,
      \<lparr>tag = ''w:tbl'', t_texts = [], tr_cells = [[[Some ''r0c0''], [Some ''r0c1''], [Some ''r0c2''], [Some ''r0c3''], [Some ''r0c4'']], [[Some ''r1c0''], [Some ''r1c1''], [Some ''r1c2''], [Some ''r1c3''], [Some ''r1c4'']], [[Some ''r2c0''], [Some ''r2c1''], [Some ''r2c2''], [Some ''r2c3''], [Some ''r2c4'']], [[Some ''r3c0''], [Some ''r3c1''], [Some ''r3c2''], [Some ''r3c3''], [Some ''r3c4'']], [[Some ''r4c0''], [Some ''r4c1''], [Some ''r4c2''], [Some ''r4c3''], [Some ''r4c4'']], [[Some ''r5c0''], [Some ''r5c1''], [Some ''r5c2''], [Some ''r5c3''], [Some ''r5c4'']], [[Some ''r6c0''], [Some ''r6c1''], [Some ''r6c2''], [Some ''r6c3''], [Some ''r6c4'']], [[Some ''r7c0''], [Some ''r7c1''], [Some ''r7c2''], [Some ''r7c3''], [Some ''r7c4'']]]\<rparr>]"

section \<open>Lemmas\<close>

subsection \<open>Which exceptions a step raises\<close>

lemma find_depth_not_TypeError: "find_depth key rows \<noteq> Inl TypeError"
  by (induction rows) (auto simp: py_bind_eq_Inl py_index_def Let_def split: if_splits)

lemma process_table_3_not_TypeError:
  "process_table_3 table (Some t2) title remarks \<noteq> Inl TypeError"
proof -
  have "process_note (Some t2) title nt \<noteq> Inl TypeError" for nt
    using find_depth_not_TypeError by (auto simp: process_note_def py_bind_eq_Inl)
  then have "py_mapM (process_note (Some t2) title) ns \<noteq> Inl TypeError" for ns
    by (rule py_mapM_not_Inl)
  then have "process_row_3 (Some t2) title row \<noteq> Inl TypeError" for row
    by (auto simp: process_row_3_def py_bind_eq_Inl py_index_def Let_def split: if_splits)
  then have "py_mapM (process_row_3 (Some t2) title) (drop 1 table) \<noteq> Inl TypeError"
    by (rule py_mapM_not_Inl)
  then show ?thesis
    by (auto simp: process_table_3_def py_bind_eq_Inl)
qed

lemma table_3_loop_not_TypeError:
  "table_3_loop rows table (Some t2) title remarks \<noteq> Inl TypeError"
  by (induction rows arbitrary: remarks)
    (auto simp: py_bind_eq_Inl dest: process_table_3_not_TypeError [THEN notE])

lemma location_row_not_TypeError: "location_row title table \<noteq> Inl TypeError"
proof -
  have "table_cell table ij \<noteq> Inl TypeError" for ij
    by (auto simp: table_cell_def py_bind_eq_Inl py_index_def Let_def split: if_splits)
  then have "py_mapM (table_cell table) table1_cells \<noteq> Inl TypeError"
    by (rule py_mapM_not_Inl)
  then show ?thesis
    by (auto simp: location_row_def py_bind_eq_Inl)
qed

lemma description_rows_not_TypeError: "py_mapM (description_row title) rows \<noteq> Inl TypeError"
  by (rule py_mapM_not_Inl) (simp add: description_row_def)

subsection \<open>Reading the document\<close>

lemma join_texts_Inl: "join_texts ts = Inl e \<longleftrightarrow> e = TypeError \<and> None \<in> set ts"
  by (auto simp: join_texts_def)

lemma rows_join_Inl:
  "py_mapM (py_mapM join_texts) rows = Inl e \<longleftrightarrow> e = TypeError \<and> None \<in> set (concat (concat rows))"
proof -
  have row: "py_mapM join_texts r = Inl e \<longleftrightarrow> e = TypeError \<and> None \<in> set (concat r)" for r e
    by (subst py_mapM_Inl_iff [of _ _ TypeError]) (auto simp: join_texts_Inl)
  show ?thesis
    by (subst py_mapM_Inl_iff [of _ _ TypeError]) (auto simp: row)
qed

lemma component_of_Inl: "component_of element = Inl e \<longleftrightarrow> e = TypeError \<and> has_empty_w_t element"
  by (auto simp: component_of_def has_empty_w_t_def py_bind_eq_Inl join_texts_Inl rows_join_Inl)

lemma list_docx_components_Inl:
  "list_docx_components body = Inl e \<longleftrightarrow> e = TypeError \<and> list_ex has_empty_w_t body"
proof -
  have "py_mapM component_of body = Inl e \<longleftrightarrow> e = TypeError \<and> (\<exists>x\<in>set body. has_empty_w_t x)"
    by (subst py_mapM_Inl_iff [of _ _ TypeError]) (auto simp: component_of_Inl)
  then show ?thesis by (simp add: list_docx_components_def py_bind_eq_Inl list_ex_iff)
qed

subsection \<open>The invariant of the table counter\<close>

lemma docx_step_counter_ok:
  "docx_step st c = Inr st' \<Longrightarrow> counter_ok st \<Longrightarrow> counter_ok st'"
  by (auto simp: docx_step_def counter_ok_def Let_def py_bind_def
      split: component.splits option.splits if_splits sum.splits)

lemma docx_reach_counter_ok: "docx_reach st \<Longrightarrow> counter_ok st"
proof (induction rule: docx_reach.induct)
  case reach_init
  then show ?case by (simp add: docx_init_def counter_ok_def)
next
  case (reach_step st c st')
  then show ?case by (blast intro: docx_step_counter_ok)
qed

lemma docx_step_not_TypeError:
  "counter_ok st \<Longrightarrow> docx_step st c \<noteq> Inl TypeError"
  by (auto simp: docx_step_def counter_ok_def Let_def py_bind_eq_Inl location_row_not_TypeError
      description_rows_not_TypeError table_3_loop_not_TypeError
      split: component.splits option.splits if_splits)

lemma docx_loop_not_TypeError:
  "docx_reach st \<Longrightarrow> docx_loop st cs \<noteq> Inl TypeError"
proof (induction cs arbitrary: st)
  case (Cons c cs)
  show ?case
  proof (cases "docx_step st c")
    case (Inl e)
    then show ?thesis
      using docx_step_not_TypeError [OF docx_reach_counter_ok [OF Cons.prems], of c] by simp
  next
    case (Inr st')
    then show ?thesis using Cons.IH [OF reach_step [OF Cons.prems Inr]] by simp
  qed
qed simp

subsection \<open>The width of the rows\<close>

lemma location_row_length:
  "location_row title table = Inr r \<Longrightarrow> length r = length location_headers"
  by (auto simp: location_row_def py_bind_def py_mapM_Inr table1_cells_def location_headers_def
      dest: list_all2_lengthD split: sum.splits)

lemma description_rows_length:
  "py_mapM (description_row title) rows = Inr rs \<Longrightarrow> list_all (\<lambda>r. length r = 5) rs"
  unfolding py_mapM_Inr
  by (induction rule: list_all2_induct) (auto simp: description_row_def split: if_splits)

lemma process_note_length: "process_note t2 title note = Inr r \<Longrightarrow> length r = 4"
  by (auto simp: process_note_def py_bind_def split: option.splits sum.splits)

lemma process_table_3_length:
  "process_table_3 table t2 title remarks = Inr remarks' \<Longrightarrow> list_all (\<lambda>r. length r = 4) remarks \<Longrightarrow>
   list_all (\<lambda>r. length r = 4) remarks'"
proof -
  assume p: "process_table_3 table t2 title remarks = Inr remarks'" and l: "list_all (\<lambda>r. length r = 4) remarks"
  obtain rows where m: "py_mapM (process_row_3 t2 title) (drop 1 table) = Inr rows"
    and r: "remarks' = remarks @ concat rows"
    using p by (auto simp: process_table_3_def py_bind_def split: sum.splits)
  have "list_all2 (\<lambda>x y. process_row_3 t2 title x = Inr y) (drop 1 table) rows" using m by (simp add: py_mapM_Inr)
  then have "list_all (\<lambda>r. length r = 4) (concat rows)"
  proof (induction rule: list_all2_induct)
    case (Cons x xs y ys)
    then obtain ns where "py_mapM (process_note t2 title) (split_notes_into_rows ns) = Inr y"
      by (auto simp: process_row_3_def py_bind_def split: sum.splits)
    then have "list_all (\<lambda>r. length r = 4) y"
      unfolding py_mapM_Inr by (induction rule: list_all2_induct) (auto dest: process_note_length)
    then show ?case using Cons.IH by simp
  qed simp
  then show ?thesis using l r by simp
qed

lemma table_3_loop_length:
  "table_3_loop rows table t2 title remarks = Inr remarks' \<Longrightarrow> list_all (\<lambda>r. length r = 4) remarks \<Longrightarrow>
   list_all (\<lambda>r. length r = 4) remarks'"
  by (induction rows arbitrary: remarks)
    (auto simp: py_bind_def split: sum.splits dest!: process_table_3_length)

lemma docx_step_rows_ok:
  "docx_step st c = Inr st' \<Longrightarrow> rows_ok st \<Longrightarrow> rows_ok st'"
  by (auto simp: docx_step_def rows_ok_def Let_def py_bind_def
      dest: location_row_length description_rows_length table_3_loop_length
      split: component.splits option.splits if_splits sum.splits)

lemma docx_reach_rows_ok: "docx_reach st \<Longrightarrow> rows_ok st"
proof (induction rule: docx_reach.induct)
  case reach_init
  then show ?case by (simp add: docx_init_def rows_ok_def)
next
  case (reach_step st c st')
  then show ?case by (blast intro: docx_step_rows_ok)
qed

lemma docx_loop_reach:
  "docx_reach st \<Longrightarrow> docx_loop st cs = Inr st' \<Longrightarrow> docx_reach st'"
  by (induction cs arbitrary: st) (auto simp: py_bind_def intro: reach_step split: sum.splits)

subsection \<open>Table 3 is processed once per data row\<close>

lemma process_table_3_append:
  "process_table_3 table t2 title remarks =
     py_bind (process_table_3 table t2 title []) (\<lambda>r. Inr (remarks @ r))"
  by (simp add: process_table_3_def py_bind_def split: sum.splits)

lemma table_3_loop_replicate:
  "process_table_3 table t2 title [] = Inr r \<Longrightarrow>
   table_3_loop rows table t2 title remarks = Inr (remarks @ concat (replicate (length rows) r))"
proof (induction rows arbitrary: remarks)
  case (Cons row rows)
  then show ?case
    by (simp add: process_table_3_append [of table t2 title remarks])
qed simp

subsection \<open>Splitting the notes\<close>

lemma split_notes_concat: "concat (split_notes cur s) = cur @ s"
proof (induction cur s rule: split_notes.induct)
  case (2 cur c s)
  then show ?case
    by (cases "note_marker (c # s)") (simp_all del: append_take_drop_id,
        metis append_take_drop_id)
qed simp

lemma split_notes_odd: "odd (length (split_notes cur s))"
  by (induction cur s rule: split_notes.induct) (simp_all split: option.splits)

lemma note_pairs_length: "even (length xs) \<Longrightarrow> 2 * length (note_pairs xs) = length xs"
  by (induction xs rule: note_pairs.induct) auto

lemma note_marker_plain: "c \<noteq> CHR ''('' \<Longrightarrow> c \<noteq> CHR ''*'' \<Longrightarrow> note_marker (c # s) = None"
  by (simp add: note_marker_def Let_def)

lemma split_notes_plain:
  "CHR ''('' \<notin> set t \<Longrightarrow> CHR ''*'' \<notin> set t \<Longrightarrow> split_notes cur (t @ s) = split_notes (cur @ t) s"
  by (induction t arbitrary: cur) (auto simp: note_marker_plain)

lemma note_marker_label:
  "note_marker (note_label k @ t) = Some (length (note_label k) + length (takeWhile py_isspace t))"
proof (cases k)
  case (Some n)
  have "takeWhile py_isdigit (nat_str n @ CHR '')'' # t) = nat_str n @ takeWhile py_isdigit (CHR '')'' # t)"
    by (rule takeWhile_append2) (rule nat_str_digits)
  moreover have "\<not> py_isdigit (CHR '')'')" by (simp add: py_isdigit_def)
  ultimately have "takeWhile py_isdigit (nat_str n @ CHR '')'' # t) = nat_str n" by simp
  then show ?thesis using Some nat_str_ne [of n] by (simp add: note_marker_def note_label_def Let_def)
qed (simp add: note_marker_def note_label_def Let_def)

lemma takeWhile_space_label: "takeWhile py_isspace (note_label k @ t) = []"
  by (cases k) (simp_all add: note_label_def py_isspace_def)

lemma split_notes_label:
  assumes "CHR ''('' \<notin> set t" and "CHR ''*'' \<notin> set t" and "takeWhile py_isspace s = []"
  shows "split_notes cur (note_label k @ t @ s) =
           cur # (note_label k @ takeWhile py_isspace t) # split_notes (dropWhile py_isspace t) s"
proof -
  obtain c r where cr: "note_label k @ t @ s = c # r"
    by (cases k) (auto simp: note_label_def)
  have tw: "takeWhile py_isspace (t @ s) = takeWhile py_isspace t"
  proof (cases "\<forall>x\<in>set t. py_isspace x")
    case True
    then have "takeWhile py_isspace t = t" by (rule takeWhile_eq_all_conv [THEN iffD2])
    moreover have "takeWhile py_isspace (t @ s) = t @ takeWhile py_isspace s"
      by (rule takeWhile_append2) (use True in auto)
    ultimately show ?thesis by (simp only: assms(3) append_Nil2)
  next
    case False
    then obtain x where "x \<in> set t" "\<not> py_isspace x" by blast
    then show ?thesis by (rule takeWhile_append1)
  qed
  have nm: "note_marker (c # r) = Some (length (note_label k) + length (takeWhile py_isspace t))"
    using note_marker_label [of k "t @ s"] cr tw by simp
  have "c # r = note_label k @ takeWhile py_isspace t @ dropWhile py_isspace t @ s"
    using cr takeWhile_dropWhile_id [of py_isspace t] by (metis append_assoc)
  then have tk: "take (length (note_label k) + length (takeWhile py_isspace t)) (c # r) = note_label k @ takeWhile py_isspace t"
    and dr: "drop (length (note_label k) + length (takeWhile py_isspace t)) (c # r) = dropWhile py_isspace t @ s"
    by simp_all
  have "CHR ''('' \<notin> set (dropWhile py_isspace t)" "CHR ''*'' \<notin> set (dropWhile py_isspace t)"
    using assms(1,2) by (auto dest: set_dropWhileD)
  then show ?thesis
    using cr nm tk dr split_notes_plain [of "dropWhile py_isspace t" "[]" s] by simp
qed

lemma split_notes_labels:
  "\<forall>(k, t) \<in> set items. CHR ''('' \<notin> set t \<and> CHR ''*'' \<notin> set t \<Longrightarrow>
   split_notes cur (concat (map (\<lambda>(k, t). note_label k @ t) items)) =
     cur # concat (map (\<lambda>(k, t). [note_label k @ takeWhile py_isspace t, dropWhile py_isspace t]) items)"
proof (induction items arbitrary: cur)
  case (Cons item items)
  obtain k t where item: "item = (k, t)" by fastforce
  have s: "takeWhile py_isspace (concat (map (\<lambda>(k, t). note_label k @ t) items)) = []"
    by (cases items) (auto simp: takeWhile_space_label)
  show ?case
    using Cons split_notes_label [of t "concat (map (\<lambda>(k, t). note_label k @ t) items)" cur k, OF _ _ s]
    by (simp add: item)
qed simp

lemma note_pairs_concat:
  "note_pairs (concat (map (\<lambda>x. [a x, b x]) xs)) = map (\<lambda>x. (py_strip (a x), py_strip (a x) @ py_strip (b x))) xs"
  by (induction xs) simp_all

lemma py_strip_dropWhile: "py_strip (dropWhile py_isspace t) = py_strip t"
  by (simp add: py_strip_def py_lstrip_def)

lemma py_strip_append_spaces:
  assumes "stripped s" and "s \<noteq> []" and "\<forall>c\<in>set ws. py_isspace c"
  shows "py_strip (s @ ws) = s"
proof -
  have "\<not> py_isspace (hd s)" "\<not> py_isspace (last s)" using assms(1,2) by (simp_all add: stripped_iff)
  then have "py_lstrip (s @ ws) = s @ ws" and "dropWhile py_isspace (rev s) = rev s"
    using assms(2) by (cases s, simp_all add: py_lstrip_def dropWhile_id_if_hd hd_rev)
  moreover have "dropWhile py_isspace (rev ws @ rev s) = dropWhile py_isspace (rev s)"
    by (rule dropWhile_append2) (use assms(3) in auto)
  ultimately show ?thesis by (simp add: py_strip_def py_rstrip_def)
qed

lemma py_strip_label: "py_strip (note_label k @ takeWhile py_isspace t) = note_label k"
proof -
  have "stripped (note_label k)" "note_label k \<noteq> []"
    by (cases k, simp_all add: note_label_def stripped_iff py_isspace_def)+
  then show ?thesis by (rule py_strip_append_spaces) (auto dest: set_takeWhileD)
qed

subsection \<open>Legend codes\<close>

lemma legend_at_other: "take 1 s \<noteq> ''['' \<Longrightarrow> legend_at s = None"
  by (simp add: legend_at_def Let_def)

lemma legend_at_code:
  assumes "CHR '']'' \<notin> set m" and "CHR 0x0A \<notin> set m"
  shows "legend_at (CHR ''['' # m @ CHR '']'' # b) = Some m"
proof -
  have "takeWhile (\<lambda>c. c \<noteq> CHR '']'' \<and> c \<noteq> CHR 0x0A) (m @ CHR '']'' # b) = m"
    using assms by (induction m) auto
  then show ?thesis by (simp add: legend_at_def Let_def)
qed

lemma extract_legend_code_skip:
  "CHR ''['' \<notin> set a \<Longrightarrow> extract_legend_code (a @ t) = extract_legend_code t"
  by (induction a) (auto simp: legend_at_other)

lemma remove_legend_skip:
  "CHR ''['' \<notin> set a \<Longrightarrow> remove_legend (a @ t) = a @ remove_legend t"
  by (induction a) (auto simp: legend_at_other)

subsection \<open>The depth of a note\<close>

lemma find_depth_find:
  "(\<And>r. r \<in> set rows \<Longrightarrow> 9 \<le> length r) \<Longrightarrow>
   find_depth key rows = Inr (map_option (\<lambda>r. (r ! 0, r ! 1)) (find (\<lambda>r. py_contains key (r ! 8)) rows))"
proof (induction rows)
  case (Cons a rows)
  have a: "9 \<le> length a" by (rule Cons.prems) simp
  have ih: "find_depth key rows =
      Inr (map_option (\<lambda>r. (r ! 0, r ! 1)) (find (\<lambda>r. py_contains key (r ! 8)) rows))"
    by (rule Cons.IH) (rule Cons.prems, simp)
  show ?case using a ih by (simp add: py_index_def)
qed simp

section \<open>Properties\<close>

text \<open>
  C14. \<open>main\<close> raises \<open>TypeError\<close> exactly when some paragraph or table of
  the document holds an empty \<open>w:t\<close> element: its \<open>.text\<close> is \<open>None\<close> and
  \<open>''.join\<close> (lines 40 and 47) raises.  The loop itself never raises it: a table
  is taken as table 3 only when the counter was 2, which only table 2 sets after
  storing itself in \<open>temp_table2\<close> (rule induction over the reachable states).
\<close>

theorem docx_main_TypeError_iff: "docx_main body = Inl TypeError \<longleftrightarrow> list_ex has_empty_w_t body"
proof -
  have "docx_loop docx_init cs \<noteq> Inl TypeError" for cs
    by (rule docx_loop_not_TypeError [OF reach_init])
  then show ?thesis
    by (auto simp: docx_main_def py_bind_eq_Inl list_docx_components_Inl)
qed

theorem docx_main_TypeError_iff_witness:
  "list_ex has_empty_w_t [\<lparr>tag = ''w:p'', t_texts = [Some ''TP-1''], tr_cells = []\<rparr>,
                           \<lparr>tag = ''w:p'', t_texts = [Some ''Notes'', None], tr_cells = []\<rparr>]
   \<and> docx_main [\<lparr>tag = ''w:p'', t_texts = [Some ''TP-1''], tr_cells = []\<rparr>,
                 \<lparr>tag = ''w:p'', t_texts = [Some ''Notes'', None], tr_cells = []\<rparr>] = Inl TypeError"
proof -
  have h: "list_ex has_empty_w_t [\<lparr>tag = ''w:p'', t_texts = [Some ''TP-1''], tr_cells = []\<rparr>,
                                  \<lparr>tag = ''w:p'', t_texts = [Some ''Notes'', None], tr_cells = []\<rparr>]"
    by code_simp
  show ?thesis using h docx_main_TypeError_iff [of "[\<lparr>tag = ''w:p'', t_texts = [Some ''TP-1''], tr_cells = []\<rparr>,
      \<lparr>tag = ''w:p'', t_texts = [Some ''Notes'', None], tr_cells = []\<rparr>]"] by simp
qed

text \<open>
  C15. Table 3 is processed once per data row: when a page's table 3 has \<open>n\<close> rows
  after its header, its remarks are appended \<open>n\<close> times over, and a table 3 with
  only a header row gives no remark at all.
\<close>

theorem docx_table_3_remarks_repeated:
  assumes "table_counter st = 2" and "current_title st = Some title" and "title \<noteq> []"
    and "temp_table2 st = Some t2"
    and "process_table_3 t3 (Some t2) title [] = Inr r"
  shows "docx_step st (Table t3) =
           Inr (st\<lparr>depth_related_remarks := depth_related_remarks st @ concat (replicate (length t3 - 1) r),
                   table_counter := 0\<rparr>)"
  using assms table_3_loop_replicate [OF assms(5), of "drop 1 t3"]
  by (simp add: docx_step_def)

theorem docx_table_3_remarks_repeated_witness:
  "table_counter (docx_init\<lparr>current_title := Some ''TP-1'', table_counter := 2,
       temp_table2 := Some [[''h''], [''h'']]\<rparr>) = 2
   \<and> current_title (docx_init\<lparr>current_title := Some ''TP-1'', table_counter := 2,
       temp_table2 := Some [[''h''], [''h'']]\<rparr>) = Some ''TP-1'' \<and> ''TP-1'' \<noteq> []
   \<and> temp_table2 (docx_init\<lparr>current_title := Some ''TP-1'', table_counter := 2,
       temp_table2 := Some [[''h''], [''h'']]\<rparr>) = Some [[''h''], [''h'']]
   \<and> process_table_3 [[''Remarks''], [''(1) Water''], [''* Caved'']] (Some [[''h''], [''h'']]) ''TP-1'' [] =
       Inr [[''TP-1'', [], [], ''(1)Water''], [''TP-1'', [], [], ''*Caved'']]
   \<and> docx_step (docx_init\<lparr>current_title := Some ''TP-1'', table_counter := 2,
       temp_table2 := Some [[''h''], [''h'']]\<rparr>) (Table [[''Remarks''], [''(1) Water''], [''* Caved'']]) =
       Inr (docx_init\<lparr>current_title := Some ''TP-1'', table_counter := 0, temp_table2 := Some [[''h''], [''h'']],
         depth_related_remarks := [[''TP-1'', [], [], ''(1)Water''], [''TP-1'', [], [], ''*Caved''],
                                   [''TP-1'', [], [], ''(1)Water''], [''TP-1'', [], [], ''*Caved'']]\<rparr>)"
proof -
  have p: "process_table_3 [[''Remarks''], [''(1) Water''], [''* Caved'']] (Some [[''h''], [''h'']]) ''TP-1'' [] =
       Inr [[''TP-1'', [], [], ''(1)Water''], [''TP-1'', [], [], ''*Caved'']]"
    by code_simp
  show ?thesis
    using docx_table_3_remarks_repeated [of "docx_init\<lparr>current_title := Some ''TP-1'', table_counter := 2,
       temp_table2 := Some [[''h''], [''h'']]\<rparr>", OF _ _ _ _ p] p
    by (simp add: docx_init_def)
qed

text \<open>
  C16. \<open>split_notes_into_rows\<close> gives back the notes it was given: a text that
  is any preamble without \<open>(\<close> or \<open>*\<close>, followed by notes each made of a
  marker \<open>(n)\<close> or \<open>*\<close> and a text without \<open>(\<close> or \<open>*\<close>, is split
  into one pair per note, in order: the marker, and the marker followed by the
  stripped text.  The preamble before the first marker gives no pair.
\<close>

theorem split_notes_into_rows_labels:
  assumes "CHR ''('' \<notin> set pre" and "CHR ''*'' \<notin> set pre"
    and "\<forall>(k, t) \<in> set items. CHR ''('' \<notin> set t \<and> CHR ''*'' \<notin> set t"
  shows "split_notes_into_rows (pre @ concat (map (\<lambda>(k, t). note_label k @ t) items)) =
           map (\<lambda>(k, t). (note_label k, note_label k @ py_strip t)) items"
proof -
  have "split_notes [] (pre @ concat (map (\<lambda>(k, t). note_label k @ t) items)) =
          pre # concat (map (\<lambda>(k, t). [note_label k @ takeWhile py_isspace t, dropWhile py_isspace t]) items)"
    using split_notes_plain [OF assms(1,2), of "[]"] split_notes_labels [OF assms(3), of pre] by simp
  then show ?thesis
    using note_pairs_concat [of "\<lambda>(k, t). note_label k @ takeWhile py_isspace t" "\<lambda>(k, t). dropWhile py_isspace t" items]
    by (simp add: split_notes_into_rows_def split_def py_strip_label py_strip_dropWhile)
qed

theorem split_notes_into_rows_labels_witness:
  "CHR ''('' \<notin> set ''Notes: '' \<and> CHR ''*'' \<notin> set ''Notes: ''
   \<and> list_all (\<lambda>(k, t). CHR ''('' \<notin> set t \<and> CHR ''*'' \<notin> set t)
         [(Some 12, '' Water at 2 m ''), (None, ''Caved'')]
   \<and> split_notes_into_rows ''Notes: (12) Water at 2 m *Caved'' = [(''(12)'', ''(12)Water at 2 m''), (''*'', ''*Caved'')]"
proof -
  have s: "''Notes: '' @ concat (map (\<lambda>(k, t). note_label k @ t) [(Some 12, '' Water at 2 m ''), (None, ''Caved'')]) =
      ''Notes: (12) Water at 2 m *Caved''"
    and m: "map (\<lambda>(k, t). (note_label k, note_label k @ py_strip t)) [(Some 12, '' Water at 2 m ''), (None, ''Caved'')] =
      [(''(12)'', ''(12)Water at 2 m''), (''*'', ''*Caved'')]"
    by code_simp+
  have h: "CHR ''('' \<notin> set ''Notes: ''" "CHR ''*'' \<notin> set ''Notes: ''"
    "\<forall>(k, t) \<in> set [(Some 12, '' Water at 2 m ''), (None, ''Caved'')]. CHR ''('' \<notin> set t \<and> CHR ''*'' \<notin> set t"
    by simp_all
  show ?thesis
    using h split_notes_into_rows_labels [OF h] unfolding s m by (simp add: list_all_iff)
qed

text \<open>
  C17. A description holding one legend code \<open>[m]\<close> (no line break inside it, no
  \<open>[\<close> before it) yields \<open>m\<close> as its legend code, and, with no \<open>[\<close> after it,
  the description without the code, stripped.
\<close>

theorem legend_code_single:
  assumes "CHR ''['' \<notin> set a" and "CHR '']'' \<notin> set m" and "CHR 0x0A \<notin> set m"
    and "CHR ''['' \<notin> set b"
  shows "extract_legend_code (a @ CHR ''['' # m @ CHR '']'' # b) = m
       \<and> remove_legend_code (a @ CHR ''['' # m @ CHR '']'' # b) = py_strip (a @ b)"
proof -
  have "remove_legend b = b"
    using remove_legend_skip [OF assms(4), of "[]"] by simp
  then show ?thesis
    using assms
    by (simp add: extract_legend_code_skip remove_legend_skip remove_legend_code_def legend_at_code)
qed

theorem legend_code_single_witness:
  "CHR ''['' \<notin> set ''Silty sand '' \<and> CHR '']'' \<notin> set ''SM'' \<and> CHR 0x0A \<notin> set ''SM''
   \<and> CHR ''['' \<notin> set '' (moist)''
   \<and> extract_legend_code ''Silty sand [SM] (moist)'' = ''SM''
   \<and> remove_legend_code ''Silty sand [SM] (moist)'' = ''Silty sand  (moist)''"
proof -
  have h: "CHR ''['' \<notin> set ''Silty sand ''" "CHR '']'' \<notin> set ''SM''" "CHR 0x0A \<notin> set ''SM''"
    "CHR ''['' \<notin> set '' (moist)''"
    by simp_all
  have s: "py_strip (''Silty sand '' @ '' (moist)'') = ''Silty sand  (moist)''"
    by code_simp
  show ?thesis
    using legend_code_single [OF h] h s by simp
qed

text \<open>
  C18. When every data row of table 2 has its notes column, a note of table 3 gets
  the depths of the first data row whose notes column contains the note's key as a
  substring (the digit alone for a marker like \<open>(1)\<close>), and empty depths when
  there is none.  A substring is not a number: with notes numbered from 10 on, the
  note \<open>(1)\<close> takes the depths of the row of note \<open>(10)\<close> when that row comes
  first.
\<close>

theorem process_note_first_match:
  assumes "\<And>r. r \<in> set (drop 2 t2) \<Longrightarrow> 9 \<le> length r"
  shows "process_note (Some t2) title (marker, txt) =
           Inr (case find (\<lambda>r. py_contains (note_key marker) (r ! 8)) (drop 2 t2) of
                  Some r \<Rightarrow> [title, r ! 0, r ! 1, txt]
                | None \<Rightarrow> [title, [], [], txt])"
  using find_depth_find [OF assms, where key = "note_key marker"]
  by (simp add: process_note_def split: option.splits)

theorem process_note_first_match_witness:
  "list_all (\<lambda>r. 9 \<le> length r) (drop 2 [[''h''], [''h''], [''0'', ''1'', [], [], [], [], [], [], ''(10)''],
                                   [''5'', ''6'', [], [], [], [], [], [], ''(1)'']])
   \<and> process_note (Some [[''h''], [''h''], [''0'', ''1'', [], [], [], [], [], [], ''(10)''],
                           [''5'', ''6'', [], [], [], [], [], [], ''(1)'']])
       ''TP-1'' (''(1)'', ''(1)Water'') = Inr [''TP-1'', ''0'', ''1'', ''(1)Water'']"
proof -
  let ?t2 = "[[''h''], [''h''], [''0'', ''1'', [], [], [], [], [], [], ''(10)''],
              [''5'', ''6'', [], [], [], [], [], [], ''(1)'']]"
  have h: "\<forall>r \<in> set (drop 2 ?t2). 9 \<le> length r" by simp
  have l: "list_all (\<lambda>r. 9 \<le> length r) (drop 2 ?t2)" by simp
  have f: "find (\<lambda>r. py_contains (note_key ''(1)'') (r ! 8)) (drop 2 ?t2) =
           Some [''0'', ''1'', [], [], [], [], [], [], ''(10)'']"
    by code_simp
  show ?thesis
    using process_note_first_match [of ?t2 "''TP-1''" "''(1)''" "''(1)Water''"] h l f by simp
qed

text \<open>
  Examples of the colour of a description: each part between \<open> and \<close> or \<open> to \<close> that
  starts with a Munsell code becomes \<open>name [code]\<close>, the parts are joined with
  \<open> and \<close>, so a range \<open>A to B\<close> is written as \<open>A and B\<close>, and a part without
  a code is dropped, so a colour given by name only disappears.
\<close>

theorem reformat_color_description_cases:
  "reformat_color_description ''10YR 5/6 yellowish brown to 10YR 4/4 dark brown'' =
     ''yellowish brown [10YR 5/6] and dark brown [10YR 4/4]''
   \<and> reformat_color_description ''7.5YR 4/4 brown and gray'' = ''brown [7.5YR 4/4]''
   \<and> reformat_color_description ''brown'' = []"
  by code_simp

text \<open>
  C38. Whatever the document, the three workbooks \<open>main\<close> saves are
  rectangular: every row has as many cells as the sheet's header.  The rows
  have these widths in every reachable state of the loop (rule induction on
  \<open>docx_reach\<close>).
\<close>

theorem docx_main_sheets_rectangular:
  assumes "docx_main body = Inr books"
  shows "list_all (\<lambda>(file_name, s). sheet_rectangular s) books"
proof -
  obtain cs st where "list_docx_components body = Inr cs" and l: "docx_loop docx_init cs = Inr st"
    and b: "books = [(''Location_Detail.xlsx'', write_location_details_to_excel (location_details st)),
                  (''Field_Geological_Descriptions.xlsx'',
                     write_field_geological_descriptions_to_excel (field_geological_descriptions st)),
                  (''Depth_Related_Remarks.xlsx'', write_depth_related_remarks_to_excel (depth_related_remarks st))]"
    using assms by (auto simp: docx_main_def py_bind_def split: sum.splits)
  have "rows_ok st" by (rule docx_reach_rows_ok [OF docx_loop_reach [OF reach_init l]])
  then show ?thesis
    by (simp add: b rows_ok_def sheet_rectangular_def write_location_details_to_excel_def
        write_field_geological_descriptions_to_excel_def write_depth_related_remarks_to_excel_def numeral_eq_Suc)
qed

theorem docx_main_sheets_rectangular_witness:
  "docx_main docx_fixture_body =
     Inr [(''Location_Detail.xlsx'', write_location_details_to_excel [[''TP-1'', ''r0c1'', ''r1c1'', ''r2c1'', ''r0c3'', ''r1c3'', ''r2c3'', ''r3c1'', ''r3c3'', ''r4c1'', ''r4c3'', ''r5c2'', ''r6c2'', ''r5c4'', ''r6c4'', ''r7c1'', ''r7c3'']]),
          (''Field_Geological_Descriptions.xlsx'', write_field_geological_descriptions_to_excel []),
          (''Depth_Related_Remarks.xlsx'', write_depth_related_remarks_to_excel [])]
   \<and> sheet_rectangular (write_location_details_to_excel [[''TP-1'', ''r0c1'', ''r1c1'', ''r2c1'', ''r0c3'', ''r1c3'', ''r2c3'', ''r3c1'', ''r3c3'', ''r4c1'', ''r4c3'', ''r5c2'', ''r6c2'', ''r5c4'', ''r6c4'', ''r7c1'', ''r7c3'']])"
proof -
  have d: "docx_main docx_fixture_body =
     Inr [(''Location_Detail.xlsx'', write_location_details_to_excel [[''TP-1'', ''r0c1'', ''r1c1'', ''r2c1'', ''r0c3'', ''r1c3'', ''r2c3'', ''r3c1'', ''r3c3'', ''r4c1'', ''r4c3'', ''r5c2'', ''r6c2'', ''r5c4'', ''r6c4'', ''r7c1'', ''r7c3'']]),
          (''Field_Geological_Descriptions.xlsx'', write_field_geological_descriptions_to_excel []),
          (''Depth_Related_Remarks.xlsx'', write_depth_related_remarks_to_excel [])]"
    by code_simp
  show ?thesis using docx_main_sheets_rectangular [OF d] d by simp
qed

end
