(* ===== verification/GeoPhotos.thy ===== *)
theory GeoPhotos
  imports Prelude Complex_Main "HOL-Library.Product_Lexorder" "HOL-Library.Multiset"
begin

text \<open>
  Two scripts that move GPS positions between text logs, photo EXIF tags and
  tables.  \<open>src/WriteToJpgExifAndGenPhotoLog.py\<close> reads, for each photo, a text
  log of decimal latitude, longitude, altitude, timestamp, direction and
  description, writes them as EXIF tags (the coordinates as degrees, minutes and
  seconds with a hemisphere letter), then lays the photos, sorted by the timestamp
  in their file names, two per page into a Word report.
  \<open>src/ReadLatLongAltAndWriteCSV.py\<close> reads the GPS tags of the photos of a folder
  back into decimal degrees and lists them in a CSV file for Google Earth.

  Python floats and the rationals EXIF stores are modelled as \<open>real\<close>: the
  arithmetic is exact here, so the theorems state what the formulas compute before
  rounding.  The EXIF tags are a record with the fields the scripts set or read;
  the Word document is the list of items the report loop adds, in order.
\<close>

section \<open>Degrees, minutes and seconds\<close>

text \<open>\<open>int(x)\<close> on a float: truncation towards zero.\<close>

definition py_trunc :: "real \<Rightarrow> int" where
  "py_trunc x = (if 0 \<le> x then \<lfloor>x\<rfloor> else \<lceil>x\<rceil>)"

definition decimal_to_dms :: "real \<Rightarrow> int \<times> int \<times> real" where
  "decimal_to_dms decimal_degree =
     (let degrees = py_trunc decimal_degree;
          minutes_decimal = (decimal_degree - of_int degrees) * 60;
          minutes = py_trunc minutes_decimal;
          seconds = (minutes_decimal - of_int minutes) * 60
      in (degrees, minutes, seconds))"

text \<open>The three numbers of an EXIF coordinate, as the \<open>exif\<close> package stores the
  tuple \<open>(degrees, minutes, seconds)\<close>.\<close>

definition dms_value :: "int \<times> int \<times> real \<Rightarrow> real \<times> real \<times> real" where
  "dms_value dms = (case dms of (d, m, s) \<Rightarrow> (of_int d, of_int m, s))"

definition convert_to_decimal_degrees :: "real \<times> real \<times> real \<Rightarrow> real" where
  "convert_to_decimal_degrees coord =
     (case coord of (degrees, minutes, seconds) \<Rightarrow> degrees + minutes / 60 + seconds / 3600)"

section \<open>EXIF tags\<close>

text \<open>The GPS directory (tag 34853): latitude (GPS tag 2), longitude (tag 4),
  altitude (tag 6), the hemisphere references (tags 1 and 3, \<open>None\<close> when the
  tag is absent) and the other tags the log writer sets.  \<open>exif_orientation\<close> is
  the Orientation tag 274 of the main directory.\<close>

record gps_ifd =
  gps_latitude_ref :: "string option"
  gps_latitude :: "(real \<times> real \<times> real) option"
  gps_longitude_ref :: "string option"
  gps_longitude :: "(real \<times> real \<times> real) option"
  gps_altitude :: "real option"
  gps_altitude_ref :: nat
  gps_datestamp :: string
  gps_img_direction :: string
  gps_img_direction_ref :: string

record photo_exif =
  camera_make :: string
  camera_model :: string
  exif_datetime :: string
  datetime_original :: string
  user_comment :: string
  gps :: "gps_ifd option"
  exif_orientation :: "int option"

section \<open>Reading positions back: \<open>ReadLatLongAltAndWriteCSV.py\<close>\<close>

text \<open>\<open>extract_gps_data\<close>: \<open>None\<close> for the image is a file PIL cannot open or
  one without EXIF data.  A missing latitude or longitude raises \<open>KeyError\<close>
  inside the \<open>try\<close>, which is caught: no position.  The longitude is negated
  whatever its reference letter says.\<close>

definition extract_gps_data :: "photo_exif option \<Rightarrow> real option \<times> real option \<times> real option" where
  "extract_gps_data img =
     (case img of
        None \<Rightarrow> (None, None, None)
      | Some exif_data \<Rightarrow>
          (case gps exif_data of
             None \<Rightarrow> (None, None, None)
           | Some gps_data \<Rightarrow>
               (case (gps_latitude gps_data, gps_longitude gps_data) of
                  (Some la, Some lo) \<Rightarrow>
                    (Some (convert_to_decimal_degrees la), Some (- convert_to_decimal_degrees lo),
                     gps_altitude gps_data)
                | _ \<Rightarrow> (None, None, None))))"

definition image_extensions :: "string list" where
  "image_extensions = [''.jpg'', ''.jpeg'', ''.png'', ''.gif'', ''.bmp'', ''.JPG'']"

definition image_link :: "string \<Rightarrow> string" where
  \<open>image_link image_path = ''<img style="max-width:1500px;" src="'' @ image_path @ ''">''\<close>

text \<open>The rows the loop over \<open>os.listdir(folder_path)\<close> writes after the header:
  one per image file with a position.\<close>

definition photo_csv_rows ::
  "string \<Rightarrow> (string \<times> photo_exif option) list \<Rightarrow> (string \<times> real \<times> real \<times> real option) list" where
  "photo_csv_rows folder_path files =
     List.map_filter
       (\<lambda>(filename, img).
          if list_ex (py_endswith filename) image_extensions then
            (case extract_gps_data img of
               (Some latitude, Some longitude, altitude) \<Rightarrow>
                 Some (image_link (path_join folder_path filename), latitude, longitude, altitude)
             | _ \<Rightarrow> None)
          else None)
       files"

section \<open>Writing positions: \<open>WriteToJpgExifAndGenPhotoLog.py\<close>\<close>

text \<open>\<open>str.isdigit\<close> on Latin-1: the ASCII digits and the superscripts one, two
  and three.\<close>

definition py_str_isdigit :: "char \<Rightarrow> bool" where
  "py_str_isdigit c \<longleftrightarrow> py_isdigit c \<or> of_char c \<in> {178, 179, 185 :: nat}"

text \<open>\<open>s[i:j]\<close> for \<open>0 \<le> i \<le> j\<close>: out-of-range bounds are clipped.\<close>

definition py_slice :: "string \<Rightarrow> nat \<Rightarrow> nat \<Rightarrow> string" where
  "py_slice s i j = take (j - i) (drop i s)"

text \<open>Splitting text into lines at the characters \<open>is_break\<close> accepts, a
  carriage return followed by a line feed counting as one break, with no empty
  line after a final break.  \<open>file.readline()\<close> in text mode breaks at line feeds
  and carriage returns; \<open>str.splitlines()\<close> also at \<open>\v \f\<close>, U+001C--U+001E
  and U+0085.\<close>

fun split_lines_at :: "(char \<Rightarrow> bool) \<Rightarrow> string \<Rightarrow> string \<Rightarrow> string list" where
  "split_lines_at is_break cur [] = (if cur = [] then [] else [cur])"
| "split_lines_at is_break cur (c # s) =
     (if c = CHR 0x0D then cur # split_lines_at is_break [] (if take 1 s = [CHR 0x0A] then drop 1 s else s)
      else if is_break c then cur # split_lines_at is_break [] s
      else split_lines_at is_break (cur @ [c]) s)"

definition text_file_lines :: "string \<Rightarrow> string list" where
  "text_file_lines content = split_lines_at (\<lambda>c. c = CHR 0x0A) [] content"

definition py_splitlines :: "string \<Rightarrow> string list" where
  "py_splitlines content =
     split_lines_at (\<lambda>c. of_char c \<in> {10, 11, 12, 28, 29, 30, 133 :: nat}) [] content"

text \<open>The \<open>i\<close>-th \<open>file.readline().strip()\<close>: the empty string after the end.\<close>

definition log_line :: "string \<Rightarrow> nat \<Rightarrow> string" where
  "log_line content i =
     py_strip (if i < length (text_file_lines content) then text_file_lines content ! i else [])"

text \<open>
  \<open>read_and_convert_coordinates\<close>: \<open>float_of\<close> is Python's \<open>float()\<close> on a
  stripped line (\<open>None\<close> when it raises \<open>ValueError\<close>).  The direction is the
  digits of the characters 30 to 32 of the fifth line.
\<close>

definition read_and_convert_coordinates ::
  "(string \<Rightarrow> real option) \<Rightarrow> string \<Rightarrow>
   ((int \<times> int \<times> real) \<times> string \<times> (int \<times> int \<times> real) \<times> string \<times> real \<times> string \<times> string \<times> string) py_result" where
  "read_and_convert_coordinates float_of content =
     (case (float_of (log_line content 0), float_of (log_line content 1), float_of (log_line content 2)) of
        (Some decimal_latitude, Some decimal_longitude, Some altitude_in_meter) \<Rightarrow>
          (let direction = filter py_str_isdigit (py_slice (log_line content 4) 30 33) in
           Inr (decimal_to_dms \<bar>decimal_latitude\<bar>, if 0 \<le> decimal_latitude then ''N'' else ''S'',
                decimal_to_dms \<bar>decimal_longitude\<bar>, if 0 \<le> decimal_longitude then ''E'' else ''W'',
                altitude_in_meter, log_line content 3, direction, log_line content 6))
      | _ \<Rightarrow> Inl ValueError)"

text \<open>\<open>2023-11-16T16:28:01Z\<close> becomes \<open>2023:11:16 16:28:01\<close>.\<close>

definition exif_timestamp :: "string \<Rightarrow> string" where
  "exif_timestamp timestamp =
     py_slice timestamp 0 4 @ '':'' @ py_slice timestamp 5 7 @ '':'' @ py_slice timestamp 8 10 @ '' '' @
     py_slice timestamp 11 13 @ '':'' @ py_slice timestamp 14 16 @ '':'' @ py_slice timestamp 17 19"

text \<open>The body of the first loop for one photo: its tags after the assignments.\<close>

definition write_photo_exif ::
  "(string \<Rightarrow> real option) \<Rightarrow> string \<Rightarrow> photo_exif \<Rightarrow> photo_exif py_result" where
  "write_photo_exif float_of content my_image =
     py_bind (read_and_convert_coordinates float_of content)
       (\<lambda>(dms_lat, lat_ref, dms_long, long_ref, altitude_in_meter, timestamp, direction, description).
          Inr (my_image\<lparr>camera_make := ''Your Camera Make'', camera_model := ''Your Camera Model'',
                 exif_datetime := exif_timestamp timestamp, datetime_original := exif_timestamp timestamp,
                 user_comment := description,
                 gps := Some \<lparr>gps_latitude_ref = Some lat_ref, gps_latitude = Some (dms_value dms_lat),
                              gps_longitude_ref = Some long_ref, gps_longitude = Some (dms_value dms_long),
                              gps_altitude = Some altitude_in_meter, gps_altitude_ref = 0,
                              gps_datestamp = py_slice timestamp 0 10, gps_img_direction = direction,
                              gps_img_direction_ref = ''T''\<rparr>\<rparr>))"

section \<open>The photo report\<close>

text \<open>\<open>re.match(r'(\d{4}-\d{2}-\d{2}_\d{2}-\d{2}-\d{2})\.jpg', filename)\<close>:
  group 1, the pattern's \<open>d\<close> standing for a digit.\<close>

definition photo_name_pattern :: string where
  "photo_name_pattern = ''dddd-dd-dd_dd-dd-dd''"

definition photo_name_match :: "string \<Rightarrow> string option" where
  "photo_name_match filename =
     (let g = take 19 filename in
      if list_all2 (\<lambda>p c. if p = CHR ''d'' then py_isdigit c else c = p) photo_name_pattern g
         \<and> take 4 (drop 19 filename) = ''.jpg''
      then Some g else None)"

type_synonym py_datetime = "int \<times> int \<times> int \<times> int \<times> int \<times> int"

definition days_in_month :: "int \<Rightarrow> int \<Rightarrow> int" where
  "days_in_month y m =
     (if m = 2 then (if (y mod 4 = 0 \<and> y mod 100 \<noteq> 0) \<or> y mod 400 = 0 then 29 else 28)
      else if m \<in> {4, 6, 9, 11} then 30 else 31)"

text \<open>\<open>datetime.strptime(date_str, '%Y-%m-%d_%H-%M-%S')\<close> on a string of the
  pattern's shape: \<open>ValueError\<close> unless the fields make a valid date and time.\<close>

definition strptime_photo :: "string \<Rightarrow> py_datetime py_result" where
  "strptime_photo date_str =
     (let f = (\<lambda>i j. int (digits_value (py_slice date_str i j)));
          y = f 0 4; mo = f 5 7; d = f 8 10; h = f 11 13; mi = f 14 16; sec = f 17 19 in
      if 1 \<le> y \<and> 1 \<le> mo \<and> mo \<le> 12 \<and> 1 \<le> d \<and> d \<le> days_in_month y mo \<and> h \<le> 23 \<and> mi \<le> 59 \<and> sec \<le> 59
      then Inr (y, mo, d, h, mi, sec) else Inl ValueError)"

text \<open>\<open>photo_info\<close> after the loop over \<open>new_photo_files\<close> and the stable
  \<open>photo_info.sort(key=lambda x: x[1])\<close>.\<close>

definition collect_photo_info :: "string list \<Rightarrow> (string \<times> py_datetime) list py_result" where
  "collect_photo_info new_photo_files =
     py_bind
       (py_mapM
          (\<lambda>filename.
             if py_endswith (py_lower filename) ''.jpg'' \<and> \<not> py_endswith (py_lower filename) ''jpg.meta'' then
               (case photo_name_match filename of
                  Some date_str \<Rightarrow> py_bind (strptime_photo date_str) (\<lambda>date_obj. Inr [(filename, date_obj)])
                | None \<Rightarrow> Inr [])
             else Inr [])
          new_photo_files)
       (\<lambda>infos. Inr (sort_key snd (concat infos)))"

text \<open>What the report loop adds to the document: a page break, a photo table
  (photo, date cell, number cell, direction cell, description cell), or the empty
  paragraph after a table.\<close>

datatype report_item = PageBreak | PhotoTable string string string string string | Spacer

definition photos_per_page :: nat where
  "photos_per_page = 2"

text \<open>One photo: its table, filled from the first seven lines of its text log
  (\<open>None\<close>: the log cannot be opened).\<close>

definition photo_table ::
  "(string \<Rightarrow> string option) \<Rightarrow> string \<Rightarrow> string \<Rightarrow> nat \<Rightarrow> string \<Rightarrow> report_item list py_result" where
  "photo_table read_text photos_folder text_folder idx photo_filename =
     (let photo_path = path_join photos_folder photo_filename;
          text_path = path_join text_folder (fst (splitext photo_filename) @ ''.txt'') in
      case read_text text_path of
        None \<Rightarrow> Inl OSError
      | Some content \<Rightarrow>
          (let text_lines = take 7 (py_splitlines content) in
           py_bind (py_index text_lines 4) (\<lambda>line4.
           py_bind (py_index text_lines 5) (\<lambda>line5.
           py_bind (py_index text_lines 6) (\<lambda>line6.
           py_bind (py_index text_lines 3) (\<lambda>timestamp_text.
             (let date = py_slice timestamp_text 5 7 @ ''/'' @ py_slice timestamp_text 8 10 @ ''/'' @
                         py_slice timestamp_text 0 4 in
              Inr [PhotoTable photo_path (''Date'' @ [CHR 0x0A] @ date)
                     (''Photo'' @ [CHR 0x0A] @ ''No.'' @ py_str_int (int idx + 1))
                     line4 (line5 @ '' '' @ line6),
                   Spacer])))))))"

text \<open>\<open>for i in range(0, len(photo_info), photos_per_page)\<close>: a page break before
  every page but the first, then the photos \<open>i\<close> and \<open>i + 1\<close> that exist.\<close>

definition photo_report ::
  "(string \<Rightarrow> string option) \<Rightarrow> string \<Rightarrow> string \<Rightarrow> (string \<times> py_datetime) list \<Rightarrow> report_item list py_result" where
  "photo_report read_text photos_folder text_folder photo_info =
     py_bind
       (py_mapM
          (\<lambda>i. py_bind
                 (py_mapM (\<lambda>idx. photo_table read_text photos_folder text_folder idx (fst (photo_info ! idx)))
                    (filter (\<lambda>idx. idx < length photo_info) [i ..< i + photos_per_page]))
                 (\<lambda>tables. Inr ((if 0 < i then [PageBreak] else []) @ concat tables)))
          (map (\<lambda>k. photos_per_page * k) [0 ..< (length photo_info + photos_per_page - 1) div photos_per_page]))
       (\<lambda>pages. Inr (concat pages))"

text \<open>The number cells of the photo tables of a report, in order.\<close>

definition photo_number_cells :: "report_item list \<Rightarrow> string list" where
  "photo_number_cells items =
     List.map_filter (\<lambda>x. case x of PhotoTable _ _ n _ _ \<Rightarrow> Some n | _ \<Rightarrow> None) items"

subsection \<open>Page layout of the report\<close>

text \<open>Lengths in EMU: \<open>Inches(x)\<close> is \<open>int(x * 914400)\<close>.\<close>

definition docx_inches :: "real \<Rightarrow> int" where
  "docx_inches x = \<lfloor>x * 914400\<rfloor>"

record docx_section =
  page_width :: int
  page_height :: int
  left_margin :: int
  right_margin :: int
  top_margin :: int
  bottom_margin :: int

text \<open>Lines 176--186: US Letter with half-inch side margins.\<close>

definition photolog_section :: docx_section where
  "photolog_section =
     \<lparr>page_width = docx_inches 8.5, page_height = docx_inches 11,
      left_margin = docx_inches 0.5, right_margin = docx_inches 0.5,
      top_margin = docx_inches 0.4, bottom_margin = docx_inches 0.4\<rparr>"

text \<open>Lines 212--214: the widths the photo table's three columns get, in
  order of assignment; \<open>None\<close> keeps the template's width.\<close>

definition photo_table_column_widths :: "int option list" where
  "photo_table_column_widths =
     [None, None, None][0 := Some (docx_inches 0.84), 1 := Some (docx_inches 0.84), 1 := Some (docx_inches 5.83)]"

text \<open>Line 263: the picture in the merged cell of the third column.\<close>

definition photo_picture_width :: int where
  "photo_picture_width = docx_inches 6"

text \<open>Lines 275--277: the font of the \<open>Normal\<close> style.\<close>

record docx_font =
  font_name :: string
  font_bold :: bool

definition photolog_normal_font :: docx_font where
  "photolog_normal_font = \<lparr>font_name = ''Univers LT 45 Light'', font_bold = True\<rparr>"

section \<open>Lemmas\<close>

subsection \<open>Page layout\<close>

text \<open>The printable width is 7.5 inches.  The second column's width is set
  twice and the third, which holds the 6-inch picture, keeps the template's: the
  two widths set and the picture together need 12.67 inches.\<close>

lemma photolog_layout:
  "page_width photolog_section - left_margin photolog_section - right_margin photolog_section = docx_inches 7.5
   \<and> photo_table_column_widths = [Some (docx_inches 0.84), Some (docx_inches 5.83), None]
   \<and> docx_inches 0.84 + docx_inches 5.83 + photo_picture_width = docx_inches 12.67
   \<and> docx_inches 7.5 < docx_inches 0.84 + docx_inches 5.83 + photo_picture_width"
  by (simp add: photolog_section_def photo_table_column_widths_def photo_picture_width_def docx_inches_def)

subsection \<open>Degrees, minutes, seconds\<close>

lemma py_trunc_nonneg: "0 \<le> x \<Longrightarrow> py_trunc x = \<lfloor>x\<rfloor>"
  by (simp add: py_trunc_def)

lemma decimal_to_dms_nonneg:
  assumes "0 \<le> x"
  shows "decimal_to_dms x =
           (\<lfloor>x\<rfloor>, \<lfloor>(x - of_int \<lfloor>x\<rfloor>) * 60\<rfloor>,
            ((x - of_int \<lfloor>x\<rfloor>) * 60 - of_int \<lfloor>(x - of_int \<lfloor>x\<rfloor>) * 60\<rfloor>) * 60)"
proof -
  have "0 \<le> (x - of_int \<lfloor>x\<rfloor>) * 60" by simp
  then show ?thesis using assms by (simp add: decimal_to_dms_def Let_def py_trunc_nonneg)
qed

lemma frac_times_60_bounds:
  "0 \<le> (x - of_int \<lfloor>x\<rfloor>) * 60 \<and> (x - of_int \<lfloor>x\<rfloor>) * (60 :: real) < 60"
proof -
  have "of_int \<lfloor>x\<rfloor> \<le> x" and "x < of_int \<lfloor>x\<rfloor> + 1"
    by (rule of_int_floor_le, rule real_of_int_floor_add_one_gt)
  then show ?thesis unfolding left_diff_distrib by linarith
qed

subsection \<open>Reports\<close>

lemma photo_table_Inr:
  "photo_table read_text photos_folder text_folder idx fn = Inr ts \<Longrightarrow>
   \<exists>path d a b. ts = [PhotoTable path d (''Photo'' @ [CHR 0x0A] @ ''No.'' @ py_str_int (int idx + 1)) a b, Spacer]"
  by (auto simp: photo_table_def Let_def py_bind_def split: option.splits sum.splits)

lemma photo_number_cells_append [simp]:
  "photo_number_cells (xs @ ys) = photo_number_cells xs @ photo_number_cells ys"
  by (simp add: photo_number_cells_def map_filter_def)

lemma photo_number_cells_concat:
  "photo_number_cells (concat xss) = concat (map photo_number_cells xss)"
  by (induction xss) (simp_all add: photo_number_cells_def map_filter_def)

lemma pages_cover:
  "0 < p \<Longrightarrow> concat (map (\<lambda>k. [p * k ..< p * k + p]) [0 ..< m]) = [0 ..< p * m]"
proof (induction m)
  case (Suc m)
  have "[0 ..< p * m + p] = [0 ..< p * m] @ [p * m ..< p * m + p]"
    by (rule upt_add_eq_append) simp
  then show ?case using Suc.IH [OF Suc.prems] by (simp add: ac_simps)
qed simp

lemma pages_filter_cover:
  assumes "0 < p"
  shows "concat (map (\<lambda>k. filter (\<lambda>idx. idx < n) [p * k ..< p * k + p]) [0 ..< (n + p - 1) div p]) = [0 ..< n]"
proof -
  let ?m = "(n + p - 1) div p"
  have eq: "p * ?m = (n + p - 1) - (n + p - 1) mod p" by (simp add: minus_mod_eq_mult_div)
  have "(n + p - 1) mod p < p" using assms by simp
  then have le: "n \<le> p * ?m" unfolding eq using assms by linarith
  have "[0 ..< p * ?m] = [0 ..< n] @ [n ..< p * ?m]"
    using le by (metis le0 upt_add_eq_append add_0 le_add_diff_inverse)
  then have "filter (\<lambda>idx. idx < n) [0 ..< p * ?m] = [0 ..< n]"
    by (simp add: filter_empty_conv)
  moreover have "concat (map (\<lambda>k. filter (\<lambda>idx. idx < n) [p * k ..< p * k + p]) [0 ..< ?m]) =
      filter (\<lambda>idx. idx < n) (concat (map (\<lambda>k. [p * k ..< p * k + p]) [0 ..< ?m]))"
    by (simp add: filter_concat comp_def)
  ultimately show ?thesis
    using pages_cover [OF assms, of ?m] by simp
qed

lemma page_slots_cover:
  "concat (map (\<lambda>i. filter (\<lambda>idx. idx < n) [i ..< i + photos_per_page])
      (map (\<lambda>k. photos_per_page * k) [0 ..< (n + photos_per_page - 1) div photos_per_page])) = [0 ..< n]"
  using pages_filter_cover [of photos_per_page n] by (simp add: photos_per_page_def comp_def)

lemma page_starts_breaks:
  "length (filter (\<lambda>i. 0 < i) (map (\<lambda>k. photos_per_page * k) [0 ..< (n + photos_per_page - 1) div photos_per_page]))
     = (n + 1) div 2 - 1"
proof -
  have "length (filter (\<lambda>k. 0 < k) [0 ..< m]) = m - 1" for m :: nat
    by (induction m) auto
  then show ?thesis by (simp add: photos_per_page_def filter_map comp_def)
qed

subsection \<open>Round trip of a coordinate\<close>

lemma convert_decimal_to_dms:
  assumes "0 \<le> x"
  shows "convert_to_decimal_degrees (dms_value (decimal_to_dms x)) = x"
proof -
  let ?f = "x - of_int \<lfloor>x\<rfloor>"
  let ?md = "?f * 60"
  have "of_int \<lfloor>x\<rfloor> + of_int \<lfloor>?md\<rfloor> / 60 + (?md - of_int \<lfloor>?md\<rfloor>) * 60 / 3600 = x"
    by (simp add: field_simps)
  then show ?thesis
    using assms by (simp add: decimal_to_dms_nonneg dms_value_def convert_to_decimal_degrees_def)
qed

subsection \<open>Writing then reading a photo's position\<close>

lemma write_photo_exif_gps:
  assumes "float_of (log_line content 0) = Some lat" and "float_of (log_line content 1) = Some lon"
    and "float_of (log_line content 2) = Some alt"
  shows "map_sum id gps (write_photo_exif float_of content img) =
           Inr (Some \<lparr>gps_latitude_ref = Some (if 0 \<le> lat then ''N'' else ''S''),
                      gps_latitude = Some (dms_value (decimal_to_dms \<bar>lat\<bar>)),
                      gps_longitude_ref = Some (if 0 \<le> lon then ''E'' else ''W''),
                      gps_longitude = Some (dms_value (decimal_to_dms \<bar>lon\<bar>)),
                      gps_altitude = Some alt, gps_altitude_ref = 0,
                      gps_datestamp = py_slice (log_line content 3) 0 10,
                      gps_img_direction = filter py_str_isdigit (py_slice (log_line content 4) 30 33),
                      gps_img_direction_ref = ''T''\<rparr>)"
  using assms by (simp add: write_photo_exif_def read_and_convert_coordinates_def Let_def)

subsection \<open>Collecting the photos\<close>

lemma collect_rows:
  "list_all2 (\<lambda>f r. (if P f then
        (case m f of
           Some date_str \<Rightarrow> py_bind (strptime_photo date_str) (\<lambda>date_obj. Inr [(f, date_obj)])
         | None \<Rightarrow> Inr [])
      else Inr []) = Inr r) fs infos \<Longrightarrow>
   map fst (concat infos) = filter (\<lambda>f. P f \<and> m f \<noteq> None) fs"
  by (induction rule: list_all2_induct)
    (auto simp: py_bind_def split: if_splits option.splits sum.splits)

text \<open>The collecting loop and the sort, for any file filter \<open>P\<close> and name
  matcher \<open>m\<close>: the result is sorted by date and lists the accepted files.\<close>

lemma collect_sorted:
  assumes "py_bind
       (py_mapM (\<lambda>f. if P f then
             (case m f of
                Some date_str \<Rightarrow> py_bind (strptime_photo date_str) (\<lambda>date_obj. Inr [(f, date_obj)])
              | None \<Rightarrow> Inr [])
           else Inr []) fs)
       (\<lambda>infos. Inr (sort_key snd (concat infos))) = Inr photo_info"
  shows "sorted (map snd photo_info) \<and> mset (map fst photo_info) = mset (filter (\<lambda>f. P f \<and> m f \<noteq> None) fs)"
proof -
  obtain infos where
    mm: "py_mapM (\<lambda>f. if P f then
             (case m f of
                Some date_str \<Rightarrow> py_bind (strptime_photo date_str) (\<lambda>date_obj. Inr [(f, date_obj)])
              | None \<Rightarrow> Inr [])
           else Inr []) fs = Inr infos"
    and p: "photo_info = sort_key snd (concat infos)"
    using assms by (auto simp: py_bind_def split: sum.splits)
  have rows: "map fst (concat infos) = filter (\<lambda>f. P f \<and> m f \<noteq> None) fs"
    using mm by (intro collect_rows) (simp add: py_mapM_Inr)
  have "mset (map fst photo_info) = mset (map fst (concat infos))"
    unfolding p by (metis mset_map mset_sort)
  then show ?thesis
    using rows p by simp
qed

subsection \<open>The pages of the report\<close>

lemma photo_number_cells_Nil [simp]: "photo_number_cells [] = []"
  by (simp add: photo_number_cells_def)

lemma photo_tables_cells:
  "list_all2 (\<lambda>idx t. photo_table read_text photos_folder text_folder idx (fst (info ! idx)) = Inr t) idxs tables \<Longrightarrow>
   photo_number_cells (concat tables) = map (\<lambda>idx. ''Photo'' @ [CHR 0x0A] @ ''No.'' @ py_str_int (int idx + 1)) idxs
   \<and> filter (\<lambda>x. x = PageBreak) (concat tables) = []"
  by (induction rule: list_all2_induct)
    (auto dest!: photo_table_Inr simp: photo_number_cells_def map_filter_def)

lemma report_pages:
  "list_all2 (\<lambda>i pg. py_bind
        (py_mapM (\<lambda>idx. photo_table read_text photos_folder text_folder idx (fst (info ! idx)))
           (filter (\<lambda>idx. idx < length info) [i ..< i + photos_per_page]))
        (\<lambda>tables. Inr ((if 0 < i then [PageBreak] else []) @ concat tables)) = Inr pg) ks pages \<Longrightarrow>
   photo_number_cells (concat pages) =
     map (\<lambda>idx. ''Photo'' @ [CHR 0x0A] @ ''No.'' @ py_str_int (int idx + 1))
       (concat (map (\<lambda>i. filter (\<lambda>idx. idx < length info) [i ..< i + photos_per_page]) ks))
   \<and> length (filter (\<lambda>x. x = PageBreak) (concat pages)) = length (filter (\<lambda>i. 0 < i) ks)"
proof (induction rule: list_all2_induct)
  case (Cons i ks pg pages)
  then obtain tables where
    t: "py_mapM (\<lambda>idx. photo_table read_text photos_folder text_folder idx (fst (info ! idx)))
          (filter (\<lambda>idx. idx < length info) [i ..< i + photos_per_page]) = Inr tables"
    and pg: "pg = (if 0 < i then [PageBreak] else []) @ concat tables"
    by (auto simp: py_bind_def split: sum.splits)
  have "photo_number_cells (concat tables) =
          map (\<lambda>idx. ''Photo'' @ [CHR 0x0A] @ ''No.'' @ py_str_int (int idx + 1))
            (filter (\<lambda>idx. idx < length info) [i ..< i + photos_per_page])
        \<and> filter (\<lambda>x. x = PageBreak) (concat tables) = []"
    using t by (intro photo_tables_cells) (simp add: py_mapM_Inr)
  then show ?case
    using Cons.IH pg by (simp add: photo_number_cells_def map_filter_def)
qed simp

lemma photo_report_numbering:
  assumes "photo_report read_text photos_folder text_folder photo_info = Inr items"
  shows "photo_number_cells items =
           map (\<lambda>idx. ''Photo'' @ [CHR 0x0A] @ ''No.'' @ py_str_int (int idx + 1)) [0 ..< length photo_info]
       \<and> length (filter (\<lambda>x. x = PageBreak) items) = (length photo_info + 1) div 2 - 1"
proof -
  let ?ks = "map (\<lambda>k. photos_per_page * k) [0 ..< (length photo_info + photos_per_page - 1) div photos_per_page]"
  obtain pages where
    m: "py_mapM (\<lambda>i. py_bind
                 (py_mapM (\<lambda>idx. photo_table read_text photos_folder text_folder idx (fst (photo_info ! idx)))
                    (filter (\<lambda>idx. idx < length photo_info) [i ..< i + photos_per_page]))
                 (\<lambda>tables. Inr ((if 0 < i then [PageBreak] else []) @ concat tables))) ?ks = Inr pages"
    and i: "items = concat pages"
    using assms by (auto simp: photo_report_def py_bind_def split: sum.splits)
  have r: "photo_number_cells (concat pages) =
     map (\<lambda>idx. ''Photo'' @ [CHR 0x0A] @ ''No.'' @ py_str_int (int idx + 1))
       (concat (map (\<lambda>i. filter (\<lambda>idx. idx < length photo_info) [i ..< i + photos_per_page]) ?ks))
   \<and> length (filter (\<lambda>x. x = PageBreak) (concat pages)) = length (filter (\<lambda>i. 0 < i) ?ks)"
    using m by (intro report_pages) (simp add: py_mapM_Inr)
  show ?thesis
    using r i page_slots_cover [of "length photo_info"] page_starts_breaks [of "length photo_info"] by simp
qed

section \<open>Properties\<close>

text \<open>
  C20. Converting a non-negative decimal degree to degrees, minutes and seconds
  (\<open>decimal_to_dms\<close>) and back (\<open>convert_to_decimal_degrees\<close>) gives the number
  back; the degrees are its integer part and the minutes and seconds lie in
  \<open>[0, 60)\<close>.
\<close>

theorem decimal_to_dms_round_trip:
  assumes "0 \<le> x"
  shows "convert_to_decimal_degrees (dms_value (decimal_to_dms x)) = x
       \<and> fst (decimal_to_dms x) = \<lfloor>x\<rfloor>
       \<and> 0 \<le> fst (snd (decimal_to_dms x)) \<and> fst (snd (decimal_to_dms x)) < 60
       \<and> 0 \<le> snd (snd (decimal_to_dms x)) \<and> snd (snd (decimal_to_dms x)) < 60"
proof -
  let ?md = "(x - of_int \<lfloor>x\<rfloor>) * 60"
  have md: "0 \<le> ?md \<and> ?md < 60" by (rule frac_times_60_bounds)
  have s: "0 \<le> (?md - of_int \<lfloor>?md\<rfloor>) * 60 \<and> (?md - of_int \<lfloor>?md\<rfloor>) * 60 < 60"
    by (rule frac_times_60_bounds)
  have "0 \<le> \<lfloor>?md\<rfloor> \<and> \<lfloor>?md\<rfloor> < 60"
    using md by (simp add: floor_less_iff)
  then show ?thesis
    using assms s convert_decimal_to_dms [OF assms] by (simp add: decimal_to_dms_nonneg)
qed

theorem decimal_to_dms_round_trip_witness:
  "0 \<le> (84.19375 :: real)
   \<and> decimal_to_dms 84.19375 = (84, 11, 37.5)
   \<and> convert_to_decimal_degrees (dms_value (decimal_to_dms 84.19375)) = 84.19375"
proof -
  have d: "decimal_to_dms 84.19375 = (84, 11, 37.5)" by code_simp
  show ?thesis
    using decimal_to_dms_round_trip [of "84.19375"] d by simp
qed

text \<open>
  C21. A photo whose log gives latitude \<open>lat\<close>, longitude \<open>lon\<close> and altitude
  \<open>alt\<close> gets EXIF tags that \<open>ReadLatLongAltAndWriteCSV.py\<close> reads back as
  \<open>(|lat|, -|lon|, alt)\<close>: the writer stores the hemisphere in the reference tags,
  the reader ignores them and negates every longitude, so the positions come back
  right only in the northern and western hemispheres.
\<close>

theorem photo_position_read_back:
  assumes "float_of (log_line content 0) = Some lat" and "float_of (log_line content 1) = Some lon"
    and "float_of (log_line content 2) = Some alt"
  shows "map_sum id (\<lambda>e. extract_gps_data (Some e)) (write_photo_exif float_of content img) =
           Inr (Some \<bar>lat\<bar>, Some (- \<bar>lon\<bar>), Some alt)"
proof -
  have "map_sum id (\<lambda>e. extract_gps_data (Some e)) (write_photo_exif float_of content img) =
        map_sum id (\<lambda>g. extract_gps_data (Some \<lparr>camera_make = [], camera_model = [], exif_datetime = [],
           datetime_original = [], user_comment = [], gps = g, exif_orientation = None\<rparr>)) (map_sum id gps (write_photo_exif float_of content img))"
    by (cases "write_photo_exif float_of content img") (simp_all add: extract_gps_data_def)
  then show ?thesis
    using write_photo_exif_gps [OF assms, of img]
    by (simp add: extract_gps_data_def convert_decimal_to_dms)
qed

theorem photo_position_read_back_witness:
  "(if ''31.5'' = ''31.5'' then Some (31.5 :: real) else None) = Some 31.5
   \<and> map_sum id (\<lambda>e. extract_gps_data (Some e))
       (write_photo_exif (\<lambda>s. if s = ''31.5'' then Some 31.5 else if s = ''84.25'' then Some 84.25
                              else if s = ''12'' then Some 12 else None)
          ''31.5\<newline>84.25\<newline>12\<newline>2023-11-16T16:28:01Z\<newline>\<newline>\<newline>Creek\<newline>''
          \<lparr>camera_make = [], camera_model = [], exif_datetime = [], datetime_original = [],
           user_comment = [], gps = None, exif_orientation = None\<rparr>) =
       Inr (Some 31.5, Some (- 84.25), Some 12)"
proof -
  let ?f = "\<lambda>s. if s = ''31.5'' then Some 31.5 else if s = ''84.25'' then Some (84.25 :: real)
               else if s = ''12'' then Some 12 else None"
  let ?c = "''31.5\<newline>84.25\<newline>12\<newline>2023-11-16T16:28:01Z\<newline>\<newline>\<newline>Creek\<newline>''"
  have h: "?f (log_line ?c 0) = Some 31.5" "?f (log_line ?c 1) = Some 84.25" "?f (log_line ?c 2) = Some 12"
    by code_simp+
  show ?thesis
    using photo_position_read_back [of ?f ?c, OF h] by simp
qed

text \<open>
  C22. The EXIF date and time of a photo are its log's ISO timestamp
  \<open>YYYY-MM-DDThh:mm:ss...\<close> rewritten as \<open>YYYY:MM:DD hh:mm:ss\<close>, and its GPS date
  stamp is the date part \<open>YYYY-MM-DD\<close>.
\<close>

theorem exif_timestamp_iso:
  assumes "length y = 4" and "length mo = 2" and "length d = 2"
    and "length h = 2" and "length mi = 2" and "length sec = 2"
  shows "exif_timestamp (y @ ''-'' @ mo @ ''-'' @ d @ ''T'' @ h @ '':'' @ mi @ '':'' @ sec @ rest) =
           y @ '':'' @ mo @ '':'' @ d @ '' '' @ h @ '':'' @ mi @ '':'' @ sec
       \<and> py_slice (y @ ''-'' @ mo @ ''-'' @ d @ ''T'' @ h @ '':'' @ mi @ '':'' @ sec @ rest) 0 10 =
           y @ ''-'' @ mo @ ''-'' @ d"
  using assms by (simp add: exif_timestamp_def py_slice_def)

theorem exif_timestamp_iso_witness:
  "length ''2023'' = 4 \<and> length ''11'' = 2 \<and> length ''16'' = 2 \<and> length ''16'' = 2 \<and> length ''28'' = 2
   \<and> length ''01'' = 2
   \<and> exif_timestamp ''2023-11-16T16:28:01Z'' = ''2023:11:16 16:28:01''"
  using exif_timestamp_iso [of "''2023''" "''11''" "''16''" "''16''" "''28''" "''01''" "''Z''"] by simp

text \<open>
  C23. The photos of the report are exactly the files whose lower-cased name ends
  in \<open>.jpg\<close> and whose name starts with a timestamp \<open>YYYY-MM-DD_hh-mm-ss.jpg\<close>,
  sorted by that timestamp (when every such timestamp is a valid date; otherwise
  \<open>strptime\<close> raises \<open>ValueError\<close> and nothing is produced).
\<close>

theorem collect_photo_info_sorted:
  assumes "collect_photo_info new_photo_files = Inr photo_info"
  shows "sorted (map snd photo_info)
       \<and> mset (map fst photo_info) =
           mset (filter (\<lambda>f. py_endswith (py_lower f) ''.jpg'' \<and> \<not> py_endswith (py_lower f) ''jpg.meta''
                            \<and> photo_name_match f \<noteq> None) new_photo_files)"
  using collect_sorted [of "\<lambda>f. py_endswith (py_lower f) ''.jpg'' \<and> \<not> py_endswith (py_lower f) ''jpg.meta''"]
    assms
  by (simp add: collect_photo_info_def)

theorem collect_photo_info_sorted_witness:
  "collect_photo_info [''2023-11-16_16-28-01.jpg'', ''2023-11-15_10-00-00.jpg'', ''notes.jpg'',
                       ''2023-11-14_09-00-00.JPG.meta''] =
     Inr [(''2023-11-15_10-00-00.jpg'', (2023, 11, 15, 10, 0, 0)), (''2023-11-16_16-28-01.jpg'', (2023, 11, 16, 16, 28, 1))]
   \<and> sorted (map snd [(''2023-11-15_10-00-00.jpg'', (2023 :: int, 11 :: int, 15 :: int, 10 :: int, 0 :: int, 0 :: int)),
                      (''2023-11-16_16-28-01.jpg'', (2023, 11, 16, 16, 28, 1))])
   \<and> collect_photo_info [''2023-02-30_16-28-01.jpg''] = Inl ValueError"
proof -
  have c: "collect_photo_info [''2023-11-16_16-28-01.jpg'', ''2023-11-15_10-00-00.jpg'', ''notes.jpg'',
                       ''2023-11-14_09-00-00.JPG.meta''] =
     Inr [(''2023-11-15_10-00-00.jpg'', (2023, 11, 15, 10, 0, 0)), (''2023-11-16_16-28-01.jpg'', (2023, 11, 16, 16, 28, 1))]"
    by code_simp
  have e: "collect_photo_info [''2023-02-30_16-28-01.jpg''] = Inl ValueError"
    by code_simp
  show ?thesis
    using collect_photo_info_sorted [OF c] c e by simp
qed

text \<open>
  C24. The report numbers its photos \<open>No.1\<close>, \<open>No.2\<close>, ... in the order of the
  sorted list, one table each, and starts a new page every two photos: with \<open>n\<close>
  photos it holds \<open>\<lceil>n/2\<rceil> - 1\<close> page breaks.
\<close>

theorem photo_report_pages:
  assumes "photo_report read_text photos_folder text_folder photo_info = Inr items"
  shows "photo_number_cells items =
           map (\<lambda>idx. ''Photo'' @ [CHR 0x0A] @ ''No.'' @ py_str_int (int idx + 1)) [0 ..< length photo_info]
       \<and> length (filter (\<lambda>x. x = PageBreak) items) = (length photo_info + 1) div 2 - 1"
  using assms by (rule photo_report_numbering)

theorem photo_report_pages_witness:
  "photo_report (\<lambda>p. Some ''31.5\<newline>84.25\<newline>12\<newline>2023-11-16T16:28:01Z\<newline>NE\<newline>x\<newline>Creek'') ''/c'' ''/t''
      [(''a.jpg'', (2023, 1, 1, 0, 0, 0)), (''b.jpg'', (2023, 1, 1, 0, 0, 1)), (''c.jpg'', (2023, 1, 1, 0, 0, 2))] =
     Inr [PhotoTable ''/c/a.jpg'' ''Date\<newline>11/16/2023'' ''Photo\<newline>No.1'' ''NE'' ''x Creek'', Spacer,
          PhotoTable ''/c/b.jpg'' ''Date\<newline>11/16/2023'' ''Photo\<newline>No.2'' ''NE'' ''x Creek'', Spacer,
          PageBreak,
          PhotoTable ''/c/c.jpg'' ''Date\<newline>11/16/2023'' ''Photo\<newline>No.3'' ''NE'' ''x Creek'', Spacer]
   \<and> length (filter (\<lambda>x. x = PageBreak)
       [PhotoTable ''/c/a.jpg'' ''Date\<newline>11/16/2023'' ''Photo\<newline>No.1'' ''NE'' ''x Creek'', Spacer,
        PhotoTable ''/c/b.jpg'' ''Date\<newline>11/16/2023'' ''Photo\<newline>No.2'' ''NE'' ''x Creek'', Spacer,
        PageBreak,
        PhotoTable ''/c/c.jpg'' ''Date\<newline>11/16/2023'' ''Photo\<newline>No.3'' ''NE'' ''x Creek'', Spacer]) =
     (3 + 1) div 2 - 1"
proof -
  have r: "photo_report (\<lambda>p. Some ''31.5\<newline>84.25\<newline>12\<newline>2023-11-16T16:28:01Z\<newline>NE\<newline>x\<newline>Creek'') ''/c'' ''/t''
      [(''a.jpg'', (2023, 1, 1, 0, 0, 0)), (''b.jpg'', (2023, 1, 1, 0, 0, 1)), (''c.jpg'', (2023, 1, 1, 0, 0, 2))] =
     Inr [PhotoTable ''/c/a.jpg'' ''Date\<newline>11/16/2023'' ''Photo\<newline>No.1'' ''NE'' ''x Creek'', Spacer,
          PhotoTable ''/c/b.jpg'' ''Date\<newline>11/16/2023'' ''Photo\<newline>No.2'' ''NE'' ''x Creek'', Spacer,
          PageBreak,
          PhotoTable ''/c/c.jpg'' ''Date\<newline>11/16/2023'' ''Photo\<newline>No.3'' ''NE'' ''x Creek'', Spacer]"
    by code_simp
  show ?thesis
    using photo_report_pages [OF r] r by simp
qed

end
