(* ===== verification/Gpx.thy ===== *)
theory Gpx
  imports GeoPhotos
begin

text \<open>
  \<open>src/GenerateManualGpxForVideo.py\<close>: a text file gives a start time and key
  points \<open>hh:mm:ss, lat, lon\<close> (time since the start); the script writes a GPX
  track with one point per second, interpolated linearly between consecutive key
  points, followed by the last key point.  Times are whole seconds, a date-time is
  modelled as its number of seconds, and the library calls the script makes
  (\<open>datetime.strptime\<close>, \<open>float()\<close>, the \<open>{:.9f}\<close> and \<open>str\<close> formats of a float,
  \<open>isoformat\<close>) are the fields of a record, so that the theorems hold whatever
  they print.
\<close>

record gpx_lib =
  strptime_z :: "string \<Rightarrow> int option"
  float_of :: "string \<Rightarrow> real option"
  fmt9 :: "real \<Rightarrow> string"
  float_str :: "real \<Rightarrow> string"
  isoformat :: "int \<Rightarrow> string"

section \<open>Parsing the key points\<close>

definition interpolate_coords :: "real \<times> real \<Rightarrow> real \<times> real \<Rightarrow> real \<Rightarrow> real \<times> real" where
  "interpolate_coords start_coords end_coords fraction =
     (fst start_coords + (fst end_coords - fst start_coords) * fraction,
      snd start_coords + (snd end_coords - snd start_coords) * fraction)"

text \<open>\<open>s.split(sep)\<close> for a non-empty separator: the pieces between the
  occurrences found from the left, without overlap.\<close>

function split_on :: "string \<Rightarrow> string \<Rightarrow> string \<Rightarrow> string list" where
  "split_on sep cur s =
     (if sep \<noteq> [] \<and> take (length sep) s = sep then cur # split_on sep [] (drop (length sep) s)
      else (case s of [] \<Rightarrow> [cur] | c # s' \<Rightarrow> split_on sep (cur @ [c]) s'))"
  by pat_completeness auto
termination
proof (relation "measure (\<lambda>(sep, cur, s). length s)", goal_cases)
  case (2 sep cur s)
  then have "length (take (length sep) s) = length sep" and "0 < length sep" by simp_all
  then have "length sep \<le> length s" by (simp add: min_def split: if_splits)
  then have "length s - length sep < length s" using \<open>0 < length sep\<close> by arith
  then show ?case by simp
qed simp_all

definition py_split_str :: "string \<Rightarrow> string \<Rightarrow> string list" where
  "py_split_str sep s = split_on sep [] s"

text \<open>One key-point line: \<open>ValueError\<close> unless it has three pieces, the time is
  integers separated by colons and both coordinates are floats; with fewer than
  three time fields \<open>time_parts[2]\<close> raises \<open>IndexError\<close>, which the
  \<open>except ValueError\<close> does not catch.\<close>

definition parse_key_line :: "gpx_lib \<Rightarrow> string \<Rightarrow> (int \<times> (real \<times> real)) py_result" where
  "parse_key_line lib line =
     (case py_split_str '', '' line of
        [time_str, lat_str, lon_str] \<Rightarrow>
          (case those (map py_int (py_split_char CHR '':'' time_str)) of
             None \<Rightarrow> Inl ValueError
           | Some time_parts \<Rightarrow>
               (case (float_of lib lat_str, float_of lib lon_str) of
                  (Some lat, Some lon) \<Rightarrow>
                    py_bind (py_index time_parts 0) (\<lambda>hours.
                    py_bind (py_index time_parts 1) (\<lambda>minutes.
                    py_bind (py_index time_parts 2) (\<lambda>seconds.
                      Inr (hours * 3600 + minutes * 60 + seconds, (lat, lon)))))
                | _ \<Rightarrow> Inl ValueError))
      | _ \<Rightarrow> Inl ValueError)"

definition parse_input_file ::
  "gpx_lib \<Rightarrow> string \<Rightarrow> (int \<times> (int \<times> (real \<times> real)) list) py_result" where
  "parse_input_file lib content =
     (let lines = text_file_lines content in
      py_bind (py_index lines 0) (\<lambda>first_line.
        case strptime_z lib (py_strip first_line) of
          None \<Rightarrow> Inl ValueError
        | Some start_datetime \<Rightarrow>
            py_bind (py_mapM (parse_key_line lib) (filter (\<lambda>l. l \<noteq> []) (map py_strip (drop 1 lines))))
              (\<lambda>key_points. Inr (start_datetime, key_points))))"

section \<open>The track\<close>

text \<open>The points of the loop over the segments: for the segment from key point
  \<open>i\<close> to \<open>i + 1\<close>, one point per second of \<open>range(segment_seconds)\<close>, at the
  time offset \<open>total_seconds + second\<close>.\<close>

fun segment_points :: "int \<Rightarrow> (int \<times> (real \<times> real)) list \<Rightarrow> (int \<times> (real \<times> real)) list" where
  "segment_points total_seconds ((start_time, start_coords) # (end_time, end_coords) # rest) =
     (let segment_seconds = end_time - start_time in
      map (\<lambda>second. (total_seconds + second,
                      interpolate_coords start_coords end_coords (of_int second / of_int segment_seconds)))
        [0 .. segment_seconds - 1]
      @ segment_points (total_seconds + segment_seconds) ((end_time, end_coords) # rest))"
| "segment_points total_seconds _ = []"

text \<open>\<open>total_seconds\<close> after the loop.\<close>

fun segment_total :: "(int \<times> (real \<times> real)) list \<Rightarrow> int" where
  "segment_total ((start_time, _) # (end_time, end_coords) # rest) =
     (end_time - start_time) + segment_total ((end_time, end_coords) # rest)"
| "segment_total _ = 0"

text \<open>\<open>min\<close> and \<open>max\<close> of a non-empty list.\<close>

definition py_min :: "real list \<Rightarrow> real" where
  "py_min xs = foldl min (hd xs) (tl xs)"

definition py_max :: "real list \<Rightarrow> real" where
  "py_max xs = foldl max (hd xs) (tl xs)"

definition trkpt_lines :: "gpx_lib \<Rightarrow> int \<Rightarrow> int \<times> (real \<times> real) \<Rightarrow> string list" where
  \<open>trkpt_lines lib start_datetime point =
     (case point of (offset, (lat, lon)) \<Rightarrow>
        [''<trkpt lon="'' @ fmt9 lib lon @ ''" lat="'' @ fmt9 lib lat @ ''">'',
         ''<ele>1.0</ele>'',
         ''<time>'' @ isoformat lib (start_datetime + offset) @ ''Z</time>'',
         ''</trkpt>''])\<close>

definition gpx_header :: "gpx_lib \<Rightarrow> int \<Rightarrow> (int \<times> (real \<times> real)) list \<Rightarrow> string list" where
  \<open>gpx_header lib start_datetime key_points =
     (let lats = map (\<lambda>p. fst (snd p)) key_points; lons = map (\<lambda>p. snd (snd p)) key_points in
      [''<?xml version="1.0" encoding="UTF-8"?>'',
       ''<gpx version="1.1" creator="CompanyName" xmlns="http://www.topografix.com/GPX/1/1">'',
       ''<metadata>'', ''<link href="https://www.company.com">'', ''<text>Description</text>'', ''</link>'',
       ''<time>'' @ isoformat lib start_datetime @ ''Z</time>'',
       ''<bounds minlat="'' @ float_str lib (py_min lats) @ ''" maxlat="'' @ float_str lib (py_max lats) @
         ''" minlon="'' @ float_str lib (py_min lons) @ ''" maxlon="'' @ float_str lib (py_max lons) @ ''"/>'',
       ''</metadata>'', ''<trk>'', ''<name>360 Video GPS Data</name>'', ''<trkseg>''])\<close>

text \<open>The points written: the loop's points, then the last key point at offset
  \<open>total_seconds\<close>.\<close>

definition gpx_track :: "(int \<times> (real \<times> real)) list \<Rightarrow> (int \<times> (real \<times> real)) list" where
  "gpx_track key_points = segment_points 0 key_points @ [(segment_total key_points, snd (last key_points))]"

text \<open>
  \<open>generate_gpx\<close>: \<open>min\<close> of no key points raises \<open>ValueError\<close>; the variable
  \<open>elevation\<close> is assigned only inside the loop, so when the loop produced no
  point the final point raises \<open>UnboundLocalError\<close>.
\<close>

definition generate_gpx :: "gpx_lib \<Rightarrow> int \<Rightarrow> (int \<times> (real \<times> real)) list \<Rightarrow> string py_result" where
  "generate_gpx lib start_datetime key_points =
     (if key_points = [] then Inl ValueError
      else if segment_points 0 key_points = [] then Inl UnboundLocalError
      else Inr (py_join [CHR 0x0A]
                  (gpx_header lib start_datetime key_points
                   @ concat (map (trkpt_lines lib start_datetime) (gpx_track key_points))
                   @ [''</trkseg>'', ''</trk>'', ''</gpx>''])))"

definition gpx_main :: "gpx_lib \<Rightarrow> string \<Rightarrow> string py_result" where
  "gpx_main lib content =
     py_bind (parse_input_file lib content)
       (\<lambda>(start_datetime, key_points). generate_gpx lib start_datetime key_points)"

text \<open>The module body (lines 119--124): \<open>main\<close> reads \<open>input.txt\<close> and
  opens \<open>output.gpx\<close> only once the document is built, so an input that
  raises leaves no output file.  The folder is a map from names to texts.\<close>

definition gpx_module_main :: "gpx_lib \<Rightarrow> (string \<Rightarrow> string option) \<Rightarrow> (string \<Rightarrow> string option) py_result" where
  "gpx_module_main lib files =
     (let input_filename = ''input.txt''; output_filename = ''output.gpx'' in
      case files input_filename of
        None \<Rightarrow> Inl OSError
      | Some content \<Rightarrow> py_bind (gpx_main lib content) (\<lambda>gpx_content. Inr (files(output_filename \<mapsto> gpx_content))))"

section \<open>Lemmas\<close>

lemma interpolate_coords_zero [simp]: "interpolate_coords a b 0 = a"
  by (simp add: interpolate_coords_def)

lemma map_plus_upto: "map (\<lambda>x. a + x) [i .. j] = [a + i .. a + j]"
proof (induction i j rule: upto.induct)
  case (1 i j)
  then show ?case by (subst (1 2) upto.simps) (auto simp: add.assoc)
qed

lemma segment_total_telescopes:
  "segment_total ((t0, c0) # rest) = fst (last ((t0, c0) # rest)) - t0"
  by (induction "(t0, c0) # rest" arbitrary: t0 c0 rest rule: segment_total.induct) auto

lemma segment_points_Nil_iff:
  "segment_points total_seconds kps = [] \<longleftrightarrow> successively (\<lambda>a b. fst b \<le> fst a) kps"
  by (induction total_seconds kps rule: segment_points.induct) (auto simp: Let_def)

lemma segment_points_times:
  "successively (\<lambda>a b. fst a < fst b) ((t0, c0) # rest) \<Longrightarrow>
   map fst (segment_points total_seconds ((t0, c0) # rest)) =
     [total_seconds .. total_seconds + (fst (last ((t0, c0) # rest)) - t0) - 1]"
proof (induction total_seconds "(t0, c0) # rest" arbitrary: t0 c0 rest rule: segment_points.induct)
  case (1 total_seconds start_time start_coords end_time end_coords rest)
  let ?seg = "end_time - start_time"
  let ?l = "fst (last ((end_time, end_coords) # rest))"
  have lt: "start_time < end_time" using "1.prems" by simp
  have ih: "map fst (segment_points (total_seconds + ?seg) ((end_time, end_coords) # rest)) =
            [total_seconds + ?seg .. total_seconds + ?seg + (?l - end_time) - 1]"
    using "1.hyps" "1.prems" by simp
  have le: "end_time \<le> ?l"
    using "1.prems" by (induction rest arbitrary: end_time end_coords) (auto simp: successively_Cons)
  have "[total_seconds .. total_seconds + ?seg - 1] @ [total_seconds + ?seg .. total_seconds + ?seg + (?l - end_time) - 1] =
        [total_seconds .. total_seconds + (?l - start_time) - 1]"
    using lt le upto_split2 [of total_seconds "total_seconds + ?seg - 1" "total_seconds + (?l - start_time) - 1"]
    by simp
  then show ?case using ih by (simp add: Let_def comp_def map_plus_upto add_diff_eq)
qed simp

lemma segment_points_keys:
  "successively (\<lambda>a b. fst a < fst b) ((t0, c0) # rest) \<Longrightarrow>
   (t, c) \<in> set (butlast ((t0, c0) # rest)) \<Longrightarrow>
   (total_seconds + (t - t0), c) \<in> set (segment_points total_seconds ((t0, c0) # rest))"
proof (induction total_seconds "(t0, c0) # rest" arbitrary: t0 c0 rest rule: segment_points.induct)
  case (1 total_seconds start_time start_coords end_time end_coords rest)
  have lt: "start_time < end_time" using "1.prems"(1) by simp
  show ?case
  proof (cases "(t, c) = (start_time, start_coords)")
    case True
    have "(total_seconds + 0, interpolate_coords start_coords end_coords (of_int 0 / of_int (end_time - start_time)))
          \<in> set (map (\<lambda>second. (total_seconds + second,
                   interpolate_coords start_coords end_coords (of_int second / of_int (end_time - start_time))))
                 [0 .. end_time - start_time - 1])"
      using lt by auto
    then show ?thesis using True by (simp add: Let_def)
  next
    case False
    then have "(t, c) \<in> set (butlast ((end_time, end_coords) # rest))"
      using "1.prems"(2) by (cases rest) auto
    then have "(total_seconds + (end_time - start_time) + (t - end_time), c)
               \<in> set (segment_points (total_seconds + (end_time - start_time)) ((end_time, end_coords) # rest))"
      using "1.hyps" "1.prems"(1) by simp
    then show ?thesis by (simp add: Let_def algebra_simps)
  qed
qed simp

lemma foldl_min_le: "foldl min a xs \<le> a \<and> (\<forall>x\<in>set xs. foldl min a xs \<le> x)"
  for a :: real
proof (induction xs arbitrary: a)
  case (Cons y xs)
  then show ?case
    using Cons.IH [of "min a y"] by (auto intro: order_trans [OF _ min.cobounded1] order_trans [OF _ min.cobounded2])
qed simp

lemma foldl_max_ge: "a \<le> foldl max a xs \<and> (\<forall>x\<in>set xs. x \<le> foldl max a xs)"
  for a :: real
proof (induction xs arbitrary: a)
  case (Cons y xs)
  then show ?case
    using Cons.IH [of "max a y"] by (auto intro: order_trans [OF max.cobounded1] order_trans [OF max.cobounded2])
qed simp

lemma py_min_le: "x \<in> set xs \<Longrightarrow> py_min xs \<le> x"
  using foldl_min_le [of "hd xs" "tl xs"] by (cases xs) (auto simp: py_min_def)

lemma py_max_ge: "x \<in> set xs \<Longrightarrow> x \<le> py_max xs"
  using foldl_max_ge [of "hd xs" "tl xs"] by (cases xs) (auto simp: py_max_def)

lemma convex_between:
  fixes a b f lo hi :: real
  assumes "lo \<le> a" "a \<le> hi" "lo \<le> b" "b \<le> hi" "0 \<le> f" "f \<le> 1"
  shows "lo \<le> a + (b - a) * f \<and> a + (b - a) * f \<le> hi"
proof -
  have e: "a + (b - a) * f = (1 - f) * a + f * b" by algebra
  have "(1 - f) * lo \<le> (1 - f) * a" "f * lo \<le> f * b" "(1 - f) * a \<le> (1 - f) * hi" "f * b \<le> f * hi"
    using assms by (simp_all add: mult_left_mono)
  then show ?thesis unfolding e by (simp add: algebra_simps)
qed

lemma segment_points_between:
  "(t, c) \<in> set (segment_points ts kps) \<Longrightarrow>
   \<exists>c1\<in>snd ` set kps. \<exists>c2\<in>snd ` set kps. \<exists>f. 0 \<le> f \<and> f \<le> 1 \<and> c = interpolate_coords c1 c2 f"
proof (induction ts kps rule: segment_points.induct)
  case (1 total_seconds start_time start_coords end_time end_coords rest)
  show ?case
  proof (cases "(t, c) \<in> set (segment_points (total_seconds + (end_time - start_time)) ((end_time, end_coords) # rest))")
    case True
    then obtain c1 c2 f where "c1 \<in> snd ` set ((end_time, end_coords) # rest)"
      "c2 \<in> snd ` set ((end_time, end_coords) # rest)" "0 \<le> f" "f \<le> 1" "c = interpolate_coords c1 c2 f"
      using "1.IH" [OF refl True] by blast
    moreover have "snd ` set ((end_time, end_coords) # rest) \<subseteq>
        snd ` set ((start_time, start_coords) # (end_time, end_coords) # rest)" by auto
    ultimately show ?thesis by blast
  next
    case False
    then obtain second where s: "0 \<le> second" "second \<le> end_time - start_time - 1"
      and c: "c = interpolate_coords start_coords end_coords (of_int second / of_int (end_time - start_time))"
      using "1.prems" by (auto simp: Let_def)
    then have "0 \<le> of_int second / (of_int (end_time - start_time) :: real)"
      "of_int second / (of_int (end_time - start_time) :: real) \<le> 1"
      by (simp_all add: divide_le_eq_1)
    then show ?thesis using c by fastforce
  qed
qed simp_all

section \<open>Properties\<close>

text \<open>
  C25. For key points at strictly increasing times, the track has one point per
  second: its time offsets are exactly \<open>0, 1, ..., T\<close> with \<open>T\<close> the last key
  point's time less the first's, and every key point lies on the track at its own
  offset (the interpolation starts each segment at its first key point).
\<close>

theorem gpx_track_per_second:
  assumes "successively (\<lambda>a b. fst a < fst b) key_points" and "key_points \<noteq> []"
  shows "map fst (gpx_track key_points) = [0 .. fst (last key_points) - fst (hd key_points)]
       \<and> (\<forall>p \<in> set key_points. (fst p - fst (hd key_points), snd p) \<in> set (gpx_track key_points))"
proof -
  obtain t0 c0 rest where k: "key_points = (t0, c0) # rest"
    using assms(2) by (metis list.exhaust prod.exhaust)
  let ?T = "fst (last key_points) - t0"
  have le: "t0 \<le> fst (last key_points)"
    using assms(1) unfolding k by (induction rest arbitrary: t0 c0) (auto simp: successively_Cons)
  have times: "map fst (gpx_track key_points) = [0 .. ?T - 1] @ [?T]"
    using segment_points_times [of t0 c0 rest 0] assms(1) k
    by (simp add: gpx_track_def segment_total_telescopes)
  have "[0 .. ?T - 1] @ [?T] = [0 .. ?T]"
    using le upto_rec2 [of 0 ?T] by simp
  moreover have "(fst p - t0, snd p) \<in> set (gpx_track key_points)" if p: "p \<in> set key_points" for p
  proof (cases "p \<in> set (butlast key_points)")
    case True
    then show ?thesis
      using segment_points_keys [of t0 c0 rest "fst p" "snd p" 0] assms(1) k by (simp add: gpx_track_def)
  next
    case False
    then have "p = last key_points" using p by (metis append_butlast_last_id assms(2) butlast.simps(2) in_set_butlast_appendI rotate1.simps(2) set_ConsD set_rotate1)
    then show ?thesis
      using k by (simp add: gpx_track_def segment_total_telescopes)
  qed
  ultimately show ?thesis using times k by simp
qed

theorem gpx_track_per_second_witness:
  "successively (\<lambda>a b. fst a < fst b) [(0 :: int, (1 :: real, 1 :: real)), (3, (2, 2)), (5, (2, 1))]
   \<and> [(0 :: int, (1 :: real, 1 :: real)), (3, (2, 2)), (5, (2, 1))] \<noteq> []
   \<and> gpx_track [(0, (1, 1)), (3, (2, 2)), (5, (2, 1))] =
       [(0, (1, 1)), (1, (4/3, 4/3)), (2, (5/3, 5/3)), (3, (2, 2)), (4, (2, 3/2)), (5, (2, 1))]
   \<and> map fst (gpx_track [(0, (1, 1)), (3, (2, 2)), (5, (2, 1))]) = [0 .. 5]"
proof -
  have h: "successively (\<lambda>a b. fst a < fst b) [(0 :: int, (1 :: real, 1 :: real)), (3, (2, 2)), (5, (2, 1))]"
    "[(0 :: int, (1 :: real, 1 :: real)), (3, (2, 2)), (5, (2, 1))] \<noteq> []"
    by simp_all
  have t: "gpx_track [(0, (1, 1)), (3, (2, 2)), (5, (2, 1))] =
       [(0, (1, 1)), (1, (4/3, 4/3)), (2, (5/3, 5/3)), (3, (2, 2)), (4, (2, 3/2)), (5, (2 :: real, 1 :: real))]"
    by code_simp
  show ?thesis
    using gpx_track_per_second [OF h] h t by simp
qed

text \<open>
  C26. \<open>generate_gpx\<close> raises \<open>UnboundLocalError\<close> exactly when no segment has a
  positive length: with a single key point, or when no key point's time is after
  the previous one's, the loop never assigns \<open>elevation\<close>, which the final point
  reads.
\<close>

theorem generate_gpx_unbound_elevation:
  assumes "key_points \<noteq> []"
  shows "generate_gpx lib start_datetime key_points = Inl UnboundLocalError
         \<longleftrightarrow> successively (\<lambda>a b. fst b \<le> fst a) key_points"
  using assms by (simp add: generate_gpx_def segment_points_Nil_iff)

theorem generate_gpx_unbound_elevation_witness:
  "[(0 :: int, (31.23 :: real, -84.19 :: real))] \<noteq> []
   \<and> generate_gpx \<lparr>strptime_z = \<lambda>s. None, float_of = \<lambda>s. None, fmt9 = \<lambda>x. [],
                    float_str = \<lambda>x. [], isoformat = \<lambda>n. []\<rparr> 0 [(0, (31.23, -84.19))] =
       Inl UnboundLocalError"
  using generate_gpx_unbound_elevation [of "[(0 :: int, (31.23 :: real, -84.19 :: real))]"
      "\<lparr>strptime_z = \<lambda>s. None, float_of = \<lambda>s. None, fmt9 = \<lambda>x. [], float_str = \<lambda>x. [],
        isoformat = \<lambda>n. []\<rparr>" 0]
  by simp

text \<open>
  C30. Every point of the track lies inside the \<open><bounds>\<close> the header
  announces: its latitude between the \<open>min\<close> and the \<open>max\<close> of the key points'
  latitudes, its longitude between those of their longitudes.  Each point of a
  segment is the interpolation at a fraction \<open>second / segment_seconds\<close> in
  \<open>[0, 1)\<close> of two key points, whatever the order of their times.
\<close>

theorem gpx_track_within_bounds:
  assumes "key_points \<noteq> []"
  shows "\<forall>(t, lat, lon) \<in> set (gpx_track key_points).
           py_min (map (\<lambda>p. fst (snd p)) key_points) \<le> lat \<and> lat \<le> py_max (map (\<lambda>p. fst (snd p)) key_points)
         \<and> py_min (map (\<lambda>p. snd (snd p)) key_points) \<le> lon \<and> lon \<le> py_max (map (\<lambda>p. snd (snd p)) key_points)"
proof (clarify)
  fix t lat lon
  assume p: "(t, lat, lon) \<in> set (gpx_track key_points)"
  let ?lats = "map (\<lambda>p. fst (snd p)) key_points" and ?lons = "map (\<lambda>p. snd (snd p)) key_points"
  have key: "py_min ?lats \<le> fst c \<and> fst c \<le> py_max ?lats \<and> py_min ?lons \<le> snd c \<and> snd c \<le> py_max ?lons"
    if "c \<in> snd ` set key_points" for c
    using that by (auto intro!: py_min_le py_max_ge rev_image_eqI)
  show "py_min ?lats \<le> lat \<and> lat \<le> py_max ?lats \<and> py_min ?lons \<le> lon \<and> lon \<le> py_max ?lons"
  proof (cases "(t, lat, lon) \<in> set (segment_points 0 key_points)")
    case True
    obtain c1 c2 f where c1: "c1 \<in> snd ` set key_points" and c2: "c2 \<in> snd ` set key_points"
      and f: "0 \<le> f" "f \<le> 1" and c: "(lat, lon) = interpolate_coords c1 c2 f"
      using segment_points_between [OF True] by blast
    have lat: "lat = fst c1 + (fst c2 - fst c1) * f" and lon: "lon = snd c1 + (snd c2 - snd c1) * f"
      using c by (simp_all add: interpolate_coords_def)
    have k1: "py_min ?lats \<le> fst c1 \<and> fst c1 \<le> py_max ?lats \<and> py_min ?lons \<le> snd c1 \<and> snd c1 \<le> py_max ?lons"
      by (rule key [OF c1])
    have k2: "py_min ?lats \<le> fst c2 \<and> fst c2 \<le> py_max ?lats \<and> py_min ?lons \<le> snd c2 \<and> snd c2 \<le> py_max ?lons"
      by (rule key [OF c2])
    have "py_min ?lats \<le> lat \<and> lat \<le> py_max ?lats"
      unfolding lat using k1 k2 f by (intro convex_between) simp_all
    moreover have "py_min ?lons \<le> lon \<and> lon \<le> py_max ?lons"
      unfolding lon using k1 k2 f by (intro convex_between) simp_all
    ultimately show ?thesis by simp
  next
    case False
    then have "(lat, lon) = snd (last key_points)" using p by (simp add: gpx_track_def)
    moreover have "snd (last key_points) \<in> snd ` set key_points" using assms by simp
    ultimately have "(lat, lon) \<in> snd ` set key_points" by simp
    from key [OF this] show ?thesis by simp
  qed
qed

theorem gpx_track_within_bounds_witness:
  "[(0 :: int, (31.2 :: real, -84.2 :: real)), (2, (31.4, -84.1))] \<noteq> []
   \<and> list_all (\<lambda>(t, lat, lon). 31.2 \<le> lat \<and> lat \<le> 31.4 \<and> -84.2 \<le> lon \<and> lon \<le> -84.1)
         (gpx_track [(0 :: int, (31.2 :: real, -84.2 :: real)), (2, (31.4, -84.1))])"
proof -
  have h: "[(0 :: int, (31.2 :: real, -84.2 :: real)), (2, (31.4, -84.1))] \<noteq> []" by simp
  have b: "py_min [31.2, 31.4] = (31.2 :: real)" "py_max [31.2, 31.4] = (31.4 :: real)"
    "py_min [-84.2, -84.1] = (-84.2 :: real)" "py_max [-84.2, -84.1] = (-84.1 :: real)"
    by (simp_all add: py_min_def py_max_def)
  show ?thesis
    using h gpx_track_within_bounds [OF h, unfolded list.map prod.sel b] by (simp add: list_all_iff)
qed

end
