(* ===== verification/Kmz.thy ===== *)
theory Kmz
  imports GeoPhotos "HOL-Library.AList"
begin

text \<open>
  The two scripts that pack the geotagged photos of a folder into a KMZ archive
  for Google Earth.  \<open>src/GenerateKmz.py\<close> reads each photo's position
  (\<open>extract_gps_data\<close>, with the hemisphere references this time), copies the
  photo into a \<open>files\<close> folder and writes a KML placemark per photo
  (\<open>create_kml\<close>).  \<open>src/GenKMZwithRotationFinal.py\<close> has the same functions
  and, instead of copying, rotates each photo by the angle its EXIF Orientation
  tag asks for and sets the tag to 1 (normal).

  The photo's pixels are a list of rows; PIL's transpositions and
  \<open>Image.rotate\<close> by a multiple of 90 degrees are the list operations below, and a
  viewer shows the stored rows transformed as the Orientation tag says
  (\<open>exif_display\<close>, the table of \<open>PIL.ImageOps.exif_transpose\<close>).  The folder
  of the archive is a map from file names to photos; the dictionary
  \<open>image_data\<close> is an association list updated in place, as a Python
  dictionary keeps the position of a key it already has.
\<close>

section \<open>Positions with hemispheres\<close>

definition kmz_convert_to_decimal_degrees :: "real \<times> real \<times> real \<Rightarrow> string \<Rightarrow> real" where
  "kmz_convert_to_decimal_degrees coord ref =
     (case coord of (degrees, minutes, seconds) \<Rightarrow>
        (let decimal_degrees = degrees + minutes / 60 + seconds / 3600
         in if ref \<in> set [''S'', ''W''] then - decimal_degrees else decimal_degrees))"

text \<open>\<open>extract_gps_data\<close>: a missing latitude, longitude or reference tag raises
  \<open>KeyError\<close> inside the \<open>try\<close>, which prints it and gives no position.\<close>

definition kmz_extract_gps_data :: "photo_exif option \<Rightarrow> real option \<times> real option \<times> real option" where
  "kmz_extract_gps_data img =
     (case img of
        None \<Rightarrow> (None, None, None)
      | Some exif_data \<Rightarrow>
          (case gps exif_data of
             None \<Rightarrow> (None, None, None)
           | Some gps_data \<Rightarrow>
               (case (gps_latitude gps_data, gps_latitude_ref gps_data,
                      gps_longitude gps_data, gps_longitude_ref gps_data) of
                  (Some la, Some la_ref, Some lo, Some lo_ref) \<Rightarrow>
                    (Some (kmz_convert_to_decimal_degrees la la_ref),
                     Some (kmz_convert_to_decimal_degrees lo lo_ref), gps_altitude gps_data)
                | _ \<Rightarrow> (None, None, None))))"

text \<open>\<open>GenerateKmz.py\<close> has its own copies of the two functions (lines 12--38),
  the same code as lines 20--66 of \<open>GenKMZwithRotationFinal.py\<close>.\<close>

definition gk_convert_to_decimal_degrees :: "real \<times> real \<times> real \<Rightarrow> string \<Rightarrow> real" where
  "gk_convert_to_decimal_degrees coord ref =
     (case coord of (degrees, minutes, seconds) \<Rightarrow>
        (let decimal_degrees = degrees + minutes / 60 + seconds / 3600
         in if ref \<in> set [''S'', ''W''] then - decimal_degrees else decimal_degrees))"

definition gk_extract_gps_data :: "photo_exif option \<Rightarrow> real option \<times> real option \<times> real option" where
  "gk_extract_gps_data img =
     (case img of
        None \<Rightarrow> (None, None, None)
      | Some exif_data \<Rightarrow>
          (case gps exif_data of
             None \<Rightarrow> (None, None, None)
           | Some gps_data \<Rightarrow>
               (case (gps_latitude gps_data, gps_latitude_ref gps_data,
                      gps_longitude gps_data, gps_longitude_ref gps_data) of
                  (Some la, Some la_ref, Some lo, Some lo_ref) \<Rightarrow>
                    (Some (gk_convert_to_decimal_degrees la la_ref),
                     Some (gk_convert_to_decimal_degrees lo lo_ref), gps_altitude gps_data)
                | _ \<Rightarrow> (None, None, None))))"

definition get_image_orientation :: "photo_exif option \<Rightarrow> int option" where
  "get_image_orientation img = (case img of None \<Rightarrow> None | Some exif_data \<Rightarrow> exif_orientation exif_data)"

section \<open>Pixels and orientation\<close>

type_synonym 'p pixels = "'p list list"

text \<open>A photo file: its EXIF tags (\<open>None\<close> when PIL cannot read them) and its
  pixel rows, top row first.\<close>

type_synonym 'p photo_file = "photo_exif option \<times> 'p pixels"

definition flip_left_right :: "'p pixels \<Rightarrow> 'p pixels" where
  "flip_left_right m = map rev m"

definition flip_top_bottom :: "'p pixels \<Rightarrow> 'p pixels" where
  "flip_top_bottom m = rev m"

text \<open>Counter-clockwise quarter turns, as PIL's \<open>ROTATE_90\<close>, \<open>ROTATE_180\<close> and
  \<open>ROTATE_270\<close>, and the two diagonal mirrors \<open>TRANSPOSE\<close> and
  \<open>TRANSVERSE\<close>.\<close>

definition rotate_90 :: "'p pixels \<Rightarrow> 'p pixels" where
  "rotate_90 m = rev (transpose m)"

definition rotate_180 :: "'p pixels \<Rightarrow> 'p pixels" where
  "rotate_180 m = rev (map rev m)"

definition rotate_270 :: "'p pixels \<Rightarrow> 'p pixels" where
  "rotate_270 m = transpose (rev m)"

definition transverse :: "'p pixels \<Rightarrow> 'p pixels" where
  "transverse m = rev (map rev (transpose m))"

text \<open>\<open>Image.rotate(angle, expand=True)\<close> for the angles the script uses:
  PIL performs a multiple of 90 degrees as the matching transposition.\<close>

definition pil_rotate :: "int \<Rightarrow> 'p pixels \<Rightarrow> 'p pixels" where
  "pil_rotate angle m =
     (if angle mod 360 = 90 then rotate_90 m
      else if angle mod 360 = 180 then rotate_180 m
      else if angle mod 360 = 270 then rotate_270 m
      else m)"

text \<open>What a viewer shows for stored rows with a given Orientation tag; values
  outside 2..8 show the rows as stored.\<close>

definition exif_display :: "int option \<Rightarrow> 'p pixels \<Rightarrow> 'p pixels" where
  "exif_display orientation m =
     (case orientation of
        None \<Rightarrow> m
      | Some n \<Rightarrow>
          if n = 2 then flip_left_right m
          else if n = 3 then rotate_180 m
          else if n = 4 then flip_top_bottom m
          else if n = 5 then transpose m
          else if n = 6 then rotate_270 m
          else if n = 7 then transverse m
          else if n = 8 then rotate_90 m
          else m)"

definition photo_display :: "'p photo_file \<Rightarrow> 'p pixels" where
  "photo_display f = exif_display (get_image_orientation (fst f)) (snd f)"

section \<open>Rotating a photo: \<open>GenKMZwithRotationFinal.py\<close>\<close>

text \<open>The angle \<open>main\<close> chooses: \<open>if orientation:\<close> is false for \<open>None\<close>
  and 0.\<close>

definition rotation_angle :: "int option \<Rightarrow> int" where
  "rotation_angle orientation =
     (case orientation of
        None \<Rightarrow> 0
      | Some n \<Rightarrow>
          if n \<noteq> 0 then (if n = 3 then 180 else if n = 6 then 270 else if n = 8 then 90 else 0)
          else 0)"

text \<open>\<open>rotate_image\<close>: the rotated pixels are saved with the EXIF data of the
  input, Orientation tag included.\<close>

definition rotate_image :: "'p photo_file \<Rightarrow> int \<Rightarrow> 'p photo_file" where
  "rotate_image input_image angle = (fst input_image, pil_rotate angle (snd input_image))"

text \<open>\<open>exif_dict['0th'][piexif.ImageIFD.Orientation] = 1\<close> on the saved copy.\<close>

definition set_orientation_normal :: "'p photo_file \<Rightarrow> 'p photo_file" where
  "set_orientation_normal img =
     (map_option (\<lambda>e. e\<lparr>exif_orientation := Some 1\<rparr>) (fst img), snd img)"

text \<open>The file \<open>main\<close> leaves in the \<open>files\<close> folder for a photo with a
  position.\<close>

definition kmz_export_photo :: "'p photo_file \<Rightarrow> 'p photo_file" where
  "kmz_export_photo f =
     set_orientation_normal (rotate_image f (rotation_angle (get_image_orientation (fst f))))"

section \<open>The loops of \<open>main\<close>\<close>

record 'p kmz_state =
  image_data :: "(string \<times> real \<times> real \<times> real option) list"
  kmz_files :: "string \<Rightarrow> 'p photo_file option"

definition kmz_image_extensions :: "string list" where
  "kmz_image_extensions = [''.jpg'', ''.jpeg'', ''.png'', ''.gif'', ''.bmp'']"

text \<open>One iteration of \<open>for filename in os.listdir(folder_path)\<close>;
  \<open>extract\<close> is the script's \<open>extract_gps_data\<close> and \<open>export\<close> what it
  stores in \<open>files\<close>: the photo itself for \<open>shutil.copy\<close>,
  \<open>kmz_export_photo\<close> for the rotating script.\<close>

definition kmz_photo_step ::
  "(photo_exif option \<Rightarrow> real option \<times> real option \<times> real option) \<Rightarrow> ('p photo_file \<Rightarrow> 'p photo_file) \<Rightarrow>
   string \<times> 'p photo_file \<Rightarrow> 'p kmz_state \<Rightarrow> 'p kmz_state" where
  "kmz_photo_step extract export entry st =
     (case entry of (filename, f) \<Rightarrow>
        if list_ex (py_endswith (py_lower filename)) kmz_image_extensions then
          (case extract (fst f) of
             (Some latitude, Some longitude, altitude) \<Rightarrow>
               st\<lparr>kmz_files := (kmz_files st)(filename \<mapsto> export f),
                  image_data := AList.update filename (latitude, longitude, altitude) (image_data st)\<rparr>
           | _ \<Rightarrow> st)
        else st)"

text \<open>\<open>GenerateKmz.py\<close>: each photo with a position is recorded, then copied.\<close>

definition generate_kmz_loop :: "(string \<times> 'p photo_file) list \<Rightarrow> 'p kmz_state \<Rightarrow> 'p kmz_state" where
  "generate_kmz_loop listing st = fold (kmz_photo_step gk_extract_gps_data id) listing st"

text \<open>\<open>GenKMZwithRotationFinal.py\<close>: each photo with a position is rotated into
  \<open>files\<close>, its tag reset, then recorded.\<close>

definition kmz_rotation_loop :: "(string \<times> 'p photo_file) list \<Rightarrow> 'p kmz_state \<Rightarrow> 'p kmz_state" where
  "kmz_rotation_loop listing st = fold (kmz_photo_step kmz_extract_gps_data kmz_export_photo) listing st"

section \<open>The KML document\<close>

text \<open>\<open>num_str\<close> is Python's \<open>str\<close> of the float or EXIF rational;
  \<open>{alt or 0}\<close> prints 0 for a missing or zero altitude.\<close>

definition kml_placemark :: "(real \<Rightarrow> string) \<Rightarrow> string \<times> real \<times> real \<times> real option \<Rightarrow> string" where
  \<open>kml_placemark num_str item =
     (case item of (img_name, lat, lon, alt) \<Rightarrow>
        ''\<newline>        <Placemark>\<newline>            <name>'' @ img_name @ ''</name>\<newline>'' @
        ''            <description><![CDATA[<img style="max-width:1500px;" src="files/'' @ img_name @
        ''">]]></description>\<newline>            <Point>\<newline>                <coordinates>'' @
        num_str lon @ '','' @ num_str lat @ '','' @
        (case alt of None \<Rightarrow> ''0'' | Some a \<Rightarrow> if a = 0 then ''0'' else num_str a) @
        ''</coordinates>\<newline>            </Point>\<newline>        </Placemark>\<newline>        '')\<close>

definition kml_head :: string where
  \<open>kml_head =
     ''<?xml version="1.0" encoding="UTF-8"?>\<newline>'' @
     ''<kml xmlns="http://www.opengis.net/kml/2.2" xmlns:gx="http://www.google.com/kml/ext/2.2" '' @
     ''xmlns:kml="http://www.opengis.net/kml/2.2" xmlns:atom="http://www.w3.org/2005/Atom">\<newline>'' @
     ''<Document>\<newline>    <name>photo_data.kmz</name>\<newline>    <Folder>\<newline>'' @
     ''        <name>Photo Points</name>\<newline>    ''\<close>

definition kml_tail :: string where
  "kml_tail = ''\<newline>    </Folder>\<newline></Document>\<newline></kml>\<newline>''"

definition create_kml :: "(real \<Rightarrow> string) \<Rightarrow> (string \<times> real \<times> real \<times> real option) list \<Rightarrow> string" where
  "create_kml num_str image_data_items = kml_head @ concat (map (kml_placemark num_str) image_data_items) @ kml_tail"

text \<open>\<open>create_kml\<close> of \<open>GenerateKmz.py\<close> (lines 40--66): the same literals.\<close>

definition gk_create_kml :: "(real \<Rightarrow> string) \<Rightarrow> (string \<times> real \<times> real \<times> real option) list \<Rightarrow> string" where
  "gk_create_kml num_str image_data_items = kml_head @ concat (map (kml_placemark num_str) image_data_items) @ kml_tail"

section \<open>The archive\<close>

text \<open>An entry of the KMZ (zip) archive.\<close>

datatype 'p kmz_entry = KmlEntry string | PhotoEntry "'p photo_file"

text \<open>\<open>create_kmz\<close>: the entries in the order written.  \<open>walk\<close> is what
  \<open>os.walk(files_folder)\<close> yields, each folder's path with its files and their
  contents; each file is stored as \<open>files/<name>\<close>, whatever subfolder it is in.\<close>

definition create_kmz :: "string \<Rightarrow> (string \<times> (string \<times> 'p photo_file) list) list \<Rightarrow> (string \<times> 'p kmz_entry) list" where
  "create_kmz kml_content walk =
     (''doc.kml'', KmlEntry kml_content) #
     concat (map (\<lambda>(dirpath, files). map (\<lambda>(file, f). (path_join ''files'' file, PhotoEntry f)) files) walk)"

text \<open>\<open>create_kmz\<close> of \<open>GenerateKmz.py\<close> (lines 68--73).\<close>

definition gk_create_kmz :: "string \<Rightarrow> (string \<times> (string \<times> 'p photo_file) list) list \<Rightarrow> (string \<times> 'p kmz_entry) list" where
  "gk_create_kmz kml_content walk =
     (''doc.kml'', KmlEntry kml_content) #
     concat (map (\<lambda>(dirpath, files). map (\<lambda>(file, f). (path_join ''files'' file, PhotoEntry f)) files) walk)"

text \<open>The document and the \<open>files\<close> folder that \<open>create_kmz\<close> zips, from the
  listing of the folder and what \<open>files\<close> already held: lines 80--105 of
  \<open>GenerateKmz.py\<close>'s \<open>main\<close>, which its line 79 never lets run.\<close>

definition generate_kmz_body ::
  "(real \<Rightarrow> string) \<Rightarrow> (string \<times> 'p photo_file) list \<Rightarrow> (string \<Rightarrow> 'p photo_file option) \<Rightarrow>
   string \<times> (string \<Rightarrow> 'p photo_file option)" where
  "generate_kmz_body num_str listing files0 =
     (let st = generate_kmz_loop listing \<lparr>image_data = [], kmz_files = files0\<rparr>
      in (gk_create_kml num_str (image_data st), kmz_files st))"

text \<open>\<open>sys.executable\<close> in \<open>GenerateKmz.py\<close>: the script imports \<open>os\<close>,
  \<open>zipfile\<close>, \<open>PIL\<close> and \<open>shutil\<close> but not \<open>sys\<close>, so the name is unbound.\<close>

definition gk_sys_executable :: "string py_result" where
  "gk_sys_executable = Inl NameError"

text \<open>\<open>main\<close> of \<open>GenerateKmz.py\<close>: line 79 evaluates
  \<open>os.path.dirname(sys.executable)\<close> before anything else.\<close>

definition generate_kmz_main ::
  "(real \<Rightarrow> string) \<Rightarrow> (string \<times> 'p photo_file) list \<Rightarrow> (string \<Rightarrow> 'p photo_file option) \<Rightarrow>
   (string \<times> (string \<Rightarrow> 'p photo_file option)) py_result" where
  "generate_kmz_main num_str listing files0 =
     py_bind gk_sys_executable (\<lambda>executable. Inr (generate_kmz_body num_str listing files0))"

definition kmz_rotation_main ::
  "(real \<Rightarrow> string) \<Rightarrow> (string \<times> 'p photo_file) list \<Rightarrow> (string \<Rightarrow> 'p photo_file option) \<Rightarrow>
   string \<times> (string \<Rightarrow> 'p photo_file option)" where
  "kmz_rotation_main num_str listing files0 =
     (let st = kmz_rotation_loop listing \<lparr>image_data = [], kmz_files = files0\<rparr>
      in (create_kml num_str (image_data st), kmz_files st))"

text \<open>The archive each script writes, for the walk \<open>os.walk\<close> makes of the
  \<open>files\<close> folder it leaves.\<close>

definition generate_kmz_archive ::
  "(real \<Rightarrow> string) \<Rightarrow> (string \<times> 'p photo_file) list \<Rightarrow> (string \<Rightarrow> 'p photo_file option) \<Rightarrow>
   ((string \<Rightarrow> 'p photo_file option) \<Rightarrow> (string \<times> (string \<times> 'p photo_file) list) list) \<Rightarrow>
   (string \<times> 'p kmz_entry) list py_result" where
  "generate_kmz_archive num_str listing files0 walk =
     py_bind (generate_kmz_main num_str listing files0) (\<lambda>(kml, files). Inr (gk_create_kmz kml (walk files)))"

definition kmz_rotation_archive ::
  "(real \<Rightarrow> string) \<Rightarrow> (string \<times> 'p photo_file) list \<Rightarrow> (string \<Rightarrow> 'p photo_file option) \<Rightarrow>
   ((string \<Rightarrow> 'p photo_file option) \<Rightarrow> (string \<times> (string \<times> 'p photo_file) list) list) \<Rightarrow> (string \<times> 'p kmz_entry) list" where
  "kmz_rotation_archive num_str listing files0 walk =
     (case kmz_rotation_main num_str listing files0 of (kml, files) \<Rightarrow> create_kmz kml (walk files))"

text \<open>The entry the loop records for one file of the listing, if any: the
  abstract view of one iteration of \<open>main\<close>.\<close>

definition kmz_position_entry ::
  "(photo_exif option \<Rightarrow> real option \<times> real option \<times> real option) \<Rightarrow> string \<times> 'p photo_file \<Rightarrow>
   (string \<times> real \<times> real \<times> real option) option" where
  "kmz_position_entry extract entry =
     (case entry of (filename, f) \<Rightarrow>
        if list_ex (py_endswith (py_lower filename)) kmz_image_extensions then
          (case extract (fst f) of
             (Some latitude, Some longitude, altitude) \<Rightarrow> Some (filename, latitude, longitude, altitude)
           | _ \<Rightarrow> None)
        else None)"

section \<open>Fixtures\<close>

text \<open>A folder with one photo taken at 31.5 S, 84.25 E, stored turned (Orientation
  6), and a text file.\<close>

definition kmz_fixture_listing :: "(string \<times> nat photo_file) list" where
  "kmz_fixture_listing =
     [(''a.JPG'', (Some \<lparr>camera_make = [], camera_model = [], exif_datetime = [],
        datetime_original = [], user_comment = [],
        gps = Some \<lparr>gps_latitude_ref = Some ''S'', gps_latitude = Some (31, 30, 0),
                    gps_longitude_ref = Some ''E'', gps_longitude = Some (84, 15, 0),
                    gps_altitude = None, gps_altitude_ref = 0, gps_datestamp = [],
                    gps_img_direction = [], gps_img_direction_ref = []\<rparr>,
        exif_orientation = Some 6\<rparr>, [[1, 2]])), (''notes.txt'', (None, []))]"

section \<open>Lemmas\<close>

lemma kmz_photo_step_entry:
  "kmz_photo_step ex export entry st =
     (case kmz_position_entry ex entry of
        None \<Rightarrow> st
      | Some (filename, pos) \<Rightarrow>
          st\<lparr>kmz_files := (kmz_files st)(filename \<mapsto> export (snd entry)),
             image_data := AList.update filename pos (image_data st)\<rparr>)"
  by (auto simp: kmz_photo_step_def kmz_position_entry_def split: option.splits prod.splits)

lemma kmz_position_entry_fst: "kmz_position_entry ex e = Some (n, pos) \<Longrightarrow> n = fst e"
  by (auto simp: kmz_position_entry_def split: if_splits option.splits prod.splits)

lemma update_new_key:
  "k \<notin> fst ` set xs \<Longrightarrow> AList.update k v xs = xs @ [(k, v)]"
  by (induction xs) auto

lemma fold_kmz_photo_step:
  "distinct (map fst listing) \<Longrightarrow> set (map fst listing) \<inter> fst ` set (image_data st) = {} \<Longrightarrow>
   image_data (fold (kmz_photo_step ex export) listing st) = image_data st @ List.map_filter (kmz_position_entry ex) listing
   \<and> kmz_files (fold (kmz_photo_step ex export) listing st) =
       kmz_files st ++ map_of (map (\<lambda>e. (fst e, export (snd e))) (filter (\<lambda>e. kmz_position_entry ex e \<noteq> None) listing))"
proof (induction listing arbitrary: st)
  case Nil
  then show ?case by (simp add: map_filter_simps)
next
  case (Cons e listing)
  show ?case
  proof (cases "kmz_position_entry ex e")
    case None
    then show ?thesis using Cons by (simp add: kmz_photo_step_entry map_filter_simps)
  next
    case (Some a)
    obtain n pos where a: "a = (n, pos)" by (cases a)
    have n: "n = fst e" using Some a kmz_position_entry_fst by blast
    have nd: "n \<notin> fst ` set (image_data st)" using Cons.prems n by auto
    let ?st = "st\<lparr>kmz_files := (kmz_files st)(n \<mapsto> export (snd e)),
                  image_data := image_data st @ [(n, pos)]\<rparr>"
    have step: "kmz_photo_step ex export e st = ?st"
      using Some a nd by (simp add: kmz_photo_step_entry update_new_key)
    have "set (map fst listing) \<inter> fst ` set (image_data ?st) = {}"
      using Cons.prems n by auto
    then have ih: "image_data (fold (kmz_photo_step ex export) listing ?st) =
                     image_data ?st @ List.map_filter (kmz_position_entry ex) listing
      \<and> kmz_files (fold (kmz_photo_step ex export) listing ?st) =
          kmz_files ?st ++ map_of (map (\<lambda>e. (fst e, export (snd e))) (filter (\<lambda>e. kmz_position_entry ex e \<noteq> None) listing))"
      using Cons by (intro Cons.IH) simp_all
    have dom: "fst e \<notin> dom (map_of (map (\<lambda>e. (fst e, export (snd e))) (filter (\<lambda>e. kmz_position_entry ex e \<noteq> None) listing)))"
      using Cons.prems(1) by (auto simp: dom_map_of_conv_image_fst image_image intro: rev_image_eqI)
    have fold: "fold (kmz_photo_step ex export) (e # listing) st = fold (kmz_photo_step ex export) listing ?st"
      using step by simp
    have "image_data (fold (kmz_photo_step ex export) (e # listing) st) =
            image_data st @ List.map_filter (kmz_position_entry ex) (e # listing)"
      unfolding fold using ih Some a n by (simp add: map_filter_simps)
    moreover have "kmz_files (fold (kmz_photo_step ex export) (e # listing) st) =
        kmz_files st ++ map_of (map (\<lambda>e. (fst e, export (snd e))) (filter (\<lambda>e. kmz_position_entry ex e \<noteq> None) (e # listing)))"
      unfolding fold using ih Some dom n by (simp add: map_add_upd_left del: not_None_eq)
    ultimately show ?thesis ..
  qed
qed
lemma kmz_convert_signed:
  assumes "p \<notin> set [''S'', ''W'']" and "q \<in> set [''S'', ''W'']"
  shows "kmz_convert_to_decimal_degrees (dms_value (decimal_to_dms \<bar>x\<bar>)) (if 0 \<le> x then p else q) = x"
proof -
  have c: "kmz_convert_to_decimal_degrees coord ref =
             (if ref \<in> set [''S'', ''W''] then - convert_to_decimal_degrees coord else convert_to_decimal_degrees coord)"
    for coord :: "real \<times> real \<times> real" and ref
    by (cases coord) (simp add: kmz_convert_to_decimal_degrees_def convert_to_decimal_degrees_def Let_def)
  show ?thesis
    using assms convert_decimal_to_dms [of "\<bar>x\<bar>"] by (simp add: c)
qed

lemma image_data_fold_export:
  "image_data st = image_data st' \<Longrightarrow>
   image_data (fold (kmz_photo_step ex ex1) listing st) = image_data (fold (kmz_photo_step ex ex2) listing st')"
proof (induction listing arbitrary: st st')
  case (Cons e listing)
  have "image_data (kmz_photo_step ex ex1 e st) = image_data (kmz_photo_step ex ex2 e st')"
    using Cons.prems by (simp add: kmz_photo_step_entry split: option.splits)
  then show ?case using Cons.IH by simp
qed simp

text \<open>\<open>GenerateKmz.py\<close>'s functions are those of the rotating script.\<close>

lemma gk_convert_to_decimal_degrees_eq: "gk_convert_to_decimal_degrees = kmz_convert_to_decimal_degrees"
  by (simp add: fun_eq_iff gk_convert_to_decimal_degrees_def kmz_convert_to_decimal_degrees_def)

lemma gk_extract_gps_data_eq: "gk_extract_gps_data = kmz_extract_gps_data"
  unfolding gk_extract_gps_data_def kmz_extract_gps_data_def gk_convert_to_decimal_degrees_eq ..

lemma gk_create_kml_eq: "gk_create_kml = create_kml"
  by (simp add: fun_eq_iff gk_create_kml_def create_kml_def)

lemma gk_create_kmz_eq: "gk_create_kmz = create_kmz"
  by (simp add: fun_eq_iff gk_create_kmz_def create_kmz_def)

text \<open>Were \<open>sys\<close> imported, \<open>GenerateKmz.py\<close> would write the same document
  as the rotating script; as written, it raises \<open>NameError\<close> and writes no
  archive.\<close>

lemma generate_kmz_body_same_kml:
  "fst (generate_kmz_body num_str listing files0) = fst (kmz_rotation_main num_str listing files0)"
  using image_data_fold_export [of "\<lparr>image_data = [], kmz_files = files0\<rparr>" "\<lparr>image_data = [], kmz_files = files0\<rparr>"
      kmz_extract_gps_data id listing kmz_export_photo]
  by (simp add: generate_kmz_body_def kmz_rotation_main_def generate_kmz_loop_def kmz_rotation_loop_def Let_def
      gk_extract_gps_data_eq gk_create_kml_eq)

lemma generate_kmz_archive_NameError: "generate_kmz_archive num_str listing files0 walk = Inl NameError"
  by (simp add: generate_kmz_archive_def generate_kmz_main_def gk_sys_executable_def)

text \<open>A file of a flat \<open>files\<close> folder is found in the archive under
  \<open>files/<name>\<close>; \<open>doc.kml\<close> is the first entry.\<close>

lemma path_join_files: "path_join ''files'' m = (if take 1 m = ''/'' then m else ''files/'' @ m)"
  by (simp add: path_join_def)

lemma map_of_files_entries:
  assumes "take 1 n \<noteq> ''/''"
  shows "map_of (map (\<lambda>(file, f). (path_join ''files'' file, PhotoEntry f)) items) (''files/'' @ n) =
           map_option PhotoEntry (map_of items n)"
proof (induction items)
  case (Cons it items)
  obtain m f where it: "it = (m, f)" by (cases it)
  have e: "path_join ''files'' m = ''files/'' @ n \<longleftrightarrow> m = n"
  proof (cases "take 1 m = ''/''")
    case True
    then have "m \<noteq> n" using assms by auto
    moreover have "m \<noteq> ''files/'' @ n" using True by auto
    ultimately show ?thesis using True by (simp add: path_join_files)
  qed (simp add: path_join_files)
  show ?case
  proof (cases "m = n")
    case True
    then show ?thesis using e by (simp add: it)
  next
    case False
    then have "(''files/'' @ n = path_join ''files'' m) = False" using e by auto
    then show ?thesis using Cons False by (simp add: it)
  qed
qed simp

lemma create_kmz_flat:
  assumes "take 1 n \<noteq> ''/''"
  shows "map_of (create_kmz kml [(dirpath, items)]) ''doc.kml'' = Some (KmlEntry kml)
       \<and> map_of (create_kmz kml [(dirpath, items)]) (''files/'' @ n) = map_option PhotoEntry (map_of items n)"
  using map_of_files_entries [OF assms, of items] by (simp add: create_kmz_def)

section \<open>Properties\<close>

text \<open>
  C27. A photo whose log gives latitude \<open>lat\<close>, longitude \<open>lon\<close> and altitude
  \<open>alt\<close> gets EXIF tags that the KMZ scripts read back as exactly
  \<open>(lat, lon, alt)\<close> in every hemisphere: the writer stores the magnitudes with
  the letters N/S and E/W, and the reader negates on S and W.
\<close>

theorem kmz_reads_written_position:
  assumes "float_of (log_line content 0) = Some lat" and "float_of (log_line content 1) = Some lon"
    and "float_of (log_line content 2) = Some alt"
  shows "map_sum id (\<lambda>e. kmz_extract_gps_data (Some e)) (write_photo_exif float_of content img) =
           Inr (Some lat, Some lon, Some alt)"
proof -
  have "map_sum id (\<lambda>e. kmz_extract_gps_data (Some e)) (write_photo_exif float_of content img) =
        map_sum id (\<lambda>g. kmz_extract_gps_data (Some \<lparr>camera_make = [], camera_model = [], exif_datetime = [],
           datetime_original = [], user_comment = [], gps = g, exif_orientation = None\<rparr>))
           (map_sum id gps (write_photo_exif float_of content img))"
    by (cases "write_photo_exif float_of content img") (simp_all add: kmz_extract_gps_data_def)
  then show ?thesis
    using write_photo_exif_gps [OF assms, of img]
    by (simp add: kmz_extract_gps_data_def kmz_convert_signed)
qed

theorem kmz_reads_written_position_witness:
  "(if ''-31.5'' = ''-31.5'' then Some (-31.5 :: real) else None) = Some (-31.5)
   \<and> map_sum id (\<lambda>e. kmz_extract_gps_data (Some e))
       (write_photo_exif (\<lambda>s. if s = ''-31.5'' then Some (-31.5) else if s = ''84.25'' then Some 84.25
                              else if s = ''12'' then Some 12 else None)
          ''-31.5\<newline>84.25\<newline>12\<newline>2023-11-16T16:28:01Z\<newline>\<newline>\<newline>Creek\<newline>''
          \<lparr>camera_make = [], camera_model = [], exif_datetime = [], datetime_original = [],
           user_comment = [], gps = None, exif_orientation = Some 6\<rparr>) =
       Inr (Some (-31.5), Some 84.25, Some 12)"
proof -
  let ?f = "\<lambda>s. if s = ''-31.5'' then Some (-31.5) else if s = ''84.25'' then Some (84.25 :: real)
               else if s = ''12'' then Some 12 else None"
  let ?c = "''-31.5\<newline>84.25\<newline>12\<newline>2023-11-16T16:28:01Z\<newline>\<newline>\<newline>Creek\<newline>''"
  have h: "?f (log_line ?c 0) = Some (-31.5)" "?f (log_line ?c 1) = Some 84.25" "?f (log_line ?c 2) = Some 12"
    by code_simp+
  show ?thesis
    using kmz_reads_written_position [of ?f ?c, OF h] by simp
qed

text \<open>
  C28. The photo \<open>GenKMZwithRotationFinal.py\<close> puts in the archive shows, in
  a viewer that honours the Orientation tag, exactly what the original showed,
  for every orientation except the four mirrored ones (2, 4, 5 and 7); for
  those the mirror is lost and the stored pixels are shown as they are.
\<close>

theorem kmz_export_display:
  "photo_display (kmz_export_photo (Some e, m)) =
     (if exif_orientation e \<in> {Some 2, Some 4, Some 5, Some 7} then m else photo_display (Some e, m))"
  by (cases "exif_orientation e")
    (simp_all add: photo_display_def kmz_export_photo_def set_orientation_normal_def rotate_image_def
       get_image_orientation_def rotation_angle_def pil_rotate_def exif_display_def)

text \<open>
  C29. For a folder listing with distinct names, the rotating script's KML
  document has one placemark per image file with a position, in listing order,
  at the position read, and its \<open>files\<close> folder holds, over whatever it held
  before, the rotated copy of each of these photos under its own name.
\<close>

theorem kmz_rotation_main_contents:
  assumes "distinct (map fst listing)"
  shows "kmz_rotation_main num_str listing files0 =
           (create_kml num_str (List.map_filter (kmz_position_entry kmz_extract_gps_data) listing),
            files0 ++ map_of (map (\<lambda>e. (fst e, kmz_export_photo (snd e)))
                                (filter (\<lambda>e. kmz_position_entry kmz_extract_gps_data e \<noteq> None) listing)))"
  using fold_kmz_photo_step [OF assms, of "\<lparr>image_data = [], kmz_files = files0\<rparr>" kmz_extract_gps_data kmz_export_photo]
  by (simp add: kmz_rotation_main_def kmz_rotation_loop_def Let_def)

theorem kmz_rotation_main_contents_witness:
  "distinct (map fst [(''a.JPG'', (Some \<lparr>camera_make = [], camera_model = [], exif_datetime = [],
        datetime_original = [], user_comment = [],
        gps = Some \<lparr>gps_latitude_ref = Some ''S'', gps_latitude = Some (31, 30, 0),
                    gps_longitude_ref = Some ''E'', gps_longitude = Some (84, 15, 0),
                    gps_altitude = None, gps_altitude_ref = 0, gps_datestamp = [],
                    gps_img_direction = [], gps_img_direction_ref = []\<rparr>,
        exif_orientation = Some 6\<rparr>, [[1, 2 :: nat]])), (''notes.txt'', (None, []))])
   \<and> fst (kmz_rotation_main (\<lambda>_. ''x'') [(''a.JPG'', (Some \<lparr>camera_make = [], camera_model = [], exif_datetime = [],
        datetime_original = [], user_comment = [],
        gps = Some \<lparr>gps_latitude_ref = Some ''S'', gps_latitude = Some (31, 30, 0),
                    gps_longitude_ref = Some ''E'', gps_longitude = Some (84, 15, 0),
                    gps_altitude = None, gps_altitude_ref = 0, gps_datestamp = [],
                    gps_img_direction = [], gps_img_direction_ref = []\<rparr>,
        exif_orientation = Some 6\<rparr>, [[1, 2 :: nat]])), (''notes.txt'', (None, []))] Map.empty)
     = create_kml (\<lambda>_. ''x'') [(''a.JPG'', -31.5, 84.25, None)]"
proof -
  have "List.map_filter (kmz_position_entry kmz_extract_gps_data) [(''a.JPG'', (Some \<lparr>camera_make = [], camera_model = [], exif_datetime = [],
        datetime_original = [], user_comment = [],
        gps = Some \<lparr>gps_latitude_ref = Some ''S'', gps_latitude = Some (31, 30, 0),
                    gps_longitude_ref = Some ''E'', gps_longitude = Some (84, 15, 0),
                    gps_altitude = None, gps_altitude_ref = 0, gps_datestamp = [],
                    gps_img_direction = [], gps_img_direction_ref = []\<rparr>,
        exif_orientation = Some 6\<rparr>, [[1, 2 :: nat]])), (''notes.txt'', (None, []))]
      = [(''a.JPG'', -31.5, 84.25, None)]"
    by code_simp
  then show ?thesis
    using kmz_rotation_main_contents [of "[(''a.JPG'', (Some \<lparr>camera_make = [], camera_model = [], exif_datetime = [],
        datetime_original = [], user_comment = [],
        gps = Some \<lparr>gps_latitude_ref = Some ''S'', gps_latitude = Some (31, 30, 0),
                    gps_longitude_ref = Some ''E'', gps_longitude = Some (84, 15, 0),
                    gps_altitude = None, gps_altitude_ref = 0, gps_datestamp = [],
                    gps_img_direction = [], gps_img_direction_ref = []\<rparr>,
        exif_orientation = Some 6\<rparr>, [[1, 2 :: nat]])), (''notes.txt'', (None, []))]" "\<lambda>_. ''x''" Map.empty]
    by simp
qed

text \<open>
  C13. The archive the rotating script writes, when \<open>os.walk\<close> finds the
  \<open>files\<close> folder flat, holds \<open>doc.kml\<close> with one placemark per photo with a
  position, and under \<open>files/<name>\<close> the rotated copy of each such photo; a
  file the folder held before the run and no photo replaced is packed too.
\<close>

theorem kmz_rotation_archive_entries:
  assumes "distinct (map fst listing)" and "walk (snd (kmz_rotation_main num_str listing files0)) = [(dirpath, items)]"
    and "map_of items = snd (kmz_rotation_main num_str listing files0)" and "take 1 n \<noteq> ''/''"
  shows "map_of (kmz_rotation_archive num_str listing files0 walk) ''doc.kml'' =
           Some (KmlEntry (create_kml num_str (List.map_filter (kmz_position_entry kmz_extract_gps_data) listing)))
       \<and> map_of (kmz_rotation_archive num_str listing files0 walk) (''files/'' @ n) =
           map_option PhotoEntry ((files0 ++ map_of (map (\<lambda>e. (fst e, kmz_export_photo (snd e)))
              (filter (\<lambda>e. kmz_position_entry kmz_extract_gps_data e \<noteq> None) listing))) n)"
proof -
  have m: "kmz_rotation_main num_str listing files0 =
      (create_kml num_str (List.map_filter (kmz_position_entry kmz_extract_gps_data) listing),
       files0 ++ map_of (map (\<lambda>e. (fst e, kmz_export_photo (snd e)))
         (filter (\<lambda>e. kmz_position_entry kmz_extract_gps_data e \<noteq> None) listing)))"
    using fold_kmz_photo_step [OF assms(1), of "\<lparr>image_data = [], kmz_files = files0\<rparr>" kmz_extract_gps_data kmz_export_photo]
    by (simp add: kmz_rotation_main_def kmz_rotation_loop_def Let_def)
  show ?thesis
    using create_kmz_flat [OF assms(4), of "fst (kmz_rotation_main num_str listing files0)" dirpath items] assms(2,3)
    by (simp add: kmz_rotation_archive_def split_beta) (simp add: m)
qed

theorem kmz_rotation_archive_entries_witness:
  "map_of (kmz_rotation_archive (\<lambda>_. ''x'') kmz_fixture_listing Map.empty
      (\<lambda>_. [(''files'', [(''a.JPG'', kmz_export_photo (snd (hd kmz_fixture_listing)))])])) ''doc.kml'' =
     Some (KmlEntry (create_kml (\<lambda>_. ''x'') [(''a.JPG'', -31.5, 84.25, None)]))
   \<and> map_of (kmz_rotation_archive (\<lambda>_. ''x'') kmz_fixture_listing Map.empty
      (\<lambda>_. [(''files'', [(''a.JPG'', kmz_export_photo (snd (hd kmz_fixture_listing)))])])) ''files/a.JPG'' =
     Some (PhotoEntry (kmz_export_photo (snd (hd kmz_fixture_listing))))"
proof -
  let ?e = "hd kmz_fixture_listing"
  have d: "distinct (map fst kmz_fixture_listing)" by (simp add: kmz_fixture_listing_def)
  have f: "filter (\<lambda>e. kmz_position_entry kmz_extract_gps_data e \<noteq> None) kmz_fixture_listing = [?e]"
    by code_simp
  have p: "List.map_filter (kmz_position_entry kmz_extract_gps_data) kmz_fixture_listing = [(''a.JPG'', -31.5, 84.25, None)]"
    by code_simp
  have n: "fst ?e = ''a.JPG''" by (simp add: kmz_fixture_listing_def)
  have m: "snd (kmz_rotation_main (\<lambda>_. ''x'') kmz_fixture_listing Map.empty) = map_of [(''a.JPG'', kmz_export_photo (snd ?e))]"
    using fold_kmz_photo_step [OF d, of "\<lparr>image_data = [], kmz_files = Map.empty\<rparr>" kmz_extract_gps_data kmz_export_photo]
    by (simp add: kmz_rotation_main_def kmz_rotation_loop_def Let_def f n del: not_None_eq)
  show ?thesis
    using kmz_rotation_archive_entries [OF d, of "\<lambda>_. [(''files'', [(''a.JPG'', kmz_export_photo (snd ?e))])]"
        "\<lambda>_. ''x''" Map.empty "''files''" "[(''a.JPG'', kmz_export_photo (snd ?e))]" "''a.JPG''"]
    by (simp add: m f p n del: not_None_eq)
qed

end
