(* ===== verification/GpxMap.thy ===== *)
theory GpxMap
  imports Gpx Csv
begin

text \<open>
  Two scripts that read recorded GPX tracks.  \<open>src/GPXtoCSV.py\<close> lists every
  track point in a CSV file, numbered from 1 across all tracks and segments.
  \<open>src/CalculateGpxPathOnMap.py\<close> reads the bounding box of a map image from
  \<open>latlong.txt\<close>, projects the box and every track point with a coordinate
  transformer (\<open>pyproj\<close>, EPSG:4326 to Web Mercator) and writes each point's
  position relative to the lower-left corner of the map, with the map's size in
  metres, to \<open>gpx_data.csv\<close>.

  A parsed GPX document is its tracks, each a list of segments, each a list of
  points; \<open>None\<close> is a file \<open>gpxpy.parse\<close> rejects.  The transformer and
  the printing of floats and times are parameters, as they are library calls.
  The CSV files are the \<open>csv\<close> writer of the theory \<open>Csv\<close>.
\<close>

section \<open>GPX documents\<close>

record 't gpx_point =
  pt_latitude :: real
  pt_longitude :: real
  pt_elevation :: "real option"
  pt_time :: "'t option"

type_synonym 't gpx_doc = "'t gpx_point list list list"

text \<open>\<open>str()\<close> of a float, \<open>datetime.isoformat()\<close> and
  \<open>strftime("%Y-%m-%dT%H:%M:%SZ")\<close>.\<close>

record 't gpx_fmt =
  fmt_num :: "real \<Rightarrow> string"
  fmt_iso :: "'t \<Rightarrow> string"
  fmt_z :: "'t \<Rightarrow> string"

text \<open>\<open>for track in gpx.tracks: for segment in track.segments: for point in
  segment.points\<close>.\<close>

definition gpx_all_points :: "'t gpx_doc \<Rightarrow> 't gpx_point list" where
  "gpx_all_points gpx = concat (concat gpx)"

text \<open>A missing value is written by the \<open>csv\<close> module as the empty field.\<close>

definition opt_field :: "(real \<Rightarrow> string) \<Rightarrow> real option \<Rightarrow> string" where
  "opt_field num v = (case v of None \<Rightarrow> [] | Some x \<Rightarrow> num x)"

section \<open>\<open>GPXtoCSV.py\<close>\<close>

definition gpx_csv_header :: "string list" where
  "gpx_csv_header = [''sequence'', ''latitude'', ''longitude'', ''elevation'', ''timestamp'']"

text \<open>The row of one point whose time is \<open>t\<close>.\<close>

definition gpx_csv_fields :: "'t gpx_fmt \<Rightarrow> nat \<Rightarrow> 't gpx_point \<Rightarrow> 't \<Rightarrow> string list" where
  "gpx_csv_fields fmt sequence point t =
     [py_str_int (int sequence), fmt_num fmt (pt_latitude point), fmt_num fmt (pt_longitude point),
      opt_field (fmt_num fmt) (pt_elevation point), fmt_iso fmt t]"

text \<open>\<open>point.time.isoformat()\<close> raises \<open>AttributeError\<close> on a point without a
  time, before the row is written.\<close>

definition gpx_csv_row :: "'t gpx_fmt \<Rightarrow> nat \<Rightarrow> 't gpx_point \<Rightarrow> string list py_result" where
  "gpx_csv_row fmt sequence point =
     (case pt_time point of
        None \<Rightarrow> Inl AttributeError
      | Some t \<Rightarrow> Inr (gpx_csv_fields fmt sequence point t))"

text \<open>The loop: the rows written, and the exception that stopped it.\<close>

fun gpx_csv_loop :: "'t gpx_fmt \<Rightarrow> nat \<Rightarrow> 't gpx_point list \<Rightarrow> string list list \<times> py_error option" where
  "gpx_csv_loop fmt sequence [] = ([], None)"
| "gpx_csv_loop fmt sequence (point # points) =
     (case gpx_csv_row fmt sequence point of
        Inl e \<Rightarrow> ([], Some e)
      | Inr row \<Rightarrow> (case gpx_csv_loop fmt (sequence + 1) points of (rows, err) \<Rightarrow> (row # rows, err)))"

text \<open>\<open>extract_gpx_data\<close>: the text of the output file and the exception that
  escapes, if any.  Both files are opened before parsing, so a rejected GPX file
  leaves an empty CSV file.\<close>

definition extract_gpx_data :: "'t gpx_fmt \<Rightarrow> 't gpx_doc option \<Rightarrow> string \<times> py_error option" where
  "extract_gpx_data fmt parsed =
     (case parsed of
        None \<Rightarrow> ([], Some GPXParseError)
      | Some gpx \<Rightarrow>
          (case gpx_csv_loop fmt 1 (gpx_all_points gpx) of
             (rows, err) \<Rightarrow> (csv_write (gpx_csv_header # rows), err)))"

text \<open>The module body (lines 32--39): the GPX file by name, \<open>None\<close> when it
  cannot be opened, in which case \<open>open\<close> raises before the CSV file is
  created; the folder is a map from names to texts.\<close>

definition gpx_to_csv_main ::
  "'t gpx_fmt \<Rightarrow> (string \<Rightarrow> 't gpx_doc option option) \<Rightarrow> (string \<Rightarrow> string option) \<Rightarrow>
   (string \<Rightarrow> string option) \<times> py_error option" where
  "gpx_to_csv_main fmt gpx_files out =
     (let input_gpx_file = ''VID_20230731_165855_00_005.gpx''; output_csv_file = ''output2.csv'' in
      case gpx_files input_gpx_file of
        None \<Rightarrow> (out, Some OSError)
      | Some parsed \<Rightarrow>
          (case extract_gpx_data fmt parsed of (text, err) \<Rightarrow> (out(output_csv_file \<mapsto> text), err)))"

section \<open>\<open>CalculateGpxPathOnMap.py\<close>\<close>

text \<open>\<open>read_latlong_file\<close>: \<open>None\<close> is a missing file; \<open>file.readlines()\<close> counts
  a final empty line as a line.\<close>

definition read_latlong_file ::
  "(string \<Rightarrow> real option) \<Rightarrow> string option \<Rightarrow> (real list \<times> real list) py_result" where
  "read_latlong_file parse_float file =
     (case file of
        None \<Rightarrow> Inl OSError
      | Some content \<Rightarrow>
          (let lines = map py_strip (text_file_lines content) in
           if length lines \<noteq> 4 then Inl ValueError
           else
             (case (parse_float (lines ! 0), parse_float (lines ! 1), parse_float (lines ! 2), parse_float (lines ! 3)) of
                (Some a, Some b, Some c, Some d) \<Rightarrow> Inr ([a, b], [c, d])
              | _ \<Rightarrow> Inl ValueError)))"

text \<open>Python's \<open>min\<close> and \<open>max\<close> of a non-empty list.\<close>

definition list_min :: "real list \<Rightarrow> real" where
  "list_min xs = fold min (tl xs) (hd xs)"

definition list_max :: "real list \<Rightarrow> real" where
  "list_max xs = fold max (tl xs) (hd xs)"

definition get_min_max :: "real list \<Rightarrow> real list \<Rightarrow> real \<times> real \<times> real \<times> real" where
  "get_min_max latitudes longitudes =
     (list_min latitudes, list_max latitudes, list_min longitudes, list_max longitudes)"

text \<open>\<open>transformer.transform(lat, lon)\<close> gives the map coordinates \<open>(x, y)\<close>.\<close>

definition calculate_distance ::
  "real \<Rightarrow> real \<Rightarrow> real \<Rightarrow> real \<Rightarrow> (real \<Rightarrow> real \<Rightarrow> real \<times> real) \<Rightarrow> real \<times> real \<times> real" where
  "calculate_distance lat1 lon1 lat2 lon2 transformer =
     (case transformer lat1 lon1 of (x1, y1) \<Rightarrow>
        (case transformer lat2 lon2 of (x2, y2) \<Rightarrow>
           (sqrt ((x2 - x1)\<^sup>2 + (y2 - y1)\<^sup>2), x1, y1)))"

text \<open>The dictionary written for one point; \<open>northing\<close>, \<open>easting\<close> and
  \<open>elevationFt\<close> are always 0.\<close>

record map_point =
  mp_count :: nat
  mp_latitude :: real
  mp_longitude :: real
  mp_elevation :: "real option"
  mp_timestamp :: string
  mp_position_x :: real
  mp_position_y :: real
  mp_position_z :: "real option"
  mp_xdim :: real
  mp_ydim :: real
  mp_filename :: string

text \<open>The body of the \<open>try\<close> for the \<open>i\<close>-th point of a segment: a point
  without a time raises \<open>AttributeError\<close> in \<open>strftime\<close>, which is caught and
  printed, and the point is left out.  \<open>map_width\<close> and \<open>map_height\<close> are the
  globals \<open>main\<close> sets.\<close>

definition gpx_map_point ::
  "'t gpx_fmt \<Rightarrow> (real \<Rightarrow> real \<Rightarrow> real \<times> real) \<Rightarrow> real \<Rightarrow> real \<Rightarrow> real \<Rightarrow> real \<Rightarrow> string \<Rightarrow>
   nat \<Rightarrow> 't gpx_point \<Rightarrow> map_point option" where
  "gpx_map_point fmt transformer map_width map_height min_x min_y gpx_file i point =
     (case transformer (pt_latitude point) (pt_longitude point) of (pos_x, pos_y) \<Rightarrow>
        (case pt_time point of
           None \<Rightarrow> None
         | Some t \<Rightarrow>
             Some \<lparr>mp_count = i, mp_latitude = pt_latitude point, mp_longitude = pt_longitude point,
                   mp_elevation = pt_elevation point, mp_timestamp = fmt_z fmt t,
                   mp_position_x = pos_x - min_x, mp_position_y = pos_y - min_y,
                   mp_position_z = pt_elevation point, mp_xdim = map_width, mp_ydim = map_height,
                   mp_filename = fst (splitext (basename gpx_file))\<rparr>))"

text \<open>\<open>process_gpx_file\<close>: the file is \<open>None\<close> when \<open>os.path.isfile\<close> fails
  (\<open>FileNotFoundError\<close>, an \<open>OSError\<close>), \<open>Some None\<close> when \<open>gpxpy.parse\<close>
  raises \<open>GPXParseError\<close> (caught: no points).  \<open>count\<close> is the index within
  the segment.\<close>

definition process_gpx_file ::
  "'t gpx_fmt \<Rightarrow> (real \<Rightarrow> real \<Rightarrow> real \<times> real) \<Rightarrow> real \<Rightarrow> real \<Rightarrow> real \<Rightarrow> real \<Rightarrow> string \<Rightarrow>
   't gpx_doc option option \<Rightarrow> map_point list py_result" where
  "process_gpx_file fmt transformer map_width map_height min_x min_y gpx_file file =
     (case file of
        None \<Rightarrow> Inl OSError
      | Some None \<Rightarrow> Inr []
      | Some (Some gpx) \<Rightarrow>
          Inr (concat (map (\<lambda>segment.
                 List.map_filter (\<lambda>(i, point). gpx_map_point fmt transformer map_width map_height min_x min_y
                                    gpx_file i point)
                   (enumerate 0 segment)) (concat gpx))))"

text \<open>The points \<open>main\<close> collects from the \<open>.gpx\<close> files of the listing, after
  reading the bounds and sizing the map.\<close>

definition gpx_map_points ::
  "'t gpx_fmt \<Rightarrow> (string \<Rightarrow> real option) \<Rightarrow> (real \<Rightarrow> real \<Rightarrow> real \<times> real) \<Rightarrow> string option \<Rightarrow>
   (string \<times> 't gpx_doc option option) list \<Rightarrow> map_point list py_result" where
  "gpx_map_points fmt parse_float transformer latlong listing =
     py_bind (read_latlong_file parse_float latlong) (\<lambda>(latitudes, longitudes).
       (case get_min_max latitudes longitudes of (min_lat, max_lat, min_lon, max_lon) \<Rightarrow>
          (case calculate_distance min_lat min_lon min_lat max_lon transformer of (map_width, min_x, min_y) \<Rightarrow>
             (case calculate_distance min_lat min_lon max_lat min_lon transformer of (map_height, _, _) \<Rightarrow>
                py_bind
                  (py_mapM (\<lambda>(filename, file).
                     if py_endswith (py_lower filename) ''.gpx''
                     then process_gpx_file fmt transformer map_width map_height min_x min_y filename file
                     else Inr []) listing)
                  (\<lambda>pss. Inr (concat pss))))))"

definition gpx_map_fieldnames :: "string list" where
  "gpx_map_fieldnames =
     [''count'', ''latitude'', ''longitude'', ''elevationM'', ''timestamp'', ''northing'', ''easting'',
      ''elevationFt'', ''positionX'', ''positionY'', ''positionZ'', ''xdimM'', ''ydimM'', ''filename'']"

definition map_point_row :: "'t gpx_fmt \<Rightarrow> map_point \<Rightarrow> string list" where
  "map_point_row fmt p =
     [py_str_int (int (mp_count p)), fmt_num fmt (mp_latitude p), fmt_num fmt (mp_longitude p),
      opt_field (fmt_num fmt) (mp_elevation p), mp_timestamp p, ''0'', ''0'', ''0'',
      fmt_num fmt (mp_position_x p), fmt_num fmt (mp_position_y p), opt_field (fmt_num fmt) (mp_position_z p),
      fmt_num fmt (mp_xdim p), fmt_num fmt (mp_ydim p), mp_filename p]"

text \<open>\<open>main\<close>: the text of \<open>gpx_data.csv\<close> written by the \<open>DictWriter\<close>.\<close>

definition gpx_map_main ::
  "'t gpx_fmt \<Rightarrow> (string \<Rightarrow> real option) \<Rightarrow> (real \<Rightarrow> real \<Rightarrow> real \<times> real) \<Rightarrow> string option \<Rightarrow>
   (string \<times> 't gpx_doc option option) list \<Rightarrow> string py_result" where
  "gpx_map_main fmt parse_float transformer latlong listing =
     py_bind (gpx_map_points fmt parse_float transformer latlong listing)
       (\<lambda>all_points. Inr (csv_write (gpx_map_fieldnames # map (map_point_row fmt) all_points)))"

section \<open>Fixtures\<close>

text \<open>A bounding box, a float parser for its four numbers, one track point and
  formatters, for the witnesses below.\<close>

definition map_fixture_float :: "string \<Rightarrow> real option" where
  "map_fixture_float s =
     (if s = ''41.8'' then Some 41.8 else if s = ''41.9'' then Some 41.9
      else if s = ''-75.2'' then Some (-75.2) else if s = ''-75.1'' then Some (-75.1) else None)"

definition map_fixture_latlong :: string where
  "map_fixture_latlong = ''41.8\<newline>41.9\<newline>-75.2\<newline>-75.1\<newline>''"

definition map_fixture_point :: "nat gpx_point" where
  "map_fixture_point = \<lparr>pt_latitude = 41.85, pt_longitude = -75.15, pt_elevation = Some 120, pt_time = Some 0\<rparr>"

definition map_fixture_fmt :: "nat gpx_fmt" where
  "map_fixture_fmt = \<lparr>fmt_num = \<lambda>x. [], fmt_iso = \<lambda>t. [], fmt_z = \<lambda>t. ''T''\<rparr>"

section \<open>Lemmas\<close>

lemma gpx_csv_loop_prefix:
  "gpx_csv_loop fmt n pts =
     (map (\<lambda>(sequence, point). gpx_csv_fields fmt sequence point (the (pt_time point)))
        (zip [n..<n + length (takeWhile (\<lambda>p. pt_time p \<noteq> None) pts)] (takeWhile (\<lambda>p. pt_time p \<noteq> None) pts)),
      if list_all (\<lambda>p. pt_time p \<noteq> None) pts then None else Some AttributeError)"
proof (induction pts arbitrary: n)
  case (Cons point pts)
  then show ?case
    by (cases "pt_time point") (auto simp: gpx_csv_row_def upt_conv_Cons simp del: upt_Suc)
qed simp

lemma process_gpx_file_member:
  "process_gpx_file fmt tr w h mx my gpx_file file = Inr ps \<Longrightarrow> p \<in> set ps \<Longrightarrow>
   \<exists>i point. gpx_map_point fmt tr w h mx my gpx_file i point = Some p"
  by (auto simp: process_gpx_file_def map_filter_def split: option.splits) blast

lemma gpx_map_point_fields:
  "gpx_map_point fmt tr w h mx my gpx_file i point = Some p \<Longrightarrow>
   mp_position_x p = fst (tr (mp_latitude p) (mp_longitude p)) - mx
   \<and> mp_position_y p = snd (tr (mp_latitude p) (mp_longitude p)) - my
   \<and> mp_xdim p = w \<and> mp_ydim p = h"
  by (auto simp: gpx_map_point_def split: prod.splits option.splits)

lemma gpx_map_points_member:
  assumes "gpx_map_points fmt parse_float tr latlong listing = Inr pts"
    and "read_latlong_file parse_float latlong = Inr (lats, lons)"
    and "get_min_max lats lons = (min_lat, max_lat, min_lon, max_lon)"
    and "calculate_distance min_lat min_lon min_lat max_lon tr = (w, mx, my)"
    and "calculate_distance min_lat min_lon max_lat min_lon tr = (h, hx, hy)"
    and "p \<in> set pts"
  shows "\<exists>gpx_file i point. gpx_map_point fmt tr w h mx my gpx_file i point = Some p"
proof -
  let ?f = "\<lambda>(filename, file). if py_endswith (py_lower filename) ''.gpx''
              then process_gpx_file fmt tr w h mx my filename file else Inr []"
  have "py_bind (py_mapM ?f listing) (\<lambda>pss. Inr (concat pss)) = Inr pts"
    using assms(1-5) by (simp add: gpx_map_points_def)
  then obtain pss where m: "py_mapM ?f listing = Inr pss" and pts: "pts = concat pss"
    by (auto simp: py_bind_def split: sum.splits)
  obtain ps where ps: "ps \<in> set pss" and p: "p \<in> set ps" using assms(6) pts by auto
  have "list_all2 (\<lambda>x y. ?f x = Inr y) listing pss" using m by (simp add: py_mapM_Inr)
  moreover obtain i where "i < length pss" "pss ! i = ps" using ps by (auto simp: in_set_conv_nth)
  ultimately have "?f (listing ! i) = Inr ps" by (auto simp: list_all2_conv_all_nth)
  then show ?thesis
    using p by (auto split: if_splits prod.splits) (blast dest: process_gpx_file_member)
qed

lemma calculate_distance_east:
  "fx a \<le> fx b \<Longrightarrow> calculate_distance lat a lat b (\<lambda>lat lon. (fx lon, fy lat)) = (fx b - fx a, fx a, fy lat)"
  by (simp add: calculate_distance_def)

lemma calculate_distance_north:
  "fy a \<le> fy b \<Longrightarrow> calculate_distance a lon b lon (\<lambda>lat lon. (fx lon, fy lat)) = (fy b - fy a, fx lon, fy a)"
  by (simp add: calculate_distance_def)

lemma split_lines_at_line:
  "CR \<notin> set l \<Longrightarrow> \<not> list_ex P l \<Longrightarrow> P LF \<Longrightarrow>
   split_lines_at P cur (l @ LF # rest) = (cur @ l) # split_lines_at P [] rest"
  by (induction l arbitrary: cur) auto

lemma text_file_lines_concat:
  "list_all (\<lambda>l. CR \<notin> set l \<and> LF \<notin> set l) ls \<Longrightarrow>
   text_file_lines (concat (map (\<lambda>l. l @ [LF]) ls)) = ls"
proof (induction ls)
  case (Cons l ls)
  then show ?case
    using split_lines_at_line [of l "\<lambda>c. c = LF" "[]" "concat (map (\<lambda>l. l @ [LF]) ls)"]
    by (simp add: text_file_lines_def list_ex_iff)
qed (simp add: text_file_lines_def)

lemma read_latlong_file_Some:
  "read_latlong_file parse_float (Some content) =
     (if length (text_file_lines content) \<noteq> 4 then Inl ValueError
      else case map (\<lambda>l. parse_float (py_strip l)) (text_file_lines content) of
             [Some a, Some b, Some c, Some d] \<Rightarrow> Inr ([a, b], [c, d])
           | _ \<Rightarrow> Inl ValueError)"
proof (cases "length (text_file_lines content) = 4")
  case True
  then obtain l0 l1 l2 l3 where "text_file_lines content = [l0, l1, l2, l3]"
    by (auto simp: numeral_eq_Suc length_Suc_conv)
  then show ?thesis
    by (simp add: read_latlong_file_def split: option.split)
qed (simp add: read_latlong_file_def)

lemma map_filter_enumerate0:
  "map f (filter (\<lambda>(i, x). P x) (enumerate 0 xs)) =
     map (\<lambda>i. f (i, xs ! i)) (filter (\<lambda>i. P (xs ! i)) [0..<length xs])"
proof (induction xs rule: rev_induct)
  case (snoc x xs)
  have "filter (\<lambda>i. P ((xs @ [x]) ! i)) [0..<length xs] = filter (\<lambda>i. P (xs ! i)) [0..<length xs]"
    by (rule filter_cong) (simp_all add: nth_append)
  moreover have "map (\<lambda>i. f (i, (xs @ [x]) ! i)) (filter (\<lambda>i. P (xs ! i)) [0..<length xs]) =
      map (\<lambda>i. f (i, xs ! i)) (filter (\<lambda>i. P (xs ! i)) [0..<length xs])"
    by (rule map_cong) (simp_all add: nth_append)
  ultimately show ?case
    using snoc by (simp add: enumerate_append_eq)
qed simp

lemma map_filter_gpx_map_point:
  "List.map_filter (\<lambda>(i, point). gpx_map_point fmt tr w h mx my gpx_file i point) xs =
     map (\<lambda>(i, point). the (gpx_map_point fmt tr w h mx my gpx_file i point))
       (filter (\<lambda>(i, point). pt_time point \<noteq> None) xs)"
  by (induction xs) (auto simp: map_filter_simps gpx_map_point_def split: option.splits prod.splits)

section \<open>Properties\<close>

text \<open>
  C31. \<open>GPXtoCSV.py\<close>: reading the CSV file back gives the header, then one row
  per track point in track, segment and point order, numbered 1, 2, 3, ...
  across all tracks, up to the first point without a time.  That point raises
  \<open>AttributeError\<close> and stops the script, leaving the rows already written;
  without such a point nothing escapes.
\<close>

theorem gpx_to_csv_numbered:
  "csv_reader (fst (extract_gpx_data fmt (Some gpx))) =
     (gpx_csv_header #
        map (\<lambda>(sequence, point). gpx_csv_fields fmt sequence point (the (pt_time point)))
          (zip [1..<Suc (length (takeWhile (\<lambda>p. pt_time p \<noteq> None) (gpx_all_points gpx)))]
             (takeWhile (\<lambda>p. pt_time p \<noteq> None) (gpx_all_points gpx))), None)
   \<and> snd (extract_gpx_data fmt (Some gpx)) =
       (if list_all (\<lambda>p. pt_time p \<noteq> None) (gpx_all_points gpx) then None else Some AttributeError)"
  by (simp add: extract_gpx_data_def gpx_csv_loop_prefix csv_reader_write)

text \<open>
  C32. \<open>CalculateGpxPathOnMap.py\<close>: with a projection whose \<open>x\<close> grows with the
  longitude alone and whose \<open>y\<close> grows with the latitude alone (as Web
  Mercator does), every written point that lies in the bounding box of
  \<open>latlong.txt\<close> has its map position inside the map:
  \<open>0 \<le> positionX \<le> xdimM\<close> and \<open>0 \<le> positionY \<le> ydimM\<close>.
\<close>

theorem gpx_map_positions_in_map:
  assumes "mono fx" and "mono fy"
    and "gpx_map_points fmt parse_float (\<lambda>lat lon. (fx lon, fy lat)) latlong listing = Inr pts"
    and "read_latlong_file parse_float latlong = Inr (lats, lons)"
    and "get_min_max lats lons = (min_lat, max_lat, min_lon, max_lon)"
    and "p \<in> set pts"
    and "min_lat \<le> mp_latitude p" and "mp_latitude p \<le> max_lat"
    and "min_lon \<le> mp_longitude p" and "mp_longitude p \<le> max_lon"
  shows "0 \<le> mp_position_x p \<and> mp_position_x p \<le> mp_xdim p \<and> 0 \<le> mp_position_y p \<and> mp_position_y p \<le> mp_ydim p"
proof -
  have x: "fx min_lon \<le> fx (mp_longitude p)" "fx (mp_longitude p) \<le> fx max_lon"
    using assms(1,9,10) by (auto dest: monoD)
  have y: "fy min_lat \<le> fy (mp_latitude p)" "fy (mp_latitude p) \<le> fy max_lat"
    using assms(2,7,8) by (auto dest: monoD)
  obtain gpx_file i point where
    "gpx_map_point fmt (\<lambda>lat lon. (fx lon, fy lat)) (fx max_lon - fx min_lon) (fy max_lat - fy min_lat)
       (fx min_lon) (fy min_lat) gpx_file i point = Some p"
    using gpx_map_points_member [OF assms(3-5) calculate_distance_east calculate_distance_north assms(6)] x y
    by fastforce
  then show ?thesis
    using x y by (auto dest: gpx_map_point_fields)
qed

theorem gpx_map_positions_in_map_witness:
  "mono (\<lambda>x::real. 10 * x) \<and> mono (\<lambda>x::real. 10 * x)
   \<and> gpx_map_points map_fixture_fmt map_fixture_float (\<lambda>lat lon. (10 * lon, 10 * lat)) (Some map_fixture_latlong)
         [(''track.GPX'', Some (Some [[[map_fixture_point]]])), (''notes.txt'', None)] =
       Inr [\<lparr>mp_count = 0, mp_latitude = 41.85, mp_longitude = -75.15, mp_elevation = Some 120,
             mp_timestamp = ''T'', mp_position_x = 0.5, mp_position_y = 0.5, mp_position_z = Some 120,
             mp_xdim = 1, mp_ydim = 1, mp_filename = ''track''\<rparr>]
   \<and> (0 \<le> (0.5::real) \<and> (0.5::real) \<le> 1)"
proof -
  have r: "read_latlong_file map_fixture_float (Some map_fixture_latlong) = Inr ([41.8, 41.9], [-75.2, -75.1])"
    by code_simp
  have g: "get_min_max [41.8, 41.9] [-75.2, -75.1] = (41.8, 41.9, -75.2, -75.1)"
    by (simp add: get_min_max_def list_min_def list_max_def)
  have e: "py_endswith (py_lower ''track.GPX'') ''.gpx''" "\<not> py_endswith (py_lower ''notes.txt'') ''.gpx''"
    "fst (splitext (basename ''track.GPX'')) = ''track''"
    by code_simp+
  have pts: "gpx_map_points map_fixture_fmt map_fixture_float (\<lambda>lat lon. (10 * lon, 10 * lat)) (Some map_fixture_latlong)
         [(''track.GPX'', Some (Some [[[map_fixture_point]]])), (''notes.txt'', None)] =
       Inr [\<lparr>mp_count = 0, mp_latitude = 41.85, mp_longitude = -75.15, mp_elevation = Some 120,
             mp_timestamp = ''T'', mp_position_x = 0.5, mp_position_y = 0.5, mp_position_z = Some 120,
             mp_xdim = 1, mp_ydim = 1, mp_filename = ''track''\<rparr>]"
    using r g e
    by (simp add: gpx_map_points_def calculate_distance_def process_gpx_file_def gpx_map_point_def
        map_fixture_point_def map_fixture_fmt_def map_filter_def)
  have m: "mono (\<lambda>x::real. 10 * x)" by (simp add: mono_def)
  have "0 \<le> mp_position_x (\<lparr>mp_count = 0, mp_latitude = 41.85, mp_longitude = -75.15, mp_elevation = Some 120,
             mp_timestamp = ''T'', mp_position_x = 0.5, mp_position_y = 0.5, mp_position_z = Some 120,
             mp_xdim = 1, mp_ydim = 1, mp_filename = ''track''\<rparr> :: map_point)
        \<and> mp_position_x (\<lparr>mp_count = 0, mp_latitude = 41.85, mp_longitude = -75.15, mp_elevation = Some 120,
             mp_timestamp = ''T'', mp_position_x = 0.5, mp_position_y = 0.5, mp_position_z = Some 120,
             mp_xdim = 1, mp_ydim = 1, mp_filename = ''track''\<rparr> :: map_point) \<le> 1"
    using gpx_map_positions_in_map [OF m m pts r g] by simp
  then show ?thesis using m pts by simp
qed

text \<open>
  C33. \<open>read_latlong_file\<close> accepts a file of lines exactly when it has four
  lines whose stripped text parses as a float, the first two being the
  latitudes and the last two the longitudes.  A blank line after the four
  numbers is a fifth line and the file is rejected with \<open>ValueError\<close>.
\<close>

theorem read_latlong_file_lines:
  assumes "list_all (\<lambda>l. CR \<notin> set l \<and> LF \<notin> set l) ls"
  shows "read_latlong_file parse_float (Some (concat (map (\<lambda>l. l @ [LF]) ls))) = Inr (lats, lons)
         \<longleftrightarrow> (\<exists>a b c d. map (\<lambda>l. parse_float (py_strip l)) ls = [Some a, Some b, Some c, Some d]
                     \<and> lats = [a, b] \<and> lons = [c, d])"
  unfolding read_latlong_file_Some text_file_lines_concat [OF assms]
  by (auto split: list.split option.split)

theorem read_latlong_file_lines_witness:
  "list_all (\<lambda>l. CR \<notin> set l \<and> LF \<notin> set l) [''41.8'', ''41.9'', ''-75.2'', ''-75.1'']
   \<and> read_latlong_file map_fixture_float (Some (concat (map (\<lambda>l. l @ [LF]) [''41.8'', ''41.9'', ''-75.2'', ''-75.1''])))
         = Inr ([41.8, 41.9], [-75.2, -75.1])
   \<and> read_latlong_file map_fixture_float (Some (concat (map (\<lambda>l. l @ [LF]) [''41.8'', ''41.9'', ''-75.2'', ''-75.1'', []])))
         = Inl ValueError"
proof -
  have h: "list_all (\<lambda>l. CR \<notin> set l \<and> LF \<notin> set l) [''41.8'', ''41.9'', ''-75.2'', ''-75.1'']" by simp
  have m: "map (\<lambda>l. map_fixture_float (py_strip l)) [''41.8'', ''41.9'', ''-75.2'', ''-75.1''] =
             [Some 41.8, Some 41.9, Some (-75.2), Some (-75.1)]"
    by code_simp
  have five: "read_latlong_file map_fixture_float (Some (concat (map (\<lambda>l. l @ [LF]) [''41.8'', ''41.9'', ''-75.2'', ''-75.1'', []])))
         = Inl ValueError"
    by code_simp
  have r: "read_latlong_file map_fixture_float (Some (concat (map (\<lambda>l. l @ [LF]) [''41.8'', ''41.9'', ''-75.2'', ''-75.1''])))
         = Inr ([41.8, 41.9], [-75.2, -75.1])"
    using m by (intro iffD2 [OF read_latlong_file_lines [OF h]] exI [of _ "41.8"] exI [of _ "41.9"]
                  exI [of _ "-75.2"] exI [of _ "-75.1"]) simp
  show ?thesis
    by (intro conjI h r five)
qed

text \<open>
  C19. \<open>process_gpx_file\<close> writes one row per track point that has a time, in
  the order of the tracks, segments and points, with that point's latitude,
  longitude and elevation; its \<open>count\<close> is the index of the point within its
  segment: it restarts at 0 with every segment, and a point without a time leaves
  a gap.
\<close>

theorem process_gpx_file_counts:
  "map_sum id (map (\<lambda>p. (mp_count p, mp_latitude p, mp_longitude p, mp_elevation p)))
     (process_gpx_file fmt tr w h mx my gpx_file (Some (Some gpx))) =
   Inr (concat (map (\<lambda>segment.
          map (\<lambda>i. (i, pt_latitude (segment ! i), pt_longitude (segment ! i), pt_elevation (segment ! i)))
            (filter (\<lambda>i. pt_time (segment ! i) \<noteq> None) [0..<length segment])) (concat gpx)))"
proof -
  let ?g = "\<lambda>p. (mp_count p, mp_latitude p, mp_longitude p, mp_elevation p)"
  let ?pt = "\<lambda>(i, point). the (gpx_map_point fmt tr w h mx my gpx_file i point)"
  have seg: "map ?g (List.map_filter (\<lambda>(i, point). gpx_map_point fmt tr w h mx my gpx_file i point)
                (enumerate 0 segment)) =
      map (\<lambda>i. (i, pt_latitude (segment ! i), pt_longitude (segment ! i), pt_elevation (segment ! i)))
        (filter (\<lambda>i. pt_time (segment ! i) \<noteq> None) [0..<length segment])" for segment
  proof -
    have "map ?g (List.map_filter (\<lambda>(i, point). gpx_map_point fmt tr w h mx my gpx_file i point)
              (enumerate 0 segment)) =
          map (\<lambda>i. (?g \<circ> ?pt) (i, segment ! i)) (filter (\<lambda>i. pt_time (segment ! i) \<noteq> None) [0..<length segment])"
      unfolding map_filter_gpx_map_point map_map
      by (rule map_filter_enumerate0 [of "?g \<circ> ?pt" "\<lambda>point. pt_time point \<noteq> None"])
    also have "\<dots> = map (\<lambda>i. (i, pt_latitude (segment ! i), pt_longitude (segment ! i), pt_elevation (segment ! i)))
        (filter (\<lambda>i. pt_time (segment ! i) \<noteq> None) [0..<length segment])"
      by (rule map_cong) (auto simp: gpx_map_point_def split: prod.splits)
    finally show ?thesis .
  qed
  show ?thesis
    by (simp add: process_gpx_file_def map_concat comp_def seg del: not_None_eq)
qed

end
