(* ===== verification/PhotoTools.thy ===== *)
theory PhotoTools
  imports Kmz
begin

text \<open>
  Two further photo scripts.  \<open>src/ReadImageAndModifyExif.py\<close> is the first
  version of the EXIF writer: for each \<open>.jpg\<close> photo of \<open>capture\<close> it reads
  latitude and longitude from the text log of the same name in \<open>Txt_log\<close>,
  writes them as EXIF GPS tags (with the fixed altitude 50 m) and saves the photo
  into \<open>new_photo\<close>.  \<open>src/PhotoAlbumGenerator.py\<close> sorts the \<open>.png\<close>
  screenshots of a folder by the time in their names and lays them two per page
  into a Word album.

  Both run at module level, so each is one definition over the folder listings;
  the files are inputs (\<open>None\<close>: the file cannot be opened or decoded).
\<close>

section \<open>\<open>ReadImageAndModifyExif.py\<close>\<close>

text \<open>\<open>read_and_convert_coordinates\<close>: two \<open>readline().strip()\<close> lines as
  floats (\<open>ValueError\<close> otherwise); \<open>None\<close> is a missing log
  (\<open>FileNotFoundError\<close>).  \<open>decimal_to_dms\<close> is the function of the later
  writer, of which lines 10--15 are a copy.\<close>

definition rim_read_and_convert_coordinates ::
  "(string \<Rightarrow> real option) \<Rightarrow> string option \<Rightarrow>
   ((int \<times> int \<times> real) \<times> string \<times> (int \<times> int \<times> real) \<times> string) py_result" where
  "rim_read_and_convert_coordinates parse_float file =
     (case file of
        None \<Rightarrow> Inl OSError
      | Some content \<Rightarrow>
          (case (parse_float (log_line content 0), parse_float (log_line content 1)) of
             (Some decimal_latitude, Some decimal_longitude) \<Rightarrow>
               Inr (decimal_to_dms \<bar>decimal_latitude\<bar>, if 0 \<le> decimal_latitude then ''N'' else ''S'',
                    decimal_to_dms \<bar>decimal_longitude\<bar>, if 0 \<le> decimal_longitude then ''E'' else ''W'')
           | _ \<Rightarrow> Inl ValueError))"

text \<open>\<open>jpg_files\<close>: the test for \<open>.jpg\<close> is case-sensitive, the one for
  \<open>jpg.meta\<close> is not.\<close>

definition rim_jpg_files :: "string list \<Rightarrow> string list" where
  "rim_jpg_files photo_files =
     filter (\<lambda>file. py_endswith file ''.jpg'' \<and> \<not> py_endswith (py_lower file) ''jpg.meta'') photo_files"

text \<open>The GPS directory the \<open>exif\<close> package starts from when the photo has none.\<close>

definition empty_gps :: gps_ifd where
  "empty_gps = \<lparr>gps_latitude_ref = None, gps_latitude = None, gps_longitude_ref = None, gps_longitude = None,
                gps_altitude = None, gps_altitude_ref = 0, gps_datestamp = [], gps_img_direction = [],
                gps_img_direction_ref = []\<rparr>"

text \<open>The assignments of lines 67--74.\<close>

definition rim_set_tags ::
  "(int \<times> int \<times> real) \<times> string \<times> (int \<times> int \<times> real) \<times> string \<Rightarrow> photo_exif \<Rightarrow> photo_exif" where
  "rim_set_tags coords my_image =
     (case coords of (dms_lat, lat_ref, dms_long, long_ref) \<Rightarrow>
        my_image\<lparr>camera_make := ''Your Camera Make'', camera_model := ''Your Camera Model'',
                 gps := Some ((case gps my_image of None \<Rightarrow> empty_gps | Some g \<Rightarrow> g)
                                \<lparr>gps_latitude_ref := Some lat_ref, gps_longitude_ref := Some long_ref,
                                 gps_latitude := Some (dms_value dms_lat),
                                 gps_longitude := Some (dms_value dms_long),
                                 gps_altitude := Some 50, gps_altitude_ref := 0\<rparr>)\<rparr>)"

text \<open>The folders and the files in them: the text of a log and the EXIF tags of a
  photo, by path.\<close>

record rim_env =
  rim_photos_folder :: string
  rim_text_folder :: string
  rim_new_photo_folder :: string
  rim_text :: "string \<Rightarrow> string option"
  rim_photo :: "string \<Rightarrow> photo_exif option"

definition rim_new_photo_path :: "rim_env \<Rightarrow> string \<Rightarrow> string" where
  "rim_new_photo_path env jpg_file = path_join (rim_new_photo_folder env) (fst (splitext jpg_file) @ ''.jpg'')"

text \<open>The loop over \<open>jpg_files\<close>: the photos saved into \<open>new_photo\<close>, and the
  exception that stopped the script, if any.  The log is read before the photo is
  opened.\<close>

fun rim_loop ::
  "rim_env \<Rightarrow> (string \<Rightarrow> real option) \<Rightarrow> string list \<Rightarrow> (string \<Rightarrow> photo_exif option) \<Rightarrow>
   (string \<Rightarrow> photo_exif option) \<times> py_error option" where
  "rim_loop env parse_float [] out = (out, None)"
| "rim_loop env parse_float (jpg_file # jpg_files) out =
     (let jpg_path = path_join (rim_photos_folder env) jpg_file;
          text_path = path_join (rim_text_folder env) (fst (splitext jpg_file) @ ''.txt'') in
      case rim_read_and_convert_coordinates parse_float (rim_text env text_path) of
        Inl e \<Rightarrow> (out, Some e)
      | Inr coords \<Rightarrow>
          (case rim_photo env jpg_path of
             None \<Rightarrow> (out, Some OSError)
           | Some my_image \<Rightarrow>
               rim_loop env parse_float jpg_files
                 (out(rim_new_photo_path env jpg_file \<mapsto> rim_set_tags coords my_image))))"

definition rim_main ::
  "rim_env \<Rightarrow> (string \<Rightarrow> real option) \<Rightarrow> string list \<Rightarrow> (string \<Rightarrow> photo_exif option) \<times> py_error option" where
  "rim_main env parse_float photo_files = rim_loop env parse_float (rim_jpg_files photo_files) Map.empty"

text \<open>The exception one iteration of the loop raises for \<open>jpg_file\<close>, if any:
  that of reading its log, else \<open>FileNotFoundError\<close> for a photo that cannot be
  opened.\<close>

definition rim_photo_error :: "rim_env \<Rightarrow> (string \<Rightarrow> real option) \<Rightarrow> string \<Rightarrow> py_error option" where
  "rim_photo_error env parse_float jpg_file =
     (let jpg_path = path_join (rim_photos_folder env) jpg_file;
          text_path = path_join (rim_text_folder env) (fst (splitext jpg_file) @ ''.txt'') in
      case rim_read_and_convert_coordinates parse_float (rim_text env text_path) of
        Inl e \<Rightarrow> Some e
      | Inr coords \<Rightarrow> (case rim_photo env jpg_path of None \<Rightarrow> Some OSError | Some my_image \<Rightarrow> None))"

section \<open>\<open>PhotoAlbumGenerator.py\<close>\<close>

text \<open>\<open>re.match(r'(\d{4}-\d{2}-\d{2}_\d{2}-\d{2}-\d{2})\.png', filename)\<close>.\<close>

definition album_name_match :: "string \<Rightarrow> string option" where
  "album_name_match filename =
     (let g = take 19 filename in
      if list_all2 (\<lambda>p c. if p = CHR ''d'' then py_isdigit c else c = p) photo_name_pattern g
         \<and> take 4 (drop 19 filename) = ''.png''
      then Some g else None)"

text \<open>\<open>photo_info\<close> after the loop of lines 17--23 and the stable sort by date.\<close>

definition album_photo_info :: "string list \<Rightarrow> (string \<times> py_datetime) list py_result" where
  "album_photo_info photo_files =
     py_bind
       (py_mapM
          (\<lambda>filename.
             if py_endswith (py_lower filename) ''.png'' \<and> \<not> py_endswith (py_lower filename) ''png.meta'' then
               (case album_name_match filename of
                  Some date_str \<Rightarrow> py_bind (strptime_photo date_str) (\<lambda>date_obj. Inr [(filename, date_obj)])
                | None \<Rightarrow> Inr [])
             else Inr [])
          photo_files)
       (\<lambda>infos. Inr (sort_key snd (concat infos)))"

text \<open>What the album loop adds to the document.\<close>

datatype album_item = AlbumPageBreak | AlbumPicture string | AlbumParagraph string

text \<open>One photo: \<open>Image.open\<close> and \<open>thumbnail\<close> raise \<open>OSError\<close> when the file
  cannot be decoded (\<open>can_open\<close> false), otherwise the picture and its name.\<close>

definition album_photo :: "(string \<Rightarrow> bool) \<Rightarrow> string \<Rightarrow> string \<Rightarrow> album_item list py_result" where
  "album_photo can_open photos_folder photo_filename =
     (let photo_path = path_join photos_folder photo_filename in
      if can_open photo_path then Inr [AlbumPicture photo_path, AlbumParagraph photo_filename]
      else Inl OSError)"

definition album_document ::
  "(string \<Rightarrow> bool) \<Rightarrow> string \<Rightarrow> (string \<times> py_datetime) list \<Rightarrow> album_item list py_result" where
  "album_document can_open photos_folder photo_info =
     py_bind
       (py_mapM
          (\<lambda>i. py_bind
                 (py_mapM (\<lambda>idx. album_photo can_open photos_folder (fst (photo_info ! idx)))
                    (filter (\<lambda>idx. idx < length photo_info) [i ..< i + photos_per_page]))
                 (\<lambda>photos. Inr ((if 0 < i then [AlbumPageBreak] else []) @ concat photos)))
          (map (\<lambda>k. photos_per_page * k) [0 ..< (length photo_info + photos_per_page - 1) div photos_per_page]))
       (\<lambda>pages. Inr (concat pages))"

text \<open>The script: the path of the saved album and its content; nothing is saved
  when an exception escapes.\<close>

definition album_main ::
  "(string \<Rightarrow> bool) \<Rightarrow> string \<Rightarrow> string list \<Rightarrow> (string \<times> album_item list) py_result" where
  "album_main can_open photos_folder photo_files =
     py_bind (album_photo_info photo_files) (\<lambda>photo_info.
       py_bind (album_document can_open photos_folder photo_info) (\<lambda>doc.
         Inr (path_join photos_folder ''photo_album.docx'', doc)))"

section \<open>The module body of \<open>WriteToJpgExifAndGenPhotoLog.py\<close>\<close>

text \<open>The first loop (lines 110--141): for each \<open>.jpg\<close> photo of \<open>capture\<close>,
  the log is read (\<open>FileNotFoundError\<close> or \<open>ValueError\<close>), then the photo is
  opened and its tags set as \<open>write_photo_exif\<close> says, and the tagged copy is
  saved into \<open>new_photo\<close>.  The filter of line 108 is the one of
  \<open>ReadImageAndModifyExif.py\<close>, \<open>rim_jpg_files\<close>.\<close>

fun photolog_loop ::
  "rim_env \<Rightarrow> (string \<Rightarrow> real option) \<Rightarrow> string list \<Rightarrow> (string \<Rightarrow> photo_exif option) \<Rightarrow>
   (string \<Rightarrow> photo_exif option) \<times> py_error option" where
  "photolog_loop env parse_float [] out = (out, None)"
| "photolog_loop env parse_float (jpg_file # jpg_files) out =
     (let jpg_path = path_join (rim_photos_folder env) jpg_file;
          text_path = path_join (rim_text_folder env) (fst (splitext jpg_file) @ ''.txt'') in
      case rim_text env text_path of
        None \<Rightarrow> (out, Some OSError)
      | Some content \<Rightarrow>
          (case read_and_convert_coordinates parse_float content of
             Inl e \<Rightarrow> (out, Some e)
           | Inr _ \<Rightarrow>
               (case rim_photo env jpg_path of
                  None \<Rightarrow> (out, Some OSError)
                | Some my_image \<Rightarrow>
                    (case write_photo_exif parse_float content my_image of
                       Inl e \<Rightarrow> (out, Some e)
                     | Inr tagged \<Rightarrow>
                         photolog_loop env parse_float jpg_files (out(rim_new_photo_path env jpg_file \<mapsto> tagged))))))"

text \<open>The whole script: the photos saved into \<open>new_photo\<close>, and either the
  exception that stopped it or the saved report's path and items.  An exception
  of the first loop ends the script before the report.  \<open>new_photo_files\<close> is
  \<open>os.listdir(new_photo_folder)\<close> after the loop; the report opens each
  photo and log from \<open>capture\<close> and \<open>Txt_log\<close>.\<close>

definition photolog_main ::
  "rim_env \<Rightarrow> (string \<Rightarrow> real option) \<Rightarrow> string list \<Rightarrow> string list \<Rightarrow>
   (string \<Rightarrow> photo_exif option) \<times> (string \<times> report_item list) py_result" where
  "photolog_main env parse_float photo_files new_photo_files =
     (case photolog_loop env parse_float (rim_jpg_files photo_files) Map.empty of
        (out, Some e) \<Rightarrow> (out, Inl e)
      | (out, None) \<Rightarrow>
          (out, py_bind (collect_photo_info new_photo_files) (\<lambda>photo_info.
                  py_bind (photo_report (rim_text env) (rim_photos_folder env) (rim_text_folder env) photo_info)
                    (\<lambda>items. Inr (path_join (rim_new_photo_folder env) ''PhotoLogAll.docx'', items)))))"

text \<open>The folders of lines 90--96, under the folder of the script
  (\<open>absolute_path\<close>, line 83), with the files in them.\<close>

definition photolog_env ::
  "string \<Rightarrow> (string \<Rightarrow> string option) \<Rightarrow> (string \<Rightarrow> photo_exif option) \<Rightarrow> rim_env" where
  "photolog_env absolute_path texts photos =
     (let relative_photo_path = ''capture''; relative_txt_path = ''Txt_log'';
          relative_new_photo_path = ''new_photo'' in
      \<lparr>rim_photos_folder = path_join absolute_path relative_photo_path,
       rim_text_folder = path_join absolute_path relative_txt_path,
       rim_new_photo_folder = path_join absolute_path relative_new_photo_path,
       rim_text = texts, rim_photo = photos\<rparr>)"

section \<open>Fixtures\<close>

text \<open>A listing, folders and a float parser for the witnesses below.\<close>

definition album_fixture_files :: "string list" where
  "album_fixture_files = [''2023-11-16_16-28-01.png'', ''notes.txt'', ''2023-11-15_10-00-00.png'', ''x.png'']"

definition rim_fixture_env :: rim_env where
  "rim_fixture_env =
     \<lparr>rim_photos_folder = ''/p'', rim_text_folder = ''/t'', rim_new_photo_folder = ''/n'',
      rim_text = (\<lambda>path. if path = ''/t/a.txt'' then Some ''-31.5\<newline>84.25\<newline>'' else None),
      rim_photo = (\<lambda>path. Some \<lparr>camera_make = [], camera_model = [], exif_datetime = [],
                      datetime_original = [], user_comment = [], gps = None, exif_orientation = None\<rparr>)\<rparr>"

definition rim_fixture_float :: "string \<Rightarrow> real option" where
  "rim_fixture_float s = (if s = ''-31.5'' then Some (-31.5) else if s = ''84.25'' then Some 84.25 else None)"

definition photolog_fixture_env :: rim_env where
  "photolog_fixture_env =
     \<lparr>rim_photos_folder = ''/p'', rim_text_folder = ''/t'', rim_new_photo_folder = ''/n'',
      rim_text = (\<lambda>path. if path = ''/t/2023-11-16_16-28-01.txt''
                         then Some ''31.5\<newline>84.25\<newline>12\<newline>2023-11-16T16:28:01Z\<newline>NE\<newline>x\<newline>Creek'' else None),
      rim_photo = (\<lambda>path. Some \<lparr>camera_make = [], camera_model = [], exif_datetime = [],
                      datetime_original = [], user_comment = [], gps = None, exif_orientation = None\<rparr>)\<rparr>"

definition photolog_fixture_float :: "string \<Rightarrow> real option" where
  "photolog_fixture_float s =
     (if s = ''31.5'' then Some 31.5 else if s = ''84.25'' then Some 84.25 else if s = ''12'' then Some 12 else None)"

section \<open>Lemmas\<close>

lemma rim_loop_first_failure:
  "dom (fst (rim_loop env parse_float js out0)) =
     dom out0 \<union> rim_new_photo_path env ` set (takeWhile (\<lambda>j. rim_photo_error env parse_float j = None) js)
   \<and> snd (rim_loop env parse_float js out0) =
     (case dropWhile (\<lambda>j. rim_photo_error env parse_float j = None) js of
        [] \<Rightarrow> None | j # _ \<Rightarrow> rim_photo_error env parse_float j)"
proof (induction js arbitrary: out0)
  case (Cons jpg_file jpg_files)
  let ?text = "rim_text env (path_join (rim_text_folder env) (fst (splitext jpg_file) @ ''.txt''))"
  let ?jpg = "rim_photo env (path_join (rim_photos_folder env) jpg_file)"
  show ?case
  proof (cases "rim_read_and_convert_coordinates parse_float ?text")
    case (Inl e)
    then have "rim_photo_error env parse_float jpg_file = Some e"
      by (simp add: rim_photo_error_def)
    then show ?thesis using Inl by simp
  next
    case (Inr coords)
    show ?thesis
    proof (cases ?jpg)
      case None
      then have "rim_photo_error env parse_float jpg_file = Some OSError"
        using Inr by (simp add: rim_photo_error_def)
      then show ?thesis using Inr None by simp
    next
      case (Some my_image)
      then have pe: "rim_photo_error env parse_float jpg_file = None"
        using Inr by (simp add: rim_photo_error_def)
      have r: "rim_loop env parse_float (jpg_file # jpg_files) out0 =
            rim_loop env parse_float jpg_files (out0(rim_new_photo_path env jpg_file \<mapsto> rim_set_tags coords my_image))"
        using Inr Some by simp
      let ?out1 = "out0(rim_new_photo_path env jpg_file \<mapsto> rim_set_tags coords my_image)"
      let ?ok = "\<lambda>j. rim_photo_error env parse_float j = None"
      have d: "dom (fst (rim_loop env parse_float jpg_files ?out1)) =
                 dom ?out1 \<union> rim_new_photo_path env ` set (takeWhile ?ok jpg_files)"
        and e: "snd (rim_loop env parse_float jpg_files ?out1) =
                 (case dropWhile ?ok jpg_files of [] \<Rightarrow> None | j # _ \<Rightarrow> rim_photo_error env parse_float j)"
        using Cons.IH [of ?out1] by blast+
      have tw: "takeWhile ?ok (jpg_file # jpg_files) = jpg_file # takeWhile ?ok jpg_files"
        and dw: "dropWhile ?ok (jpg_file # jpg_files) = dropWhile ?ok jpg_files"
        using pe by simp_all
      show ?thesis unfolding r tw dw d e by auto
    qed
  qed
qed simp


lemma album_photos_mapM:
  "py_mapM (\<lambda>idx. album_photo can_open photos_folder (fst (photo_info ! idx))) idxs =
     (if list_all (\<lambda>idx. can_open (path_join photos_folder (fst (photo_info ! idx)))) idxs
      then Inr (map (\<lambda>idx. [AlbumPicture (path_join photos_folder (fst (photo_info ! idx))),
                            AlbumParagraph (fst (photo_info ! idx))]) idxs)
      else Inl OSError)"
  by (induction idxs) (auto simp: album_photo_def py_bind_def Let_def)

lemma album_pages_mapM:
  "py_mapM (\<lambda>i. py_bind (py_mapM (\<lambda>idx. album_photo can_open photos_folder (fst (photo_info ! idx))) (slots i))
                  (\<lambda>photos. Inr ((if 0 < i then [AlbumPageBreak] else []) @ concat photos))) ks =
     (if list_all (\<lambda>i. list_all (\<lambda>idx. can_open (path_join photos_folder (fst (photo_info ! idx)))) (slots i)) ks
      then Inr (map (\<lambda>i. (if 0 < i then [AlbumPageBreak] else []) @
                   concat (map (\<lambda>idx. [AlbumPicture (path_join photos_folder (fst (photo_info ! idx))),
                                       AlbumParagraph (fst (photo_info ! idx))]) (slots i))) ks)
      else Inl OSError)"
  by (induction ks) (auto simp: album_photos_mapM py_bind_def)

lemma album_document_eq:
  "album_document can_open photos_folder photo_info =
     (if list_all (\<lambda>p. can_open (path_join photos_folder (fst p))) photo_info
      then Inr (concat (map (\<lambda>i. (if 0 < i then [AlbumPageBreak] else []) @
                   concat (map (\<lambda>idx. [AlbumPicture (path_join photos_folder (fst (photo_info ! idx))),
                                       AlbumParagraph (fst (photo_info ! idx))])
                     (filter (\<lambda>idx. idx < length photo_info) [i ..< i + photos_per_page])))
                 (map (\<lambda>k. photos_per_page * k) [0 ..< (length photo_info + photos_per_page - 1) div photos_per_page])))
      else Inl OSError)"
proof -
  have "list_all (\<lambda>i. list_all (\<lambda>idx. can_open (path_join photos_folder (fst (photo_info ! idx))))
          (filter (\<lambda>idx. idx < length photo_info) [i ..< i + photos_per_page]))
          (map (\<lambda>k. photos_per_page * k) [0 ..< (length photo_info + photos_per_page - 1) div photos_per_page])
        \<longleftrightarrow> list_all (\<lambda>idx. can_open (path_join photos_folder (fst (photo_info ! idx)))) [0 ..< length photo_info]"
    unfolding page_slots_cover [of "length photo_info", symmetric] by (simp add: list_all_iff)
  also have "\<dots> \<longleftrightarrow> list_all (\<lambda>p. can_open (path_join photos_folder (fst p))) photo_info"
    by (simp add: list_all_length)
  finally have all: "list_all (\<lambda>i. list_all (\<lambda>idx. can_open (path_join photos_folder (fst (photo_info ! idx))))
          (filter (\<lambda>idx. idx < length photo_info) [i ..< i + photos_per_page]))
          (map (\<lambda>k. photos_per_page * k) [0 ..< (length photo_info + photos_per_page - 1) div photos_per_page])
        \<longleftrightarrow> list_all (\<lambda>p. can_open (path_join photos_folder (fst p))) photo_info" .
  show ?thesis
    unfolding album_document_def album_pages_mapM all by (simp add: py_bind_def)
qed

lemma album_document_items:
  assumes "album_document can_open photos_folder photo_info = Inr items"
  shows "filter (\<lambda>x. x \<noteq> AlbumPageBreak) items =
           concat (map (\<lambda>p. [AlbumPicture (path_join photos_folder (fst p)), AlbumParagraph (fst p)]) photo_info)
       \<and> length (filter (\<lambda>x. x = AlbumPageBreak) items) = (length photo_info + 1) div 2 - 1"
proof -
  let ?h = "\<lambda>idx. [AlbumPicture (path_join photos_folder (fst (photo_info ! idx))), AlbumParagraph (fst (photo_info ! idx))]"
  let ?slots = "\<lambda>i. filter (\<lambda>idx. idx < length photo_info) [i ..< i + photos_per_page]"
  let ?ks = "map (\<lambda>k. photos_per_page * k) [0 ..< (length photo_info + photos_per_page - 1) div photos_per_page]"
  have items: "items = concat (map (\<lambda>i. (if 0 < i then [AlbumPageBreak] else []) @ concat (map ?h (?slots i))) ?ks)"
    using assms by (simp add: album_document_eq split: if_splits)
  have nb: "filter (\<lambda>x. x \<noteq> AlbumPageBreak) (concat (map ?h idxs)) = concat (map ?h idxs)"
       "filter (\<lambda>x. x = AlbumPageBreak) (concat (map ?h idxs)) = []" for idxs
    by (induction idxs) auto
  have gen: "filter (\<lambda>x. x \<noteq> AlbumPageBreak)
          (concat (map (\<lambda>i. (if 0 < i then [AlbumPageBreak] else []) @ concat (map ?h (?slots i))) ks))
        = concat (map ?h (concat (map ?slots ks)))
      \<and> length (filter (\<lambda>x. x = AlbumPageBreak)
          (concat (map (\<lambda>i. (if 0 < i then [AlbumPageBreak] else []) @ concat (map ?h (?slots i))) ks)))
        = length (filter (\<lambda>i. 0 < i) ks)" for ks
    by (induction ks) (auto simp: nb)
  have "concat (map ?h (concat (map ?slots ?ks))) = concat (map ?h [0 ..< length photo_info])"
    using page_slots_cover [of "length photo_info"] by simp
  also have "\<dots> = concat (map (\<lambda>p. [AlbumPicture (path_join photos_folder (fst p)), AlbumParagraph (fst p)]) photo_info)"
    by (intro arg_cong [where f = concat] nth_equalityI) simp_all
  finally have "filter (\<lambda>x. x \<noteq> AlbumPageBreak) items =
      concat (map (\<lambda>p. [AlbumPicture (path_join photos_folder (fst p)), AlbumParagraph (fst p)]) photo_info)"
    using gen [of ?ks] items by simp
  moreover have "length (filter (\<lambda>x. x = AlbumPageBreak) items) = length (filter (\<lambda>i. 0 < i) ?ks)"
    using gen [of ?ks] items by simp
  ultimately show ?thesis
    using page_starts_breaks [of "length photo_info"] by simp
qed

lemma photolog_loop_complete:
  "photolog_loop env parse_float js out0 = (out, None) \<Longrightarrow> dom out = dom out0 \<union> rim_new_photo_path env ` set js"
proof (induction env parse_float js out0 rule: photolog_loop.induct)
  case (2 env parse_float jpg_file jpg_files out0)
  let ?text = "rim_text env (path_join (rim_text_folder env) (fst (splitext jpg_file) @ ''.txt''))"
  let ?photo = "rim_photo env (path_join (rim_photos_folder env) jpg_file)"
  obtain content coords my_image tagged where
    t: "?text = Some content" and c: "read_and_convert_coordinates parse_float content = Inr coords"
    and p: "?photo = Some my_image" and w: "write_photo_exif parse_float content my_image = Inr tagged"
    and loop: "photolog_loop env parse_float jpg_files (out0(rim_new_photo_path env jpg_file \<mapsto> tagged)) = (out, None)"
    using "2.prems" by (simp add: Let_def split: option.splits sum.splits)
  have "dom out = dom (out0(rim_new_photo_path env jpg_file \<mapsto> tagged)) \<union> rim_new_photo_path env ` set jpg_files"
    by (rule "2.IH" [OF refl refl t c p w loop])
  then show ?case by (simp add: insert_commute)
qed simp

section \<open>Properties\<close>

text \<open>
  C34. A photo processed by \<open>ReadImageAndModifyExif.py\<close> whose log gives
  latitude \<open>lat\<close> and longitude \<open>lon\<close> is read back by the KMZ scripts at
  exactly \<open>(lat, lon)\<close>, in every hemisphere, with the fixed altitude 50.
\<close>

theorem rim_photo_read_back:
  assumes "parse_float (log_line content 0) = Some lat" and "parse_float (log_line content 1) = Some lon"
  shows "map_sum id (\<lambda>coords. kmz_extract_gps_data (Some (rim_set_tags coords my_image)))
           (rim_read_and_convert_coordinates parse_float (Some content)) = Inr (Some lat, Some lon, Some 50)"
  using assms
  by (simp add: rim_read_and_convert_coordinates_def rim_set_tags_def kmz_extract_gps_data_def kmz_convert_signed)

theorem rim_photo_read_back_witness:
  "rim_fixture_float (log_line ''-31.5\<newline>84.25\<newline>'' 0) = Some (-31.5)
   \<and> rim_fixture_float (log_line ''-31.5\<newline>84.25\<newline>'' 1) = Some 84.25
   \<and> map_sum id (\<lambda>coords. kmz_extract_gps_data (Some (rim_set_tags coords
          \<lparr>camera_make = [], camera_model = [], exif_datetime = [], datetime_original = [],
           user_comment = [], gps = None, exif_orientation = None\<rparr>)))
        (rim_read_and_convert_coordinates rim_fixture_float (Some ''-31.5\<newline>84.25\<newline>''))
       = Inr (Some (-31.5), Some 84.25, Some 50)"
proof -
  have h: "rim_fixture_float (log_line ''-31.5\<newline>84.25\<newline>'' 0) = Some (-31.5)"
    "rim_fixture_float (log_line ''-31.5\<newline>84.25\<newline>'' 1) = Some 84.25"
    by code_simp+
  show ?thesis using rim_photo_read_back [OF h] h by simp
qed

text \<open>
  C35. \<open>ReadImageAndModifyExif.py\<close> handles the \<open>.jpg\<close> photos in listing
  order and stops at the first one whose log cannot be read or whose image
  cannot be opened: the \<open>new_photo\<close> folder then holds exactly the photos
  before it, and the exception that escapes is that photo's; none escapes when
  every photo could be read.
\<close>

theorem rim_main_first_failure:
  "dom (fst (rim_main env parse_float photo_files)) =
     rim_new_photo_path env ` set (takeWhile (\<lambda>j. rim_photo_error env parse_float j = None) (rim_jpg_files photo_files))
   \<and> snd (rim_main env parse_float photo_files) =
     (case dropWhile (\<lambda>j. rim_photo_error env parse_float j = None) (rim_jpg_files photo_files) of
        [] \<Rightarrow> None | j # _ \<Rightarrow> rim_photo_error env parse_float j)"
  using rim_loop_first_failure [of env parse_float "rim_jpg_files photo_files" Map.empty]
  by (simp add: rim_main_def)

text \<open>
  C36. When \<open>PhotoAlbumGenerator.py\<close> saves its album, the album is
  \<open>photo_album.docx\<close> in the photo folder.  Its photos are the
  \<open>.png\<close> files named by date and time, sorted by that time, each opened
  successfully and followed by its name, with a page break before every page but
  the first (two photos per page).
\<close>

theorem album_main_sorted:
  assumes "album_main can_open photos_folder photo_files = Inr (docx_filename, items)"
  shows "\<exists>photo_info. album_photo_info photo_files = Inr photo_info
           \<and> sorted (map snd photo_info)
           \<and> mset (map fst photo_info) =
                 mset (filter (\<lambda>f. py_endswith (py_lower f) ''.png'' \<and> \<not> py_endswith (py_lower f) ''png.meta''
                                  \<and> album_name_match f \<noteq> None) photo_files)
           \<and> list_all (\<lambda>p. can_open (path_join photos_folder (fst p))) photo_info
           \<and> List.map_filter (\<lambda>x. case x of AlbumParagraph f \<Rightarrow> Some f | _ \<Rightarrow> None) items = map fst photo_info
           \<and> length (filter (\<lambda>x. x = AlbumPageBreak) items) = (length photo_info + 1) div 2 - 1
           \<and> docx_filename = path_join photos_folder ''photo_album.docx''"
proof -
  obtain photo_info where i: "album_photo_info photo_files = Inr photo_info"
    and d: "album_document can_open photos_folder photo_info = Inr items"
    and f: "docx_filename = path_join photos_folder ''photo_album.docx''"
    using assms by (auto simp: album_main_def py_bind_def split: sum.splits)
  have s: "sorted (map snd photo_info)
           \<and> mset (map fst photo_info) =
                 mset (filter (\<lambda>f. py_endswith (py_lower f) ''.png'' \<and> \<not> py_endswith (py_lower f) ''png.meta''
                                  \<and> album_name_match f \<noteq> None) photo_files)"
    using collect_sorted [of "\<lambda>f. py_endswith (py_lower f) ''.png'' \<and> \<not> py_endswith (py_lower f) ''png.meta''"] i
    by (simp add: album_photo_info_def)
  have o: "list_all (\<lambda>p. can_open (path_join photos_folder (fst p))) photo_info"
    using d by (simp add: album_document_eq split: if_splits)
  have para: "List.map_filter (\<lambda>x. case x of AlbumParagraph f \<Rightarrow> Some f | _ \<Rightarrow> None) xs =
              List.map_filter (\<lambda>x. case x of AlbumParagraph f \<Rightarrow> Some f | _ \<Rightarrow> None)
                (filter (\<lambda>x. x \<noteq> AlbumPageBreak) xs)" for xs
    by (induction xs) (auto simp: map_filter_simps split: album_item.splits)
  have "List.map_filter (\<lambda>x. case x of AlbumParagraph f \<Rightarrow> Some f | _ \<Rightarrow> None)
          (concat (map (\<lambda>p. [AlbumPicture (path_join photos_folder (fst p)), AlbumParagraph (fst p)]) ps))
        = map fst ps" for ps :: "(string \<times> py_datetime) list"
    by (induction ps) (auto simp: map_filter_simps)
  then have "List.map_filter (\<lambda>x. case x of AlbumParagraph f \<Rightarrow> Some f | _ \<Rightarrow> None) items = map fst photo_info"
    using album_document_items [OF d] para [of items] by simp
  then show ?thesis using i s o f album_document_items [OF d] by blast
qed

theorem album_main_sorted_witness:
  "album_main (\<lambda>_. True) ''/c'' album_fixture_files =
     Inr (''/c/photo_album.docx'',
          [AlbumPicture ''/c/2023-11-15_10-00-00.png'', AlbumParagraph ''2023-11-15_10-00-00.png'',
           AlbumPicture ''/c/2023-11-16_16-28-01.png'', AlbumParagraph ''2023-11-16_16-28-01.png''])
   \<and> album_photo_info album_fixture_files =
       Inr [(''2023-11-15_10-00-00.png'', (2023, 11, 15, 10, 0, 0)), (''2023-11-16_16-28-01.png'', (2023, 11, 16, 16, 28, 1))]"
proof -
  have h: "album_main (\<lambda>_. True) ''/c'' album_fixture_files =
     Inr (''/c/photo_album.docx'',
          [AlbumPicture ''/c/2023-11-15_10-00-00.png'', AlbumParagraph ''2023-11-15_10-00-00.png'',
           AlbumPicture ''/c/2023-11-16_16-28-01.png'', AlbumParagraph ''2023-11-16_16-28-01.png''])"
    by code_simp
  have i: "album_photo_info album_fixture_files =
       Inr [(''2023-11-15_10-00-00.png'', (2023, 11, 15, 10, 0, 0)), (''2023-11-16_16-28-01.png'', (2023, 11, 16, 16, 28, 1))]"
    by code_simp
  show ?thesis using album_main_sorted [OF h] h i by simp
qed

text \<open>
  C37. One photo that PIL cannot open makes \<open>PhotoAlbumGenerator.py\<close> stop with
  \<open>OSError\<close> before the album is saved, and this is the only way the layout
  loop fails.
\<close>

theorem album_unreadable_photo:
  assumes "album_photo_info photo_files = Inr photo_info"
  shows "album_main can_open photos_folder photo_files = Inl OSError
         \<longleftrightarrow> \<not> list_all (\<lambda>p. can_open (path_join photos_folder (fst p))) photo_info"
  using assms by (simp add: album_main_def album_document_eq)

theorem album_unreadable_photo_witness:
  "album_main (\<lambda>p. p \<noteq> ''/c/2023-11-16_16-28-01.png'') ''/c'' album_fixture_files = Inl OSError"
proof -
  have i: "album_photo_info album_fixture_files =
       Inr [(''2023-11-15_10-00-00.png'', (2023, 11, 15, 10, 0, 0)), (''2023-11-16_16-28-01.png'', (2023, 11, 16, 16, 28, 1))]"
    by code_simp
  have "\<not> list_all (\<lambda>p. (\<lambda>p. p \<noteq> ''/c/2023-11-16_16-28-01.png'') (path_join ''/c'' (fst p)))
          [(''2023-11-15_10-00-00.png'', (2023::int, 11::int, 15::int, 10::int, 0::int, 0::int)),
           (''2023-11-16_16-28-01.png'', (2023, 11, 16, 16, 28, 1))]"
    by code_simp
  moreover have "path_join ''/c'' ''2023-11-16_16-28-01.png'' = ''/c/2023-11-16_16-28-01.png''"
    "path_join ''/c'' ''2023-11-15_10-00-00.png'' \<noteq> ''/c/2023-11-16_16-28-01.png''"
    by code_simp+
  ultimately show ?thesis using album_unreadable_photo [OF i] by simp
qed

text \<open>
  C39. When \<open>WriteToJpgExifAndGenPhotoLog.py\<close> runs to the end, every \<open>.jpg\<close>
  photo of \<open>capture\<close> has its tagged copy in \<open>new_photo\<close>, the report is
  \<open>new_photo/PhotoLogAll.docx\<close>, and its photo tables are numbered 1, 2, ...
  once for each dated \<open>.jpg\<close> file that \<open>new_photo\<close> then lists.
\<close>

theorem photolog_main_report:
  assumes "photolog_main env parse_float photo_files new_photo_files = (out, Inr (docx_filename, items))"
  shows "dom out = rim_new_photo_path env ` set (rim_jpg_files photo_files)
       \<and> docx_filename = path_join (rim_new_photo_folder env) ''PhotoLogAll.docx''
       \<and> photo_number_cells items =
           map (\<lambda>idx. ''Photo'' @ [CHR 0x0A] @ ''No.'' @ py_str_int (int idx + 1))
             [0 ..< length (filter (\<lambda>f. py_endswith (py_lower f) ''.jpg'' \<and> \<not> py_endswith (py_lower f) ''jpg.meta''
                                         \<and> photo_name_match f \<noteq> None) new_photo_files)]"
proof -
  let ?B = "py_bind (collect_photo_info new_photo_files) (\<lambda>photo_info.
              py_bind (photo_report (rim_text env) (rim_photos_folder env) (rim_text_folder env) photo_info)
                (\<lambda>items. Inr (path_join (rim_new_photo_folder env) ''PhotoLogAll.docx'', items)))"
  obtain out1 err where L: "photolog_loop env parse_float (rim_jpg_files photo_files) Map.empty = (out1, err)"
    by (cases "photolog_loop env parse_float (rim_jpg_files photo_files) Map.empty")
  have m: "photolog_main env parse_float photo_files new_photo_files =
             (case err of Some e \<Rightarrow> (out1, Inl e) | None \<Rightarrow> (out1, ?B))"
    unfolding photolog_main_def L by (simp only: prod.case split: option.split)
  have e: "err = None"
  proof (cases err)
    case (Some x)
    then show ?thesis using assms m by simp
  qed simp
  have "(out1, ?B) = (out, Inr (docx_filename, items))"
    using trans [OF m [unfolded e option.case, symmetric] assms] .
  then have o: "out1 = out" and b: "?B = Inr (docx_filename, items)"
    by (simp_all only: prod.inject)
  have l: "photolog_loop env parse_float (rim_jpg_files photo_files) Map.empty = (out, None)"
    using L e o by simp
  obtain photo_info where c: "collect_photo_info new_photo_files = Inr photo_info"
    using b by (cases "collect_photo_info new_photo_files") simp_all
  then have b2: "py_bind (photo_report (rim_text env) (rim_photos_folder env) (rim_text_folder env) photo_info)
                   (\<lambda>items. Inr (path_join (rim_new_photo_folder env) ''PhotoLogAll.docx'', items)) =
                 Inr (docx_filename, items)"
    using b by simp
  obtain items' where r': "photo_report (rim_text env) (rim_photos_folder env) (rim_text_folder env) photo_info = Inr items'"
    using b2 by (cases "photo_report (rim_text env) (rim_photos_folder env) (rim_text_folder env) photo_info") simp_all
  then have r: "photo_report (rim_text env) (rim_photos_folder env) (rim_text_folder env) photo_info = Inr items"
    and d: "docx_filename = path_join (rim_new_photo_folder env) ''PhotoLogAll.docx''"
    using b2 by simp_all
  have ms: "mset (map fst photo_info) =
          mset (filter (\<lambda>f. py_endswith (py_lower f) ''.jpg'' \<and> \<not> py_endswith (py_lower f) ''jpg.meta''
                           \<and> photo_name_match f \<noteq> None) new_photo_files)"
    using collect_sorted [of "\<lambda>f. py_endswith (py_lower f) ''.jpg'' \<and> \<not> py_endswith (py_lower f) ''jpg.meta''"] c
    by (simp add: collect_photo_info_def)
  have len: "length photo_info =
      length (filter (\<lambda>f. py_endswith (py_lower f) ''.jpg'' \<and> \<not> py_endswith (py_lower f) ''jpg.meta''
                           \<and> photo_name_match f \<noteq> None) new_photo_files)"
    using arg_cong [OF ms, of size] by (simp only: size_mset length_map)
  have "photo_number_cells items =
          map (\<lambda>idx. ''Photo'' @ [CHR 0x0A] @ ''No.'' @ py_str_int (int idx + 1)) [0 ..< length photo_info]"
    using photo_report_numbering [OF r] by (rule conjunct1)
  then show ?thesis
    unfolding len using photolog_loop_complete [OF l] d by simp
qed

theorem photolog_main_report_witness:
  "snd (photolog_main photolog_fixture_env photolog_fixture_float [''2023-11-16_16-28-01.jpg'', ''notes.txt'']
          [''2023-11-16_16-28-01.jpg'']) =
     Inr (''/n/PhotoLogAll.docx'',
          [PhotoTable ''/p/2023-11-16_16-28-01.jpg'' ''Date\<newline>11/16/2023'' ''Photo\<newline>No.1'' ''NE'' ''x Creek'', Spacer])
   \<and> dom (fst (photolog_main photolog_fixture_env photolog_fixture_float [''2023-11-16_16-28-01.jpg'', ''notes.txt'']
          [''2023-11-16_16-28-01.jpg''])) = {''/n/2023-11-16_16-28-01.jpg''}"
proof -
  let ?r = "photolog_main photolog_fixture_env photolog_fixture_float [''2023-11-16_16-28-01.jpg'', ''notes.txt'']
          [''2023-11-16_16-28-01.jpg'']"
  have s: "snd ?r = Inr (''/n/PhotoLogAll.docx'',
          [PhotoTable ''/p/2023-11-16_16-28-01.jpg'' ''Date\<newline>11/16/2023'' ''Photo\<newline>No.1'' ''NE'' ''x Creek'', Spacer])"
    by code_simp
  have j: "rim_jpg_files [''2023-11-16_16-28-01.jpg'', ''notes.txt''] = [''2023-11-16_16-28-01.jpg'']"
    "rim_new_photo_path photolog_fixture_env ''2023-11-16_16-28-01.jpg'' = ''/n/2023-11-16_16-28-01.jpg''"
    by code_simp+
  have "?r = (fst ?r, Inr (''/n/PhotoLogAll.docx'',
          [PhotoTable ''/p/2023-11-16_16-28-01.jpg'' ''Date\<newline>11/16/2023'' ''Photo\<newline>No.1'' ''NE'' ''x Creek'', Spacer]))"
    using s by (metis prod.collapse)
  from photolog_main_report [OF this] have "dom (fst ?r) = {''/n/2023-11-16_16-28-01.jpg''}"
    using j by simp
  then show ?thesis using s by simp
qed

end
