(* ===== verification/CiteMap.thy ===== *)
theory CiteMap
  imports Prelude
begin

text \<open>
  \<open>src/CiteMap.py\<close> writes the OpenStreetMap attribution in white into the
  lower right corner of \<open>map_image.png\<close> and saves the result as
  \<open>map_image_with_attribution.png\<close>.  It runs at module level.

  An image is its size and the texts drawn on it.  PIL's font metrics are a
  parameter: \<open>textbbox\<close> gives the box \<open>(left, top, right, bottom)\<close> of a
  text drawn at \<open>(0, 0)\<close>, and a text drawn at \<open>(x, y)\<close> covers that box moved
  by \<open>(x, y)\<close> (\<open>ink_box\<close>; the default anchor \<open>la\<close>).  Whether
  \<open>arial.ttf\<close> can be loaded is an input.  The folder is a map from file names to
  images; \<open>None\<close> is a file \<open>Image.open\<close> cannot open.
\<close>

section \<open>Images, fonts and drawn text\<close>

datatype pil_font = TrueTypeFont string nat | DefaultFont

record drawn_text =
  dt_xy :: "int \<times> int"
  dt_text :: string
  dt_font :: pil_font
  dt_fill :: "nat \<times> nat \<times> nat"

record pil_image =
  img_size :: "int \<times> int"
  img_texts :: "drawn_text list"

type_synonym text_bbox = "pil_font \<Rightarrow> string \<Rightarrow> int \<times> int \<times> int \<times> int"

text \<open>The \<open>try\<close> of lines 15--18: \<open>ImageFont.truetype\<close> raises \<open>IOError\<close> when
  the font file is not found, and the default font is used.\<close>

definition load_font :: "bool \<Rightarrow> pil_font" where
  "load_font arial_found = (if arial_found then TrueTypeFont ''arial.ttf'' 20 else DefaultFont)"

text \<open>\<open>draw.text(xy, text, font=font, fill=fill)\<close>.\<close>

definition draw_text :: "int \<times> int \<Rightarrow> string \<Rightarrow> pil_font \<Rightarrow> nat \<times> nat \<times> nat \<Rightarrow> pil_image \<Rightarrow> pil_image" where
  "draw_text xy txt font fill img =
     img\<lparr>img_texts := img_texts img @ [\<lparr>dt_xy = xy, dt_text = txt, dt_font = font, dt_fill = fill\<rparr>]\<rparr>"

text \<open>The pixels a drawn text covers.\<close>

definition ink_box :: "text_bbox \<Rightarrow> drawn_text \<Rightarrow> int \<times> int \<times> int \<times> int" where
  "ink_box textbbox d =
     (case dt_xy d of (x, y) \<Rightarrow>
        (case textbbox (dt_font d) (dt_text d) of (l, t, r, b) \<Rightarrow> (x + l, y + t, x + r, y + b)))"

section \<open>\<open>add_attribution\<close> and the module body\<close>

definition add_attribution :: "text_bbox \<Rightarrow> bool \<Rightarrow> pil_image option \<Rightarrow> string \<Rightarrow> pil_image py_result" where
  "add_attribution textbbox arial_found image_file attribution_text =
     (case image_file of
        None \<Rightarrow> Inl OSError
      | Some img \<Rightarrow>
          (let font = load_font arial_found in
           case textbbox font attribution_text of (l, t, r, b) \<Rightarrow>
             (let text_width = r - l; text_height = b - t in
              case img_size img of (width, height) \<Rightarrow>
                (let x = width - text_width - 10; y = height - text_height - 10 in
                 Inr (draw_text (x, y) attribution_text font (255, 255, 255) img)))))"

text \<open>The literal of line 37: the UTF-8 bytes of the copyright sign read as
  Latin-1, two characters.\<close>

definition citemap_attribution_text :: string where
  "citemap_attribution_text = [CHR 0xC2, CHR 0xA9] @ '' OpenStreetMap contributors''"

definition citemap_main :: "text_bbox \<Rightarrow> bool \<Rightarrow> (string \<Rightarrow> pil_image option) \<Rightarrow>
    (string \<Rightarrow> pil_image option) \<times> py_error option" where
  "citemap_main textbbox arial_found files =
     (case add_attribution textbbox arial_found (files ''map_image.png'') citemap_attribution_text of
        Inl e \<Rightarrow> (files, Some e)
      | Inr img \<Rightarrow> (files(''map_image_with_attribution.png'' \<mapsto> img), None))"

section \<open>Lemmas\<close>

lemma ink_box_drawn:
  "ink_box textbbox \<lparr>dt_xy = (x, y), dt_text = txt, dt_font = font, dt_fill = fill\<rparr> =
     (case textbbox font txt of (l, t, r, b) \<Rightarrow> (x + l, y + t, x + r, y + b))"
  by (simp add: ink_box_def)

lemma add_attribution_Some:
  assumes "img_size img = (width, height)" and "textbbox (load_font arial_found) txt = (l, t, r, b)"
  shows "\<exists>img'. add_attribution textbbox arial_found (Some img) txt = Inr img'
           \<and> img_size img' = (width, height)
           \<and> map (ink_box textbbox) (img_texts img') = map (ink_box textbbox) (img_texts img) @
               [(width - 10 - (r - l) + l, height - 10 - (b - t) + t, width - 10 + l, height - 10 + t)]"
  using assms by (simp add: add_attribution_def draw_text_def ink_box_drawn Let_def)

lemma add_attribution_None: "add_attribution textbbox arial_found None txt = Inl OSError"
  by (simp add: add_attribution_def)

lemma citemap_main_missing_image:
  "files ''map_image.png'' = None \<Longrightarrow> citemap_main textbbox arial_found files = (files, Some OSError)"
  by (simp add: citemap_main_def add_attribution_None)

section \<open>Properties\<close>

text \<open>
  C40. When \<open>map_image.png\<close> opens, the script saves
  \<open>map_image_with_attribution.png\<close>, of the same size, with the attribution
  drawn over what the image held.  For the text's box \<open>(l, t, r, b)\<close> at the
  origin, the drawn text covers
  \<open>(width - 10 - (r - l) + l, height - 10 - (b - t) + t, width - 10 + l, height - 10 + t)\<close>:
  it ends \<open>10 - l\<close> pixels from the right edge and \<open>10 - t\<close> from the bottom
  (10 only when the box starts at the origin), and it starts left of the image
  when the text is wider than the image less the margin.
\<close>

theorem citemap_attribution_box:
  assumes "files ''map_image.png'' = Some img" and "img_size img = (width, height)"
    and "textbbox (load_font arial_found) citemap_attribution_text = (l, t, r, b)"
  shows "\<exists>img'. citemap_main textbbox arial_found files = (files(''map_image_with_attribution.png'' \<mapsto> img'), None)
           \<and> img_size img' = (width, height)
           \<and> map (ink_box textbbox) (img_texts img') = map (ink_box textbbox) (img_texts img) @
               [(width - 10 - (r - l) + l, height - 10 - (b - t) + t, width - 10 + l, height - 10 + t)]"
  using add_attribution_Some [of img width height textbbox arial_found citemap_attribution_text l t r b] assms
  by (auto simp: citemap_main_def)

theorem citemap_attribution_box_witness:
  "(\<lambda>n. if n = ''map_image.png'' then Some \<lparr>img_size = (800, 600), img_texts = []\<rparr> else None) ''map_image.png''
      = Some \<lparr>img_size = (800 :: int, 600), img_texts = []\<rparr>
   \<and> img_size \<lparr>img_size = (800 :: int, 600), img_texts = []\<rparr> = (800, 600)
   \<and> (\<lambda>_ _. (0, 4, 250, 22)) (load_font True) citemap_attribution_text = (0 :: int, 4 :: int, 250 :: int, 22 :: int)
   \<and> (\<exists>img'. citemap_main (\<lambda>_ _. (0, 4, 250, 22)) True
                (\<lambda>n. if n = ''map_image.png'' then Some \<lparr>img_size = (800, 600), img_texts = []\<rparr> else None) =
              ((\<lambda>n. if n = ''map_image.png'' then Some \<lparr>img_size = (800, 600), img_texts = []\<rparr> else None)
                 (''map_image_with_attribution.png'' \<mapsto> img'), None)
           \<and> img_size img' = (800, 600)
           \<and> map (ink_box (\<lambda>_ _. (0, 4, 250, 22))) (img_texts img') = [(540, 576, 790, 594)])"
  using citemap_attribution_box [of "\<lambda>n. if n = ''map_image.png'' then Some \<lparr>img_size = (800, 600), img_texts = []\<rparr> else None"
      "\<lparr>img_size = (800, 600), img_texts = []\<rparr>" 800 600 "\<lambda>_ _. (0, 4, 250, 22)" True 0 4 250 22]
  by simp

end
