(* ===== verification/DocumentGenerator.thy ===== *)
theory DocumentGenerator
  imports Prelude
begin

text \<open>
  \<open>src/document_generator.py\<close> is a command-line script: given a text file, an
  image file and an output folder, it writes \<open>output.docx\<close> into the folder,
  holding one paragraph with the text of the file followed by the image, 4
  inches wide.

  The Word document is the list of its blocks; a length is in EMU, as
  \<open>docx.shared.Inches\<close> gives it.  The file system is three inputs: the text of
  each file that can be opened for reading (\<open>None\<close>: \<open>FileNotFoundError\<close>),
  whether each picture file is an image python-docx recognises (\<open>None\<close>: no
  such file), and the folders that exist.  The result is the path written and
  the document, or the exception that escapes.
\<close>

datatype docx_block = DocxParagraph string | DocxPicture string nat

text \<open>\<open>Inches(n)\<close>: 914400 EMU to the inch.\<close>

definition inches :: "nat \<Rightarrow> nat" where
  "inches n = n * 914400"

text \<open>\<open>doc.add_picture(image_file, width=Inches(4))\<close>.\<close>

definition add_picture :: "(string \<Rightarrow> bool option) \<Rightarrow> string \<Rightarrow> docx_block list \<Rightarrow> docx_block list py_result" where
  "add_picture pictures image_file doc =
     (case pictures image_file of
        None \<Rightarrow> Inl OSError
      | Some False \<Rightarrow> Inl UnrecognizedImageError
      | Some True \<Rightarrow> Inr (doc @ [DocxPicture image_file (inches 4)]))"

definition generate_document ::
  "(string \<Rightarrow> string option) \<Rightarrow> (string \<Rightarrow> bool option) \<Rightarrow> (string \<Rightarrow> bool) \<Rightarrow>
   string \<Rightarrow> string \<Rightarrow> string \<Rightarrow> (string \<times> docx_block list) py_result" where
  "generate_document texts pictures folders text_file image_file output_path =
     (case texts text_file of
        None \<Rightarrow> Inl OSError
      | Some text \<Rightarrow>
          py_bind (add_picture pictures image_file [DocxParagraph text])
            (\<lambda>doc. let output_filename = path_join output_path ''output.docx'' in
                   if folders output_path then Inr (output_filename, doc) else Inl OSError))"

text \<open>The module body: \<open>sys.argv\<close> holds the script's name and its three
  arguments; any other count prints the usage and exits with status 1.\<close>

definition document_generator_main ::
  "(string \<Rightarrow> string option) \<Rightarrow> (string \<Rightarrow> bool option) \<Rightarrow> (string \<Rightarrow> bool) \<Rightarrow>
   string list \<Rightarrow> (string \<times> docx_block list) py_result" where
  "document_generator_main texts pictures folders argv =
     (if length argv \<noteq> 4 then Inl (SystemExit 1)
      else
        (let text_file_path = argv ! 1; image_file_path = argv ! 2; output_path = argv ! 3 in
         generate_document texts pictures folders text_file_path image_file_path output_path))"

section \<open>Lemmas\<close>

text \<open>With the three arguments, the script writes the text then the picture to
  \<open>output.docx\<close> in the folder when every file is there, and otherwise raises
  the exception of the first step that fails: reading the text, adding the
  picture, saving.\<close>

lemma document_generator_main_args:
  "document_generator_main texts pictures folders [script, text_file, image_file, output_path] =
     (case texts text_file of
        None \<Rightarrow> Inl OSError
      | Some text \<Rightarrow>
          (case pictures image_file of
             None \<Rightarrow> Inl OSError
           | Some False \<Rightarrow> Inl UnrecognizedImageError
           | Some True \<Rightarrow>
               if folders output_path
               then Inr (path_join output_path ''output.docx'', [DocxParagraph text, DocxPicture image_file 3657600])
               else Inl OSError))"
  by (simp add: document_generator_main_def generate_document_def add_picture_def inches_def
      split: option.split bool.split)

lemma document_generator_main_usage:
  "length argv \<noteq> 4 \<Longrightarrow> document_generator_main texts pictures folders argv = Inl (SystemExit 1)"
  by (simp add: document_generator_main_def)

end
