(* ===== verification/WinRegistry.thy ===== *)
theory WinRegistry
  imports Prelude
begin

text \<open>
  \<open>src/WinRegistryReadandCompare.py\<close> reads one value of the Windows registry
  and compares it with a preset string.  The registry is a map from a hive and
  a key path to the key: \<open>None\<close> is a key that does not exist,
  \<open>RegKeyDenied\<close> one the user may not open, otherwise its values by name.  What
  the script prints is the list of its output lines.
\<close>

datatype reg_hive = HKEY_LOCAL_MACHINE | HKEY_CURRENT_USER

datatype reg_value = RegSz string | RegDword int

datatype reg_key = RegKeyDenied | RegKey "string \<Rightarrow> reg_value option"

type_synonym registry = "reg_hive \<times> string \<Rightarrow> reg_key option"

text \<open>\<open>read_registry_value\<close>: \<open>OpenKey\<close> on a missing key and \<open>QueryValueEx\<close>
  on a missing value both raise \<open>FileNotFoundError\<close>; a denied key raises
  \<open>PermissionError\<close>, which the second handler prints.\<close>

definition read_registry_value :: "registry \<Rightarrow> string \<Rightarrow> string \<Rightarrow> reg_value option \<times> string list" where
  "read_registry_value reg key_path value_name =
     (let not_found = (None, [''Registry key '' @ [CHR 0x27] @ key_path @ [CHR 0x27] @ '' not found.'']) in
      case reg (HKEY_LOCAL_MACHINE, key_path) of
        None \<Rightarrow> not_found
      | Some RegKeyDenied \<Rightarrow> (None, [''Error reading registry value: [WinError 5] Access is denied''])
      | Some (RegKey values) \<Rightarrow>
          (case values value_name of
             None \<Rightarrow> not_found
           | Some value \<Rightarrow> (Some value, [])))"

text \<open>\<open>print(registry_value)\<close>.\<close>

definition reg_value_str :: "reg_value option \<Rightarrow> string" where
  "reg_value_str v = (case v of None \<Rightarrow> ''None'' | Some (RegSz s) \<Rightarrow> s | Some (RegDword n) \<Rightarrow> py_str_int n)"

text \<open>The raw string of line 19, with its backslashes.\<close>

definition registry_key_path :: string where
  "registry_key_path = py_join [CHR 0x5C] [''Computer'', ''HKEY_CURRENT_USER'', ''EUDC'', ''932'', ''SystemDefaultEUDCFont'']"

definition winreg_main :: "registry \<Rightarrow> string list" where
  "winreg_main reg =
     (let value_name = ''SystemDefaultEUDCFont'';
          (registry_value, out) = read_registry_value reg registry_key_path value_name in
      out @ [reg_value_str registry_value] @
      (case registry_value of
         None \<Rightarrow> [''Registry value not found.'']
       | Some v \<Rightarrow>
           if v = RegSz ''YourPresetValue'' then [''Registry value matches preset value.'']
           else [''Registry value does not match preset value.'']))"

section \<open>Lemmas\<close>

text \<open>The script opens its path under \<open>HKEY_LOCAL_MACHINE\<close>, so what it prints
  does not depend on the current user's hive, where the path says the value is.\<close>

lemma winreg_main_ignores_current_user:
  "winreg_main (reg((HKEY_CURRENT_USER, p) := k)) = winreg_main reg"
  by (simp add: winreg_main_def read_registry_value_def)

text \<open>Without a key of that literal name under \<open>HKEY_LOCAL_MACHINE\<close> (regedit's
  \<open>Computer\<close> prefix is not part of a key path), the script always reports the
  key missing.\<close>

lemma winreg_main_not_found:
  "reg (HKEY_LOCAL_MACHINE, registry_key_path) = None \<Longrightarrow>
   winreg_main reg = [''Registry key '' @ [CHR 0x27] @ registry_key_path @ [CHR 0x27] @ '' not found.'', ''None'', ''Registry value not found.'']"
  by (simp add: winreg_main_def read_registry_value_def reg_value_str_def)

end
