(* ===== verification/ExtractAudio.thy ===== *)
theory ExtractAudio
  imports Prelude
begin

text \<open>
  \<open>src/ExtractAudioFromVideo.py\<close> writes the sound track of an MP4 video to an
  MP3 file with moviepy.  A video file is given by its sound track:
  \<open>None\<close> is a file \<open>VideoFileClip\<close> cannot open (\<open>OSError\<close>),
  \<open>Some None\<close> a video without sound, whose \<open>audio\<close> attribute is \<open>None\<close>.
  The files written are a map from paths to sound tracks; what the script prints
  is the outcome, as the exception caught by \<open>except Exception\<close> is printed.
\<close>

datatype audio_outcome = AudioExtracted | AudioFailed py_error

definition extract_audio ::
  "(string \<Rightarrow> 'a option option) \<Rightarrow> (string \<Rightarrow> 'a option) \<Rightarrow> string \<Rightarrow> string \<Rightarrow>
   (string \<Rightarrow> 'a option) \<times> audio_outcome" where
  "extract_audio videos out input_file output_file =
     (case videos input_file of
        None \<Rightarrow> (out, AudioFailed OSError)
      | Some None \<Rightarrow> (out, AudioFailed AttributeError)
      | Some (Some audio_clip) \<Rightarrow> (out(output_file \<mapsto> audio_clip), AudioExtracted))"

text \<open>The literals of lines 23--24 are not raw strings: \<open>\S\<close> stays a
  backslash and an \<open>S\<close>, but \<open>\t\<close> is a tab.\<close>

definition audio_input_file :: string where
  "audio_input_file = ''C:'' @ [CHR 0x5C] @ ''SoundExtract'' @ [CHR 0x09] @ ''est.mp4''"

definition audio_output_file :: string where
  "audio_output_file = ''C:'' @ [CHR 0x5C] @ ''SoundExtract'' @ [CHR 0x09] @ ''est.mp3''"

definition extract_audio_main ::
  "(string \<Rightarrow> 'a option option) \<Rightarrow> (string \<Rightarrow> 'a option) \<Rightarrow> (string \<Rightarrow> 'a option) \<times> audio_outcome" where
  "extract_audio_main videos out = extract_audio videos out audio_input_file audio_output_file"

section \<open>Lemmas\<close>

text \<open>The script never reads \<open>C:\SoundExtract\test.mp4\<close>: the path it opens has
  a tab where \<open>\t\<close> stands, so what it does depends only on that other path.\<close>

lemma extract_audio_main_reads_tab_path:
  "audio_input_file \<noteq> ''C:'' @ [CHR 0x5C] @ ''SoundExtract'' @ [CHR 0x5C] @ ''test.mp4''
   \<and> extract_audio_main (videos(''C:'' @ [CHR 0x5C] @ ''SoundExtract'' @ [CHR 0x5C] @ ''test.mp4'' := v)) out =
     extract_audio_main videos out"
  by (simp add: extract_audio_main_def extract_audio_def audio_input_file_def)

end
