(* ===== verification/HeadlessBrowser.thy ===== *)
theory HeadlessBrowser
  imports Prelude
begin

text \<open>
  \<open>src/HeadlessBroswerPrintWebpage.py\<close> launches a headless Chrome with
  pyppeteer, opens \<open>https://www.example.com\<close> and prints it to
  \<open>printFile.pdf\<close> in A4; any exception is caught and printed.

  Whether Chrome can be launched is an input, the web is a map from URLs to
  pages (\<open>None\<close>: \<open>page.goto\<close> raises), and the rendering of a page in a
  paper format is a parameter.  The state is the folder (a map from names to
  PDF files) and whether a browser the script launched is still running.
\<close>

datatype pyppeteer_error = BrowserError | PageError

datatype headless_outcome = PdfGenerated | PdfFailed pyppeteer_error

record pdf_options =
  pdf_opt_path :: string
  pdf_opt_format :: string

record 'pdf headless_state =
  hs_files :: "string \<Rightarrow> 'pdf option"
  hs_browser_running :: bool

text \<open>\<open>main\<close>, lines 4--27: the \<open>try\<close> block step by step; \<open>browser.close()\<close>
  is its last statement, so an exception after the launch leaves the browser
  running.\<close>

definition headless_main ::
  "bool \<Rightarrow> (string \<Rightarrow> 'page option) \<Rightarrow> ('page \<Rightarrow> string \<Rightarrow> 'pdf) \<Rightarrow> 'pdf headless_state \<Rightarrow>
   'pdf headless_state \<times> headless_outcome" where
  "headless_main can_launch web render st =
     (if \<not> can_launch then (st, PdfFailed BrowserError)
      else
        (let st = st\<lparr>hs_browser_running := True\<rparr> in
         case web ''https://www.example.com'' of
           None \<Rightarrow> (st, PdfFailed PageError)
         | Some page \<Rightarrow>
             (let pdf_options = \<lparr>pdf_opt_path = ''printFile.pdf'', pdf_opt_format = ''A4''\<rparr>;
                  st = st\<lparr>hs_files := (hs_files st)(pdf_opt_path pdf_options \<mapsto> render page (pdf_opt_format pdf_options))\<rparr>
              in (st\<lparr>hs_browser_running := False\<rparr>, PdfGenerated))))"

text \<open>Lines 29--30: \<open>run_until_complete(main())\<close>, from a folder with no
  browser running.\<close>

definition headless_module_main ::
  "bool \<Rightarrow> (string \<Rightarrow> 'page option) \<Rightarrow> ('page \<Rightarrow> string \<Rightarrow> 'pdf) \<Rightarrow> (string \<Rightarrow> 'pdf option) \<Rightarrow>
   'pdf headless_state \<times> headless_outcome" where
  "headless_module_main can_launch web render files =
     headless_main can_launch web render \<lparr>hs_files = files, hs_browser_running = False\<rparr>"

section \<open>Lemmas\<close>

text \<open>The page is printed, as an A4 PDF, exactly when Chrome launches and the page
  loads; a page that does not load leaves the browser the script launched
  running, and no file is written.\<close>

lemma headless_module_main_outcome:
  "headless_module_main can_launch web render files =
     (if can_launch then
        (case web ''https://www.example.com'' of
           Some page \<Rightarrow> (\<lparr>hs_files = files(''printFile.pdf'' \<mapsto> render page ''A4''), hs_browser_running = False\<rparr>,
                         PdfGenerated)
         | None \<Rightarrow> (\<lparr>hs_files = files, hs_browser_running = True\<rparr>, PdfFailed PageError))
      else (\<lparr>hs_files = files, hs_browser_running = False\<rparr>, PdfFailed BrowserError))"
  by (simp add: headless_module_main_def headless_main_def split: option.split)

end
