(* ===== verification/FolderPathFinder.thy ===== *)
theory FolderPathFinder
  imports Prelude
begin

text \<open>
  \<open>src/CurrentFolderPathFinder.py\<close> opens a Tk window with one button that
  shows, in a message box, the folder holding the script:
  \<open>os.path.dirname(os.path.realpath(__file__))\<close>.  The resolution of symbolic
  links by \<open>realpath\<close> is a parameter; \<open>dirname\<close> is \<open>posixpath.dirname\<close>.
\<close>

text \<open>\<open>posixpath.dirname\<close>: everything up to the last slash, with trailing
  slashes removed unless it consists of slashes only.\<close>

definition py_dirname :: "string \<Rightarrow> string" where
  "py_dirname p =
     (let i = nat (py_rfind CHR ''/'' p + 1); head = take i p in
      if head \<noteq> [] \<and> head \<noteq> replicate (length head) CHR ''/''
      then rev (dropWhile (\<lambda>c. c = CHR ''/'') (rev head)) else head)"

definition get_script_folder_path :: "(string \<Rightarrow> string) \<Rightarrow> string \<Rightarrow> string" where
  "get_script_folder_path realpath script_file =
     (let script_path = realpath script_file; folder_path = py_dirname script_path in folder_path)"

text \<open>\<open>display_folder_path\<close>: the title and the text of the message box.\<close>

definition display_folder_path :: "(string \<Rightarrow> string) \<Rightarrow> string \<Rightarrow> string \<times> string" where
  "display_folder_path realpath script_file =
     (let folder_path = get_script_folder_path realpath script_file in
      (''Folder Path'', ''The current folder path is:'' @ [CHR 0x0A, CHR 0x0A] @ folder_path))"

text \<open>The window (lines 14--20): each click of the button shows the message
  box once.\<close>

definition folder_finder_clicks :: "(string \<Rightarrow> string) \<Rightarrow> string \<Rightarrow> nat \<Rightarrow> (string \<times> string) list" where
  "folder_finder_clicks realpath script_file clicks = replicate clicks (display_folder_path realpath script_file)"

section \<open>Lemmas\<close>

text \<open>\<open>dirname\<close> undoes \<open>join\<close>: the folder of a file joined to a folder is that
  folder, for a folder not ending in a slash and a name without one.\<close>

lemma py_dirname_path_join:
  assumes "d \<noteq> []" and "last d \<noteq> CHR ''/''" and "CHR ''/'' \<notin> set f"
  shows "py_dirname (path_join d f) = d"
proof -
  have j: "path_join d f = d @ CHR ''/'' # f"
    using assms by (cases f) (auto simp: path_join_def)
  have r: "py_rfind CHR ''/'' (d @ CHR ''/'' # f) = int (length d)"
    using assms(3) by (rule py_rfind_match)
  have h: "take (Suc (length d)) (d @ CHR ''/'' # f) = d @ [CHR ''/'']" by simp
  have ns: "d @ [CHR ''/''] \<noteq> replicate (Suc (length d)) CHR ''/''"
  proof
    assume eq: "d @ [CHR ''/''] = replicate (Suc (length d)) CHR ''/''"
    have "d = take (length d) (d @ [CHR ''/''])" by simp
    also have "\<dots> = replicate (length d) CHR ''/''" by (simp only: eq take_replicate) simp
    finally have "last d = CHR ''/''" using assms(1) by (metis last_replicate length_0_conv)
    then show False using assms(2) by contradiction
  qed
  have "rev (dropWhile (\<lambda>c. c = CHR ''/'') (rev (d @ [CHR ''/'']))) = d"
    using assms(1,2) by (cases d rule: rev_cases) auto
  moreover have n: "nat (int (length d) + 1) = Suc (length d)" by simp
  ultimately show ?thesis
    using ns unfolding py_dirname_def Let_def j r n h by simp
qed

end
