(* ===== verification/Spec2Isabelle.thy ===== *)
theory Spec2Isabelle
  imports Workflow DocxTables Gpx Kmz GpxMap PhotoTools CiteMap DocumentGenerator WinRegistry ExtractAudio
    HeadlessBrowser FolderPathFinder
begin

text \<open>
  \<^bold>\<open>A verification library for the scripts of \<open>src/\<close>.\<close>  Its core is the
  boring-log splitter \<open>src/SplitBoringLog2.1.py\<close>; the further scripts with
  real logic are modelled beside it: the Word-table extractor
  \<open>src/FromDocxTableToExcelFile.py\<close>, the photo GPS tools
  \<open>src/WriteToJpgExifAndGenPhotoLog.py\<close> and \<open>src/ReadLatLongAltAndWriteCSV.py\<close>,
  the KMZ builders \<open>src/GenerateKmz.py\<close> and \<open>src/GenKMZwithRotationFinal.py\<close>,
  the first EXIF writer \<open>src/ReadImageAndModifyExif.py\<close>, the photo album
  \<open>src/PhotoAlbumGenerator.py\<close>, the GPX generator
  \<open>src/GenerateManualGpxForVideo.py\<close> and the GPX readers \<open>src/GPXtoCSV.py\<close>
  and \<open>src/CalculateGpxPathOnMap.py\<close>; the small utilities
  \<open>src/CiteMap.py\<close>, \<open>src/document_generator.py\<close>,
  \<open>src/WinRegistryReadandCompare.py\<close>, \<open>src/ExtractAudioFromVideo.py\<close>,
  \<open>src/HeadlessBroswerPrintWebpage.py\<close> and \<open>src/CurrentFolderPathFinder.py\<close>
  have a theory each.  The photo tools
  meet at the EXIF tags: positions written by one script are read by the others.

  \<^bold>\<open>The splitter.\<close>  It turns one PDF whose pages each carry a borehole label in
  a fixed rectangle into one PDF per run of equal labels.  Step 1
  (\<open>run_1st_step\<close>) reads the form, probes the start page once to choose between
  the text layer and OCR (\<open>determine_type\<close>), reads the label of every page from
  the start page on (\<open>extract_text_from_location\<close> / \<open>ocr_part_of_pdf\<close>),
  sanitizes it (\<open>clean_special_text\<close>) and writes the review ledger
  \<open><stem>.csv\<close> (\<open>generate_csv\<close>).  The user may edit the ledger.  Step 2
  (\<open>run_2nd_step\<close>) reads the ledger back (\<open>split_pdf_from_csv\<close>), groups
  consecutive rows with equal sanitized labels and writes each group to
  \<open><stem>_output/<stem>_<label>.pdf\<close>.

  \<^bold>\<open>Theories.\<close>
  \<^item> \<open>Prelude\<close>: the Python semantics the scripts rely on: the error type,
    statement sequencing with exceptions (\<open>py_bind\<close>, \<open>py_mapM\<close>), \<open>str.isspace\<close>
    on Latin-1, \<open>strip\<close>, \<open>replace\<close>, \<open>split\<close>, \<open>lower\<close>, \<open>endswith\<close>, \<open>in\<close>,
    \<open>join\<close>, \<open>int()\<close> (sign, surrounding white space, underscores between digits)
    and \<open>str()\<close> of an int, the list subscript with negative indices, and
    \<open>posixpath\<close> \<open>basename\<close>, \<open>splitext\<close>, \<open>join\<close>; with the round trip
    \<open>int(str(i)) = i\<close>, the laws of \<open>strip\<close>, and the law that swapping one
    extension for another keeps the stem.
  \<^item> \<open>Sanitizer\<close>: \<open>clean_special_text\<close> (lines 119--124), proved equal to a
    one-pass character map followed by \<open>strip\<close>, idempotent, and with its fixed
    points characterised.
  \<^item> \<open>Csv\<close>: the \<open>csv\<close> module as the splitter uses it: the writer with the
    default dialect (QUOTE_MINIMAL, \<open>\r\n\<close>) and the reader as the state machine of
    CPython's \<open>_csv.c\<close> run over the file text, lazily (the rows read before an
    error are returned with it).  \<open>csv_reader_write\<close> is the round trip.
  \<^item> \<open>LabelExtraction\<close>: \<open>extract_text_from_location\<close>, \<open>ocr_part_of_pdf\<close>,
    \<open>determine_type\<close>, \<open>generate_csv\<close>, \<open>generate_csv_and_run\<close> (lines
    18--76, 126--129).  PyMuPDF and Tesseract are an interface (\<open>pdf_backend\<close>)
    over an abstract page type, each call returning \<open>None\<close> when it raises;
    \<open>load_page\<close>'s wrap-around of negative numbers is modelled.
  \<^item> \<open>Splitter\<close>: \<open>split_pdf_from_csv\<close> (lines 78--117) as a loop over a state
    record (current label, current pages, files written), with the abstract
    specification \<open>group_runs\<close> (maximal runs of equal labels) and the proof that
    the loop refines it; files written are a log folded into a file map
    (\<open>apply_writes\<close>), so a later write to the same name replaces the earlier one.
  \<^item> \<open>Workflow\<close>: \<open>load_settings\<close> (lines 158--169), the form the window opens
    with (\<open>initial_form\<close>, lines 188--216) and the two button callbacks
    \<open>run_1st_step\<close>, \<open>run_2nd_step\<close> (lines 143--156) on a world record of PDF
    files, text files, folders and the state of the split button.  The file dialogs
    are inputs (the empty string when cancelled).
  \<^item> \<open>DocxTables\<close>: \<open>list_docx_components\<close>, the helpers of the tables and
    \<open>main\<close> of \<open>FromDocxTableToExcelFile.py\<close>: the document body as the list
    of its elements seen through their XPath results (the \<open>.text\<close> of a
    \<open>w:t\<close> is \<open>None\<close> when the element is empty), \<open>main\<close> as a step function
    on a state record (title, table counter, last table 2, three row lists) with an
    inductive reachability relation, the regular expressions as scanners with
    Python's greedy and lazy matching written out, the workbooks as title and rows.
  \<^item> \<open>GeoPhotos\<close>: \<open>decimal_to_dms\<close>, \<open>read_and_convert_coordinates\<close>, the
    EXIF tags written, the photo ordering and the two-per-page report loop of
    \<open>WriteToJpgExifAndGenPhotoLog.py\<close>, and \<open>convert_to_decimal_degrees\<close>,
    \<open>extract_gps_data\<close> and the CSV rows of \<open>ReadLatLongAltAndWriteCSV.py\<close>;
    the report's page size, margins, column widths and picture width in EMU
    (\<open>photolog_layout\<close>).
    Floats are \<open>real\<close> (exact arithmetic: the theorems state what the formulas
    compute before rounding); \<open>float()\<close> is a parameter.
  \<^item> \<open>Gpx\<close>: \<open>parse_input_file\<close>, \<open>interpolate_coords\<close> and \<open>generate_gpx\<close> of
    \<open>GenerateManualGpxForVideo.py\<close>, times as whole seconds; \<open>strptime\<close>,
    \<open>float()\<close>, float formatting and \<open>isoformat\<close> are the fields of a record.
  \<^item> \<open>Kmz\<close>: \<open>convert_to_decimal_degrees\<close> and \<open>extract_gps_data\<close> with the
    hemisphere references, \<open>get_image_orientation\<close>, \<open>rotate_image\<close>, the angle
    table and the tag reset of \<open>main\<close>, \<open>create_kml\<close> and \<open>create_kmz\<close> of
    \<open>GenKMZwithRotationFinal.py\<close>, and the copies of \<open>GenerateKmz.py\<close>
    (\<open>gk_*\<close>), proved equal to them; the archive is its list of entries
    (\<open>files/<name>\<close> for every file \<open>os.walk\<close> yields, whatever its subfolder);
    the two \<open>main\<close> loops are one step function on a state record
    (the dictionary \<open>image_data\<close> as an association list, the \<open>files\<close> folder as
    a map) with what is stored as a parameter: the photo unchanged or rotated.
    Pixels are a list of rows, PIL's transpositions list operations, and a viewer
    the table of the EXIF Orientation values.  \<open>GenerateKmz.py\<close>'s \<open>main\<close>
    evaluates \<open>sys.executable\<close> first and \<open>sys\<close> is not imported, so
    \<open>generate_kmz_main\<close> is that \<open>NameError\<close>; the lines after it are
    \<open>generate_kmz_body\<close>, proved to write the rotating script's document.  The
    rotating script's module-level \<open>ImageFile\<close> line raises \<open>NameError\<close> on
    import as well; its functions and \<open>main\<close> are modelled as the code that line
    guards.
  \<^item> \<open>GpxMap\<close>: \<open>extract_gpx_data\<close> of \<open>GPXtoCSV.py\<close> and
    \<open>read_latlong_file\<close>, \<open>get_min_max\<close>, \<open>calculate_distance\<close>,
    \<open>process_gpx_file\<close> (its \<open>count\<close> the index within the segment) and
    \<open>main\<close> of \<open>CalculateGpxPathOnMap.py\<close>, on parsed
    GPX documents (tracks of segments of points); the \<open>pyproj\<close> transformer and
    the printing of floats and times are parameters, the CSV files the writer of
    \<open>Csv\<close>.
  \<^item> \<open>PhotoTools\<close>: the module bodies of \<open>ReadImageAndModifyExif.py\<close> (log
    reader, \<open>.jpg\<close> filter, tag assignments, the loop that stops at the first
    failing photo, the error of one iteration as \<open>rim_photo_error\<close>) and of \<open>PhotoAlbumGenerator.py\<close> (the \<open>.png\<close> collection and
    sort, the two-per-page layout loop as the list of items added to the
    document), with the files as inputs; and the module body of
    \<open>WriteToJpgExifAndGenPhotoLog.py\<close> (\<open>photolog_main\<close>): the loop that saves
    the tagged copies and stops at the first failing photo, then the listing of
    \<open>new_photo\<close>, the ordering and the report of \<open>GeoPhotos\<close>.
  \<^item> \<open>CiteMap\<close>: \<open>add_attribution\<close> and the module body of \<open>CiteMap.py\<close>,
    with an image as its size and the texts drawn on it, and PIL's font metrics
    (\<open>textbbox\<close>) as a parameter.
  \<^item> \<open>DocumentGenerator\<close>: \<open>generate_document\<close> and the argument check of
    \<open>document_generator.py\<close>, the Word document as its list of blocks.
  \<^item> \<open>WinRegistry\<close>: \<open>read_registry_value\<close> and the module body of
    \<open>WinRegistryReadandCompare.py\<close> over a registry given as a map from hive and
    key path to keys, the output as the printed lines.
  \<^item> \<open>ExtractAudio\<close>: \<open>extract_audio\<close> and the module body of
    \<open>ExtractAudioFromVideo.py\<close>, a video as its sound track.
  \<^item> \<open>HeadlessBrowser\<close>: \<open>main\<close> of \<open>HeadlessBroswerPrintWebpage.py\<close>
    step by step over the folder and the launched browser; launching, loading
    and rendering are inputs.
  \<^item> \<open>FolderPathFinder\<close>: \<open>get_script_folder_path\<close> with \<open>posixpath.dirname\<close>
    (proved to undo \<open>join\<close>), the message box and the clicks of the window of
    \<open>CurrentFolderPathFinder.py\<close>.
  \<^item> This theory: the properties that span both steps of the splitter, and the
    specification's six-page scenario with its edited-ledger example.

  \<^bold>\<open>What is proved.\<close>  Splitter: the split of an unedited ledger partitions the
  pages from the start page on, in order (C1), as one file per maximal run of
  sanitized labels (C2, C12); every file name is built from a sanitized label
  whatever the ledger holds (C3); the ledger round-trips through \<open>csv\<close> (C4); the
  sanitizer's fixed points and idempotence (C5, C11); the mode is chosen once (C6);
  a label that comes back overwrites its file (C7); settings are read as written
  (C8); a malformed row leaves the earlier sections written (C9); start page 0
  writes the last page twice (C10).  Word tables: \<open>main\<close> raises
  \<open>TypeError\<close> exactly when the document holds an empty \<open>w:t\<close>, the table loop
  never raising it by an invariant of the reachable states (C14); table 3's remarks
  are written once per data row of the table (C15); the note splitter gives back
  one (marker, text) pair per note of any text built from notes (C16); legend
  codes (C17); a note takes the depth of the first row whose
  notes contain its number as a substring (C18).
  Photos: degrees-minutes-seconds round trip (C20); a position written by one
  script is read back by the other with the longitude always negated (C21); EXIF
  timestamps (C22); photo order (C23); report numbering and pages (C24).  GPX: one
  point per second through every key point (C25); \<open>UnboundLocalError\<close> exactly
  when no segment has positive length (C26); every track point lies inside the
  header's \<open><bounds>\<close> (C30).  KMZ: a position written by
  \<open>WriteToJpgExifAndGenPhotoLog.py\<close> is read back exactly, in every hemisphere
  (C27); the rotated photos display as the originals except for the mirrored
  orientations, which lose their mirror (C28); the document lists the photos with
  a position in listing order and the archive folder their rotated copies, over
  whatever the folder held (C29); the archive holds \<open>doc.kml\<close> and, under \<open>files/<name>\<close>, the rotated copy
  of each photo with a position (C13).
  GPX readers: the CSV of \<open>GPXtoCSV.py\<close> reads back numbered from 1 up to the
  first point without a time, where \<open>AttributeError\<close> stops it (C31); points
  inside the bounding box land inside the map for any projection monotone in each
  axis (C32); the map CSV has one row per timed point, its \<open>count\<close> the index
  within the segment (C19); \<open>latlong.txt\<close> is accepted exactly with four float lines (C33).
  Photo tools: positions written by \<open>ReadImageAndModifyExif.py\<close> are read back
  exactly by the KMZ scripts (C34); it saves exactly the photos before the first
  one whose log or image cannot be read, and raises that photo's exception (C35); the album holds the dated \<open>.png\<close> photos sorted by
  time, two per page (C36), and one unreadable photo aborts it (C37); a complete
  run of the photo-log script tags every \<open>.jpg\<close> photo and numbers the report
  once per dated photo of \<open>new_photo\<close> (C39).  Word
  tables: every row of the three workbooks has its header's width, an invariant
  of the reachable states (C38).  Map attribution: the text is drawn with its
  box ending \<open>10 - l\<close> pixels from the right edge and \<open>10 - t\<close> from the
  bottom, for the box \<open>(l, t, r, b)\<close> of the text at the origin (C40).

  \<^bold>\<open>Bounds and termination.\<close>  Every loop of these scripts runs over a finite
  list (pages, ledger rows, characters, document elements, photos, key points), so
  every definition is total by structural recursion or a length measure
  (\<open>group_runs\<close>, the regular-expression scanners, \<open>split_on\<close>); no fuel is
  needed.  Integers are Python's unbounded ints (\<open>int\<close>).

  \<^bold>\<open>Not modelled.\<close>  Widget creation, packing and the file dialogs (Tk),
  which are I/O: a dialog's result is an input of the step that opens it; Word
  layout beyond the photo log's page and column sizes (fonts, cell merges); the
  rendering, text extraction and OCR inside PyMuPDF and Tesseract, the browser
  inside pyppeteer, the parsing of \<open>.docx\<close> files and the saving of workbooks,
  which are interfaces; the PDF, JPEG, MP4 and zip bytes; float rounding and
  printing; the parsing of GPX files and the map projection (interfaces); the
  Python standard library beyond the fragments in \<open>Prelude\<close> and
  \<open>py_dirname\<close>; comments, docstrings and imports.  Termination and liveness need
  no separate statement: no script has a loop other than over a finite list, so
  every definition is total, and the only event loop (Tk's \<open>mainloop\<close>) is
  modelled by the callbacks it runs.
\<close>

section \<open>The scenario of the specification\<close>

text \<open>A six-page document whose pages carry the labels
  \<open>B-1, B-1, B-2, B-2, B-2, B-3\<close> in the label region, read by the text layer; the
  form holds the start page 1 and the default rectangle.\<close>

definition scenario_lib :: "(string \<times> string) pdf_backend" where
  "scenario_lib = \<lparr>text_in = \<lambda>pg r. Some (snd pg), ocr_in = \<lambda>pg r. None\<rparr>"

definition scenario_pages :: "(string \<times> string) list" where
  "scenario_pages = [(''p1'', ''B-1''), (''p2'', ''B-1''), (''p3'', ''B-2''), (''p4'', ''B-2''),
                     (''p5'', ''B-2''), (''p6'', ''B-3'')]"

definition scenario_form :: form where
  "scenario_form = \<lparr>entry_start_page = ''1'', entry_x1 = ''360'', entry_y1 = ''70'',
                    entry_x2 = ''432'', entry_y2 = ''90''\<rparr>"

definition scenario_world :: "(string \<times> string) world" where
  "scenario_world = \<lparr>pdf_files = [''/d/doc.pdf'' \<mapsto> scenario_pages], text_files = Map.empty,
                     folders = [], split_enabled = False\<rparr>"

section \<open>Extraction followed by splitting\<close>

text \<open>Every row of a ledger the tool wrote is accepted by the splitting loop, as long
  as the page it names is in range (which the start page decides).\<close>

lemma ledger_rows_accepted:
  assumes "\<And>i. i \<in> set idxs \<Longrightarrow> - int (length ps) \<le> i \<and> i < int (length ps)"
  shows "those (map (row_entry ps) (ledger_rows lib doc r ocr_or_not idxs)) =
         Some (map (\<lambda>i. (page_label lib doc r ocr_or_not i, page_at ps i)) idxs)"
  unfolding ledger_rows_def map_map
proof (rule those_map_Some)
  fix i
  assume i: "i \<in> set idxs"
  have "py_index ps i = Inr (page_at ps i)"
    using assms [OF i] by (simp add: py_index_in_range)
  then show "(row_entry ps \<circ> (\<lambda>i. [py_str_int (i + 1), page_label lib doc r ocr_or_not i])) i =
             Some (page_label lib doc r ocr_or_not i, page_at ps i)"
    by (simp add: row_entry_def py_int_py_str_int page_label_def)
qed

lemma ledger_range_bounds:
  "i \<in> set (ledger_range start_page n) \<Longrightarrow> start_page - 1 \<le> i \<and> i < int n"
  by (simp add: ledger_range_def)

text \<open>The files the second step writes from the ledger the first step wrote.\<close>

lemma extract_then_split:
  assumes "1 - int (length ps) \<le> start_page"
  shows "split_pdf_from_csv (Some ps) pdf_path (Some (snd (generate_csv_and_run lib (Some ps) start_page r)))
           output_folder folder_exists =
         \<lparr>made_dirs = (if folder_exists then [] else [output_folder]),
          out_files = map (\<lambda>(k, pgs). (out_path output_folder pdf_path k, pgs))
            (group_runs (map (\<lambda>i. (page_label lib (Some ps) r
                 (extract_text_from_location lib (Some ps) (start_page - 1) r = []) i, page_at ps i))
               (ledger_range start_page (length ps)))),
          raised = None\<rparr>"
proof -
  let ?m = "extract_text_from_location lib (Some ps) (start_page - 1) r = []"
  let ?rows = "ledger_rows lib (Some ps) r ?m (ledger_range start_page (length ps))"
  have csv_eq: "snd (generate_csv_and_run lib (Some ps) start_page r) = csv_write (ledger_header # ?rows)"
    by (simp add: generate_csv_and_run_Some)
  have rd: "csv_reader (csv_write (ledger_header # ?rows)) = (ledger_header # ?rows, None)"
    by (rule csv_reader_write)
  have acc: "those (map (row_entry ps) ?rows) =
      Some (map (\<lambda>i. (page_label lib (Some ps) r ?m i, page_at ps i)) (ledger_range start_page (length ps)))"
    using assms by (intro ledger_rows_accepted) (force dest: ledger_range_bounds)
  show ?thesis
    unfolding csv_eq by (rule split_pdf_from_csv_accepted [OF rd acc])
qed

lemma extract_then_split_pages:
  assumes "1 - int (length ps) \<le> start_page"
  shows "concat (map snd (out_files (split_pdf_from_csv (Some ps) pdf_path
           (Some (snd (generate_csv_and_run lib (Some ps) start_page r))) output_folder folder_exists))) =
         map (page_at ps) (ledger_range start_page (length ps))"
  using extract_then_split [OF assms]
  by (simp add: group_runs_values [simplified] comp_def case_prod_beta)

lemma map_page_at_from_zero:
  "xs \<noteq> [] \<Longrightarrow> map (page_at xs) [-1 .. int (length xs) - 1] = last xs # xs"
proof -
  assume ne: "xs \<noteq> []"
  have "[-1 .. int (length xs) - 1] = -1 # [0 .. int (length xs) - 1]"
    using ne by (simp add: upto_rec1)
  moreover have "page_at xs (-1) = last xs"
    using ne by (cases xs rule: rev_cases) (auto simp: page_at_def nth_append)
  ultimately show ?thesis
    using map_page_at_upto [of 0 xs] by simp
qed

section \<open>Properties of the whole run\<close>

text \<open>
  C1. Extracting the labels and then splitting on the unedited ledger, from a start
  page of at least 1, raises nothing and writes sections whose pages, taken in order,
  are exactly the pages from the start page to the last: no page is lost, duplicated
  or reordered.
\<close>

theorem extract_then_split_partition:
  assumes "1 \<le> start_page"
  shows "raised (split_pdf_from_csv (Some ps) pdf_path
            (Some (snd (generate_csv_and_run lib (Some ps) start_page r))) output_folder folder_exists) = None
       \<and> concat (map snd (out_files (split_pdf_from_csv (Some ps) pdf_path
            (Some (snd (generate_csv_and_run lib (Some ps) start_page r))) output_folder folder_exists))) =
         drop (nat (start_page - 1)) ps"
proof -
  have lo: "1 - int (length ps) \<le> start_page" using assms by simp
  have "map (page_at ps) (ledger_range start_page (length ps)) = drop (nat (start_page - 1)) ps"
    using assms map_page_at_upto [of "start_page - 1" ps] by (simp add: ledger_range_def)
  then show ?thesis
    using extract_then_split [OF lo] extract_then_split_pages [OF lo] by simp
qed

theorem extract_then_split_partition_witness:
  "1 \<le> (1::int)
   \<and> raised (split_pdf_from_csv (Some [''B-1'', ''B-1'', ''B-2'']) ''/d/doc.pdf''
       (Some (snd (generate_csv_and_run \<lparr>text_in = \<lambda>pg r. Some pg, ocr_in = \<lambda>pg r. None\<rparr>
          (Some [''B-1'', ''B-1'', ''B-2'']) 1 \<lparr>x1 = 360, y1 = 70, x2 = 432, y2 = 90\<rparr>)))
       ''/d/doc_output'' False) = None
   \<and> concat (map snd (out_files (split_pdf_from_csv (Some [''B-1'', ''B-1'', ''B-2'']) ''/d/doc.pdf''
       (Some (snd (generate_csv_and_run \<lparr>text_in = \<lambda>pg r. Some pg, ocr_in = \<lambda>pg r. None\<rparr>
          (Some [''B-1'', ''B-1'', ''B-2'']) 1 \<lparr>x1 = 360, y1 = 70, x2 = 432, y2 = 90\<rparr>)))
       ''/d/doc_output'' False))) = [''B-1'', ''B-1'', ''B-2'']"
  using extract_then_split_partition [of 1 "[''B-1'', ''B-1'', ''B-2'']" "''/d/doc.pdf''"
      "\<lparr>text_in = \<lambda>pg r. Some pg, ocr_in = \<lambda>pg r. None\<rparr>" "\<lparr>x1 = 360, y1 = 70, x2 = 432, y2 = 90\<rparr>"
      "''/d/doc_output''" False]
  by simp

text \<open>
  C10. A start page of 0, which the form accepts, makes the first ledger row page
  number 0; \<open>int('0') - 1 = -1\<close> selects the last page through Python's negative
  subscript, so the split puts the last page in front of the whole document, which
  then follows in full: the last page is written twice.
\<close>

theorem extract_then_split_start_page_zero:
  assumes "ps \<noteq> []"
  shows "raised (split_pdf_from_csv (Some ps) pdf_path
            (Some (snd (generate_csv_and_run lib (Some ps) 0 r))) output_folder folder_exists) = None
       \<and> concat (map snd (out_files (split_pdf_from_csv (Some ps) pdf_path
            (Some (snd (generate_csv_and_run lib (Some ps) 0 r))) output_folder folder_exists))) =
         last ps # ps"
proof -
  have lo: "1 - int (length ps) \<le> 0" using assms by (cases ps) auto
  have "map (page_at ps) (ledger_range 0 (length ps)) = last ps # ps"
    using map_page_at_from_zero [OF assms] by (simp add: ledger_range_def)
  then show ?thesis
    using extract_then_split [OF lo] extract_then_split_pages [OF lo] by simp
qed

theorem extract_then_split_start_page_zero_witness:
  "[''p1'', ''p2''] \<noteq> []
   \<and> concat (map snd (out_files (split_pdf_from_csv (Some [''p1'', ''p2'']) ''/d/doc.pdf''
       (Some (snd (generate_csv_and_run \<lparr>text_in = \<lambda>pg r. Some ''B-1'', ocr_in = \<lambda>pg r. None\<rparr>
          (Some [''p1'', ''p2'']) 0 \<lparr>x1 = 360, y1 = 70, x2 = 432, y2 = 90\<rparr>)))
       ''/d/doc_output'' False))) = [''p2'', ''p1'', ''p2'']"
  using extract_then_split_start_page_zero [of "[''p1'', ''p2'']" "''/d/doc.pdf''"
      "\<lparr>text_in = \<lambda>pg r. Some ''B-1'', ocr_in = \<lambda>pg r. None\<rparr>" "\<lparr>x1 = 360, y1 = 70, x2 = 432, y2 = 90\<rparr>"
      "''/d/doc_output''" False]
  by simp

text \<open>The first step on a PDF whose extension is \<open>.pdf\<close>: the ledger lands
  beside it and the split button is enabled.\<close>

lemma run_1st_step_ok:
  assumes "pdf_files w pdf_path = Some ps"
    and "splitext pdf_path = (stem, ''.pdf'')"
    and "py_int (entry_start_page f) = Some sp"
    and "py_int (entry_x1 f) = Some a" "py_int (entry_y1 f) = Some b"
    and "py_int (entry_x2 f) = Some c" "py_int (entry_y2 f) = Some d"
  shows "run_1st_step lib w pdf_path f =
     (w\<lparr>text_files := (text_files w)(stem @ ''.csv'' \<mapsto>
          snd (generate_csv_and_run lib (Some ps) sp \<lparr>x1 = a, y1 = b, x2 = c, y2 = d\<rparr>)),
        split_enabled := True\<rparr>, None)"
proof -
  have "pdf_path = stem @ ''.pdf''" using splitext_parts [of pdf_path] assms(2) by simp
  then have "pdf_path \<noteq> []" by simp
  then show ?thesis
    using assms by (simp add: run_1st_step_def run_generate_def generate_csv_and_run_Some)
qed

text \<open>
  C12. Pressing the two buttons in turn, on a PDF \<open><stem>.pdf\<close> with a valid form
  and a start page of at least 1, raises nothing, enables the split button, and
  leaves the PDF files of the world updated with one file
  \<open><stem>_output/<name>_<label>.pdf\<close> per run of equal labels of the pages from the
  start page on, written in order (so a later run of a label replaces an earlier one).
\<close>

theorem two_steps_write_runs:
  assumes "pdf_files w pdf_path = Some ps"
    and "splitext pdf_path = (stem, ''.pdf'')"
    and "py_int (entry_start_page f) = Some sp" and "1 \<le> sp"
    and "py_int (entry_x1 f) = Some a" "py_int (entry_y1 f) = Some b"
    and "py_int (entry_x2 f) = Some c" "py_int (entry_y2 f) = Some d"
  shows "let (w1, e1) = run_1st_step lib w pdf_path f;
             (w2, e2) = run_2nd_step w1 (stem @ ''.csv'')
         in e1 = None \<and> split_enabled w1 \<and> e2 = None
          \<and> pdf_files w2 = apply_writes (pdf_files w)
              (map (\<lambda>(k, pgs). (out_path (stem @ ''_output'') pdf_path k, pgs))
                (group_runs (map (\<lambda>i. (page_label lib (Some ps) \<lparr>x1 = a, y1 = b, x2 = c, y2 = d\<rparr>
                   (extract_text_from_location lib (Some ps) (sp - 1) \<lparr>x1 = a, y1 = b, x2 = c, y2 = d\<rparr> = [])
                   i, page_at ps i))
                 (ledger_range sp (length ps)))))"
proof -
  let ?r = "\<lparr>x1 = a, y1 = b, x2 = c, y2 = d\<rparr>"
  have p: "pdf_path = stem @ ''.pdf''" using splitext_parts [of pdf_path] assms(2) by simp
  have sx: "splitext (stem @ ''.csv'') = (stem, ''.csv'')"
    using splitext_swap_ext [of stem "''pdf''" "''csv''"] assms(2) p by simp
  have lo: "1 - int (length ps) \<le> sp" using assms(4) by simp
  show ?thesis
    using run_1st_step_ok [OF assms(1,2,3,5-8), of lib] extract_then_split [OF lo, where lib = lib and r = ?r]
      assms(1) p sx
    by (simp add: run_2nd_step_def Let_def)
qed

theorem two_steps_write_runs_witness:
  "(let (w1, e1) = run_1st_step scenario_lib scenario_world ''/d/doc.pdf'' scenario_form;
        (w2, e2) = run_2nd_step w1 ''/d/doc.csv''
    in e1 = None \<and> split_enabled w1 \<and> e2 = None
     \<and> pdf_files w2 ''/d/doc_output/doc_B-1.pdf'' = Some [(''p1'', ''B-1''), (''p2'', ''B-1'')]
     \<and> pdf_files w2 ''/d/doc_output/doc_B-2.pdf'' =
         Some [(''p3'', ''B-2''), (''p4'', ''B-2''), (''p5'', ''B-2'')]
     \<and> pdf_files w2 ''/d/doc_output/doc_B-3.pdf'' = Some [(''p6'', ''B-3'')])"
proof -
  have h: "pdf_files scenario_world ''/d/doc.pdf'' = Some scenario_pages"
    "splitext ''/d/doc.pdf'' = (''/d/doc'', ''.pdf'')"
    "py_int (entry_start_page scenario_form) = Some 1" "1 \<le> (1::int)"
    "py_int (entry_x1 scenario_form) = Some 360" "py_int (entry_y1 scenario_form) = Some 70"
    "py_int (entry_x2 scenario_form) = Some 432" "py_int (entry_y2 scenario_form) = Some 90"
    by code_simp+
  let ?r = "\<lparr>x1 = 360, y1 = 70, x2 = 432, y2 = 90\<rparr>"
  let ?W = "apply_writes (pdf_files scenario_world)
    (map (\<lambda>(k, pgs). (out_path (''/d/doc'' @ ''_output'') ''/d/doc.pdf'' k, pgs))
      (group_runs (map (\<lambda>i. (page_label scenario_lib (Some scenario_pages) ?r
         (extract_text_from_location scenario_lib (Some scenario_pages) (1 - 1) ?r = []) i,
         page_at scenario_pages i)) (ledger_range 1 (length scenario_pages)))))"
  obtain w1 e1 where s1: "run_1st_step scenario_lib scenario_world ''/d/doc.pdf'' scenario_form = (w1, e1)"
    by force
  obtain w2 e2 where s2: "run_2nd_step w1 ''/d/doc.csv'' = (w2, e2)"
    by force
  have c: "e1 = None \<and> split_enabled w1 \<and> e2 = None \<and> pdf_files w2 = ?W"
    using two_steps_write_runs [OF h, of scenario_lib] s1 s2 by simp
  have f: "?W ''/d/doc_output/doc_B-1.pdf'' = Some [(''p1'', ''B-1''), (''p2'', ''B-1'')]"
    "?W ''/d/doc_output/doc_B-2.pdf'' = Some [(''p3'', ''B-2''), (''p4'', ''B-2''), (''p5'', ''B-2'')]"
    "?W ''/d/doc_output/doc_B-3.pdf'' = Some [(''p6'', ''B-3'')]"
    by code_simp+
  show ?thesis
    using c f s1 s2 by simp
qed

text \<open>
  The specification's edited-ledger example.  The ledger is the only input of
  the split: after the first step on the
  scenario document, changing the label of the third ledger row from \<open>B-2\<close> to
  \<open>B-1\<close> gives three sections, pages 1--3, 4--5 and 6, and no label comes back
  after another one, so no file is overwritten.
\<close>

theorem edited_ledger_three_sections:
  "split_pdf_from_csv (Some scenario_pages) ''/d/doc.pdf''
     (Some (csv_write ((fst (csv_reader (snd (generate_csv_and_run scenario_lib (Some scenario_pages) 1
        \<lparr>x1 = 360, y1 = 70, x2 = 432, y2 = 90\<rparr>))))[3 := [''3'', ''B-1'']])))
     ''/d/doc_output'' False =
   \<lparr>made_dirs = [''/d/doc_output''],
    out_files = [(''/d/doc_output/doc_B-1.pdf'', [(''p1'', ''B-1''), (''p2'', ''B-1''), (''p3'', ''B-2'')]),
                 (''/d/doc_output/doc_B-2.pdf'', [(''p4'', ''B-2''), (''p5'', ''B-2'')]),
                 (''/d/doc_output/doc_B-3.pdf'', [(''p6'', ''B-3'')])],
    raised = None\<rparr>"
  by code_simp

end
